(* ===== verification/Go_Base.thy ===== *)
theory Go_Base
  imports Main "HOL-Library.AList"
begin

text \<open>
  The Go fragment the driver is written in.

  \<^item> error values and their wrapping (\<open>errors.Is\<close>, \<open>fmt.Errorf\<close> with \<open>%w\<close>,
    \<open>status.Error\<close>, the driver's \<open>ImplementationError\<close>);
  \<^item> programs: a call of the driver reads the history of the remote calls made so far (to the
    InfiniBox, to Kubernetes), returns a result and the list of the remote calls it made itself.
    A remote party is a function of the whole history, so it may hold any state and change it
    at any time; nothing is assumed about it;
  \<^item> \<open>strings\<close>, \<open>strconv\<close> and 64-bit arithmetic, as far as the driver uses them.

  Log output is not modelled. Message texts are abbreviated: they keep the leading words of the code
  and the text of the wrapped error, and leave out the file and line that \<open>common.Errorf\<close> puts in
  front and some of the values. The code decides by the text only of errors the remote party sent.
\<close>

named_theorems only_intros \<open>which remote calls a program can make\<close>
named_theorems safe_intros \<open>programs that do not crash\<close>
named_theorems returns_intros \<open>what a program returns\<close>
named_theorems go_run \<open>running the program combinators\<close>
named_theorems allows_intros \<open>which calls a program makes at which histories\<close>
named_theorems pure_simps \<open>a pure computation in front of a program\<close>
named_theorems wp_simps \<open>weakest preconditions of the program combinators\<close>

section \<open>Errors\<close>

datatype grpc_code = OK | Canceled | Unknown | InvalidArgument | DeadlineExceeded | NotFound
  | AlreadyExists | PermissionDenied | ResourceExhausted | FailedPrecondition | Aborted
  | OutOfRange | Unimplemented | Internal | Unavailable | DataLoss | Unauthenticated

text \<open>
  The two sentinels of \<open>iboxapi\<close>, \<open>errors.New\<close>, \<open>Errorf\<close> with \<open>%w\<close> (text and wrapped error),
  \<open>status.Error\<close> of gRPC and \<open>storagecommon.ImplementationError\<close>, whose \<open>Err\<close> field the code
  never sets.
\<close>

datatype go_error = ErrNotFound | ErrMappingExists | Errors_New string | Errorf string go_error
  | Status_Error grpc_code string | ImplementationError grpc_code string

fun errors_is :: "go_error \<Rightarrow> go_error \<Rightarrow> bool" where
  "errors_is (Errorf s e) target = (Errorf s e = target \<or> errors_is e target)"
| "errors_is e target = (e = target)"

text \<open>The number and the name of a code, as they are printed.\<close>

fun code_text :: "grpc_code \<Rightarrow> string \<times> string" where
  "code_text OK = (''0'', ''OK'')"
| "code_text Canceled = (''1'', ''Canceled'')"
| "code_text Unknown = (''2'', ''Unknown'')"
| "code_text InvalidArgument = (''3'', ''InvalidArgument'')"
| "code_text DeadlineExceeded = (''4'', ''DeadlineExceeded'')"
| "code_text NotFound = (''5'', ''NotFound'')"
| "code_text AlreadyExists = (''6'', ''AlreadyExists'')"
| "code_text PermissionDenied = (''7'', ''PermissionDenied'')"
| "code_text ResourceExhausted = (''8'', ''ResourceExhausted'')"
| "code_text FailedPrecondition = (''9'', ''FailedPrecondition'')"
| "code_text Aborted = (''10'', ''Aborted'')"
| "code_text OutOfRange = (''11'', ''OutOfRange'')"
| "code_text Unimplemented = (''12'', ''Unimplemented'')"
| "code_text Internal = (''13'', ''Internal'')"
| "code_text Unavailable = (''14'', ''Unavailable'')"
| "code_text DataLoss = (''15'', ''DataLoss'')"
| "code_text Unauthenticated = (''16'', ''Unauthenticated'')"

fun err_text :: "go_error \<Rightarrow> string" where
  "err_text ErrNotFound = ''item not found''"
| "err_text ErrMappingExists = ''mapping already exists''"
| "err_text (Errors_New s) = s"
| "err_text (Errorf s e) = s @ err_text e"
| "err_text (Status_Error c s) = ''rpc error: code = '' @ snd (code_text c) @ '' desc = '' @ s"
| "err_text (ImplementationError c s) = ''code '' @ fst (code_text c) @ '': '' @ s"

text \<open>The gRPC code a client sees: \<open>status.FromError\<close> finds a status error through \<open>%w\<close>; any
  other error becomes \<open>Unknown\<close>.\<close>

fun status_code :: "go_error \<Rightarrow> grpc_code" where
  "status_code (Status_Error c s) = c"
| "status_code (Errorf s e) = status_code e"
| "status_code _ = Unknown"

section \<open>Programs\<close>

datatype crash = GoPanic string | OutOfFuel

datatype 'a res = Ok 'a | Err go_error | Crash crash

type_synonym ('c, 'a) prog = "'c list \<Rightarrow> 'a res \<times> 'c list"

definition return_go :: "'a \<Rightarrow> ('c, 'a) prog" where
  "return_go a = (\<lambda>h. (Ok a, []))"

definition fail_go :: "go_error \<Rightarrow> ('c, 'a) prog" where
  "fail_go e = (\<lambda>h. (Err e, []))"

definition panic_go :: "string \<Rightarrow> ('c, 'a) prog" where
  "panic_go s = (\<lambda>h. (Crash (GoPanic s), []))"

definition out_of_fuel :: "('c, 'a) prog" where
  "out_of_fuel = (\<lambda>h. (Crash OutOfFuel, []))"

text \<open>A pure computation that may fail.\<close>

definition pure_go :: "'a res \<Rightarrow> ('c, 'a) prog" where
  "pure_go r = (\<lambda>h. (r, []))"

text \<open>A remote call: it is recorded, and the remote party answers from the history.\<close>

definition invoke :: "'c \<Rightarrow> ('c list \<Rightarrow> go_error + 'a) \<Rightarrow> ('c, 'a) prog" where
  "invoke c f = (\<lambda>h. (case f h of Inl e \<Rightarrow> Err e | Inr a \<Rightarrow> Ok a, [c]))"

text \<open>\<^verbatim>\<open>x, err := m; if err != nil { on_err }; k\<close>\<close>

definition try_go :: "('c, 'a) prog \<Rightarrow> (go_error \<Rightarrow> ('c, 'b) prog) \<Rightarrow> ('a \<Rightarrow> ('c, 'b) prog)
    \<Rightarrow> ('c, 'b) prog" where
  "try_go m on_err k = (\<lambda>h. case m h of
      (Ok a, t) \<Rightarrow> (case k a (h @ t) of (r, t') \<Rightarrow> (r, t @ t'))
    | (Err e, t) \<Rightarrow> (case on_err e (h @ t) of (r, t') \<Rightarrow> (r, t @ t'))
    | (Crash x, t) \<Rightarrow> (Crash x, t))"

text \<open>\<^verbatim>\<open>if err != nil { return err }\<close>\<close>

definition then_go :: "('c, 'a) prog \<Rightarrow> ('a \<Rightarrow> ('c, 'b) prog) \<Rightarrow> ('c, 'b) prog" where
  "then_go m k = try_go m fail_go k"

text \<open>The error is logged and dropped: \<open>None\<close> is the zero value the result keeps.\<close>

definition ignore_go :: "('c, 'a) prog \<Rightarrow> ('a option \<Rightarrow> ('c, 'b) prog) \<Rightarrow> ('c, 'b) prog" where
  "ignore_go m k = try_go m (\<lambda>e. k None) (\<lambda>a. k (Some a))"

text \<open>\<^verbatim>\<open>defer func() { if err != nil { cleanup } }()\<close> around the rest of the function.\<close>

definition defer_on_err :: "('c, 'a) prog \<Rightarrow> ('c, unit) prog \<Rightarrow> ('c, 'a) prog" where
  "defer_on_err m cleanup = try_go m (\<lambda>e. ignore_go cleanup (\<lambda>_. fail_go e)) return_go"

text \<open>\<^verbatim>\<open>for _, x := range xs { body }\<close>: the body returns \<open>Some r\<close> to leave the loop.\<close>

fun for_go :: "'x list \<Rightarrow> ('x \<Rightarrow> ('c, 'r option) prog) \<Rightarrow> ('c, 'r option) prog" where
  "for_go [] body = return_go None"
| "for_go (x # xs) body = then_go (body x)
     (\<lambda>r. case r of Some y \<Rightarrow> return_go (Some y) | None \<Rightarrow> for_go xs body)"

subsection \<open>Running a program\<close>

definition result_of :: "'a res \<times> 'c list \<Rightarrow> 'a res" where
  "result_of p = fst p"

definition calls_of :: "'a res \<times> 'c list \<Rightarrow> 'c list" where
  "calls_of p = snd p"

lemma run_return [go_run, simp]: "return_go a h = (Ok a, [])"
  by (simp add: return_go_def)

lemma run_fail [go_run, simp]: "fail_go e h = (Err e, [])"
  by (simp add: fail_go_def)

lemma run_panic [go_run, simp]: "panic_go s h = (Crash (GoPanic s), [])"
  by (simp add: panic_go_def)

lemma run_out_of_fuel [go_run, simp]: "out_of_fuel h = (Crash OutOfFuel, [])"
  by (simp add: out_of_fuel_def)

lemma run_pure [go_run, simp]: "pure_go r h = (r, [])"
  by (simp add: pure_go_def)

lemma run_invoke [go_run]:
  "invoke c f h = (case f h of Inl e \<Rightarrow> Err e | Inr a \<Rightarrow> Ok a, [c])"
  by (simp add: invoke_def)

lemma run_try [go_run]:
  "try_go m on_err k h = (case m h of
      (Ok a, t) \<Rightarrow> (case k a (h @ t) of (r, t') \<Rightarrow> (r, t @ t'))
    | (Err e, t) \<Rightarrow> (case on_err e (h @ t) of (r, t') \<Rightarrow> (r, t @ t'))
    | (Crash x, t) \<Rightarrow> (Crash x, t))"
  by (simp add: try_go_def)

lemma run_then [go_run]:
  "then_go m k h = (case m h of
      (Ok a, t) \<Rightarrow> (case k a (h @ t) of (r, t') \<Rightarrow> (r, t @ t'))
    | (Err e, t) \<Rightarrow> (Err e, t)
    | (Crash x, t) \<Rightarrow> (Crash x, t))"
  by (simp add: then_go_def try_go_def split: prod.splits res.splits)

lemma run_ignore [go_run]:
  "ignore_go m k h = (case m h of
      (Ok a, t) \<Rightarrow> (case k (Some a) (h @ t) of (r, t') \<Rightarrow> (r, t @ t'))
    | (Err e, t) \<Rightarrow> (case k None (h @ t) of (r, t') \<Rightarrow> (r, t @ t'))
    | (Crash x, t) \<Rightarrow> (Crash x, t))"
  by (simp add: ignore_go_def try_go_def)

lemma run_defer [go_run]:
  "defer_on_err m cleanup h = (case m h of
      (Ok a, t) \<Rightarrow> (Ok a, t)
    | (Err e, t) \<Rightarrow> (case cleanup (h @ t) of
         (Crash x, t') \<Rightarrow> (Crash x, t @ t') | (_, t') \<Rightarrow> (Err e, t @ t'))
    | (Crash x, t) \<Rightarrow> (Crash x, t))"
  by (simp add: defer_on_err_def ignore_go_def try_go_def split: prod.splits res.splits)

lemmas go_splits = prod.splits res.splits sum.splits option.splits if_splits

subsection \<open>Which calls a program makes\<close>

text \<open>\<open>only P m\<close>: whatever the remote parties answer, every call of \<open>m\<close> satisfies \<open>P\<close>.\<close>

definition only :: "('c \<Rightarrow> bool) \<Rightarrow> ('c, 'a) prog \<Rightarrow> bool" where
  "only P m \<longleftrightarrow> (\<forall>h. \<forall>c \<in> set (calls_of (m h)). P c)"

lemma onlyD: "only P m \<Longrightarrow> c \<in> set (calls_of (m h)) \<Longrightarrow> P c"
  by (simp add: only_def)

lemma onlyD_run: "only P m \<Longrightarrow> m h = (r, t) \<Longrightarrow> c \<in> set t \<Longrightarrow> P c"
  by (auto simp: only_def calls_of_def dest: spec [of _ h])

lemma only_mono: "only P m \<Longrightarrow> (\<And>c. P c \<Longrightarrow> Q c) \<Longrightarrow> only Q m"
  by (auto simp: only_def)

lemma only_return [only_intros]: "only P (return_go a)"
  by (simp add: only_def calls_of_def)

lemma only_fail [only_intros]: "only P (fail_go e)"
  by (simp add: only_def calls_of_def)

lemma only_panic [only_intros]: "only P (panic_go s)"
  by (simp add: only_def calls_of_def)

lemma only_out_of_fuel [only_intros]: "only P out_of_fuel"
  by (simp add: only_def calls_of_def)

lemma only_pure [only_intros]: "only P (pure_go r)"
  by (simp add: only_def calls_of_def)

lemma only_invoke [only_intros]: "P c \<Longrightarrow> only P (invoke c f)"
  by (simp add: only_def calls_of_def run_invoke)

lemma only_try [only_intros]:
  assumes "only P m" and "\<And>e. only P (on_err e)" and "\<And>a. only P (k a)"
  shows "only P (try_go m on_err k)"
  unfolding only_def
proof (intro allI ballI)
  fix h c
  assume c: "c \<in> set (calls_of (try_go m on_err k h))"
  obtain r t where m: "m h = (r, t)" by fastforce
  show "P c"
  proof (cases r)
    case (Ok a)
    with c m have "c \<in> set t \<or> c \<in> set (calls_of (k a (h @ t)))"
      by (auto simp: run_try calls_of_def split: prod.splits)
    with assms m show ?thesis by (blast intro: onlyD onlyD_run)
  next
    case (Err e)
    with c m have "c \<in> set t \<or> c \<in> set (calls_of (on_err e (h @ t)))"
      by (auto simp: run_try calls_of_def split: prod.splits)
    with assms m show ?thesis by (blast intro: onlyD onlyD_run)
  next
    case (Crash x)
    with c m have "c \<in> set t" by (simp add: run_try calls_of_def)
    with assms m show ?thesis by (blast intro: onlyD_run)
  qed
qed

lemma only_then [only_intros]:
  "only P m \<Longrightarrow> (\<And>a. only P (k a)) \<Longrightarrow> only P (then_go m k)"
  by (simp add: then_go_def only_try only_fail)

lemma only_ignore [only_intros]:
  "only P m \<Longrightarrow> (\<And>x. only P (k x)) \<Longrightarrow> only P (ignore_go m k)"
  by (simp add: ignore_go_def only_try)

lemma only_defer [only_intros]:
  "only P m \<Longrightarrow> only P c \<Longrightarrow> only P (defer_on_err m c)"
  by (simp add: defer_on_err_def only_try only_ignore only_fail only_return)

lemma only_if [only_intros]:
  "(b \<Longrightarrow> only P m) \<Longrightarrow> (\<not> b \<Longrightarrow> only P n) \<Longrightarrow> only P (if b then m else n)"
  by simp

lemma only_case_option [only_intros]:
  "(x = None \<Longrightarrow> only P m) \<Longrightarrow> (\<And>a. x = Some a \<Longrightarrow> only P (k a))
   \<Longrightarrow> only P (case x of None \<Rightarrow> m | Some a \<Rightarrow> k a)"
  by (cases x) auto

lemma only_case_list [only_intros]:
  "(xs = [] \<Longrightarrow> only P m) \<Longrightarrow> (\<And>y ys. xs = y # ys \<Longrightarrow> only P (k y ys))
   \<Longrightarrow> only P (case xs of [] \<Rightarrow> m | y # ys \<Rightarrow> k y ys)"
  by (cases xs) auto

lemma only_case_prod [only_intros]:
  "(\<And>a b. x = (a, b) \<Longrightarrow> only P (k a b)) \<Longrightarrow> only P (case x of (a, b) \<Rightarrow> k a b)"
  by (cases x) auto

lemma only_for [only_intros]:
  "(\<And>x. x \<in> set xs \<Longrightarrow> only P (body x)) \<Longrightarrow> only P (for_go xs body)"
proof (induction xs)
  case Nil
  show ?case by (simp add: only_def calls_of_def)
next
  case (Cons x xs)
  have "only P (body x)" and "only P (for_go xs body)"
    using Cons by simp_all
  then show ?case
    unfolding for_go.simps by (intro only_then only_case_option only_return)
qed

text \<open>A program that makes no call at all.\<close>

lemma only_False: "only (\<lambda>c. False) m \<Longrightarrow> calls_of (m h) = []"
  by (simp add: only_def)

subsection \<open>When a call may be made\<close>

text \<open>\<open>each_call Q h t\<close>: every call of \<open>t\<close> is allowed by \<open>Q\<close> at the history it is made at, \<open>h\<close>
  being the history before \<open>t\<close>.\<close>

fun each_call :: "('c list \<Rightarrow> 'c \<Rightarrow> bool) \<Rightarrow> 'c list \<Rightarrow> 'c list \<Rightarrow> bool" where
  "each_call Q h [] = True"
| "each_call Q h (c # t) = (Q h c \<and> each_call Q (h @ [c]) t)"

lemma each_call_append [simp]:
  "each_call Q h (s @ t) \<longleftrightarrow> each_call Q h s \<and> each_call Q (h @ s) t"
  by (induction s arbitrary: h) auto

lemma each_callD:
  "each_call Q h t \<Longrightarrow> t = pre @ c # post \<Longrightarrow> Q (h @ pre) c"
  by simp

lemma each_call_only:
  "only P m \<Longrightarrow> (\<And>h c. P c \<Longrightarrow> Q h c) \<Longrightarrow> m h = (r, t) \<Longrightarrow> each_call Q h t"
proof -
  assume "only P m" "m h = (r, t)" and Q: "\<And>h c. P c \<Longrightarrow> Q h c"
  then have "\<forall>c \<in> set t. P c" by (auto dest: onlyD_run)
  then show ?thesis by (induction t arbitrary: h) (auto intro: Q)
qed

subsection \<open>Weakest preconditions\<close>

text \<open>\<open>wp m h Q\<close>: run at history \<open>h\<close>, the result and the calls of \<open>m\<close> satisfy \<open>Q\<close>.\<close>

definition wp :: "('c, 'a) prog \<Rightarrow> 'c list \<Rightarrow> ('a res \<Rightarrow> 'c list \<Rightarrow> bool) \<Rightarrow> bool" where
  "wp m h Q = Q (result_of (m h)) (calls_of (m h))"

lemma wpI: "(\<And>r t. m h = (r, t) \<Longrightarrow> Q r t) \<Longrightarrow> wp m h Q"
  by (cases "m h") (simp add: wp_def result_of_def calls_of_def)

lemma wpD: "wp m h Q \<Longrightarrow> m h = (r, t) \<Longrightarrow> Q r t"
  by (simp add: wp_def result_of_def calls_of_def)

lemma wp_mono: "wp m h R \<Longrightarrow> (\<And>r t. R r t \<Longrightarrow> Q r t) \<Longrightarrow> wp m h Q"
  by (simp add: wp_def)

lemma wp_conj: "wp m h (\<lambda>r t. P r t \<and> Q r t) \<longleftrightarrow> wp m h P \<and> wp m h Q"
  by (simp add: wp_def)

lemma wp_return [wp_simps]: "wp (return_go a) h Q = Q (Ok a) []"
  by (simp add: wp_def result_of_def calls_of_def)

lemma wp_fail [wp_simps]: "wp (fail_go e) h Q = Q (Err e) []"
  by (simp add: wp_def result_of_def calls_of_def)

lemma wp_panic [wp_simps]: "wp (panic_go s) h Q = Q (Crash (GoPanic s)) []"
  by (simp add: wp_def result_of_def calls_of_def)

lemma wp_out_of_fuel [wp_simps]: "wp out_of_fuel h Q = Q (Crash OutOfFuel) []"
  by (simp add: wp_def result_of_def calls_of_def)

lemma wp_pure [wp_simps]: "wp (pure_go x) h Q = Q x []"
  by (simp add: wp_def result_of_def calls_of_def)

lemma wp_local [wp_simps]: "wp (\<lambda>g. (f g, [])) h Q = Q (f h) []"
  by (simp add: wp_def result_of_def calls_of_def)

lemma wp_invoke [wp_simps]:
  "wp (invoke c f) h Q \<longleftrightarrow>
     (\<forall>e. f h = Inl e \<longrightarrow> Q (Err e) [c]) \<and> (\<forall>a. f h = Inr a \<longrightarrow> Q (Ok a) [c])"
  by (simp add: wp_def result_of_def calls_of_def run_invoke split: sum.splits)

lemma wp_try [wp_simps]:
  "wp (try_go m on_err k) h Q = wp m h (\<lambda>r t. case r of
      Ok a \<Rightarrow> wp (k a) (h @ t) (\<lambda>r' t'. Q r' (t @ t'))
    | Err e \<Rightarrow> wp (on_err e) (h @ t) (\<lambda>r' t'. Q r' (t @ t'))
    | Crash x \<Rightarrow> Q (Crash x) t)"
  by (simp add: wp_def result_of_def calls_of_def run_try split: prod.splits res.splits)

lemma wp_then [wp_simps]:
  "wp (then_go m k) h Q = wp m h (\<lambda>r t. case r of
      Ok a \<Rightarrow> wp (k a) (h @ t) (\<lambda>r' t'. Q r' (t @ t'))
    | Err e \<Rightarrow> Q (Err e) t
    | Crash x \<Rightarrow> Q (Crash x) t)"
  by (simp add: wp_def result_of_def calls_of_def run_then split: prod.splits res.splits)

lemma wp_ignore [wp_simps]:
  "wp (ignore_go m k) h Q = wp m h (\<lambda>r t. case r of
      Ok a \<Rightarrow> wp (k (Some a)) (h @ t) (\<lambda>r' t'. Q r' (t @ t'))
    | Err e \<Rightarrow> wp (k None) (h @ t) (\<lambda>r' t'. Q r' (t @ t'))
    | Crash x \<Rightarrow> Q (Crash x) t)"
  by (simp add: wp_def result_of_def calls_of_def run_ignore split: prod.splits res.splits)

lemma wp_defer [wp_simps]:
  "wp (defer_on_err m cleanup) h Q = wp m h (\<lambda>r t. case r of
      Err e \<Rightarrow> wp cleanup (h @ t) (\<lambda>r' t'. Q (case r' of Crash x \<Rightarrow> Crash x | _ \<Rightarrow> Err e) (t @ t'))
    | _ \<Rightarrow> Q r t)"
  by (simp add: wp_def result_of_def calls_of_def run_defer split: prod.splits res.splits)

lemma wp_if [wp_simps]:
  "wp (if b then m else n) h Q \<longleftrightarrow> (b \<longrightarrow> wp m h Q) \<and> (\<not> b \<longrightarrow> wp n h Q)"
  by simp

lemma wp_case_option [wp_simps]:
  "wp (case x of None \<Rightarrow> m | Some a \<Rightarrow> k a) h Q \<longleftrightarrow>
     (x = None \<longrightarrow> wp m h Q) \<and> (\<forall>a. x = Some a \<longrightarrow> wp (k a) h Q)"
  by (cases x) simp_all

lemma wp_case_list [wp_simps]:
  "wp (case xs of [] \<Rightarrow> m | y # ys \<Rightarrow> k y ys) h Q \<longleftrightarrow>
     (xs = [] \<longrightarrow> wp m h Q) \<and> (\<forall>y ys. xs = y # ys \<longrightarrow> wp (k y ys) h Q)"
  by (cases xs) simp_all

lemma wp_case_prod [wp_simps]:
  "wp (case x of (a, b) \<Rightarrow> k a b) h Q \<longleftrightarrow> (\<forall>a b. x = (a, b) \<longrightarrow> wp (k a b) h Q)"
  by (cases x) simp_all

text \<open>From a fact about all runs of a subprogram to the precondition of what follows it.\<close>

lemma wp_use:
  "wp m h R \<Longrightarrow> (\<forall>r t. R r t \<longrightarrow> Q r t) \<Longrightarrow> wp m h Q"
  by (simp add: wp_def)

text \<open>The same in the form of rules, for a subprogram of which only a fact \<open>R\<close> is used.\<close>

lemma wp_try_rule:
  assumes "wp m h R"
    and "\<And>a t. R (Ok a) t \<Longrightarrow> wp (k a) (h @ t) (\<lambda>r' t'. Q r' (t @ t'))"
    and "\<And>e t. R (Err e) t \<Longrightarrow> wp (on_err e) (h @ t) (\<lambda>r' t'. Q r' (t @ t'))"
    and "\<And>x t. R (Crash x) t \<Longrightarrow> Q (Crash x) t"
  shows "wp (try_go m on_err k) h Q"
  unfolding wp_try by (rule wp_mono [OF assms(1)]) (auto intro: assms split: res.splits)

lemma wp_then_rule:
  assumes "wp m h R"
    and "\<And>a t. R (Ok a) t \<Longrightarrow> wp (k a) (h @ t) (\<lambda>r' t'. Q r' (t @ t'))"
    and "\<And>e t. R (Err e) t \<Longrightarrow> Q (Err e) t"
    and "\<And>x t. R (Crash x) t \<Longrightarrow> Q (Crash x) t"
  shows "wp (then_go m k) h Q"
  unfolding wp_then by (rule wp_mono [OF assms(1)]) (auto intro: assms split: res.splits)

text \<open>A call fact that holds of every part of a program holds of the program.\<close>

lemma wp_only: "only P m \<Longrightarrow> wp m h (\<lambda>r t. \<forall>c \<in> set t. P c)"
  by (simp add: wp_def only_def)

lemma only_wp: "only P m \<longleftrightarrow> (\<forall>h. wp m h (\<lambda>r t. \<forall>c \<in> set t. P c))"
  by (simp add: wp_def only_def)

subsection \<open>Programs that keep to a rule\<close>

text \<open>\<open>allows Q m\<close>: at every history, every call of \<open>m\<close> is allowed by \<open>Q\<close> where it is made.\<close>

definition allows :: "('c list \<Rightarrow> 'c \<Rightarrow> bool) \<Rightarrow> ('c, 'a) prog \<Rightarrow> bool" where
  "allows Q m \<longleftrightarrow> (\<forall>h. wp m h (\<lambda>r t. each_call Q h t))"

lemma allowsI: "(\<And>h. wp m h (\<lambda>r t. each_call Q h t)) \<Longrightarrow> allows Q m"
  by (simp add: allows_def)

lemma allowsD:
  assumes "allows Q m" and "c \<in> set (calls_of (m h))"
  shows "\<exists>pre post. calls_of (m h) = pre @ c # post \<and> Q (h @ pre) c"
proof -
  obtain pre post where *: "calls_of (m h) = pre @ c # post"
    using assms(2) by (auto dest: split_list)
  moreover have "each_call Q h (calls_of (m h))" using assms(1) by (simp add: allows_def wp_def)
  ultimately have "Q (h @ pre) c" by simp
  with * show ?thesis by blast
qed

lemma each_call_all: "(\<And>g c. c \<in> set t \<Longrightarrow> Q g c) \<Longrightarrow> each_call Q h t"
  by (induction t arbitrary: h) auto

lemma allows_only: "only P m \<Longrightarrow> (\<And>h c. P c \<Longrightarrow> Q h c) \<Longrightarrow> allows Q m"
  by (auto simp: allows_def wp_def only_def intro!: each_call_all)

lemma allows_basic [allows_intros]:
  shows allows_return: "allows Q (return_go a)"
    and allows_fail: "allows Q (fail_go e)"
    and allows_panic: "allows Q (panic_go s)"
    and allows_out_of_fuel: "allows Q out_of_fuel"
    and allows_pure: "allows Q (pure_go r)"

  by (simp_all add: allows_def wp_simps)

lemma allows_invoke [allows_intros]: "(\<And>h. Q h c) \<Longrightarrow> allows Q (invoke c f)"
  by (simp add: allows_def wp_simps)

lemma allows_try [allows_intros]:
  assumes "allows Q m" and "\<And>e. allows Q (on_err e)" and "\<And>a. allows Q (k a)"
  shows "allows Q (try_go m on_err k)"
proof (rule allowsI)
  fix h
  have sub: "wp n (h @ t) (\<lambda>r' t'. each_call Q h (t @ t'))" if "each_call Q h t" "allows Q n" for n :: "('a, 'c) prog" and t
    using that by (simp add: allows_def wp_def)
  show "wp (try_go m on_err k) h (\<lambda>r t. each_call Q h t)"
    by (rule wp_try_rule [where R = "\<lambda>r t. each_call Q h t"]) (use assms sub in \<open>auto simp: allows_def\<close>)
qed

lemma allows_then [allows_intros]:
  "allows Q m \<Longrightarrow> (\<And>a. allows Q (k a)) \<Longrightarrow> allows Q (then_go m k)"
  by (simp add: then_go_def allows_try allows_fail)

lemma allows_ignore [allows_intros]:
  "allows Q m \<Longrightarrow> (\<And>x. allows Q (k x)) \<Longrightarrow> allows Q (ignore_go m k)"
  by (simp add: ignore_go_def allows_try)

lemma allows_defer [allows_intros]:
  "allows Q m \<Longrightarrow> allows Q c \<Longrightarrow> allows Q (defer_on_err m c)"
  by (simp add: defer_on_err_def allows_try allows_ignore allows_fail allows_return)

lemma allows_if [allows_intros]:
  "(b \<Longrightarrow> allows Q m) \<Longrightarrow> (\<not> b \<Longrightarrow> allows Q n) \<Longrightarrow> allows Q (if b then m else n)"
  by simp

lemma allows_case_option [allows_intros]:
  "(x = None \<Longrightarrow> allows Q m) \<Longrightarrow> (\<And>a. x = Some a \<Longrightarrow> allows Q (k a))
   \<Longrightarrow> allows Q (case x of None \<Rightarrow> m | Some a \<Rightarrow> k a)"
  by (cases x) auto

lemma allows_case_list [allows_intros]:
  "(xs = [] \<Longrightarrow> allows Q m) \<Longrightarrow> (\<And>y ys. xs = y # ys \<Longrightarrow> allows Q (k y ys))
   \<Longrightarrow> allows Q (case xs of [] \<Rightarrow> m | y # ys \<Rightarrow> k y ys)"
  by (cases xs) auto

lemma allows_case_prod [allows_intros]:
  "(\<And>a b. x = (a, b) \<Longrightarrow> allows Q (k a b)) \<Longrightarrow> allows Q (case x of (a, b) \<Rightarrow> k a b)"
  by (cases x) auto

lemma allows_case_res [allows_intros]:
  "(\<And>a. x = Ok a \<Longrightarrow> allows Q (k a)) \<Longrightarrow> (\<And>e. x = Err e \<Longrightarrow> allows Q (f e))
   \<Longrightarrow> (\<And>y. x = Crash y \<Longrightarrow> allows Q (g y))
   \<Longrightarrow> allows Q (case x of Ok a \<Rightarrow> k a | Err e \<Rightarrow> f e | Crash y \<Rightarrow> g y)"
  by (cases x) auto

lemma only_case_res [only_intros]:
  "(\<And>a. x = Ok a \<Longrightarrow> only Q (k a)) \<Longrightarrow> (\<And>e. x = Err e \<Longrightarrow> only Q (f e))
   \<Longrightarrow> (\<And>y. x = Crash y \<Longrightarrow> only Q (g y))
   \<Longrightarrow> only Q (case x of Ok a \<Rightarrow> k a | Err e \<Rightarrow> f e | Crash y \<Rightarrow> g y)"
  by (cases x) auto

text \<open>A pure computation in front is decided before the program runs.\<close>

lemma try_pure [pure_simps]:
  "try_go (pure_go x) on_err k = (case x of Ok a \<Rightarrow> k a | Err e \<Rightarrow> on_err e | Crash y \<Rightarrow> pure_go (Crash y))"
  by (cases x) (auto simp: fun_eq_iff run_try split: prod.splits)

lemma then_pure [pure_simps]:
  "then_go (pure_go x) k = (case x of Ok a \<Rightarrow> k a | Err e \<Rightarrow> fail_go e | Crash y \<Rightarrow> pure_go (Crash y))"
  by (simp add: then_go_def try_pure)

text \<open>The same for one history: what follows may use where its history comes from.\<close>

lemma wp_each_try:
  assumes "wp m h (\<lambda>r t. each_call Q h t)"
    and "\<And>a t. m h = (Ok a, t) \<Longrightarrow> wp (k a) (h @ t) (\<lambda>r t'. each_call Q (h @ t) t')"
    and "\<And>e t. m h = (Err e, t) \<Longrightarrow> wp (on_err e) (h @ t) (\<lambda>r t'. each_call Q (h @ t) t')"
  shows "wp (try_go m on_err k) h (\<lambda>r t. each_call Q h t)"
proof (cases "m h")
  case (Pair r t)
  with assms show ?thesis
    by (cases r) (auto simp: wp_def result_of_def calls_of_def run_try split: prod.splits)
qed

lemma wp_each_then:
  assumes "wp m h (\<lambda>r t. each_call Q h t)"
    and "\<And>a t. m h = (Ok a, t) \<Longrightarrow> wp (k a) (h @ t) (\<lambda>r t'. each_call Q (h @ t) t')"
  shows "wp (then_go m k) h (\<lambda>r t. each_call Q h t)"
  unfolding then_go_def by (rule wp_each_try) (auto simp: wp_fail intro: assms)

lemma wp_each_if:
  "(b \<Longrightarrow> wp m h (\<lambda>r t. each_call Q h t)) \<Longrightarrow> (\<not> b \<Longrightarrow> wp n h (\<lambda>r t. each_call Q h t))
   \<Longrightarrow> wp (if b then m else n) h (\<lambda>r t. each_call Q h t)"
  by simp

subsection \<open>Programs that do not crash\<close>

text \<open>\<open>safe m\<close>: whatever the remote parties answer, \<open>m\<close> returns a value or an error; it does not
  panic and does not run out of stack. What follows a call may use that the call has returned.\<close>

definition safe :: "('c, 'a) prog \<Rightarrow> bool" where
  "safe m \<longleftrightarrow> (\<forall>h x. fst (m h) \<noteq> Crash x)"

lemma safeD: "safe m \<Longrightarrow> m h \<noteq> (Crash x, t)"
  by (auto simp: safe_def dest: spec [of _ h])

lemma safe_result: "safe m \<Longrightarrow> result_of (m h) \<noteq> Crash x"
  by (simp add: safe_def result_of_def)

lemma safe_basic [safe_intros]:
  shows safe_return: "safe (return_go a)"
    and safe_fail: "safe (fail_go e)"
  by (simp_all add: safe_def)

lemma safe_pure [safe_intros]: "(\<And>x. r \<noteq> Crash x) \<Longrightarrow> safe (pure_go r)"
  by (simp add: safe_def)

lemma safe_invoke [safe_intros]: "safe (invoke c f)"
  by (simp add: safe_def run_invoke split: sum.splits)

lemma safe_try [safe_intros]:
  assumes "safe m" and "\<And>e h t. m h = (Err e, t) \<Longrightarrow> safe (on_err e)"
    and "\<And>a h t. m h = (Ok a, t) \<Longrightarrow> safe (k a)"
  shows "safe (try_go m on_err k)"
  unfolding safe_def
proof (intro allI)
  fix h x
  show "fst (try_go m on_err k h) \<noteq> Crash x"
    using assms(1) [THEN safeD, of h] assms(2) [THEN safeD, of h] assms(3) [THEN safeD, of h]
    by (auto simp: run_try split: prod.splits res.splits)
qed

lemma safe_then [safe_intros]:
  "safe m \<Longrightarrow> (\<And>a h t. m h = (Ok a, t) \<Longrightarrow> safe (k a)) \<Longrightarrow> safe (then_go m k)"
  by (simp add: then_go_def safe_try safe_fail)

lemma safe_ignore [safe_intros]:
  "safe m \<Longrightarrow> (\<And>x. safe (k x)) \<Longrightarrow> safe (ignore_go m k)"
  by (simp add: ignore_go_def safe_try)

lemma safe_defer [safe_intros]:
  "safe m \<Longrightarrow> safe c \<Longrightarrow> safe (defer_on_err m c)"
  by (simp add: defer_on_err_def safe_try safe_ignore safe_basic)

lemma safe_if [safe_intros]:
  "(b \<Longrightarrow> safe m) \<Longrightarrow> (\<not> b \<Longrightarrow> safe n) \<Longrightarrow> safe (if b then m else n)"
  by simp

lemma safe_case_option [safe_intros]:
  "(x = None \<Longrightarrow> safe m) \<Longrightarrow> (\<And>a. x = Some a \<Longrightarrow> safe (k a))
   \<Longrightarrow> safe (case x of None \<Rightarrow> m | Some a \<Rightarrow> k a)"
  by (cases x) auto

lemma safe_case_list [safe_intros]:
  "(xs = [] \<Longrightarrow> safe m) \<Longrightarrow> (\<And>y ys. xs = y # ys \<Longrightarrow> safe (k y ys))
   \<Longrightarrow> safe (case xs of [] \<Rightarrow> m | y # ys \<Rightarrow> k y ys)"
  by (cases xs) auto

lemma safe_case_prod [safe_intros]:
  "(\<And>a b. x = (a, b) \<Longrightarrow> safe (k a b)) \<Longrightarrow> safe (case x of (a, b) \<Rightarrow> k a b)"
  by (cases x) auto

lemma safe_for [safe_intros]:
  "(\<And>x. x \<in> set xs \<Longrightarrow> safe (body x)) \<Longrightarrow> safe (for_go xs body)"
proof (induction xs)
  case Nil
  show ?case by (simp add: safe_def)
next
  case (Cons x xs)
  have "safe (body x)" and "safe (for_go xs body)"
    using Cons by simp_all
  then show ?case
    unfolding for_go.simps by (intro safe_then safe_case_option safe_return)
qed

subsection \<open>What a program returns\<close>

text \<open>\<open>returns P m\<close>: whatever the remote parties answer, a value that \<open>m\<close> returns without an error
  satisfies \<open>P\<close>.\<close>

definition returns :: "('a \<Rightarrow> bool) \<Rightarrow> ('c, 'a) prog \<Rightarrow> bool" where
  "returns P m \<longleftrightarrow> (\<forall>h a. fst (m h) = Ok a \<longrightarrow> P a)"

lemma returnsD: "returns P m \<Longrightarrow> m h = (Ok a, t) \<Longrightarrow> P a"
  by (auto simp: returns_def dest: spec [of _ h])

lemma returns_mono: "returns P m \<Longrightarrow> (\<And>a. P a \<Longrightarrow> Q a) \<Longrightarrow> returns Q m"
  by (auto simp: returns_def)

lemma returns_basic [returns_intros]:
  shows returns_fail: "returns P (fail_go e)"
    and returns_panic: "returns P (panic_go s)"
    and returns_out_of_fuel: "returns P out_of_fuel"
  by (simp_all add: returns_def)

lemma returns_return [returns_intros]: "P a \<Longrightarrow> returns P (return_go a)"
  by (simp add: returns_def)

lemma returns_pure [returns_intros]: "(\<And>a. r = Ok a \<Longrightarrow> P a) \<Longrightarrow> returns P (pure_go r)"
  by (simp add: returns_def)

lemma returns_try [returns_intros]:
  assumes "\<And>e h t. m h = (Err e, t) \<Longrightarrow> returns P (on_err e)" and "\<And>a h t. m h = (Ok a, t) \<Longrightarrow> returns P (k a)"
  shows "returns P (try_go m on_err k)"
  unfolding returns_def
proof (intro allI impI)
  fix h a
  assume "fst (try_go m on_err k h) = Ok a"
  then show "P a"
    using assms(1) [THEN returnsD, of h] assms(2) [THEN returnsD, of h]
    by (auto simp: run_try split: prod.splits res.splits)
qed

lemma returns_then [returns_intros]:
  "(\<And>a h t. m h = (Ok a, t) \<Longrightarrow> returns P (k a)) \<Longrightarrow> returns P (then_go m k)"
  by (simp add: then_go_def returns_try returns_fail)

lemma returns_ignore [returns_intros]: "(\<And>x. returns P (k x)) \<Longrightarrow> returns P (ignore_go m k)"
  by (simp add: ignore_go_def returns_try)

lemma returns_defer [returns_intros]: "returns P m \<Longrightarrow> returns P (defer_on_err m c)"
  by (auto simp: returns_def run_defer split: prod.splits res.splits) (metis fst_conv)

lemma returns_if [returns_intros]:
  "(b \<Longrightarrow> returns P m) \<Longrightarrow> (\<not> b \<Longrightarrow> returns P n) \<Longrightarrow> returns P (if b then m else n)"
  by simp

lemma returns_case_option [returns_intros]:
  "(x = None \<Longrightarrow> returns P m) \<Longrightarrow> (\<And>a. x = Some a \<Longrightarrow> returns P (k a))
   \<Longrightarrow> returns P (case x of None \<Rightarrow> m | Some a \<Rightarrow> k a)"
  by (cases x) auto

lemma returns_case_list [returns_intros]:
  "(xs = [] \<Longrightarrow> returns P m) \<Longrightarrow> (\<And>y ys. xs = y # ys \<Longrightarrow> returns P (k y ys))
   \<Longrightarrow> returns P (case xs of [] \<Rightarrow> m | y # ys \<Rightarrow> k y ys)"
  by (cases xs) auto

lemma returns_case_prod [returns_intros]:
  "(\<And>a b. x = (a, b) \<Longrightarrow> returns P (k a b)) \<Longrightarrow> returns P (case x of (a, b) \<Rightarrow> k a b)"
  by (cases x) auto

lemma returns_case_res [returns_intros]:
  "(\<And>a. x = Ok a \<Longrightarrow> returns Q (k a)) \<Longrightarrow> (\<And>e. x = Err e \<Longrightarrow> returns Q (f e))
   \<Longrightarrow> (\<And>y. x = Crash y \<Longrightarrow> returns Q (g y))
   \<Longrightarrow> returns Q (case x of Ok a \<Rightarrow> k a | Err e \<Rightarrow> f e | Crash y \<Rightarrow> g y)"
  by (cases x) auto

end
