(* ===== verification/Go_Lib.thy ===== *)
theory Go_Lib
  imports Go_Base
begin

text \<open>
  The parts of Go's \<open>strings\<close>, \<open>strconv\<close>, \<open>slices\<close> and \<open>regexp\<close> the driver calls, Go's
  string maps and 64-bit signed arithmetic. Strings are byte lists; case mapping is the ASCII one.
\<close>

section \<open>64-bit integers\<close>

type_synonym int64 = int

definition wrap64 :: "int \<Rightarrow> int64" where
  "wrap64 x = (x + 2 ^ 63) mod 2 ^ 64 - 2 ^ 63"

definition is_int64 :: "int \<Rightarrow> bool" where
  "is_int64 x \<longleftrightarrow> - (2 ^ 63) \<le> x \<and> x < 2 ^ 63"

definition MaxInt64 :: int64 where
  "MaxInt64 = 2 ^ 63 - 1"

lemma wrap64_id [simp]: "is_int64 x \<Longrightarrow> wrap64 x = x"
  by (simp add: wrap64_def is_int64_def)

lemma is_int64_wrap64: "is_int64 (wrap64 x)"
proof -
  have "0 \<le> (x + 2 ^ 63) mod 2 ^ 64" and "(x + 2 ^ 63) mod 2 ^ 64 < 2 ^ 64"
    by (simp_all only: pos_mod_sign pos_mod_bound zero_less_power zero_less_numeral)
  then show ?thesis by (simp add: wrap64_def is_int64_def)
qed

lemma wrap64_cong: "x mod 2 ^ 64 = y mod 2 ^ 64 \<Longrightarrow> wrap64 x = wrap64 y"
  unfolding wrap64_def by (metis mod_add_left_eq)

lemma wrap64_mod: "wrap64 x mod 2 ^ 64 = x mod 2 ^ 64"
  unfolding wrap64_def by (simp add: mod_diff_left_eq)

lemma wrap64_add_right: "wrap64 (a + wrap64 b) = wrap64 (a + b)"
  by (rule wrap64_cong) (metis mod_add_right_eq wrap64_mod)

lemma wrap64_dvd: "(2 ^ 64 :: int) dvd wrap64 x - x"
  using wrap64_mod [of x] by (simp only: mod_eq_dvd_iff)

lemma wrap64_grow: "wrap64 (sz + (wrap64 need - wrap64 (sz - tot))) = wrap64 (tot + need)"
proof (rule wrap64_cong)
  have "(2 ^ 64 :: int) dvd (wrap64 need - need) - (wrap64 (sz - tot) - (sz - tot))"
    by (intro dvd_diff wrap64_dvd)
  also have "\<dots> = sz + (wrap64 need - wrap64 (sz - tot)) - (tot + need)" by simp
  finally show "(sz + (wrap64 need - wrap64 (sz - tot))) mod 2 ^ 64 = (tot + need) mod 2 ^ 64"
    by (simp only: mod_eq_dvd_iff)
qed

text \<open>Go's \<open>/\<close> and \<open>%\<close> truncate towards zero.\<close>

definition go_div :: "int64 \<Rightarrow> int64 \<Rightarrow> int64" where
  "go_div a b = sgn a * sgn b * (\<bar>a\<bar> div \<bar>b\<bar>)"

definition go_mod :: "int64 \<Rightarrow> int64 \<Rightarrow> int64" where
  "go_mod a b = a - b * go_div a b"

lemma go_div_nonneg: "0 \<le> a \<Longrightarrow> 0 < b \<Longrightarrow> go_div a b = a div b"
  by (cases "a = 0") (simp_all add: go_div_def)

lemma go_mod_nonneg: "0 \<le> a \<Longrightarrow> 0 < b \<Longrightarrow> go_mod a b = a mod b"
  by (simp add: go_mod_def go_div_nonneg minus_mult_div_eq_mod)

section \<open>String maps\<close>

text \<open>\<open>map[string]string\<close>; a missing key reads as the empty string.\<close>

type_synonym gomap = "(string \<times> string) list"

definition lookup :: "gomap \<Rightarrow> string \<Rightarrow> string" where
  "lookup m k = (case map_of m k of None \<Rightarrow> '''' | Some v \<Rightarrow> v)"

definition provided :: "gomap \<Rightarrow> string \<Rightarrow> bool" where
  "provided m k \<longleftrightarrow> map_of m k \<noteq> None"

definition store :: "gomap \<Rightarrow> string \<Rightarrow> string \<Rightarrow> gomap" where
  "store m k v = AList.update k v m"

lemma lookup_Nil [simp]: "lookup [] k = ''''"
  by (simp add: lookup_def)

lemma lookup_store [simp]: "lookup (store m k v) k' = (if k' = k then v else lookup m k')"
  by (simp add: lookup_def store_def update_conv')

lemma provided_store [simp]: "provided (store m k v) k' \<longleftrightarrow> k' = k \<or> provided m k'"
  by (simp add: provided_def store_def update_conv')

lemma lookup_provided: "lookup m k \<noteq> '''' \<Longrightarrow> provided m k"
  by (auto simp: lookup_def provided_def split: option.splits)

section \<open>strings\<close>

definition HasPrefix :: "string \<Rightarrow> string \<Rightarrow> bool" where
  "HasPrefix s p \<longleftrightarrow> take (length p) s = p"

fun Contains :: "string \<Rightarrow> string \<Rightarrow> bool" where
  "Contains [] p = (p = [])"
| "Contains (c # s) p = (HasPrefix (c # s) p \<or> Contains s p)"

text \<open>\<open>strings.Split\<close> for a non-empty separator: cut at the first occurrence, go on behind it.\<close>

function split_from :: "string \<Rightarrow> string \<Rightarrow> string \<Rightarrow> string list" where
  "split_from sep acc [] = [rev acc]"
| "split_from sep acc (c # s) =
     (if HasPrefix (c # s) sep then rev acc # split_from sep [] (drop (length sep - 1) s)
      else split_from sep (c # acc) s)"
  by pat_completeness auto
termination
  by (relation "measure (\<lambda>(sep, acc, s). length s)") auto

definition Split :: "string \<Rightarrow> string \<Rightarrow> string list" where
  "Split s sep = split_from sep [] s"

definition to_upper_char :: "char \<Rightarrow> char" where
  "to_upper_char c = (if 97 \<le> (of_char c :: nat) \<and> (of_char c :: nat) \<le> 122
     then char_of (of_char c - 32 :: nat) else c)"

definition to_lower_char :: "char \<Rightarrow> char" where
  "to_lower_char c = (if 65 \<le> (of_char c :: nat) \<and> (of_char c :: nat) \<le> 90
     then char_of (of_char c + 32 :: nat) else c)"

definition ToUpper :: "string \<Rightarrow> string" where
  "ToUpper s = map to_upper_char s"

definition ToLower :: "string \<Rightarrow> string" where
  "ToLower s = map to_lower_char s"

definition trim_with :: "(char \<Rightarrow> bool) \<Rightarrow> string \<Rightarrow> string" where
  "trim_with p s = rev (dropWhile p (rev (dropWhile p s)))"

definition is_space :: "char \<Rightarrow> bool" where
  "is_space c \<longleftrightarrow> (of_char c :: nat) \<in> {9, 10, 11, 12, 13, 32}"

definition TrimSpace :: "string \<Rightarrow> string" where
  "TrimSpace s = trim_with is_space s"

text \<open>\<open>strings.Trim(s, " ")\<close>\<close>

definition TrimBlank :: "string \<Rightarrow> string" where
  "TrimBlank s = trim_with (\<lambda>c. c = CHR '' '') s"

text \<open>\<open>slices.Compact\<close>: of a run of equal neighbours the first stays.\<close>

fun Compact :: "'a list \<Rightarrow> 'a list" where
  "Compact [] = []"
| "Compact [x] = [x]"
| "Compact (x # y # xs) = (if x = y then Compact (x # xs) else x # Compact (y # xs))"

subsection \<open>Facts about splitting and searching\<close>

lemma split_from_no_sep:
  "sep \<noteq> [] \<Longrightarrow> hd sep \<notin> set s \<Longrightarrow> split_from sep acc s = [rev acc @ s]"
  by (induction s arbitrary: acc) (auto simp: HasPrefix_def neq_Nil_conv)

lemma split_from_sep:
  assumes "sep \<noteq> []" and "hd sep \<notin> set a"
  shows "split_from sep acc (a @ sep @ b) = (rev acc @ a) # split_from sep [] b"
  using assms(2)
proof (induction a arbitrary: acc)
  case Nil
  obtain c s where sep: "sep = c # s" using assms(1) by (cases sep) auto
  then show ?case by (simp add: HasPrefix_def)
next
  case (Cons x a)
  obtain c s where sep: "sep = c # s" using assms(1) by (cases sep) auto
  with Cons.prems have "\<not> HasPrefix (x # a @ sep @ b) sep" by (auto simp: HasPrefix_def)
  with Cons show ?case by simp
qed

lemma Split_no_sep: "sep \<noteq> [] \<Longrightarrow> hd sep \<notin> set s \<Longrightarrow> Split s sep = [s]"
  by (simp add: Split_def split_from_no_sep)

lemma Split_two:
  "sep \<noteq> [] \<Longrightarrow> hd sep \<notin> set a \<Longrightarrow> hd sep \<notin> set b \<Longrightarrow> Split (a @ sep @ b) sep = [a, b]"
  by (simp add: Split_def split_from_sep split_from_no_sep)

lemma split_from_nonempty [simp]: "split_from sep acc s \<noteq> []"
  by (induction sep acc s rule: split_from.induct) auto

lemma Split_nonempty [simp]: "Split s sep \<noteq> []"
  by (simp add: Split_def)

text \<open>What was cut can be joined again.\<close>

fun join :: "string \<Rightarrow> string list \<Rightarrow> string" where
  "join sep [] = []"
| "join sep [x] = x"
| "join sep (x # y # xs) = x @ sep @ join sep (y # xs)"

lemma join_Cons: "xs \<noteq> [] \<Longrightarrow> join sep (x # xs) = x @ sep @ join sep xs"
  by (cases xs) auto

lemma join_split_from: "sep \<noteq> [] \<Longrightarrow> join sep (split_from sep acc s) = rev acc @ s"
proof (induction sep acc s rule: split_from.induct)
  case (1 sep acc)
  then show ?case by simp
next
  case (2 sep acc c s)
  show ?case
  proof (cases "HasPrefix (c # s) sep")
    case True
    obtain d ds where sep: "sep = d # ds" using 2(3) by (cases sep) auto
    have "c # s = sep @ drop (length sep) (c # s)"
      using True by (metis HasPrefix_def append_take_drop_id)
    with sep have "sep @ drop (length sep - 1) s = c # s" by simp
    with True 2 show ?thesis by (simp add: join_Cons)
  next
    case False
    with 2 show ?thesis by simp
  qed
qed

lemma join_Split: "sep \<noteq> [] \<Longrightarrow> join sep (Split s sep) = s"
  by (simp add: Split_def join_split_from)

lemma HasPrefix_append: "HasPrefix (p @ s) p"
  by (simp add: HasPrefix_def)

lemma Contains_iff: "Contains s p \<longleftrightarrow> (\<exists>a b. s = a @ p @ b)"
proof (induction s)
  case Nil
  then show ?case by auto
next
  case (Cons c s)
  have "HasPrefix (c # s) p \<longleftrightarrow> (\<exists>b. c # s = p @ b)"
    by (metis HasPrefix_append HasPrefix_def append_take_drop_id)
  then have "Contains (c # s) p \<longleftrightarrow> (\<exists>b. c # s = p @ b) \<or> (\<exists>a b. s = a @ p @ b)"
    using Cons by simp
  also have "\<dots> \<longleftrightarrow> (\<exists>a b. c # s = a @ p @ b)"
    by (metis append_Cons append_eq_Cons_conv)
  finally show ?case .
qed

lemma Contains_append: "Contains s p \<Longrightarrow> Contains (a @ s @ b) p"
  unfolding Contains_iff by (metis append.assoc)

lemma Contains_suffix: "Contains s p \<Longrightarrow> Contains (a @ s) p"
  using Contains_append [of s p a "[]"] by simp

lemma set_Compact [simp]: "set (Compact xs) = set xs"
  by (induction xs rule: Compact.induct) auto

section \<open>strconv\<close>

definition digit_char :: "nat \<Rightarrow> char" where
  "digit_char n = ''0123456789'' ! n"

fun nat_text :: "nat \<Rightarrow> string" where
  "nat_text n = (if n < 10 then [digit_char n] else nat_text (n div 10) @ [digit_char (n mod 10)])"

declare nat_text.simps [simp del]

definition Itoa :: "int64 \<Rightarrow> string" where
  "Itoa i = (if i < 0 then CHR ''-'' # nat_text (nat (- i)) else nat_text (nat i))"

definition digit_val :: "nat \<Rightarrow> char \<Rightarrow> nat option" where
  "digit_val base c = (let d = of_char c in if 48 \<le> d \<and> d < 48 + base then Some (d - 48) else None)"

fun digits_val :: "nat \<Rightarrow> nat \<Rightarrow> string \<Rightarrow> nat option" where
  "digits_val base acc [] = Some acc"
| "digits_val base acc (c # s) =
     (case digit_val base c of None \<Rightarrow> None | Some d \<Rightarrow> digits_val base (acc * base + d) s)"

text \<open>Digits of a base up to ten, at least one.\<close>

definition parse_nat :: "nat \<Rightarrow> string \<Rightarrow> nat option" where
  "parse_nat base s = (if s = [] then None else digits_val base 0 s)"

text \<open>\<open>strconv.Atoi\<close> and \<open>strconv.ParseInt(s, 10, 64)\<close>\<close>

definition Atoi :: "string \<Rightarrow> int64 option" where
  "Atoi s = (let neg = (s \<noteq> [] \<and> hd s = CHR ''-'');
                 body = (if s \<noteq> [] \<and> (hd s = CHR ''-'' \<or> hd s = CHR ''+'') then tl s else s)
             in case parse_nat 10 body of
                  None \<Rightarrow> None
                | Some n \<Rightarrow> (let i = (if neg then - int n else int n)
                             in if is_int64 i then Some i else None))"

text \<open>The value of \<^verbatim>\<open>n, _ := strconv.Atoi(s)\<close>: zero for text that is no number, the nearest
  64-bit integer for a number out of range.\<close>

definition Atoi_value :: "string \<Rightarrow> int64" where
  "Atoi_value s = (let neg = (s \<noteq> [] \<and> hd s = CHR ''-'');
                       body = (if s \<noteq> [] \<and> (hd s = CHR ''-'' \<or> hd s = CHR ''+'') then tl s else s)
             in case parse_nat 10 body of
                  None \<Rightarrow> 0
                | Some n \<Rightarrow> (if neg then max (- (2 ^ 63)) (- int n) else min (2 ^ 63 - 1) (int n)))"

text \<open>\<open>strconv.ParseUint(s, 8, 32)\<close>\<close>

definition ParseUint8_32 :: "string \<Rightarrow> int option" where
  "ParseUint8_32 s = (case parse_nat 8 s of
     None \<Rightarrow> None | Some n \<Rightarrow> if n < 2 ^ 32 then Some (int n) else None)"

definition ParseBool :: "string \<Rightarrow> bool option" where
  "ParseBool s =
     (if s \<in> {''1'', ''t'', ''T'', ''true'', ''TRUE'', ''True''} then Some True
      else if s \<in> {''0'', ''f'', ''F'', ''false'', ''FALSE'', ''False''} then Some False
      else None)"

definition parse_error :: "string \<Rightarrow> go_error" where
  "parse_error s = Errors_New (''strconv: invalid syntax: '' @ s)"

subsection \<open>Printing and parsing numbers\<close>

lemma less_10_cases: "(n::nat) < 10 \<Longrightarrow>
   n = 0 \<or> n = 1 \<or> n = 2 \<or> n = 3 \<or> n = 4 \<or> n = 5 \<or> n = 6 \<or> n = 7 \<or> n = 8 \<or> n = 9"
  by arith

lemma digit_val_char: "n < 10 \<Longrightarrow> digit_val 10 (digit_char n) = Some n"
  by (drule less_10_cases) (auto simp: digit_val_def digit_char_def)

lemma digits_val_append:
  "digits_val base acc (s @ t) =
     (case digits_val base acc s of None \<Rightarrow> None | Some v \<Rightarrow> digits_val base v t)"
  by (induction base acc s rule: digits_val.induct) (auto split: option.splits)

lemma digits_val_nat_text: "digits_val 10 0 (nat_text n) = Some n"
proof (induction n rule: nat_text.induct)
  case (1 n)
  show ?case
  proof (cases "n < 10")
    case True
    then show ?thesis by (simp add: nat_text.simps digit_val_char)
  next
    case False
    with 1 have "digits_val 10 0 (nat_text (n div 10)) = Some (n div 10)" by simp
    then show ?thesis
      using False by (subst nat_text.simps) (simp add: digits_val_append digit_val_char)
  qed
qed

lemma nat_text_nonempty [simp]: "nat_text n \<noteq> []"
  by (subst nat_text.simps) simp

definition is_digit :: "char \<Rightarrow> bool" where
  "is_digit c \<longleftrightarrow> digit_val 10 c \<noteq> None"

lemma set_nat_text: "c \<in> set (nat_text n) \<Longrightarrow> is_digit c"
proof (induction n rule: nat_text.induct)
  case (1 n)
  show ?case
  proof (cases "n < 10")
    case True
    with 1(2) show ?thesis by (simp add: nat_text.simps is_digit_def digit_val_char)
  next
    case False
    with 1(2) have "c \<in> set (nat_text (n div 10)) \<or> c = digit_char (n mod 10)"
      by (subst (asm) nat_text.simps) auto
    with 1(1) False show ?thesis by (auto simp: is_digit_def digit_val_char)
  qed
qed

lemma parse_nat_text: "parse_nat 10 (nat_text n) = Some n"
  by (simp add: parse_nat_def digits_val_nat_text)

lemma not_digit_signs [simp]: "\<not> is_digit (CHR ''-'')" "\<not> is_digit (CHR ''+'')"
  "\<not> is_digit (CHR ''$'')" "\<not> is_digit (CHR ''#'')"
  by (simp_all add: is_digit_def digit_val_def)

lemma hd_nat_text: "is_digit (hd (nat_text n))"
  using set_nat_text [of "hd (nat_text n)" n] by simp

lemma Atoi_Itoa [simp]: "is_int64 i \<Longrightarrow> Atoi (Itoa i) = Some i"
proof (cases "i < 0")
  case True
  assume "is_int64 i"
  with True show ?thesis by (simp add: Atoi_def Itoa_def Let_def parse_nat_text)
next
  case False
  assume "is_int64 i"
  moreover have "hd (nat_text (nat i)) \<noteq> CHR ''-''" "hd (nat_text (nat i)) \<noteq> CHR ''+''"
    using hd_nat_text [of "nat i"] by auto
  ultimately show ?thesis
    using False by (simp add: Atoi_def Itoa_def Let_def parse_nat_text)
qed

lemma set_Itoa: "c \<in> set (Itoa i) \<Longrightarrow> c = CHR ''-'' \<or> is_digit c"
  by (auto simp: Itoa_def set_nat_text split: if_splits)

lemma Itoa_nonempty [simp]: "Itoa i \<noteq> []"
  by (simp add: Itoa_def)

lemma no_dollar_Itoa [simp]: "CHR ''$'' \<notin> set (Itoa i)"
  using set_Itoa [of "CHR ''$''" i] by auto

lemma no_hash_Itoa [simp]: "CHR ''#'' \<notin> set (Itoa i)"
  using set_Itoa [of "CHR ''#''" i] by auto

lemma Itoa_inject: "is_int64 i \<Longrightarrow> is_int64 j \<Longrightarrow> Itoa i = Itoa j \<Longrightarrow> i = j"
  by (metis Atoi_Itoa option.inject)

lemma Atoi_int64: "Atoi s = Some i \<Longrightarrow> is_int64 i"
  by (auto simp: Atoi_def Let_def split: option.splits if_splits)

lemma Atoi_value_Atoi: "Atoi s = Some i \<Longrightarrow> Atoi_value s = i"
  by (auto simp: Atoi_def Atoi_value_def Let_def is_int64_def split: option.splits if_splits)

lemma split_from_without: "\<not> Contains s sep \<Longrightarrow> split_from sep acc s = [rev acc @ s]"
  by (induction s arbitrary: acc) auto

lemma Split_without: "\<not> Contains s sep \<Longrightarrow> Split s sep = [s]"
  by (simp add: Split_def split_from_without)

lemma digits_val_bad: "c \<in> set s \<Longrightarrow> digit_val base c = None \<Longrightarrow> digits_val base acc s = None"

  by (induction s arbitrary: acc) (auto split: option.splits)

lemma Atoi_letter: "c \<in> set s \<Longrightarrow> digit_val 10 c = None \<Longrightarrow> c \<noteq> CHR ''-'' \<Longrightarrow> c \<noteq> CHR ''+'' \<Longrightarrow> Atoi s = None"
  by (cases s) (auto simp: Atoi_def parse_nat_def Let_def digits_val_bad split: option.splits)

section \<open>regexp\<close>

text \<open>
  The five patterns of the StorageClass checks:
  \<^verbatim>\<open>\A.*\z\<close>, \<^verbatim>\<open>[a-zA-Z]+\<close>, \<^verbatim>\<open>^\d+$\<close>, \<^verbatim>\<open>(?i)\A(THICK|THIN)\z\<close> and
  \<^verbatim>\<open>(?i)\A(none|chap|mutual_chap)\z\<close>.
\<close>

datatype pattern = AnyLine | HasLetter | AllDigits | ThickOrThin | ChapMode

definition is_letter :: "char \<Rightarrow> bool" where
  "is_letter c \<longleftrightarrow> (let d = of_char c :: nat in 65 \<le> d \<and> d \<le> 90 \<or> 97 \<le> d \<and> d \<le> 122)"

fun MatchString :: "pattern \<Rightarrow> string \<Rightarrow> bool" where
  "MatchString AnyLine s = (CHR ''\<newline>'' \<notin> set s)"
| "MatchString HasLetter s = list_ex is_letter s"
| "MatchString AllDigits s = (s \<noteq> [] \<and> list_all is_digit s)"
| "MatchString ThickOrThin s = (ToUpper s \<in> {''THICK'', ''THIN''})"
| "MatchString ChapMode s = (ToLower s \<in> {''none'', ''chap'', ''mutual_chap''})"

section \<open>path\<close>

text \<open>\<open>path.Clean\<close> and \<open>path.Join\<close> of two elements.\<close>

fun clean_parts :: "bool \<Rightarrow> string list \<Rightarrow> string list \<Rightarrow> string list" where
  "clean_parts rooted stack [] = rev stack"
| "clean_parts rooted stack (p # ps) =
     (if p = [] \<or> p = ''.'' then clean_parts rooted stack ps
      else if p = ''..'' then
        (if stack \<noteq> [] \<and> hd stack \<noteq> ''..'' then clean_parts rooted (tl stack) ps
         else if rooted then clean_parts rooted stack ps
         else clean_parts rooted (''..'' # stack) ps)
      else clean_parts rooted (p # stack) ps)"

fun join_slash :: "string list \<Rightarrow> string" where
  "join_slash [] = []"
| "join_slash [p] = p"
| "join_slash (p # ps) = p @ ''/'' @ join_slash ps"

definition path_Clean :: "string \<Rightarrow> string" where
  "path_Clean s = (let rooted = HasPrefix s ''/'';
       out = (if rooted then ''/'' else []) @ join_slash (clean_parts rooted [] (Split s ''/''))
     in if out = [] then ''.'' else out)"

definition path_Join :: "string \<Rightarrow> string \<Rightarrow> string" where
  "path_Join a b = (let ne = filter (\<lambda>p. p \<noteq> []) [a, b] in
     if ne = [] then [] else path_Clean (join_slash ne))"

end
