(* ===== verification/Driver_Types.thy ===== *)
theory Driver_Types
  imports Go_Lib
begin

text \<open>
  The data of the driver: the constants of \<open>common/types.go\<close>, the InfiniBox objects of \<open>iboxapi\<close>
  and \<open>api/types.go\<close>, the CSI messages and the Kubernetes objects the controller reads. The records
  of the larger InfiniBox objects (host, file system, export, pool, network space, link) hold the
  fields the driver reads or writes; the others only pass through the JSON decoder.
\<close>

section \<open>Constants of common/types.go\<close>

definition ProtocolNFS :: string where "ProtocolNFS = ''nfs''"
definition ProtocolTreeq :: string where "ProtocolTreeq = ''nfs_treeq''"
definition ProtocolISCSI :: string where "ProtocolISCSI = ''iscsi''"
definition ProtocolFC :: string where "ProtocolFC = ''fc''"
definition ProtocolNVME :: string where "ProtocolNVME = ''nvme''"
definition ProtocolAuto :: string where "ProtocolAuto = ''auto''"

lemmas protocol_defs = ProtocolNFS_def ProtocolTreeq_def ProtocolISCSI_def ProtocolFC_def
  ProtocolNVME_def ProtocolAuto_def

definition StorageClassNFSExportPermissions :: string where "StorageClassNFSExportPermissions = ''nfs_export_permissions''"
definition StorageClassPrivPorts :: string where "StorageClassPrivPorts = ''privileged_ports_only''"
definition StorageClassSnapDirVisible :: string where "StorageClassSnapDirVisible = ''snapdir_visible''"
definition StorageClassUID :: string where "StorageClassUID = ''uid''"
definition StorageClassGID :: string where "StorageClassGID = ''gid''"
definition StorageClassUNIXPermissions :: string where "StorageClassUNIXPermissions = ''unix_permissions''"
definition StorageClassRoundup :: string where "StorageClassRoundup = ''round_up_requested_size''"
definition StorageClassSSDEnabled :: string where "StorageClassSSDEnabled = ''ssd_enabled''"
definition StorageClassProvisionType :: string where "StorageClassProvisionType = ''provision_type''"
definition StorageClassPoolName :: string where "StorageClassPoolName = ''pool_name''"
definition StorageClassNetworkSpace :: string where "StorageClassNetworkSpace = ''network_space''"
definition StorageClassStorageProtocol :: string where "StorageClassStorageProtocol = ''storage_protocol''"
definition StorageClassFSPrefix :: string where "StorageClassFSPrefix = ''fs_prefix''"
definition StorageClassFSPrefixDefault :: string where "StorageClassFSPrefixDefault = ''csit_''"
definition StorageClassMaxVolsPerHost :: string where "StorageClassMaxVolsPerHost = ''max_vols_per_host''"
definition StorageClassUseCHAP :: string where "StorageClassUseCHAP = ''useCHAP''"
definition StorageClassThinProvision :: string where "StorageClassThinProvision = ''THIN''"
definition StorageClassThickProvision :: string where "StorageClassThickProvision = ''THICK''"
definition StorageClassMaxTreeqsPerFS :: string where "StorageClassMaxTreeqsPerFS = ''max_treeqs_per_filesystem''"
definition StorageClassMaxFilesystems :: string where "StorageClassMaxFilesystems = ''max_filesystems''"
definition StorageClassMaxFilesystemSize :: string where "StorageClassMaxFilesystemSize = ''max_filesystem_size''"
definition StorageClassProtocolSecretAutoOrder :: string where "StorageClassProtocolSecretAutoOrder = ''preferred_auto_order''"

definition NetworkSpaceNFSService :: string where "NetworkSpaceNFSService = ''NAS_SERVICE''"
definition NetworkSpaceISCSIService :: string where "NetworkSpaceISCSIService = ''ISCSI_SERVICE''"
definition NetworkSpaceNVMEService :: string where "NetworkSpaceNVMEService = ''SAN_SERVICE''"

definition LockExpiresAtParameter :: string where "LockExpiresAtParameter = ''lock_expires_at''"
definition LockedState :: string where "LockedState = ''LOCKED''"
definition CSICreatedHost :: string where "CSICreatedHost = ''csi-created-host''"
definition TOBEDELETED :: string where "TOBEDELETED = ''host.k8s.to_be_deleted''"
definition BytesInOneGibibyte :: int64 where "BytesInOneGibibyte = 1073741824"

definition PVCAnnotationPoolName :: string where "PVCAnnotationPoolName = ''infinidat.com/pool_name''"
definition PVCAnnotationNetworkSpace :: string where "PVCAnnotationNetworkSpace = ''infinidat.com/network_space''"
definition PVCAnnotationIBOXSecret :: string where "PVCAnnotationIBOXSecret = ''infinidat.com/ibox_secret''"
definition PVCAnnotationVolumeMetadata :: string where "PVCAnnotationVolumeMetadata = ''infinidat.com/volume_metadata''"

definition CSIProvisionerSecretName :: string where "CSIProvisionerSecretName = ''csi.storage.k8s.io/provisioner-secret-name''"
definition CSIProvisionerSecretNamespace :: string where "CSIProvisionerSecretNamespace = ''csi.storage.k8s.io/provisioner-secret-namespace''"
definition CSIControllerPublishSecretName :: string where "CSIControllerPublishSecretName = ''csi.storage.k8s.io/controller-publish-secret-name''"
definition CSIControllerPublishSecretNamespace :: string where "CSIControllerPublishSecretNamespace = ''csi.storage.k8s.io/controller-publish-secret-namespace''"
definition CSINodeStageSecretName :: string where "CSINodeStageSecretName = ''csi.storage.k8s.io/node-stage-secret-name''"
definition CSINodeStageSecretNamespace :: string where "CSINodeStageSecretNamespace = ''csi.storage.k8s.io/node-stage-secret-namespace''"
definition CSINodePublishSecretName :: string where "CSINodePublishSecretName = ''csi.storage.k8s.io/node-publish-secret-name''"
definition CSINodePublishSecretNamespace :: string where "CSINodePublishSecretNamespace = ''csi.storage.k8s.io/node-publish-secret-namespace''"
definition CSIControllerExpandSecretName :: string where "CSIControllerExpandSecretName = ''csi.storage.k8s.io/controller-expand-secret-name''"
definition CSIControllerExpandSecretNamespace :: string where "CSIControllerExpandSecretNamespace = ''csi.storage.k8s.io/controller-expand-secret-namespace''"
definition CSINodeExpandSecretName :: string where "CSINodeExpandSecretName = ''csi.storage.k8s.io/node-expand-secret-name''"
definition CSINodeExpandSecretNamespace :: string where "CSINodeExpandSecretNamespace = ''csi.storage.k8s.io/node-expand-secret-namespace''"
definition CSIPVCName :: string where "CSIPVCName = ''csi.storage.k8s.io/pvc/name''"
definition CSIPVCNamespace :: string where "CSIPVCNamespace = ''csi.storage.k8s.io/pvc/namespace''"

definition EnvVarProtocolSecret :: string where "EnvVarProtocolSecret = ''PROTOCOL_SECRET''"
definition EnvVarPodNamespace :: string where "EnvVarPodNamespace = ''POD_NAMESPACE''"
definition EnvVarRemoveDomainName :: string where "EnvVarRemoveDomainName = ''REMOVE_DOMAIN_NAME''"

definition CredentialHostname :: string where "CredentialHostname = ''hostname''"
definition CredentialUsername :: string where "CredentialUsername = ''username''"
definition CredentialPassword :: string where "CredentialPassword = ''password''"
definition IboxFeaturePromoteSnapshot :: string where "IboxFeaturePromoteSnapshot = ''promote_snapshot''"

definition HostIDPublishContext :: string where "HostIDPublishContext = ''hostID''"
definition HostPortsPublishContext :: string where "HostPortsPublishContext = ''hostPorts''"
definition LunPublishContext :: string where "LunPublishContext = ''lun''"
definition SecurityMethodPublishContext :: string where "SecurityMethodPublishContext = ''securityMethod''"
definition NVMEHostSuffix :: string where "NVMEHostSuffix = ''-nvme''"

section \<open>InfiniBox objects\<close>

text \<open>Values of \<open>map[string]any\<close>; the driver looks at strings and truth values only.\<close>

datatype json = JStr string | JBool bool | JInt int | JOther

type_synonym jsonmap = "(string \<times> json) list"

record Volume =
  vol_CGID :: int
  vol_RmrTarget :: bool
  vol_UpdatedAt :: int
  vol_NumBlocks :: int
  vol_Allocated :: int
  vol_Serial :: string
  vol_Size :: int64
  vol_SsdEnabled :: bool
  vol_ID :: int
  vol_ParentID :: int
  vol_CompressionSuppressed :: bool
  vol_Type :: string
  vol_RmrSource :: bool
  vol_Used :: int
  vol_TreeAllocated :: int
  vol_HasChildren :: bool
  vol_DatasetType :: string
  vol_Provtype :: string
  vol_RmrSnapshotGUID :: string
  vol_CapacitySavings :: int
  vol_Name :: string
  vol_CreatedAt :: int64
  vol_PoolID :: int
  vol_PoolName :: string
  vol_CompressionEnabled :: bool
  vol_FamilyID :: int
  vol_Depth :: int
  vol_WriteProtected :: bool
  vol_Mapped :: bool
  vol_LockExpiresAt :: int64
  vol_LockState :: string

text \<open>Go's zero value \<open>iboxapi.Volume{}\<close>.\<close>

definition zero_Volume :: Volume where
  "zero_Volume = \<lparr>vol_CGID = 0, vol_RmrTarget = False, vol_UpdatedAt = 0, vol_NumBlocks = 0,
     vol_Allocated = 0, vol_Serial = '''', vol_Size = 0, vol_SsdEnabled = False, vol_ID = 0,
     vol_ParentID = 0, vol_CompressionSuppressed = False, vol_Type = '''', vol_RmrSource = False,
     vol_Used = 0, vol_TreeAllocated = 0, vol_HasChildren = False, vol_DatasetType = '''',
     vol_Provtype = '''', vol_RmrSnapshotGUID = '''', vol_CapacitySavings = 0, vol_Name = '''',
     vol_CreatedAt = 0, vol_PoolID = 0, vol_PoolName = '''', vol_CompressionEnabled = False,
     vol_FamilyID = 0, vol_Depth = 0, vol_WriteProtected = False, vol_Mapped = False,
     vol_LockExpiresAt = 0, vol_LockState = ''''\<rparr>"

record CreateVolumeRequest =
  cvr_PoolID :: int
  cvr_VolumeSize :: int64
  cvr_Name :: string
  cvr_ProvisionType :: string
  cvr_SSDEnabled :: bool

record Snapshot =
  snap_SnapShotID :: int
  snap_Size :: int64
  snap_SSDEnabled :: bool
  snap_ParentID :: int
  snap_PoolID :: int
  snap_Name :: string

record CreateSnapshotVolumeRequest =
  csv_ParentID :: int
  csv_SnapshotName :: string
  csv_WriteProtected :: bool
  csv_SSDEnabled :: bool
  csv_LockExpiresAt :: int64

record Ports =
  port_Address :: string
  port_Type :: string
  port_HostID :: int

record LunInfo =
  lun_ID :: int
  lun_Lun :: int
  lun_CLustered :: bool
  lun_VolumeID :: int
  lun_HostClusterID :: int
  lun_HostID :: int

record Host =
  host_ID :: int
  host_Name :: string
  host_Ports :: "Ports list"
  host_Luns :: "LunInfo list"
  host_SecurityMethod :: string

record FileSystem =
  fs_ID :: int
  fs_Name :: string
  fs_Size :: int64
  fs_Provtype :: string
  fs_SSDEnabled :: bool
  fs_ParentID :: int
  fs_PoolID :: int
  fs_LockExpiresAt :: int64
  fs_LockState :: string

definition zero_FileSystem :: FileSystem where
  "zero_FileSystem = \<lparr>fs_ID = 0, fs_Name = '''', fs_Size = 0, fs_Provtype = '''',
     fs_SSDEnabled = False, fs_ParentID = 0, fs_PoolID = 0, fs_LockExpiresAt = 0,
     fs_LockState = ''''\<rparr>"

record CreateFileSystemRequest =
  cfs_AtimeMode :: string
  cfs_PoolID :: int
  cfs_Name :: string
  cfs_Provtype :: string
  cfs_Size :: int64
  cfs_SsdEnabled :: bool

record FileSystemSnapshot =
  fss_LockExpiresAt :: int64
  fss_ParentID :: int
  fss_SnapshotName :: string
  fss_WriteProtected :: bool
  fss_SSDEnabled :: bool

record FileSystemSnapshotResponse =
  fsr_SnapshotID :: int
  fsr_Name :: string
  fsr_DatasetType :: string
  fsr_ParentID :: int
  fsr_Size :: int64
  fsr_CreatedAt :: int64

record Treeq =
  tq_ID :: int
  tq_FilesystemID :: int
  tq_Name :: string
  tq_Path :: string
  tq_HardCapacity :: int64
  tq_UsedCapacity :: int64

record CreateTreeqRequest =
  ctq_SoftInodes :: int
  ctq_Path :: string
  ctq_HardCapacity :: int64
  ctq_HardInodes :: int
  ctq_Name :: string

record UpdateTreeqRequest =
  utq_SoftInodes :: int
  utq_Path :: string
  utq_HardCapacity :: int64
  utq_HardInodes :: int
  utq_Name :: string

record Permissions =
  perm_Access :: string
  perm_NoRootSquash :: bool
  perm_Client :: string

record Export =
  exp_Permissions :: "Permissions list"
  exp_FilesystemID :: int
  exp_ID :: int
  exp_ExportPath :: string
  exp_SnapdirVisible :: bool

record ExportPathRef =
  epr_Permissions :: "Permissions list"

record CreateExportRequest =
  cer_FilesystemID :: int
  cer_Name :: string
  cer_TransportProtocols :: string
  cer_PrivilegedPort :: bool
  cer_ExportPath :: string
  cer_Permissionsput :: "jsonmap list"
  cer_SnapdirVisible :: bool

record PoolResult =
  pool_ID :: int
  pool_Name :: string
  pool_SsdEnabled :: bool
  pool_TotalDiskUsage :: int64
  pool_PhysicalCapacity :: int64

record GetMetadataResult =
  md_Key :: string
  md_Value :: string
  md_ObjectType :: string
  md_ID :: int
  md_ObjectID :: int

record Portal =
  portal_Type :: string
  portal_Tpgt :: int
  portal_IPAddress :: string
  portal_VlanID :: int
  portal_Enabled :: bool
  portal_Reserved :: bool
  portal_InterfaceID :: int

record NetworkSpace =
  ns_Service :: string
  ns_Name :: string
  ns_Portals :: "Portal list"
  ns_ISCSIIqn :: string
  ns_ISCSITCPPort :: int

record FeatureResult =
  feat_Name :: string
  feat_Version :: int
  feat_Experimental :: bool
  feat_Enabled :: bool

record NtpStatus =
  ntp_NodeID :: int
  ntp_LastProbeTimestamp :: int64

record Link =
  link_ID :: int
  link_Name :: string
  link_RemoteLinkID :: int
  link_RemoteSystemName :: string
  link_LinkState :: string
  link_ResiliencyMode :: string

record HostPort =
  hp_HostID :: int
  hp_PortType :: string
  hp_PortAddress :: string

record FCPort =
  fcp_PortID :: int
  fcp_State :: string
  fcp_Enabled :: bool
  fcp_WWNn :: string
  fcp_WWPn :: string
  fcp_SwitchWWNn :: string
  fcp_Vendor :: string
  fcp_SwitchVendor :: string

record FCNode =
  fcn_Ports :: "FCPort list"

text \<open>Consistency groups and their snapshot groups.\<close>

record ConsistencyGroupInfo =
  cg_ID :: int
  cg_Name :: string
  cg_PoolID :: int
  cg_MembersCount :: int

record MemberInfo =
  mem_ID :: int
  mem_Name :: string
  mem_Size :: int
  mem_FamilyID :: int
  mem_CGName :: string

record CreateSnapshotGroupRequest =
  csg_CGID :: int
  csg_SnapName :: string
  csg_SnapPrefix :: string
  csg_SnapSuffix :: string

record CreateConsistencyGroupRequest =
  ccg_Name :: string
  ccg_PoolID :: int

text \<open>Replicas; \<open>IsPreferred\<close> is a pointer. Of an entity pair: the name of the local and of the remote entity.\<close>

record Replica =
  rep_ID :: int
  rep_Role :: string
  rep_State :: string
  rep_LinkID :: int
  rep_LocalEntityID :: int
  rep_RemoteEntityID :: int
  rep_LocalPoolID :: int
  rep_RemotePoolID :: int
  rep_LastSynchronized :: int64
  rep_SyncDuration :: int
  rep_EntityPairs :: "(string \<times> string) list"

record CreateReplicaRequest =
  crr_IsPreferred :: "bool option"
  crr_SyncInterval :: int
  crr_Description :: string
  crr_EntityType :: string
  crr_RemoteEntityName :: string
  crr_LocalEntityID :: int
  crr_ReplicationType :: string
  crr_BaseAction :: string
  crr_LinkID :: int
  crr_RpoValue :: int
  crr_RemotePoolID :: int

record EventRequestData =
  evd_Name :: string
  evd_Type :: string
  evd_Value :: string

record EventRequest =
  ev_Data :: "EventRequestData list"
  ev_Code :: string

text \<open>\<open>api.VolumeProtocolConfig\<close>; \<open>Host\<close> is a pointer.\<close>

record VolumeProtocolConfig =
  vpc_VolumeID :: int
  vpc_StorageType :: string
  vpc_ChildVolumeID :: string
  vpc_Host :: "Host option"
  vpc_NodeID :: string
  vpc_TreeqID :: int

definition zero_VolProto :: VolumeProtocolConfig where
  "zero_VolProto = \<lparr>vpc_VolumeID = 0, vpc_StorageType = '''', vpc_ChildVolumeID = '''',
     vpc_Host = None, vpc_NodeID = '''', vpc_TreeqID = 0\<rparr>"

record Credentials =
  cred_Username :: string
  cred_Password :: string
  cred_URL :: string

section \<open>CSI messages\<close>

datatype AccessMode = AM_UNKNOWN | SINGLE_NODE_WRITER | SINGLE_NODE_READER_ONLY
  | MULTI_NODE_READER_ONLY | MULTI_NODE_SINGLE_WRITER | MULTI_NODE_MULTI_WRITER
  | SINGLE_NODE_SINGLE_WRITER | SINGLE_NODE_MULTI_WRITER

text \<open>The \<open>oneof\<close> of a volume capability: nothing set, block, or mount with its file system type
  and mount flags.\<close>

datatype AccessType = NoAccessType | BlockAccess | MountAccess string "string list"

record VolumeCapability =
  cap_AccessMode :: "AccessMode option"
  cap_AccessType :: AccessType

definition is_block :: "VolumeCapability \<Rightarrow> bool" where
  "is_block c \<longleftrightarrow> cap_AccessType c = BlockAccess"

text \<open>\<open>GetAccessMode().GetMode()\<close>: the zero mode where no access mode is set.\<close>

definition mode_of :: "VolumeCapability \<Rightarrow> AccessMode" where
  "mode_of c = (case cap_AccessMode c of None \<Rightarrow> AM_UNKNOWN | Some m \<Rightarrow> m)"

datatype VolumeContentSource = ContentUnset | ContentSnapshot string | ContentVolume string

record CsiCreateVolumeRequest =
  req_Name :: string
  req_Parameters :: gomap
  req_VolumeCapabilities :: "VolumeCapability list option"
  req_RequiredBytes :: "int64 option"
  req_Secrets :: gomap
  req_ContentSource :: "VolumeContentSource option"

record CsiVolume =
  csi_VolumeId :: string
  csi_CapacityBytes :: int64
  csi_VolumeContext :: gomap
  csi_ContentSource :: "VolumeContentSource option"

record CsiPublishRequest =
  pub_VolumeId :: string
  pub_NodeId :: string
  pub_VolumeCapability :: "VolumeCapability option"
  pub_VolumeContext :: "gomap option"
  pub_Secrets :: gomap

text \<open>Reading \<open>req.GetVolumeContext()[k]\<close>: a nil map reads as empty.\<close>

definition pub_context :: "CsiPublishRequest \<Rightarrow> string \<Rightarrow> string" where
  "pub_context r k = (case pub_VolumeContext r of None \<Rightarrow> '''' | Some m \<Rightarrow> lookup m k)"

record CsiUnpublishRequest =
  unpub_VolumeId :: string
  unpub_NodeId :: string
  unpub_Secrets :: gomap

record CsiCreateSnapshotRequest =
  csr_Name :: string
  csr_SourceVolumeId :: string
  csr_Parameters :: gomap
  csr_Secrets :: gomap

record CsiSnapshot =
  csn_SizeBytes :: int64
  csn_SnapshotId :: string
  csn_SourceVolumeId :: string
  csn_CreationTime :: int64
  csn_ReadyToUse :: bool

record CsiExpandRequest =
  exr_VolumeId :: string
  exr_RequiredBytes :: "int64 option"
  exr_Capability :: "VolumeCapability option"
  exr_Secrets :: gomap

record CsiExpandResponse =
  ers_CapacityBytes :: int64
  ers_NodeExpansionRequired :: bool

record CsiNodePublishRequest =
  np_VolumeId :: string
  np_PublishContext :: gomap
  np_StagingTargetPath :: string
  np_TargetPath :: string
  np_VolumeCapability :: "VolumeCapability option"
  np_Readonly :: bool
  np_Secrets :: gomap
  np_VolumeContext :: "gomap option"

text \<open>The getters of the capability may be called on a nil pointer: they read its zero values.\<close>

definition np_capability :: "CsiNodePublishRequest \<Rightarrow> VolumeCapability" where
  "np_capability req = (case np_VolumeCapability req of
     None \<Rightarrow> \<lparr>cap_AccessMode = None, cap_AccessType = NoAccessType\<rparr> | Some c \<Rightarrow> c)"

text \<open>\<^verbatim>\<open>req.GetVolumeContext()[k]\<close>\<close>

definition np_context :: "CsiNodePublishRequest \<Rightarrow> string \<Rightarrow> string" where
  "np_context req k = (case np_VolumeContext req of None \<Rightarrow> '''' | Some m \<Rightarrow> lookup m k)"

section \<open>Kubernetes objects\<close>

text \<open>\<open>Spec.CSI\<close> of a PersistentVolume is a pointer, and so is its secret reference.\<close>

record PersistentVolume =
  pv_Name :: string
  pv_ProvisionedBy :: string
  pv_Capacity :: int64
  pv_VolumeHandle :: "string option"
  pv_ControllerPublishSecretName :: "string option"
  pv_VolumeAttributes :: gomap

record KubeNode =
  kn_Name :: string
  kn_Labels :: gomap

record PVC =
  pvc_StorageClassName :: "string option"
  pvc_Annotations :: gomap

end
