(* ===== verification/Helpers.thy ===== *)
theory Helpers
  imports Driver_Types
begin

text \<open>
  The package \<open>helper\<close>: capacity rounding, YAML truth values, the per-volume lock set, the
  access-mode check of the controller, the unix-permission check.
\<close>

section \<open>helper/roundup.go\<close>

definition Bytes1G :: int64 where
  "Bytes1G = 1000000000"

definition RoundUp :: "int64 \<Rightarrow> int64" where
  "RoundUp input =
     (if input < Bytes1G then Bytes1G
      else if input > Bytes1G \<and> input < BytesInOneGibibyte then BytesInOneGibibyte
      else if go_mod input Bytes1G = 0 then input
      else if go_mod input BytesInOneGibibyte = 0 then input
      else (let GiWhole = go_div input BytesInOneGibibyte;
                RoundedUpGi = wrap64 (GiWhole + 1)
            in wrap64 (RoundedUpGi * BytesInOneGibibyte)))"

text \<open>A capacity the driver accepts as it is: a whole number of G or of Gi.\<close>

definition whole_capacity :: "int64 \<Rightarrow> bool" where
  "whole_capacity c \<longleftrightarrow> Bytes1G dvd c \<or> BytesInOneGibibyte dvd c"

lemmas capacity_defs = Bytes1G_def BytesInOneGibibyte_def

lemma next_multiple:
  fixes x g :: int
  assumes "0 < g"
  shows "x < (x div g + 1) * g" and "(x div g + 1) * g \<le> x + g"
    and "x mod g \<noteq> 0 \<Longrightarrow> (x div g + 1) * g < x + g"
proof -
  have "x div g * g + x mod g = x" by (rule div_mult_mod_eq)
  moreover have "0 \<le> x mod g" "x mod g < g" using assms by simp_all
  ultimately show "x < (x div g + 1) * g" and "(x div g + 1) * g \<le> x + g"
    and "x mod g \<noteq> 0 \<Longrightarrow> (x div g + 1) * g < x + g"
    unfolding distrib_right by linarith+
qed

lemma gibibyte_pos: "0 < BytesInOneGibibyte"
  by (simp add: BytesInOneGibibyte_def)

lemma RoundUp_fractional:
  assumes "BytesInOneGibibyte \<le> x" and "x < 2 ^ 63 - BytesInOneGibibyte"
    and "\<not> whole_capacity x"
  shows "RoundUp x = (x div BytesInOneGibibyte + 1) * BytesInOneGibibyte"
proof -
  let ?g = BytesInOneGibibyte
  have g: "?g = 1073741824" by (simp add: capacity_defs)
  have "0 \<le> x div ?g"
    using assms(1) gibibyte_pos by (simp add: pos_imp_zdiv_nonneg_iff)
  moreover have "(x div ?g + 1) * ?g < 2 ^ 63"
    using next_multiple(2) [OF gibibyte_pos, of x] assms(2) by linarith
  ultimately have "is_int64 (x div ?g + 1)" and "is_int64 ((x div ?g + 1) * ?g)"
    by (simp_all add: is_int64_def g)
  moreover have "go_mod x Bytes1G \<noteq> 0" and "go_mod x ?g \<noteq> 0"
    using assms by (auto simp: whole_capacity_def go_mod_nonneg capacity_defs)
  moreover have "go_div x ?g = x div ?g"
    using assms(1) by (simp add: go_div_nonneg capacity_defs)
  ultimately show ?thesis
    using assms(1) g by (simp add: RoundUp_def Let_def Bytes1G_def)
qed

lemma RoundUp_whole:
  "Bytes1G \<le> x \<Longrightarrow> whole_capacity x \<Longrightarrow> RoundUp x = x"
  by (auto simp: RoundUp_def whole_capacity_def go_mod_nonneg capacity_defs)

lemma RoundUp_cases:
  assumes "x < 2 ^ 63 - BytesInOneGibibyte"
  obtains (small) "x < Bytes1G" "RoundUp x = Bytes1G"
  | (whole) "Bytes1G \<le> x" "whole_capacity x" "RoundUp x = x"
  | (gap) "Bytes1G < x" "x < BytesInOneGibibyte" "RoundUp x = BytesInOneGibibyte"
  | (fractional) "BytesInOneGibibyte \<le> x" "\<not> whole_capacity x"
      "RoundUp x = (x div BytesInOneGibibyte + 1) * BytesInOneGibibyte"
proof -
  consider "x < Bytes1G" | "Bytes1G \<le> x" "whole_capacity x"
    | "Bytes1G < x" "x < BytesInOneGibibyte" | "BytesInOneGibibyte \<le> x" "\<not> whole_capacity x"
    by (cases "x = Bytes1G"; cases "whole_capacity x"; cases "x < Bytes1G";
        cases "x < BytesInOneGibibyte") (auto simp: whole_capacity_def)
  then show thesis
    using that assms RoundUp_whole RoundUp_fractional
    by cases (simp_all add: RoundUp_def)
qed

lemma whole_RoundUp: "x < 2 ^ 63 - BytesInOneGibibyte \<Longrightarrow> whole_capacity (RoundUp x)"
  by (erule RoundUp_cases) (auto simp: whole_capacity_def)

lemma RoundUp_ge: "x < 2 ^ 63 - BytesInOneGibibyte \<Longrightarrow> x \<le> RoundUp x"
proof (erule RoundUp_cases)
  assume "RoundUp x = (x div BytesInOneGibibyte + 1) * BytesInOneGibibyte"
  moreover have "x < (x div BytesInOneGibibyte + 1) * BytesInOneGibibyte"
    by (rule next_multiple(1) [OF gibibyte_pos])
  ultimately show "x \<le> RoundUp x" by simp
qed simp_all

lemma RoundUp_min:
  assumes "x < 2 ^ 63 - BytesInOneGibibyte"
  shows "Bytes1G \<le> RoundUp x"
proof (cases "x < Bytes1G")
  case True
  then show ?thesis by (simp add: RoundUp_def)
next
  case False
  with RoundUp_ge [OF assms] show ?thesis by simp
qed

lemma RoundUp_close:
  "Bytes1G \<le> x \<Longrightarrow> x < 2 ^ 63 - BytesInOneGibibyte \<Longrightarrow> RoundUp x < x + BytesInOneGibibyte"
proof (erule RoundUp_cases)
  assume f: "RoundUp x = (x div BytesInOneGibibyte + 1) * BytesInOneGibibyte"
    and n: "\<not> whole_capacity x"
  have "x mod BytesInOneGibibyte \<noteq> 0" using n by (auto simp: whole_capacity_def)
  then have "(x div BytesInOneGibibyte + 1) * BytesInOneGibibyte < x + BytesInOneGibibyte"
    by (rule next_multiple(3) [OF gibibyte_pos])
  with f show "RoundUp x < x + BytesInOneGibibyte" by simp
qed (simp_all add: capacity_defs)



section \<open>helper/yamltruthyness.go\<close>

definition getYamlBoolsFalse :: "string list" where
  "getYamlBoolsFalse = Split ''n|N|no|No|NO|false|False|FALSE|off|Off|OFF'' ''|''"

definition getYamlBoolsTrue :: "string list" where
  "getYamlBoolsTrue = Split ''y|Y|yes|Yes|YES|true|True|TRUE|on|On|ON'' ''|''"

definition YamlBoolToBool :: "string \<Rightarrow> bool res" where
  "YamlBoolToBool boolString =
     (if boolString \<in> set getYamlBoolsTrue then Ok True
      else if boolString \<in> set getYamlBoolsFalse then Ok False
      else Err (Errors_New (boolString @ '' is not a valid YAML boolean'')))"

section \<open>helper/volumelock.go\<close>

text \<open>The set of locked volume ids; the mutex of \<open>VolumeLocks\<close> makes each operation one step.\<close>

type_synonym VolumeLocks = "string set"

definition NewVolumeLocks :: VolumeLocks where
  "NewVolumeLocks = {}"

definition TryAcquire :: "VolumeLocks \<Rightarrow> string \<Rightarrow> bool \<times> VolumeLocks" where
  "TryAcquire vl volumeID = (if volumeID \<in> vl then (False, vl) else (True, insert volumeID vl))"

definition Release :: "VolumeLocks \<Rightarrow> string \<Rightarrow> VolumeLocks" where
  "Release vl volumeID = vl - {volumeID}"

text \<open>
  The contract of a set of locks and what its users get from it. A user is a request number; a
  state of the system is the lock set and who was granted what. A request asks for a key at any
  moment and gives back only a key it holds.
\<close>

inductive lock_step :: "('s \<Rightarrow> 'k \<Rightarrow> bool \<times> 's) \<Rightarrow> ('s \<Rightarrow> 'k \<Rightarrow> 's)
    \<Rightarrow> 's \<times> (nat \<times> 'k) set \<Rightarrow> 's \<times> (nat \<times> 'k) set \<Rightarrow> bool"
  for acquire release where
  granted: "acquire s k = (True, s') \<Longrightarrow>
     lock_step acquire release (s, owners) (s', insert (i, k) owners)"
| refused: "acquire s k = (False, s') \<Longrightarrow> lock_step acquire release (s, owners) (s', owners)"
| released: "(i, k) \<in> owners \<Longrightarrow>
     lock_step acquire release (s, owners) (release s k, owners - {(i, k)})"

inductive lock_reach :: "('s \<Rightarrow> 'k \<Rightarrow> bool \<times> 's) \<Rightarrow> ('s \<Rightarrow> 'k \<Rightarrow> 's) \<Rightarrow> 's
    \<Rightarrow> 's \<times> (nat \<times> 'k) set \<Rightarrow> bool"
  for acquire release start where
  init: "lock_reach acquire release start (start, {})"
| next_step: "lock_reach acquire release start s \<Longrightarrow> lock_step acquire release s t
     \<Longrightarrow> lock_reach acquire release start t"

locale lock_set =
  fixes acquire :: "'s \<Rightarrow> 'k \<Rightarrow> bool \<times> 's"
    and release :: "'s \<Rightarrow> 'k \<Rightarrow> 's"
    and start :: 's
    and locked :: "'s \<Rightarrow> 'k set"
  assumes locked_start: "locked start = {}"
    and acquire_free: "k \<notin> locked s \<Longrightarrow> fst (acquire s k) \<and> locked (snd (acquire s k)) = insert k (locked s)"
    and acquire_taken: "k \<in> locked s \<Longrightarrow> \<not> fst (acquire s k) \<and> locked (snd (acquire s k)) = locked s"
    and locked_release: "locked (release s k) = locked s - {k}"
begin

lemma agreement:
  assumes "lock_reach acquire release start st"
  shows "locked (fst st) = snd ` snd st \<and>
    (\<forall>i j k. (i, k) \<in> snd st \<longrightarrow> (j, k) \<in> snd st \<longrightarrow> i = j)"
  using assms
proof (induction rule: lock_reach.induct)
  case init
  show ?case by (simp add: locked_start)
next
  case (next_step s t)
  from next_step(2) next_step.IH show ?case
  proof (cases rule: lock_step.cases)
    case (granted s0 k s' owners i)
    have "k \<notin> locked s0" using granted acquire_taken [of k s0] by auto
    with granted acquire_free [of k s0] have l: "locked s' = insert k (locked s0)" by simp
    have "k \<notin> snd ` owners" using next_step.IH granted \<open>k \<notin> locked s0\<close> by simp
    then have "\<And>i. (i, k) \<notin> owners" by force
    with next_step.IH granted l show ?thesis by auto
  next
    case (refused s0 k s' owners)
    have "k \<in> locked s0" using refused acquire_free [of k s0] by auto
    with refused acquire_taken [of k s0] have "locked s' = locked s0" by simp
    with next_step.IH refused show ?thesis by simp
  next
    case (released i k owners s0)
    have "snd ` (owners - {(i, k)}) = snd ` owners - {k}"
      using next_step.IH released by force
    with next_step.IH released show ?thesis by (auto simp: locked_release)
  qed
qed

lemma exclusion:
  "lock_reach acquire release start (s, owners) \<Longrightarrow> (i, k) \<in> owners \<Longrightarrow> (j, k) \<in> owners \<Longrightarrow> i = j"
  using agreement [of "(s, owners)"] by auto

lemma granted_iff_free:
  "lock_reach acquire release start (s, owners) \<Longrightarrow> fst (acquire s k) \<longleftrightarrow> (\<forall>i. (i, k) \<notin> owners)"
  using agreement [of "(s, owners)"] acquire_free [of k s] acquire_taken [of k s] by force

end

interpretation volume_locks: lock_set TryAcquire Release NewVolumeLocks "\<lambda>vl. vl"
  by unfold_locales (auto simp: TryAcquire_def Release_def NewVolumeLocks_def)

text \<open>The lock set of the driver excludes: however requests take and give back the locks of volumes, no two
  requests ever hold the lock of the same volume, and a lock is granted exactly when nobody holds it.\<close>

theorem volume_lock_exclusion:
  assumes "lock_reach TryAcquire Release NewVolumeLocks (s, owners)"
  shows "((i, k) \<in> owners \<and> (j, k) \<in> owners \<longrightarrow> i = j) \<and> (fst (TryAcquire s k) \<longleftrightarrow> (\<forall>i. (i, k) \<notin> owners))"
  using volume_locks.exclusion [OF assms] volume_locks.granted_iff_free [OF assms] by blast

theorem volume_lock_exclusion_witness:
  "lock_reach TryAcquire Release NewVolumeLocks ({''7''}, {(1, ''7'')}) \<and> \<not> fst (TryAcquire {''7''} ''7'')"
proof -
  have "lock_step TryAcquire Release (NewVolumeLocks, {}) ({''7''}, insert (1, ''7'') {})"
    by (rule lock_step.granted) (simp add: TryAcquire_def NewVolumeLocks_def)
  then have reach: "lock_reach TryAcquire Release NewVolumeLocks ({''7''}, {(1, ''7'')})"
    by (rule lock_reach.next_step [OF lock_reach.init])
  with volume_lock_exclusion [OF reach, of 1 "''7''" 1] show ?thesis by auto
qed

section \<open>helper/accessmodes.go\<close>

definition write_modes :: "AccessMode list" where
  "write_modes = [SINGLE_NODE_WRITER, MULTI_NODE_SINGLE_WRITER, MULTI_NODE_MULTI_WRITER]"

definition read_modes :: "AccessMode list" where
  "read_modes = [SINGLE_NODE_READER_ONLY, MULTI_NODE_READER_ONLY]"

definition pub_mode :: "CsiPublishRequest \<Rightarrow> AccessMode" where
  "pub_mode req = (case pub_VolumeCapability req of None \<Rightarrow> AM_UNKNOWN | Some c \<Rightarrow> mode_of c)"

definition IsValidAccessMode :: "Volume \<Rightarrow> CsiPublishRequest \<Rightarrow> bool res" where
  "IsValidAccessMode volume req =
     (let reqAccessMode = pub_mode req in
      if reqAccessMode \<in> set write_modes then
        (if vol_WriteProtected volume
         then Err (Errors_New (''IBox Volume name '' @ vol_Name volume @ '' is write protected''))
         else Ok True)
      else if reqAccessMode \<in> set read_modes then Ok True
      else Err (Errors_New (''unsupported access mode for volume '' @ vol_Name volume)))"

definition IsValidAccessModeNfs :: "CsiPublishRequest \<Rightarrow> bool res" where
  "IsValidAccessModeNfs req =
     (let nfsExportPermission = pub_context req StorageClassNFSExportPermissions;
          isIboxExportReadonly = Contains nfsExportPermission
            [CHR 0x27, CHR ''a'', CHR ''c'', CHR ''c'', CHR ''e'', CHR ''s'', CHR ''s'', CHR 0x27,
             CHR '':'', CHR 0x27, CHR ''R'', CHR ''O'', CHR 0x27];
          exportVolPathd = pub_context req ''volPathd'';
          reqAccessMode = pub_mode req
      in if reqAccessMode \<in> set write_modes then
           (if isIboxExportReadonly
            then Err (Errors_New (''IBox NFS export name '' @ exportVolPathd @ '' is write protected''))
            else Ok True)
         else if reqAccessMode \<in> set read_modes then Ok True
         else Err (Errors_New (''unsupported access mode for NFS export '' @ exportVolPathd)))"

section \<open>helper/oshelper.go\<close>

definition ValidateUnixPermissions :: "string \<Rightarrow> unit res" where
  "ValidateUnixPermissions unixPermissions =
     (case ParseUint8_32 unixPermissions of
        None \<Rightarrow> Err (Errors_New (''Invalid Unix permissions '' @ unixPermissions))
      | Some _ \<Rightarrow> Ok ())"

end
