(* ===== verification/Ibox_Client.thy ===== *)
theory Ibox_Client
  imports Driver_Types
begin

text \<open>
  The remote parties of the controller: the interface \<open>iboxapi.Client\<close> of the InfiniBox and the
  Kubernetes client of \<open>api/clientgo\<close>, as records of answers. An answer may depend on the whole
  history of calls, so a record stands for any behaviour of the remote party, failures and changes
  made by others included. Every method of the interface records its call.

  A method that returns a pointer returns it exactly when it returns no error: that is how the
  methods of \<open>iboxapi.IboxClient\<close> are written, and it is the type given to them here. Two
  listings (\<open>GetVolumesByParentID\<close>, \<open>GetAllLunByHost\<close>) return the entries read so far together
  with an error, and a caller goes on with them: they return both.
\<close>

section \<open>Custom resources the controller creates\<close>

record RemoteFields =
  rf_RemoteIboxCredentialName :: string
  rf_RemoteIboxCredentialNamespace :: string
  rf_RemoteCreatePVC :: bool
  rf_RemotePVCNameSuffix :: string
  rf_RemotePVCName :: string
  rf_RemotePVCKubeconfigSecretName :: string
  rf_RemotePVCKubeconfigSecretNamespace :: string
  rf_RemotePVCNamespace :: string
  rf_RemoteNetworkSpace :: string
  rf_RemotePoolName :: string

record Iboxreplica =
  ir_Name :: string
  ir_SecretName :: string
  ir_SecretNamespace :: string
  ir_BaseAction :: string
  ir_Description :: string
  ir_EntityType :: string
  ir_LocalEntityName :: string
  ir_RemoteEntityName :: string
  ir_LinkRemoteSystemName :: string
  ir_ReplicationType :: string
  ir_RemotePoolID :: int
  ir_RemotePoolName :: string
  ir_RemoteIboxCredentialName :: string
  ir_RemoteIboxCredentialNamespace :: string
  ir_CreatePVC :: "RemoteFields option"

record Iboxcg =
  icg_Name :: string
  icg_SecretName :: string
  icg_SecretNamespace :: string
  icg_Description :: string
  icg_LocalCGName :: string
  icg_LocalVolumeName :: string
  icg_BaseAction :: string
  icg_CreatePVC :: "RemoteFields option"

section \<open>Calls\<close>

datatype (plugins only: code size) call =
    C_GetFeatures
  | C_GetPoolByName string
  | C_GetPoolByID int
  | C_DeleteVolume int
  | C_GetVolumeByName string
  | C_GetVolume int
  | C_UpdateVolume int Volume
  | C_CreateSnapshotVolume CreateSnapshotVolumeRequest
  | C_PromoteSnapshot int
  | C_GetVolumesByParentID int
  | C_GetNetworkSpaceByName string
  | C_GetHostByName string
  | C_CreateHost string
  | C_DeleteHost int
  | C_AddHostPort string string int
  | C_MapVolumeToHost int int int
  | C_GetAllLunByHost int
  | C_GetLunByHostVolume int int
  | C_UnMapVolumeFromHost int int
  | C_CreateVolume CreateVolumeRequest
  | C_GetMaxTreeqPerFs
  | C_GetConsistencyGroupByName string
  | C_GetFileSystemByName string
  | C_GetFileSystemsByPool int string
  | C_GetFileSystemsByParentID int
  | C_GetFileSystemByID int
  | C_CreateFileSystem CreateFileSystemRequest
  | C_DeleteFileSystem int
  | C_UpdateFileSystem int FileSystem
  | C_CreateFileSystemSnapshot FileSystemSnapshot
  | C_GetTreeqsByFileSystem int
  | C_UpdateTreeq int int UpdateTreeqRequest
  | C_CreateTreeq int CreateTreeqRequest
  | C_DeleteTreeq int int
  | C_GetTreeq int int
  | C_GetTreeqByName int string
  | C_GetExportsByFileSystemID int
  | C_GetExportByID int
  | C_DeleteExport int
  | C_CreateExport CreateExportRequest
  | C_UpdateExportPermissions Export ExportPathRef
  | C_PutMetadata int jsonmap
  | C_GetMetadata int
  | C_DeleteMetadata int
  | C_GetLinks
  | C_GetSystem
  | C_GetNtpStatus
  | C_GetAllSnapshots
  | C_GetAllHosts
  | C_AddHostSecurity gomap int
  | C_GetHostPort int string
  | C_GetLunsByVolume int
  | C_GetMaxFileSystems
  | C_GetFCPorts
  | C_GetConsistencyGroup int
  | C_DeleteConsistencyGroup int
  | C_CreateSnapshotGroup CreateSnapshotGroupRequest
  | C_GetMembersByCGID int
  | C_AddMemberToCG int int string
  | C_RemoveMemberFromCG int int
  | C_AddMemberToSnapshotGroup int int
  | C_CreateConsistencyGroup CreateConsistencyGroupRequest
  | C_GetLink int
  | C_CreateReplica CreateReplicaRequest
  | C_GetReplicas
  | C_DeleteReplica int
  | C_GetReplica int
  | C_GetReplicaForCG string
  | C_GetReplicaForLocalEntityName string
  | C_ResumeReplica int
  | C_SuspendReplica int
  | C_CreateEvent EventRequest
  | K_BuildClient
  | K_GetSecret string string
  | K_GetAllPersistentVolumes
  | K_GetStorageClass string
  | K_GetNodes
  | K_GetPVC string string
  | K_GetRunningDriverNodePods string
  | K_ExecCmdInPod string string string
  | K_GetClusterVersion
  | K_CreateIboxreplica Iboxreplica
  | K_CreateIboxcg Iboxcg
  | K_GetSecrets string
  | K_GetSecretContainsName string string

type_synonym 'a go = "(call, 'a) prog"

text \<open>The calls that change something on the InfiniBox or in the cluster.\<close>

fun mutating :: "call \<Rightarrow> bool" where
  "mutating (C_DeleteVolume x) = True"
| "mutating (C_UpdateVolume x y) = True"
| "mutating (C_CreateSnapshotVolume x) = True"
| "mutating (C_PromoteSnapshot x) = True"
| "mutating (C_CreateHost x) = True"
| "mutating (C_DeleteHost x) = True"
| "mutating (C_AddHostPort x y z) = True"
| "mutating (C_MapVolumeToHost x y z) = True"
| "mutating (C_UnMapVolumeFromHost x y) = True"
| "mutating (C_CreateVolume x) = True"
| "mutating (C_CreateFileSystem x) = True"
| "mutating (C_DeleteFileSystem x) = True"
| "mutating (C_UpdateFileSystem x y) = True"
| "mutating (C_CreateFileSystemSnapshot x) = True"
| "mutating (C_UpdateTreeq x y z) = True"
| "mutating (C_CreateTreeq x y) = True"
| "mutating (C_DeleteTreeq x y) = True"
| "mutating (C_DeleteExport x) = True"
| "mutating (C_CreateExport x) = True"
| "mutating (C_UpdateExportPermissions x y) = True"
| "mutating (C_PutMetadata x y) = True"
| "mutating (C_DeleteMetadata x) = True"
| "mutating (C_AddHostSecurity x y) = True"
| "mutating (C_DeleteConsistencyGroup x) = True"
| "mutating (C_CreateSnapshotGroup x) = True"
| "mutating (C_AddMemberToCG x y z) = True"
| "mutating (C_RemoveMemberFromCG x y) = True"
| "mutating (C_AddMemberToSnapshotGroup x y) = True"
| "mutating (C_CreateConsistencyGroup x) = True"
| "mutating (C_CreateReplica x) = True"
| "mutating (C_DeleteReplica x) = True"
| "mutating (C_ResumeReplica x) = True"
| "mutating (C_SuspendReplica x) = True"
| "mutating (C_CreateEvent x) = True"
| "mutating (K_CreateIboxreplica x) = True"
| "mutating (K_CreateIboxcg x) = True"
| "mutating _ = False"

section \<open>The InfiniBox\<close>

record Client =
  r_GetFeatures :: "call list \<Rightarrow> go_error + (FeatureResult list)"
  r_GetPoolByName :: "call list \<Rightarrow> string \<Rightarrow> go_error + PoolResult"
  r_GetPoolByID :: "call list \<Rightarrow> int \<Rightarrow> go_error + PoolResult"
  r_DeleteVolume :: "call list \<Rightarrow> int \<Rightarrow> go_error + unit"
  r_GetVolumeByName :: "call list \<Rightarrow> string \<Rightarrow> go_error + Volume"
  r_GetVolume :: "call list \<Rightarrow> int \<Rightarrow> go_error + Volume"
  r_UpdateVolume :: "call list \<Rightarrow> int \<Rightarrow> Volume \<Rightarrow> go_error + Volume"
  r_CreateSnapshotVolume :: "call list \<Rightarrow> CreateSnapshotVolumeRequest \<Rightarrow> go_error + Snapshot"
  r_PromoteSnapshot :: "call list \<Rightarrow> int \<Rightarrow> go_error + Volume"
  r_GetVolumesByParentID :: "call list \<Rightarrow> int \<Rightarrow> (Volume list \<times> go_error option)"
  r_GetNetworkSpaceByName :: "call list \<Rightarrow> string \<Rightarrow> go_error + NetworkSpace"
  r_GetHostByName :: "call list \<Rightarrow> string \<Rightarrow> go_error + Host"
  r_CreateHost :: "call list \<Rightarrow> string \<Rightarrow> go_error + Host"
  r_DeleteHost :: "call list \<Rightarrow> int \<Rightarrow> go_error + unit"
  r_AddHostPort :: "call list \<Rightarrow> string \<Rightarrow> string \<Rightarrow> int \<Rightarrow> go_error + unit"
  r_MapVolumeToHost :: "call list \<Rightarrow> int \<Rightarrow> int \<Rightarrow> int \<Rightarrow> go_error + LunInfo"
  r_GetAllLunByHost :: "call list \<Rightarrow> int \<Rightarrow> (LunInfo list \<times> go_error option)"
  r_GetLunByHostVolume :: "call list \<Rightarrow> int \<Rightarrow> int \<Rightarrow> go_error + LunInfo"
  r_UnMapVolumeFromHost :: "call list \<Rightarrow> int \<Rightarrow> int \<Rightarrow> go_error + unit"
  r_CreateVolume :: "call list \<Rightarrow> CreateVolumeRequest \<Rightarrow> go_error + Volume"
  r_GetMaxTreeqPerFs :: "call list \<Rightarrow> go_error + int"
  r_GetConsistencyGroupByName :: "call list \<Rightarrow> string \<Rightarrow> go_error + ConsistencyGroupInfo"
  r_GetFileSystemByName :: "call list \<Rightarrow> string \<Rightarrow> go_error + FileSystem"
  r_GetFileSystemsByPool :: "call list \<Rightarrow> int \<Rightarrow> string \<Rightarrow> go_error + (FileSystem list)"
  r_GetFileSystemsByParentID :: "call list \<Rightarrow> int \<Rightarrow> go_error + (FileSystem list)"
  r_GetFileSystemByID :: "call list \<Rightarrow> int \<Rightarrow> go_error + FileSystem"
  r_CreateFileSystem :: "call list \<Rightarrow> CreateFileSystemRequest \<Rightarrow> go_error + FileSystem"
  r_DeleteFileSystem :: "call list \<Rightarrow> int \<Rightarrow> go_error + unit"
  r_UpdateFileSystem :: "call list \<Rightarrow> int \<Rightarrow> FileSystem \<Rightarrow> go_error + FileSystem"
  r_CreateFileSystemSnapshot :: "call list \<Rightarrow> FileSystemSnapshot \<Rightarrow> go_error + FileSystemSnapshotResponse"
  r_GetTreeqsByFileSystem :: "call list \<Rightarrow> int \<Rightarrow> go_error + (Treeq list)"
  r_UpdateTreeq :: "call list \<Rightarrow> int \<Rightarrow> int \<Rightarrow> UpdateTreeqRequest \<Rightarrow> go_error + Treeq"
  r_CreateTreeq :: "call list \<Rightarrow> int \<Rightarrow> CreateTreeqRequest \<Rightarrow> go_error + Treeq"
  r_DeleteTreeq :: "call list \<Rightarrow> int \<Rightarrow> int \<Rightarrow> go_error + Treeq"
  r_GetTreeq :: "call list \<Rightarrow> int \<Rightarrow> int \<Rightarrow> go_error + Treeq"
  r_GetTreeqByName :: "call list \<Rightarrow> int \<Rightarrow> string \<Rightarrow> go_error + Treeq"
  r_GetExportsByFileSystemID :: "call list \<Rightarrow> int \<Rightarrow> go_error + (Export list)"
  r_GetExportByID :: "call list \<Rightarrow> int \<Rightarrow> go_error + Export"
  r_DeleteExport :: "call list \<Rightarrow> int \<Rightarrow> go_error + unit"
  r_CreateExport :: "call list \<Rightarrow> CreateExportRequest \<Rightarrow> go_error + Export"
  r_UpdateExportPermissions :: "call list \<Rightarrow> Export \<Rightarrow> ExportPathRef \<Rightarrow> go_error + Export"
  r_PutMetadata :: "call list \<Rightarrow> int \<Rightarrow> jsonmap \<Rightarrow> go_error + unit"
  r_GetMetadata :: "call list \<Rightarrow> int \<Rightarrow> go_error + (GetMetadataResult list)"
  r_DeleteMetadata :: "call list \<Rightarrow> int \<Rightarrow> go_error + unit"
  r_GetLinks :: "call list \<Rightarrow> go_error + (Link list)"
  r_GetSystem :: "call list \<Rightarrow> go_error + int"
  r_GetNtpStatus :: "call list \<Rightarrow> go_error + (NtpStatus list)"
  r_GetAllSnapshots :: "call list \<Rightarrow> go_error + (Volume list)"
  r_GetAllHosts :: "call list \<Rightarrow> go_error + (Host list)"
  r_AddHostSecurity :: "call list \<Rightarrow> gomap \<Rightarrow> int \<Rightarrow> go_error + unit"
  r_GetHostPort :: "call list \<Rightarrow> int \<Rightarrow> string \<Rightarrow> go_error + HostPort"
  r_GetLunsByVolume :: "call list \<Rightarrow> int \<Rightarrow> go_error + (LunInfo list)"
  r_GetMaxFileSystems :: "call list \<Rightarrow> go_error + int"
  r_GetFCPorts :: "call list \<Rightarrow> go_error + (FCNode list)"
  r_GetConsistencyGroup :: "call list \<Rightarrow> int \<Rightarrow> go_error + ConsistencyGroupInfo"
  r_DeleteConsistencyGroup :: "call list \<Rightarrow> int \<Rightarrow> go_error + unit"
  r_CreateSnapshotGroup :: "call list \<Rightarrow> CreateSnapshotGroupRequest \<Rightarrow> go_error + ConsistencyGroupInfo"
  r_GetMembersByCGID :: "call list \<Rightarrow> int \<Rightarrow> go_error + (MemberInfo list)"
  r_AddMemberToCG :: "call list \<Rightarrow> int \<Rightarrow> int \<Rightarrow> string \<Rightarrow> go_error + unit"
  r_RemoveMemberFromCG :: "call list \<Rightarrow> int \<Rightarrow> int \<Rightarrow> go_error + unit"
  r_AddMemberToSnapshotGroup :: "call list \<Rightarrow> int \<Rightarrow> int \<Rightarrow> go_error + unit"
  r_CreateConsistencyGroup :: "call list \<Rightarrow> CreateConsistencyGroupRequest \<Rightarrow> go_error + ConsistencyGroupInfo"
  r_GetLink :: "call list \<Rightarrow> int \<Rightarrow> go_error + Link"
  r_CreateReplica :: "call list \<Rightarrow> CreateReplicaRequest \<Rightarrow> go_error + Replica"
  r_GetReplicas :: "call list \<Rightarrow> go_error + (Replica list)"
  r_DeleteReplica :: "call list \<Rightarrow> int \<Rightarrow> go_error + unit"
  r_GetReplica :: "call list \<Rightarrow> int \<Rightarrow> go_error + Replica"
  r_GetReplicaForCG :: "call list \<Rightarrow> string \<Rightarrow> go_error + Replica"
  r_GetReplicaForLocalEntityName :: "call list \<Rightarrow> string \<Rightarrow> go_error + Replica"
  r_ResumeReplica :: "call list \<Rightarrow> int \<Rightarrow> go_error + unit"
  r_SuspendReplica :: "call list \<Rightarrow> int \<Rightarrow> go_error + unit"
  r_CreateEvent :: "call list \<Rightarrow> EventRequest \<Rightarrow> go_error + unit"

definition GetFeatures_api :: "Client \<Rightarrow> (FeatureResult list) go" where
  "GetFeatures_api c = invoke C_GetFeatures (\<lambda>h. r_GetFeatures c h)"

definition GetPoolByName_api :: "Client \<Rightarrow> string \<Rightarrow> PoolResult go" where
  "GetPoolByName_api c name = invoke (C_GetPoolByName name) (\<lambda>h. r_GetPoolByName c h name)"

definition GetPoolByID_api :: "Client \<Rightarrow> int \<Rightarrow> PoolResult go" where
  "GetPoolByID_api c poolID = invoke (C_GetPoolByID poolID) (\<lambda>h. r_GetPoolByID c h poolID)"

definition DeleteVolume_api :: "Client \<Rightarrow> int \<Rightarrow> unit go" where
  "DeleteVolume_api c volumeID = invoke (C_DeleteVolume volumeID) (\<lambda>h. r_DeleteVolume c h volumeID)"

definition GetVolumeByName_api :: "Client \<Rightarrow> string \<Rightarrow> Volume go" where
  "GetVolumeByName_api c volumeName = invoke (C_GetVolumeByName volumeName) (\<lambda>h. r_GetVolumeByName c h volumeName)"

definition GetVolume_api :: "Client \<Rightarrow> int \<Rightarrow> Volume go" where
  "GetVolume_api c volumeID = invoke (C_GetVolume volumeID) (\<lambda>h. r_GetVolume c h volumeID)"

definition UpdateVolume_api :: "Client \<Rightarrow> int \<Rightarrow> Volume \<Rightarrow> Volume go" where
  "UpdateVolume_api c volumeID volume = invoke (C_UpdateVolume volumeID volume) (\<lambda>h. r_UpdateVolume c h volumeID volume)"

definition CreateSnapshotVolume_api :: "Client \<Rightarrow> CreateSnapshotVolumeRequest \<Rightarrow> Snapshot go" where
  "CreateSnapshotVolume_api c snapshotParam = invoke (C_CreateSnapshotVolume snapshotParam) (\<lambda>h. r_CreateSnapshotVolume c h snapshotParam)"

definition PromoteSnapshot_api :: "Client \<Rightarrow> int \<Rightarrow> Volume go" where
  "PromoteSnapshot_api c snapshotID = invoke (C_PromoteSnapshot snapshotID) (\<lambda>h. r_PromoteSnapshot c h snapshotID)"

definition GetVolumesByParentID_api :: "Client \<Rightarrow> int \<Rightarrow> (Volume list \<times> go_error option) go" where
  "GetVolumesByParentID_api c parentID = invoke (C_GetVolumesByParentID parentID) (\<lambda>h. Inr (r_GetVolumesByParentID c h parentID))"

definition GetNetworkSpaceByName_api :: "Client \<Rightarrow> string \<Rightarrow> NetworkSpace go" where
  "GetNetworkSpaceByName_api c networkSpaceName = invoke (C_GetNetworkSpaceByName networkSpaceName) (\<lambda>h. r_GetNetworkSpaceByName c h networkSpaceName)"

definition GetHostByName_api :: "Client \<Rightarrow> string \<Rightarrow> Host go" where
  "GetHostByName_api c hostName = invoke (C_GetHostByName hostName) (\<lambda>h. r_GetHostByName c h hostName)"

definition CreateHost_api :: "Client \<Rightarrow> string \<Rightarrow> Host go" where
  "CreateHost_api c hostName = invoke (C_CreateHost hostName) (\<lambda>h. r_CreateHost c h hostName)"

definition DeleteHost_api :: "Client \<Rightarrow> int \<Rightarrow> unit go" where
  "DeleteHost_api c hostID = invoke (C_DeleteHost hostID) (\<lambda>h. r_DeleteHost c h hostID)"

definition AddHostPort_api :: "Client \<Rightarrow> string \<Rightarrow> string \<Rightarrow> int \<Rightarrow> unit go" where
  "AddHostPort_api c portType portAddress hostID = invoke (C_AddHostPort portType portAddress hostID) (\<lambda>h. r_AddHostPort c h portType portAddress hostID)"

definition MapVolumeToHost_api :: "Client \<Rightarrow> int \<Rightarrow> int \<Rightarrow> int \<Rightarrow> LunInfo go" where
  "MapVolumeToHost_api c hostID volumeID lun = invoke (C_MapVolumeToHost hostID volumeID lun) (\<lambda>h. r_MapVolumeToHost c h hostID volumeID lun)"

definition GetAllLunByHost_api :: "Client \<Rightarrow> int \<Rightarrow> (LunInfo list \<times> go_error option) go" where
  "GetAllLunByHost_api c hostID = invoke (C_GetAllLunByHost hostID) (\<lambda>h. Inr (r_GetAllLunByHost c h hostID))"

definition GetLunByHostVolume_api :: "Client \<Rightarrow> int \<Rightarrow> int \<Rightarrow> LunInfo go" where
  "GetLunByHostVolume_api c hostID volumeID = invoke (C_GetLunByHostVolume hostID volumeID) (\<lambda>h. r_GetLunByHostVolume c h hostID volumeID)"

definition UnMapVolumeFromHost_api :: "Client \<Rightarrow> int \<Rightarrow> int \<Rightarrow> unit go" where
  "UnMapVolumeFromHost_api c hostID volumeID = invoke (C_UnMapVolumeFromHost hostID volumeID) (\<lambda>h. r_UnMapVolumeFromHost c h hostID volumeID)"

definition CreateVolume_api :: "Client \<Rightarrow> CreateVolumeRequest \<Rightarrow> Volume go" where
  "CreateVolume_api c request = invoke (C_CreateVolume request) (\<lambda>h. r_CreateVolume c h request)"

definition GetMaxTreeqPerFs_api :: "Client \<Rightarrow> int go" where
  "GetMaxTreeqPerFs_api c = invoke C_GetMaxTreeqPerFs (\<lambda>h. r_GetMaxTreeqPerFs c h)"

definition GetConsistencyGroupByName_api :: "Client \<Rightarrow> string \<Rightarrow> ConsistencyGroupInfo go" where
  "GetConsistencyGroupByName_api c name = invoke (C_GetConsistencyGroupByName name) (\<lambda>h. r_GetConsistencyGroupByName c h name)"

definition GetFileSystemByName_api :: "Client \<Rightarrow> string \<Rightarrow> FileSystem go" where
  "GetFileSystemByName_api c name = invoke (C_GetFileSystemByName name) (\<lambda>h. r_GetFileSystemByName c h name)"

definition GetFileSystemsByPool_api :: "Client \<Rightarrow> int \<Rightarrow> string \<Rightarrow> (FileSystem list) go" where
  "GetFileSystemsByPool_api c poolID fsPrefix = invoke (C_GetFileSystemsByPool poolID fsPrefix) (\<lambda>h. r_GetFileSystemsByPool c h poolID fsPrefix)"

definition GetFileSystemsByParentID_api :: "Client \<Rightarrow> int \<Rightarrow> (FileSystem list) go" where
  "GetFileSystemsByParentID_api c parentID = invoke (C_GetFileSystemsByParentID parentID) (\<lambda>h. r_GetFileSystemsByParentID c h parentID)"

definition GetFileSystemByID_api :: "Client \<Rightarrow> int \<Rightarrow> FileSystem go" where
  "GetFileSystemByID_api c fileSystemID = invoke (C_GetFileSystemByID fileSystemID) (\<lambda>h. r_GetFileSystemByID c h fileSystemID)"

definition CreateFileSystem_api :: "Client \<Rightarrow> CreateFileSystemRequest \<Rightarrow> FileSystem go" where
  "CreateFileSystem_api c request = invoke (C_CreateFileSystem request) (\<lambda>h. r_CreateFileSystem c h request)"

definition DeleteFileSystem_api :: "Client \<Rightarrow> int \<Rightarrow> unit go" where
  "DeleteFileSystem_api c fileSystemID = invoke (C_DeleteFileSystem fileSystemID) (\<lambda>h. r_DeleteFileSystem c h fileSystemID)"

definition UpdateFileSystem_api :: "Client \<Rightarrow> int \<Rightarrow> FileSystem \<Rightarrow> FileSystem go" where
  "UpdateFileSystem_api c fileSystemID fileSystem = invoke (C_UpdateFileSystem fileSystemID fileSystem) (\<lambda>h. r_UpdateFileSystem c h fileSystemID fileSystem)"

definition CreateFileSystemSnapshot_api :: "Client \<Rightarrow> FileSystemSnapshot \<Rightarrow> FileSystemSnapshotResponse go" where
  "CreateFileSystemSnapshot_api c snapshotParam = invoke (C_CreateFileSystemSnapshot snapshotParam) (\<lambda>h. r_CreateFileSystemSnapshot c h snapshotParam)"

definition GetTreeqsByFileSystem_api :: "Client \<Rightarrow> int \<Rightarrow> (Treeq list) go" where
  "GetTreeqsByFileSystem_api c filesystemID = invoke (C_GetTreeqsByFileSystem filesystemID) (\<lambda>h. r_GetTreeqsByFileSystem c h filesystemID)"

definition UpdateTreeq_api :: "Client \<Rightarrow> int \<Rightarrow> int \<Rightarrow> UpdateTreeqRequest \<Rightarrow> Treeq go" where
  "UpdateTreeq_api c fileSystemID treeqID body = invoke (C_UpdateTreeq fileSystemID treeqID body) (\<lambda>h. r_UpdateTreeq c h fileSystemID treeqID body)"

definition CreateTreeq_api :: "Client \<Rightarrow> int \<Rightarrow> CreateTreeqRequest \<Rightarrow> Treeq go" where
  "CreateTreeq_api c filesystemID treeqParameter = invoke (C_CreateTreeq filesystemID treeqParameter) (\<lambda>h. r_CreateTreeq c h filesystemID treeqParameter)"

definition DeleteTreeq_api :: "Client \<Rightarrow> int \<Rightarrow> int \<Rightarrow> Treeq go" where
  "DeleteTreeq_api c fileSystemID treeqID = invoke (C_DeleteTreeq fileSystemID treeqID) (\<lambda>h. r_DeleteTreeq c h fileSystemID treeqID)"

definition GetTreeq_api :: "Client \<Rightarrow> int \<Rightarrow> int \<Rightarrow> Treeq go" where
  "GetTreeq_api c fileSystemID treeqID = invoke (C_GetTreeq fileSystemID treeqID) (\<lambda>h. r_GetTreeq c h fileSystemID treeqID)"

definition GetTreeqByName_api :: "Client \<Rightarrow> int \<Rightarrow> string \<Rightarrow> Treeq go" where
  "GetTreeqByName_api c fileSystemID treeqName = invoke (C_GetTreeqByName fileSystemID treeqName) (\<lambda>h. r_GetTreeqByName c h fileSystemID treeqName)"

definition GetExportsByFileSystemID_api :: "Client \<Rightarrow> int \<Rightarrow> (Export list) go" where
  "GetExportsByFileSystemID_api c filesystemID = invoke (C_GetExportsByFileSystemID filesystemID) (\<lambda>h. r_GetExportsByFileSystemID c h filesystemID)"

definition GetExportByID_api :: "Client \<Rightarrow> int \<Rightarrow> Export go" where
  "GetExportByID_api c exportID = invoke (C_GetExportByID exportID) (\<lambda>h. r_GetExportByID c h exportID)"

definition DeleteExport_api :: "Client \<Rightarrow> int \<Rightarrow> unit go" where
  "DeleteExport_api c exportID = invoke (C_DeleteExport exportID) (\<lambda>h. r_DeleteExport c h exportID)"

definition CreateExport_api :: "Client \<Rightarrow> CreateExportRequest \<Rightarrow> Export go" where
  "CreateExport_api c request = invoke (C_CreateExport request) (\<lambda>h. r_CreateExport c h request)"

definition UpdateExportPermissions_api :: "Client \<Rightarrow> Export \<Rightarrow> ExportPathRef \<Rightarrow> Export go" where
  "UpdateExportPermissions_api c export exportPathRef = invoke (C_UpdateExportPermissions export exportPathRef) (\<lambda>h. r_UpdateExportPermissions c h export exportPathRef)"

definition PutMetadata_api :: "Client \<Rightarrow> int \<Rightarrow> jsonmap \<Rightarrow> unit go" where
  "PutMetadata_api c objectID metadata = invoke (C_PutMetadata objectID metadata) (\<lambda>h. r_PutMetadata c h objectID metadata)"

definition GetMetadata_api :: "Client \<Rightarrow> int \<Rightarrow> (GetMetadataResult list) go" where
  "GetMetadata_api c objectID = invoke (C_GetMetadata objectID) (\<lambda>h. r_GetMetadata c h objectID)"

definition DeleteMetadata_api :: "Client \<Rightarrow> int \<Rightarrow> unit go" where
  "DeleteMetadata_api c objectID = invoke (C_DeleteMetadata objectID) (\<lambda>h. r_DeleteMetadata c h objectID)"

definition GetLinks_api :: "Client \<Rightarrow> (Link list) go" where
  "GetLinks_api c = invoke C_GetLinks (\<lambda>h. r_GetLinks c h)"

definition GetSystem_api :: "Client \<Rightarrow> int go" where
  "GetSystem_api c = invoke C_GetSystem (\<lambda>h. r_GetSystem c h)"

definition GetNtpStatus_api :: "Client \<Rightarrow> (NtpStatus list) go" where
  "GetNtpStatus_api c = invoke C_GetNtpStatus (\<lambda>h. r_GetNtpStatus c h)"

definition GetAllSnapshots_api :: "Client \<Rightarrow> (Volume list) go" where
  "GetAllSnapshots_api c = invoke C_GetAllSnapshots (\<lambda>h. r_GetAllSnapshots c h)"

definition GetAllHosts_api :: "Client \<Rightarrow> (Host list) go" where
  "GetAllHosts_api c = invoke C_GetAllHosts (\<lambda>h. r_GetAllHosts c h)"

definition AddHostSecurity_api :: "Client \<Rightarrow> gomap \<Rightarrow> int \<Rightarrow> unit go" where
  "AddHostSecurity_api c chapCreds hostID = invoke (C_AddHostSecurity chapCreds hostID) (\<lambda>h. r_AddHostSecurity c h chapCreds hostID)"

definition GetHostPort_api :: "Client \<Rightarrow> int \<Rightarrow> string \<Rightarrow> HostPort go" where
  "GetHostPort_api c hostID portAddress = invoke (C_GetHostPort hostID portAddress) (\<lambda>h. r_GetHostPort c h hostID portAddress)"

definition GetLunsByVolume_api :: "Client \<Rightarrow> int \<Rightarrow> (LunInfo list) go" where
  "GetLunsByVolume_api c volumeID = invoke (C_GetLunsByVolume volumeID) (\<lambda>h. r_GetLunsByVolume c h volumeID)"

definition GetMaxFileSystems_api :: "Client \<Rightarrow> int go" where
  "GetMaxFileSystems_api c = invoke C_GetMaxFileSystems (\<lambda>h. r_GetMaxFileSystems c h)"

definition GetFCPorts_api :: "Client \<Rightarrow> (FCNode list) go" where
  "GetFCPorts_api c = invoke C_GetFCPorts (\<lambda>h. r_GetFCPorts c h)"

definition GetConsistencyGroup_api :: "Client \<Rightarrow> int \<Rightarrow> ConsistencyGroupInfo go" where
  "GetConsistencyGroup_api c cgID = invoke (C_GetConsistencyGroup cgID) (\<lambda>h. r_GetConsistencyGroup c h cgID)"

definition DeleteConsistencyGroup_api :: "Client \<Rightarrow> int \<Rightarrow> unit go" where
  "DeleteConsistencyGroup_api c cgID = invoke (C_DeleteConsistencyGroup cgID) (\<lambda>h. r_DeleteConsistencyGroup c h cgID)"

definition CreateSnapshotGroup_api :: "Client \<Rightarrow> CreateSnapshotGroupRequest \<Rightarrow> ConsistencyGroupInfo go" where
  "CreateSnapshotGroup_api c request = invoke (C_CreateSnapshotGroup request) (\<lambda>h. r_CreateSnapshotGroup c h request)"

definition GetMembersByCGID_api :: "Client \<Rightarrow> int \<Rightarrow> (MemberInfo list) go" where
  "GetMembersByCGID_api c cgID = invoke (C_GetMembersByCGID cgID) (\<lambda>h. r_GetMembersByCGID c h cgID)"

definition AddMemberToCG_api :: "Client \<Rightarrow> int \<Rightarrow> int \<Rightarrow> string \<Rightarrow> unit go" where
  "AddMemberToCG_api c volumeID cgID volumeName = invoke (C_AddMemberToCG volumeID cgID volumeName) (\<lambda>h. r_AddMemberToCG c h volumeID cgID volumeName)"

definition RemoveMemberFromCG_api :: "Client \<Rightarrow> int \<Rightarrow> int \<Rightarrow> unit go" where
  "RemoveMemberFromCG_api c cgID memberID = invoke (C_RemoveMemberFromCG cgID memberID) (\<lambda>h. r_RemoveMemberFromCG c h cgID memberID)"

definition AddMemberToSnapshotGroup_api :: "Client \<Rightarrow> int \<Rightarrow> int \<Rightarrow> unit go" where
  "AddMemberToSnapshotGroup_api c volumeID cgID = invoke (C_AddMemberToSnapshotGroup volumeID cgID) (\<lambda>h. r_AddMemberToSnapshotGroup c h volumeID cgID)"

definition CreateConsistencyGroup_api :: "Client \<Rightarrow> CreateConsistencyGroupRequest \<Rightarrow> ConsistencyGroupInfo go" where
  "CreateConsistencyGroup_api c request = invoke (C_CreateConsistencyGroup request) (\<lambda>h. r_CreateConsistencyGroup c h request)"

definition GetLink_api :: "Client \<Rightarrow> int \<Rightarrow> Link go" where
  "GetLink_api c linkID = invoke (C_GetLink linkID) (\<lambda>h. r_GetLink c h linkID)"

definition CreateReplica_api :: "Client \<Rightarrow> CreateReplicaRequest \<Rightarrow> Replica go" where
  "CreateReplica_api c request = invoke (C_CreateReplica request) (\<lambda>h. r_CreateReplica c h request)"

definition GetReplicas_api :: "Client \<Rightarrow> (Replica list) go" where
  "GetReplicas_api c = invoke C_GetReplicas (\<lambda>h. r_GetReplicas c h)"

definition DeleteReplica_api :: "Client \<Rightarrow> int \<Rightarrow> unit go" where
  "DeleteReplica_api c replicaID = invoke (C_DeleteReplica replicaID) (\<lambda>h. r_DeleteReplica c h replicaID)"

definition GetReplica_api :: "Client \<Rightarrow> int \<Rightarrow> Replica go" where
  "GetReplica_api c replicaID = invoke (C_GetReplica replicaID) (\<lambda>h. r_GetReplica c h replicaID)"

definition GetReplicaForCG_api :: "Client \<Rightarrow> string \<Rightarrow> Replica go" where
  "GetReplicaForCG_api c cgName = invoke (C_GetReplicaForCG cgName) (\<lambda>h. r_GetReplicaForCG c h cgName)"

definition GetReplicaForLocalEntityName_api :: "Client \<Rightarrow> string \<Rightarrow> Replica go" where
  "GetReplicaForLocalEntityName_api c localEntityName = invoke (C_GetReplicaForLocalEntityName localEntityName) (\<lambda>h. r_GetReplicaForLocalEntityName c h localEntityName)"

definition ResumeReplica_api :: "Client \<Rightarrow> int \<Rightarrow> unit go" where
  "ResumeReplica_api c replicaID = invoke (C_ResumeReplica replicaID) (\<lambda>h. r_ResumeReplica c h replicaID)"

definition SuspendReplica_api :: "Client \<Rightarrow> int \<Rightarrow> unit go" where
  "SuspendReplica_api c replicaID = invoke (C_SuspendReplica replicaID) (\<lambda>h. r_SuspendReplica c h replicaID)"

definition CreateEvent_api :: "Client \<Rightarrow> EventRequest \<Rightarrow> unit go" where
  "CreateEvent_api c request = invoke (C_CreateEvent request) (\<lambda>h. r_CreateEvent c h request)"

lemmas ibox_api_defs [wp_simps] =
  GetFeatures_api_def
  GetPoolByName_api_def
  GetPoolByID_api_def
  DeleteVolume_api_def
  GetVolumeByName_api_def
  GetVolume_api_def
  UpdateVolume_api_def
  CreateSnapshotVolume_api_def
  PromoteSnapshot_api_def
  GetVolumesByParentID_api_def
  GetNetworkSpaceByName_api_def
  GetHostByName_api_def
  CreateHost_api_def
  DeleteHost_api_def
  AddHostPort_api_def
  MapVolumeToHost_api_def
  GetAllLunByHost_api_def
  GetLunByHostVolume_api_def
  UnMapVolumeFromHost_api_def
  CreateVolume_api_def
  GetMaxTreeqPerFs_api_def
  GetConsistencyGroupByName_api_def
  GetFileSystemByName_api_def
  GetFileSystemsByPool_api_def
  GetFileSystemsByParentID_api_def
  GetFileSystemByID_api_def
  CreateFileSystem_api_def
  DeleteFileSystem_api_def
  UpdateFileSystem_api_def
  CreateFileSystemSnapshot_api_def
  GetTreeqsByFileSystem_api_def
  UpdateTreeq_api_def
  CreateTreeq_api_def
  DeleteTreeq_api_def
  GetTreeq_api_def
  GetTreeqByName_api_def
  GetExportsByFileSystemID_api_def
  GetExportByID_api_def
  DeleteExport_api_def
  CreateExport_api_def
  UpdateExportPermissions_api_def
  PutMetadata_api_def
  GetMetadata_api_def
  DeleteMetadata_api_def
  GetLinks_api_def
  GetSystem_api_def
  GetNtpStatus_api_def
  GetAllSnapshots_api_def
  GetAllHosts_api_def
  AddHostSecurity_api_def
  GetHostPort_api_def
  GetLunsByVolume_api_def
  GetMaxFileSystems_api_def
  GetFCPorts_api_def
  GetConsistencyGroup_api_def
  DeleteConsistencyGroup_api_def
  CreateSnapshotGroup_api_def
  GetMembersByCGID_api_def
  AddMemberToCG_api_def
  RemoveMemberFromCG_api_def
  AddMemberToSnapshotGroup_api_def
  CreateConsistencyGroup_api_def
  GetLink_api_def
  CreateReplica_api_def
  GetReplicas_api_def
  DeleteReplica_api_def
  GetReplica_api_def
  GetReplicaForCG_api_def
  GetReplicaForLocalEntityName_api_def
  ResumeReplica_api_def
  SuspendReplica_api_def
  CreateEvent_api_def

section \<open>Kubernetes\<close>

record KubeClient =
  kr_BuildClient :: "call list \<Rightarrow> go_error + unit"
  kr_GetSecret :: "call list \<Rightarrow> string \<Rightarrow> string \<Rightarrow> go_error + gomap"
  kr_GetAllPersistentVolumes :: "call list \<Rightarrow> go_error + (PersistentVolume list)"
  kr_GetStorageClass :: "call list \<Rightarrow> string \<Rightarrow> go_error + gomap"
  kr_GetNodes :: "call list \<Rightarrow> go_error + (KubeNode list)"
  kr_GetPVC :: "call list \<Rightarrow> string \<Rightarrow> string \<Rightarrow> go_error + PVC"
  kr_GetRunningDriverNodePods :: "call list \<Rightarrow> string \<Rightarrow> go_error + (string list)"
  kr_ExecCmdInPod :: "call list \<Rightarrow> string \<Rightarrow> string \<Rightarrow> string \<Rightarrow> go_error + (string \<times> string)"
  kr_GetClusterVersion :: "call list \<Rightarrow> go_error + string"
  kr_CreateIboxreplica :: "call list \<Rightarrow> Iboxreplica \<Rightarrow> go_error + unit"
  kr_CreateIboxcg :: "call list \<Rightarrow> Iboxcg \<Rightarrow> go_error + unit"
  kr_GetSecrets :: "call list \<Rightarrow> string \<Rightarrow> go_error + (gomap list)"
  kr_GetSecretContainsName :: "call list \<Rightarrow> string \<Rightarrow> string \<Rightarrow> go_error + gomap"

definition BuildClient_kube :: "KubeClient \<Rightarrow> unit go" where
  "BuildClient_kube c = invoke K_BuildClient (\<lambda>h. kr_BuildClient c h)"

definition GetSecret_kube :: "KubeClient \<Rightarrow> string \<Rightarrow> string \<Rightarrow> gomap go" where
  "GetSecret_kube c secretName namespace = invoke (K_GetSecret secretName namespace) (\<lambda>h. kr_GetSecret c h secretName namespace)"

definition GetAllPersistentVolumes_kube :: "KubeClient \<Rightarrow> (PersistentVolume list) go" where
  "GetAllPersistentVolumes_kube c = invoke K_GetAllPersistentVolumes (\<lambda>h. kr_GetAllPersistentVolumes c h)"

definition GetStorageClass_kube :: "KubeClient \<Rightarrow> string \<Rightarrow> gomap go" where
  "GetStorageClass_kube c scName = invoke (K_GetStorageClass scName) (\<lambda>h. kr_GetStorageClass c h scName)"

definition GetNodes_kube :: "KubeClient \<Rightarrow> (KubeNode list) go" where
  "GetNodes_kube c = invoke K_GetNodes (\<lambda>h. kr_GetNodes c h)"

definition GetPVC_kube :: "KubeClient \<Rightarrow> string \<Rightarrow> string \<Rightarrow> PVC go" where
  "GetPVC_kube c namespace name = invoke (K_GetPVC namespace name) (\<lambda>h. kr_GetPVC c h namespace name)"

definition GetRunningDriverNodePods_kube :: "KubeClient \<Rightarrow> string \<Rightarrow> (string list) go" where
  "GetRunningDriverNodePods_kube c namespace = invoke (K_GetRunningDriverNodePods namespace) (\<lambda>h. kr_GetRunningDriverNodePods c h namespace)"

definition ExecCmdInPod_kube :: "KubeClient \<Rightarrow> string \<Rightarrow> string \<Rightarrow> string \<Rightarrow> (string \<times> string) go" where
  "ExecCmdInPod_kube c podName namespace command = invoke (K_ExecCmdInPod podName namespace command) (\<lambda>h. kr_ExecCmdInPod c h podName namespace command)"

definition GetClusterVersion_kube :: "KubeClient \<Rightarrow> string go" where
  "GetClusterVersion_kube c = invoke K_GetClusterVersion (\<lambda>h. kr_GetClusterVersion c h)"

definition CreateIboxreplica_kube :: "KubeClient \<Rightarrow> Iboxreplica \<Rightarrow> unit go" where
  "CreateIboxreplica_kube c replica = invoke (K_CreateIboxreplica replica) (\<lambda>h. kr_CreateIboxreplica c h replica)"

definition CreateIboxcg_kube :: "KubeClient \<Rightarrow> Iboxcg \<Rightarrow> unit go" where
  "CreateIboxcg_kube c cg = invoke (K_CreateIboxcg cg) (\<lambda>h. kr_CreateIboxcg c h cg)"

definition GetSecrets_kube :: "KubeClient \<Rightarrow> string \<Rightarrow> (gomap list) go" where
  "GetSecrets_kube c namespace = invoke (K_GetSecrets namespace) (\<lambda>h. kr_GetSecrets c h namespace)"

definition GetSecretContainsName_kube :: "KubeClient \<Rightarrow> string \<Rightarrow> string \<Rightarrow> gomap go" where
  "GetSecretContainsName_kube c namespace name = invoke (K_GetSecretContainsName namespace name) (\<lambda>h. kr_GetSecretContainsName c h namespace name)"

lemmas kube_defs [wp_simps] =
  BuildClient_kube_def
  GetSecret_kube_def
  GetAllPersistentVolumes_kube_def
  GetStorageClass_kube_def
  GetNodes_kube_def
  GetPVC_kube_def
  GetRunningDriverNodePods_kube_def
  ExecCmdInPod_kube_def
  GetClusterVersion_kube_def
  CreateIboxreplica_kube_def
  CreateIboxcg_kube_def
  GetSecrets_kube_def
  GetSecretContainsName_kube_def

section \<open>The environment of the driver process\<close>

text \<open>
  The process environment (\<open>os.Getenv\<close>), the clock, the random choice of \<open>math/rand\<close>, the
  InfiniBox reached with given credentials and the cluster; \<open>net/url\<close>: the scheme and the canonical
  text of a parsed address, and whether \<open>url.ParseRequestURI\<close> accepts an address. \<open>stack_depth\<close> is
  how deep a recursion may go before the goroutine's stack overflows, which crashes the process.
  \<open>net_ParseIP\<close> gives the bytes of an address (none for text that is no address) and
  \<open>json_Unmarshal_maps\<close> decodes a JSON array of objects.
\<close>

record Env =
  getenv :: "string \<Rightarrow> string"
  now :: "call list \<Rightarrow> int64"
  rand_Intn :: "call list \<Rightarrow> nat \<Rightarrow> nat"
  unix_text :: "int64 \<Rightarrow> string"
  dial :: "Credentials \<Rightarrow> Client"
  cluster :: KubeClient
  url_Parse :: "string \<Rightarrow> (string \<times> string) option"
  url_ParseRequestURI :: "string \<Rightarrow> bool"
  stack_depth :: nat
  net_ParseIP :: "string \<Rightarrow> nat list"
  json_Unmarshal_maps :: "string \<Rightarrow> jsonmap list option"

definition read_clock :: "Env \<Rightarrow> int64 go" where
  "read_clock E = (\<lambda>h. (Ok (now E h), []))"

lemma run_read_clock [go_run, simp]: "read_clock E h = (Ok (now E h), [])"
  by (simp add: read_clock_def)

lemma wp_read_clock [wp_simps]: "wp (read_clock E) h Q = Q (Ok (now E h)) []"
  by (simp add: wp_def result_of_def calls_of_def)

lemma only_read_clock [only_intros]: "only P (read_clock E)"
  by (simp add: only_def calls_of_def)

lemma allows_read_clock [allows_intros]: "allows P (read_clock E)"
  by (simp add: allows_def wp_read_clock)

lemma safe_read_clock [safe_intros]: "safe (read_clock E)"
  by (simp add: safe_def)

section \<open>Which call a method makes\<close>

lemma only_api [only_intros]:
  shows only_GetFeatures_api: "P C_GetFeatures \<Longrightarrow> only P (GetFeatures_api c)"
    and only_GetPoolByName_api: "P (C_GetPoolByName x1) \<Longrightarrow> only P (GetPoolByName_api c x1)"
    and only_GetPoolByID_api: "P (C_GetPoolByID x2) \<Longrightarrow> only P (GetPoolByID_api c x2)"
    and only_DeleteVolume_api: "P (C_DeleteVolume x3) \<Longrightarrow> only P (DeleteVolume_api c x3)"
    and only_GetVolumeByName_api: "P (C_GetVolumeByName x4) \<Longrightarrow> only P (GetVolumeByName_api c x4)"
    and only_GetVolume_api: "P (C_GetVolume x5) \<Longrightarrow> only P (GetVolume_api c x5)"
    and only_UpdateVolume_api: "P (C_UpdateVolume x6 x7) \<Longrightarrow> only P (UpdateVolume_api c x6 x7)"
    and only_CreateSnapshotVolume_api: "P (C_CreateSnapshotVolume x8) \<Longrightarrow> only P (CreateSnapshotVolume_api c x8)"
    and only_PromoteSnapshot_api: "P (C_PromoteSnapshot x9) \<Longrightarrow> only P (PromoteSnapshot_api c x9)"
    and only_GetVolumesByParentID_api: "P (C_GetVolumesByParentID x10) \<Longrightarrow> only P (GetVolumesByParentID_api c x10)"
    and only_GetNetworkSpaceByName_api: "P (C_GetNetworkSpaceByName x11) \<Longrightarrow> only P (GetNetworkSpaceByName_api c x11)"
    and only_GetHostByName_api: "P (C_GetHostByName x12) \<Longrightarrow> only P (GetHostByName_api c x12)"
    and only_CreateHost_api: "P (C_CreateHost x13) \<Longrightarrow> only P (CreateHost_api c x13)"
    and only_DeleteHost_api: "P (C_DeleteHost x14) \<Longrightarrow> only P (DeleteHost_api c x14)"
    and only_AddHostPort_api: "P (C_AddHostPort x15 x16 x17) \<Longrightarrow> only P (AddHostPort_api c x15 x16 x17)"
    and only_MapVolumeToHost_api: "P (C_MapVolumeToHost x18 x19 x20) \<Longrightarrow> only P (MapVolumeToHost_api c x18 x19 x20)"
    and only_GetAllLunByHost_api: "P (C_GetAllLunByHost x21) \<Longrightarrow> only P (GetAllLunByHost_api c x21)"
    and only_GetLunByHostVolume_api: "P (C_GetLunByHostVolume x22 x23) \<Longrightarrow> only P (GetLunByHostVolume_api c x22 x23)"
    and only_UnMapVolumeFromHost_api: "P (C_UnMapVolumeFromHost x24 x25) \<Longrightarrow> only P (UnMapVolumeFromHost_api c x24 x25)"
    and only_CreateVolume_api: "P (C_CreateVolume x26) \<Longrightarrow> only P (CreateVolume_api c x26)"
    and only_GetMaxTreeqPerFs_api: "P C_GetMaxTreeqPerFs \<Longrightarrow> only P (GetMaxTreeqPerFs_api c)"
    and only_GetConsistencyGroupByName_api: "P (C_GetConsistencyGroupByName x27) \<Longrightarrow> only P (GetConsistencyGroupByName_api c x27)"
    and only_GetFileSystemByName_api: "P (C_GetFileSystemByName x28) \<Longrightarrow> only P (GetFileSystemByName_api c x28)"
    and only_GetFileSystemsByPool_api: "P (C_GetFileSystemsByPool x29 x30) \<Longrightarrow> only P (GetFileSystemsByPool_api c x29 x30)"
    and only_GetFileSystemsByParentID_api: "P (C_GetFileSystemsByParentID x31) \<Longrightarrow> only P (GetFileSystemsByParentID_api c x31)"
    and only_GetFileSystemByID_api: "P (C_GetFileSystemByID x32) \<Longrightarrow> only P (GetFileSystemByID_api c x32)"
    and only_CreateFileSystem_api: "P (C_CreateFileSystem x33) \<Longrightarrow> only P (CreateFileSystem_api c x33)"
    and only_DeleteFileSystem_api: "P (C_DeleteFileSystem x34) \<Longrightarrow> only P (DeleteFileSystem_api c x34)"
    and only_UpdateFileSystem_api: "P (C_UpdateFileSystem x35 x36) \<Longrightarrow> only P (UpdateFileSystem_api c x35 x36)"
    and only_CreateFileSystemSnapshot_api: "P (C_CreateFileSystemSnapshot x37) \<Longrightarrow> only P (CreateFileSystemSnapshot_api c x37)"
    and only_GetTreeqsByFileSystem_api: "P (C_GetTreeqsByFileSystem x38) \<Longrightarrow> only P (GetTreeqsByFileSystem_api c x38)"
    and only_UpdateTreeq_api: "P (C_UpdateTreeq x39 x40 x41) \<Longrightarrow> only P (UpdateTreeq_api c x39 x40 x41)"
    and only_CreateTreeq_api: "P (C_CreateTreeq x42 x43) \<Longrightarrow> only P (CreateTreeq_api c x42 x43)"
    and only_DeleteTreeq_api: "P (C_DeleteTreeq x44 x45) \<Longrightarrow> only P (DeleteTreeq_api c x44 x45)"
    and only_GetTreeq_api: "P (C_GetTreeq x46 x47) \<Longrightarrow> only P (GetTreeq_api c x46 x47)"
    and only_GetTreeqByName_api: "P (C_GetTreeqByName x48 x49) \<Longrightarrow> only P (GetTreeqByName_api c x48 x49)"
    and only_GetExportsByFileSystemID_api: "P (C_GetExportsByFileSystemID x50) \<Longrightarrow> only P (GetExportsByFileSystemID_api c x50)"
    and only_GetExportByID_api: "P (C_GetExportByID x51) \<Longrightarrow> only P (GetExportByID_api c x51)"
    and only_DeleteExport_api: "P (C_DeleteExport x52) \<Longrightarrow> only P (DeleteExport_api c x52)"
    and only_CreateExport_api: "P (C_CreateExport x53) \<Longrightarrow> only P (CreateExport_api c x53)"
    and only_UpdateExportPermissions_api: "P (C_UpdateExportPermissions x54 x55) \<Longrightarrow> only P (UpdateExportPermissions_api c x54 x55)"
    and only_PutMetadata_api: "P (C_PutMetadata x56 x57) \<Longrightarrow> only P (PutMetadata_api c x56 x57)"
    and only_GetMetadata_api: "P (C_GetMetadata x58) \<Longrightarrow> only P (GetMetadata_api c x58)"
    and only_DeleteMetadata_api: "P (C_DeleteMetadata x59) \<Longrightarrow> only P (DeleteMetadata_api c x59)"
    and only_GetLinks_api: "P C_GetLinks \<Longrightarrow> only P (GetLinks_api c)"
    and only_GetSystem_api: "P C_GetSystem \<Longrightarrow> only P (GetSystem_api c)"
    and only_GetNtpStatus_api: "P C_GetNtpStatus \<Longrightarrow> only P (GetNtpStatus_api c)"
    and only_GetAllSnapshots_api: "P C_GetAllSnapshots \<Longrightarrow> only P (GetAllSnapshots_api c)"
    and only_GetAllHosts_api: "P C_GetAllHosts \<Longrightarrow> only P (GetAllHosts_api c)"
    and only_AddHostSecurity_api: "P (C_AddHostSecurity x60 x61) \<Longrightarrow> only P (AddHostSecurity_api c x60 x61)"
    and only_GetHostPort_api: "P (C_GetHostPort x62 x63) \<Longrightarrow> only P (GetHostPort_api c x62 x63)"
    and only_GetLunsByVolume_api: "P (C_GetLunsByVolume x64) \<Longrightarrow> only P (GetLunsByVolume_api c x64)"
    and only_GetMaxFileSystems_api: "P C_GetMaxFileSystems \<Longrightarrow> only P (GetMaxFileSystems_api c)"
    and only_GetFCPorts_api: "P C_GetFCPorts \<Longrightarrow> only P (GetFCPorts_api c)"
    and only_GetConsistencyGroup_api: "P (C_GetConsistencyGroup x65) \<Longrightarrow> only P (GetConsistencyGroup_api c x65)"
    and only_DeleteConsistencyGroup_api: "P (C_DeleteConsistencyGroup x66) \<Longrightarrow> only P (DeleteConsistencyGroup_api c x66)"
    and only_CreateSnapshotGroup_api: "P (C_CreateSnapshotGroup x67) \<Longrightarrow> only P (CreateSnapshotGroup_api c x67)"
    and only_GetMembersByCGID_api: "P (C_GetMembersByCGID x68) \<Longrightarrow> only P (GetMembersByCGID_api c x68)"
    and only_AddMemberToCG_api: "P (C_AddMemberToCG x69 x70 x71) \<Longrightarrow> only P (AddMemberToCG_api c x69 x70 x71)"
    and only_RemoveMemberFromCG_api: "P (C_RemoveMemberFromCG x72 x73) \<Longrightarrow> only P (RemoveMemberFromCG_api c x72 x73)"
    and only_AddMemberToSnapshotGroup_api: "P (C_AddMemberToSnapshotGroup x74 x75) \<Longrightarrow> only P (AddMemberToSnapshotGroup_api c x74 x75)"
    and only_CreateConsistencyGroup_api: "P (C_CreateConsistencyGroup x76) \<Longrightarrow> only P (CreateConsistencyGroup_api c x76)"
    and only_GetLink_api: "P (C_GetLink x77) \<Longrightarrow> only P (GetLink_api c x77)"
    and only_CreateReplica_api: "P (C_CreateReplica x78) \<Longrightarrow> only P (CreateReplica_api c x78)"
    and only_GetReplicas_api: "P C_GetReplicas \<Longrightarrow> only P (GetReplicas_api c)"
    and only_DeleteReplica_api: "P (C_DeleteReplica x79) \<Longrightarrow> only P (DeleteReplica_api c x79)"
    and only_GetReplica_api: "P (C_GetReplica x80) \<Longrightarrow> only P (GetReplica_api c x80)"
    and only_GetReplicaForCG_api: "P (C_GetReplicaForCG x81) \<Longrightarrow> only P (GetReplicaForCG_api c x81)"
    and only_GetReplicaForLocalEntityName_api: "P (C_GetReplicaForLocalEntityName x82) \<Longrightarrow> only P (GetReplicaForLocalEntityName_api c x82)"
    and only_ResumeReplica_api: "P (C_ResumeReplica x83) \<Longrightarrow> only P (ResumeReplica_api c x83)"
    and only_SuspendReplica_api: "P (C_SuspendReplica x84) \<Longrightarrow> only P (SuspendReplica_api c x84)"
    and only_CreateEvent_api: "P (C_CreateEvent x85) \<Longrightarrow> only P (CreateEvent_api c x85)"
  by (simp_all add: ibox_api_defs only_invoke)

lemma only_kube [only_intros]:
  shows only_BuildClient_kube: "P K_BuildClient \<Longrightarrow> only P (BuildClient_kube c)"
    and only_GetSecret_kube: "P (K_GetSecret x1 x2) \<Longrightarrow> only P (GetSecret_kube c x1 x2)"
    and only_GetAllPersistentVolumes_kube: "P K_GetAllPersistentVolumes \<Longrightarrow> only P (GetAllPersistentVolumes_kube c)"
    and only_GetStorageClass_kube: "P (K_GetStorageClass x3) \<Longrightarrow> only P (GetStorageClass_kube c x3)"
    and only_GetNodes_kube: "P K_GetNodes \<Longrightarrow> only P (GetNodes_kube c)"
    and only_GetPVC_kube: "P (K_GetPVC x4 x5) \<Longrightarrow> only P (GetPVC_kube c x4 x5)"
    and only_GetRunningDriverNodePods_kube: "P (K_GetRunningDriverNodePods x6) \<Longrightarrow> only P (GetRunningDriverNodePods_kube c x6)"
    and only_ExecCmdInPod_kube: "P (K_ExecCmdInPod x7 x8 x9) \<Longrightarrow> only P (ExecCmdInPod_kube c x7 x8 x9)"
    and only_GetClusterVersion_kube: "P K_GetClusterVersion \<Longrightarrow> only P (GetClusterVersion_kube c)"
    and only_CreateIboxreplica_kube: "P (K_CreateIboxreplica x10) \<Longrightarrow> only P (CreateIboxreplica_kube c x10)"
    and only_CreateIboxcg_kube: "P (K_CreateIboxcg x11) \<Longrightarrow> only P (CreateIboxcg_kube c x11)"
    and only_GetSecrets_kube: "P (K_GetSecrets x12) \<Longrightarrow> only P (GetSecrets_kube c x12)"
    and only_GetSecretContainsName_kube: "P (K_GetSecretContainsName x13 x14) \<Longrightarrow> only P (GetSecretContainsName_kube c x13 x14)"
  by (simp_all add: kube_defs only_invoke)

lemma allows_api [allows_intros]:
  shows allows_GetFeatures_api: "(\<And>h. P h C_GetFeatures) \<Longrightarrow> allows P (GetFeatures_api c)"
    and allows_GetPoolByName_api: "(\<And>h. P h (C_GetPoolByName x1)) \<Longrightarrow> allows P (GetPoolByName_api c x1)"
    and allows_GetPoolByID_api: "(\<And>h. P h (C_GetPoolByID x2)) \<Longrightarrow> allows P (GetPoolByID_api c x2)"
    and allows_DeleteVolume_api: "(\<And>h. P h (C_DeleteVolume x3)) \<Longrightarrow> allows P (DeleteVolume_api c x3)"
    and allows_GetVolumeByName_api: "(\<And>h. P h (C_GetVolumeByName x4)) \<Longrightarrow> allows P (GetVolumeByName_api c x4)"
    and allows_GetVolume_api: "(\<And>h. P h (C_GetVolume x5)) \<Longrightarrow> allows P (GetVolume_api c x5)"
    and allows_UpdateVolume_api: "(\<And>h. P h (C_UpdateVolume x6 x7)) \<Longrightarrow> allows P (UpdateVolume_api c x6 x7)"
    and allows_CreateSnapshotVolume_api: "(\<And>h. P h (C_CreateSnapshotVolume x8)) \<Longrightarrow> allows P (CreateSnapshotVolume_api c x8)"
    and allows_PromoteSnapshot_api: "(\<And>h. P h (C_PromoteSnapshot x9)) \<Longrightarrow> allows P (PromoteSnapshot_api c x9)"
    and allows_GetVolumesByParentID_api: "(\<And>h. P h (C_GetVolumesByParentID x10)) \<Longrightarrow> allows P (GetVolumesByParentID_api c x10)"
    and allows_GetNetworkSpaceByName_api: "(\<And>h. P h (C_GetNetworkSpaceByName x11)) \<Longrightarrow> allows P (GetNetworkSpaceByName_api c x11)"
    and allows_GetHostByName_api: "(\<And>h. P h (C_GetHostByName x12)) \<Longrightarrow> allows P (GetHostByName_api c x12)"
    and allows_CreateHost_api: "(\<And>h. P h (C_CreateHost x13)) \<Longrightarrow> allows P (CreateHost_api c x13)"
    and allows_DeleteHost_api: "(\<And>h. P h (C_DeleteHost x14)) \<Longrightarrow> allows P (DeleteHost_api c x14)"
    and allows_AddHostPort_api: "(\<And>h. P h (C_AddHostPort x15 x16 x17)) \<Longrightarrow> allows P (AddHostPort_api c x15 x16 x17)"
    and allows_MapVolumeToHost_api: "(\<And>h. P h (C_MapVolumeToHost x18 x19 x20)) \<Longrightarrow> allows P (MapVolumeToHost_api c x18 x19 x20)"
    and allows_GetAllLunByHost_api: "(\<And>h. P h (C_GetAllLunByHost x21)) \<Longrightarrow> allows P (GetAllLunByHost_api c x21)"
    and allows_GetLunByHostVolume_api: "(\<And>h. P h (C_GetLunByHostVolume x22 x23)) \<Longrightarrow> allows P (GetLunByHostVolume_api c x22 x23)"
    and allows_UnMapVolumeFromHost_api: "(\<And>h. P h (C_UnMapVolumeFromHost x24 x25)) \<Longrightarrow> allows P (UnMapVolumeFromHost_api c x24 x25)"
    and allows_CreateVolume_api: "(\<And>h. P h (C_CreateVolume x26)) \<Longrightarrow> allows P (CreateVolume_api c x26)"
    and allows_GetMaxTreeqPerFs_api: "(\<And>h. P h C_GetMaxTreeqPerFs) \<Longrightarrow> allows P (GetMaxTreeqPerFs_api c)"
    and allows_GetConsistencyGroupByName_api: "(\<And>h. P h (C_GetConsistencyGroupByName x27)) \<Longrightarrow> allows P (GetConsistencyGroupByName_api c x27)"
    and allows_GetFileSystemByName_api: "(\<And>h. P h (C_GetFileSystemByName x28)) \<Longrightarrow> allows P (GetFileSystemByName_api c x28)"
    and allows_GetFileSystemsByPool_api: "(\<And>h. P h (C_GetFileSystemsByPool x29 x30)) \<Longrightarrow> allows P (GetFileSystemsByPool_api c x29 x30)"
    and allows_GetFileSystemsByParentID_api: "(\<And>h. P h (C_GetFileSystemsByParentID x31)) \<Longrightarrow> allows P (GetFileSystemsByParentID_api c x31)"
    and allows_GetFileSystemByID_api: "(\<And>h. P h (C_GetFileSystemByID x32)) \<Longrightarrow> allows P (GetFileSystemByID_api c x32)"
    and allows_CreateFileSystem_api: "(\<And>h. P h (C_CreateFileSystem x33)) \<Longrightarrow> allows P (CreateFileSystem_api c x33)"
    and allows_DeleteFileSystem_api: "(\<And>h. P h (C_DeleteFileSystem x34)) \<Longrightarrow> allows P (DeleteFileSystem_api c x34)"
    and allows_UpdateFileSystem_api: "(\<And>h. P h (C_UpdateFileSystem x35 x36)) \<Longrightarrow> allows P (UpdateFileSystem_api c x35 x36)"
    and allows_CreateFileSystemSnapshot_api: "(\<And>h. P h (C_CreateFileSystemSnapshot x37)) \<Longrightarrow> allows P (CreateFileSystemSnapshot_api c x37)"
    and allows_GetTreeqsByFileSystem_api: "(\<And>h. P h (C_GetTreeqsByFileSystem x38)) \<Longrightarrow> allows P (GetTreeqsByFileSystem_api c x38)"
    and allows_UpdateTreeq_api: "(\<And>h. P h (C_UpdateTreeq x39 x40 x41)) \<Longrightarrow> allows P (UpdateTreeq_api c x39 x40 x41)"
    and allows_CreateTreeq_api: "(\<And>h. P h (C_CreateTreeq x42 x43)) \<Longrightarrow> allows P (CreateTreeq_api c x42 x43)"
    and allows_DeleteTreeq_api: "(\<And>h. P h (C_DeleteTreeq x44 x45)) \<Longrightarrow> allows P (DeleteTreeq_api c x44 x45)"
    and allows_GetTreeq_api: "(\<And>h. P h (C_GetTreeq x46 x47)) \<Longrightarrow> allows P (GetTreeq_api c x46 x47)"
    and allows_GetTreeqByName_api: "(\<And>h. P h (C_GetTreeqByName x48 x49)) \<Longrightarrow> allows P (GetTreeqByName_api c x48 x49)"
    and allows_GetExportsByFileSystemID_api: "(\<And>h. P h (C_GetExportsByFileSystemID x50)) \<Longrightarrow> allows P (GetExportsByFileSystemID_api c x50)"
    and allows_GetExportByID_api: "(\<And>h. P h (C_GetExportByID x51)) \<Longrightarrow> allows P (GetExportByID_api c x51)"
    and allows_DeleteExport_api: "(\<And>h. P h (C_DeleteExport x52)) \<Longrightarrow> allows P (DeleteExport_api c x52)"
    and allows_CreateExport_api: "(\<And>h. P h (C_CreateExport x53)) \<Longrightarrow> allows P (CreateExport_api c x53)"
    and allows_UpdateExportPermissions_api: "(\<And>h. P h (C_UpdateExportPermissions x54 x55)) \<Longrightarrow> allows P (UpdateExportPermissions_api c x54 x55)"
    and allows_PutMetadata_api: "(\<And>h. P h (C_PutMetadata x56 x57)) \<Longrightarrow> allows P (PutMetadata_api c x56 x57)"
    and allows_GetMetadata_api: "(\<And>h. P h (C_GetMetadata x58)) \<Longrightarrow> allows P (GetMetadata_api c x58)"
    and allows_DeleteMetadata_api: "(\<And>h. P h (C_DeleteMetadata x59)) \<Longrightarrow> allows P (DeleteMetadata_api c x59)"
    and allows_GetLinks_api: "(\<And>h. P h C_GetLinks) \<Longrightarrow> allows P (GetLinks_api c)"
    and allows_GetSystem_api: "(\<And>h. P h C_GetSystem) \<Longrightarrow> allows P (GetSystem_api c)"
    and allows_GetNtpStatus_api: "(\<And>h. P h C_GetNtpStatus) \<Longrightarrow> allows P (GetNtpStatus_api c)"
    and allows_GetAllSnapshots_api: "(\<And>h. P h C_GetAllSnapshots) \<Longrightarrow> allows P (GetAllSnapshots_api c)"
    and allows_GetAllHosts_api: "(\<And>h. P h C_GetAllHosts) \<Longrightarrow> allows P (GetAllHosts_api c)"
    and allows_AddHostSecurity_api: "(\<And>h. P h (C_AddHostSecurity x60 x61)) \<Longrightarrow> allows P (AddHostSecurity_api c x60 x61)"
    and allows_GetHostPort_api: "(\<And>h. P h (C_GetHostPort x62 x63)) \<Longrightarrow> allows P (GetHostPort_api c x62 x63)"
    and allows_GetLunsByVolume_api: "(\<And>h. P h (C_GetLunsByVolume x64)) \<Longrightarrow> allows P (GetLunsByVolume_api c x64)"
    and allows_GetMaxFileSystems_api: "(\<And>h. P h C_GetMaxFileSystems) \<Longrightarrow> allows P (GetMaxFileSystems_api c)"
    and allows_GetFCPorts_api: "(\<And>h. P h C_GetFCPorts) \<Longrightarrow> allows P (GetFCPorts_api c)"
    and allows_GetConsistencyGroup_api: "(\<And>h. P h (C_GetConsistencyGroup x65)) \<Longrightarrow> allows P (GetConsistencyGroup_api c x65)"
    and allows_DeleteConsistencyGroup_api: "(\<And>h. P h (C_DeleteConsistencyGroup x66)) \<Longrightarrow> allows P (DeleteConsistencyGroup_api c x66)"
    and allows_CreateSnapshotGroup_api: "(\<And>h. P h (C_CreateSnapshotGroup x67)) \<Longrightarrow> allows P (CreateSnapshotGroup_api c x67)"
    and allows_GetMembersByCGID_api: "(\<And>h. P h (C_GetMembersByCGID x68)) \<Longrightarrow> allows P (GetMembersByCGID_api c x68)"
    and allows_AddMemberToCG_api: "(\<And>h. P h (C_AddMemberToCG x69 x70 x71)) \<Longrightarrow> allows P (AddMemberToCG_api c x69 x70 x71)"
    and allows_RemoveMemberFromCG_api: "(\<And>h. P h (C_RemoveMemberFromCG x72 x73)) \<Longrightarrow> allows P (RemoveMemberFromCG_api c x72 x73)"
    and allows_AddMemberToSnapshotGroup_api: "(\<And>h. P h (C_AddMemberToSnapshotGroup x74 x75)) \<Longrightarrow> allows P (AddMemberToSnapshotGroup_api c x74 x75)"
    and allows_CreateConsistencyGroup_api: "(\<And>h. P h (C_CreateConsistencyGroup x76)) \<Longrightarrow> allows P (CreateConsistencyGroup_api c x76)"
    and allows_GetLink_api: "(\<And>h. P h (C_GetLink x77)) \<Longrightarrow> allows P (GetLink_api c x77)"
    and allows_CreateReplica_api: "(\<And>h. P h (C_CreateReplica x78)) \<Longrightarrow> allows P (CreateReplica_api c x78)"
    and allows_GetReplicas_api: "(\<And>h. P h C_GetReplicas) \<Longrightarrow> allows P (GetReplicas_api c)"
    and allows_DeleteReplica_api: "(\<And>h. P h (C_DeleteReplica x79)) \<Longrightarrow> allows P (DeleteReplica_api c x79)"
    and allows_GetReplica_api: "(\<And>h. P h (C_GetReplica x80)) \<Longrightarrow> allows P (GetReplica_api c x80)"
    and allows_GetReplicaForCG_api: "(\<And>h. P h (C_GetReplicaForCG x81)) \<Longrightarrow> allows P (GetReplicaForCG_api c x81)"
    and allows_GetReplicaForLocalEntityName_api: "(\<And>h. P h (C_GetReplicaForLocalEntityName x82)) \<Longrightarrow> allows P (GetReplicaForLocalEntityName_api c x82)"
    and allows_ResumeReplica_api: "(\<And>h. P h (C_ResumeReplica x83)) \<Longrightarrow> allows P (ResumeReplica_api c x83)"
    and allows_SuspendReplica_api: "(\<And>h. P h (C_SuspendReplica x84)) \<Longrightarrow> allows P (SuspendReplica_api c x84)"
    and allows_CreateEvent_api: "(\<And>h. P h (C_CreateEvent x85)) \<Longrightarrow> allows P (CreateEvent_api c x85)"
  by (simp_all add: ibox_api_defs allows_invoke)

lemma allows_kube [allows_intros]:
  shows allows_BuildClient_kube: "(\<And>h. P h K_BuildClient) \<Longrightarrow> allows P (BuildClient_kube c)"
    and allows_GetSecret_kube: "(\<And>h. P h (K_GetSecret x1 x2)) \<Longrightarrow> allows P (GetSecret_kube c x1 x2)"
    and allows_GetAllPersistentVolumes_kube: "(\<And>h. P h K_GetAllPersistentVolumes) \<Longrightarrow> allows P (GetAllPersistentVolumes_kube c)"
    and allows_GetStorageClass_kube: "(\<And>h. P h (K_GetStorageClass x3)) \<Longrightarrow> allows P (GetStorageClass_kube c x3)"
    and allows_GetNodes_kube: "(\<And>h. P h K_GetNodes) \<Longrightarrow> allows P (GetNodes_kube c)"
    and allows_GetPVC_kube: "(\<And>h. P h (K_GetPVC x4 x5)) \<Longrightarrow> allows P (GetPVC_kube c x4 x5)"
    and allows_GetRunningDriverNodePods_kube: "(\<And>h. P h (K_GetRunningDriverNodePods x6)) \<Longrightarrow> allows P (GetRunningDriverNodePods_kube c x6)"
    and allows_ExecCmdInPod_kube: "(\<And>h. P h (K_ExecCmdInPod x7 x8 x9)) \<Longrightarrow> allows P (ExecCmdInPod_kube c x7 x8 x9)"
    and allows_GetClusterVersion_kube: "(\<And>h. P h K_GetClusterVersion) \<Longrightarrow> allows P (GetClusterVersion_kube c)"
    and allows_CreateIboxreplica_kube: "(\<And>h. P h (K_CreateIboxreplica x10)) \<Longrightarrow> allows P (CreateIboxreplica_kube c x10)"
    and allows_CreateIboxcg_kube: "(\<And>h. P h (K_CreateIboxcg x11)) \<Longrightarrow> allows P (CreateIboxcg_kube c x11)"
    and allows_GetSecrets_kube: "(\<And>h. P h (K_GetSecrets x12)) \<Longrightarrow> allows P (GetSecrets_kube c x12)"
    and allows_GetSecretContainsName_kube: "(\<And>h. P h (K_GetSecretContainsName x13 x14)) \<Longrightarrow> allows P (GetSecretContainsName_kube c x13 x14)"
  by (simp_all add: kube_defs allows_invoke)

lemma safe_api [safe_intros]:
  shows safe_GetFeatures_api: "safe (GetFeatures_api c)"
    and safe_GetPoolByName_api: "safe (GetPoolByName_api c x1)"
    and safe_GetPoolByID_api: "safe (GetPoolByID_api c x2)"
    and safe_DeleteVolume_api: "safe (DeleteVolume_api c x3)"
    and safe_GetVolumeByName_api: "safe (GetVolumeByName_api c x4)"
    and safe_GetVolume_api: "safe (GetVolume_api c x5)"
    and safe_UpdateVolume_api: "safe (UpdateVolume_api c x6 x7)"
    and safe_CreateSnapshotVolume_api: "safe (CreateSnapshotVolume_api c x8)"
    and safe_PromoteSnapshot_api: "safe (PromoteSnapshot_api c x9)"
    and safe_GetVolumesByParentID_api: "safe (GetVolumesByParentID_api c x10)"
    and safe_GetNetworkSpaceByName_api: "safe (GetNetworkSpaceByName_api c x11)"
    and safe_GetHostByName_api: "safe (GetHostByName_api c x12)"
    and safe_CreateHost_api: "safe (CreateHost_api c x13)"
    and safe_DeleteHost_api: "safe (DeleteHost_api c x14)"
    and safe_AddHostPort_api: "safe (AddHostPort_api c x15 x16 x17)"
    and safe_MapVolumeToHost_api: "safe (MapVolumeToHost_api c x18 x19 x20)"
    and safe_GetAllLunByHost_api: "safe (GetAllLunByHost_api c x21)"
    and safe_GetLunByHostVolume_api: "safe (GetLunByHostVolume_api c x22 x23)"
    and safe_UnMapVolumeFromHost_api: "safe (UnMapVolumeFromHost_api c x24 x25)"
    and safe_CreateVolume_api: "safe (CreateVolume_api c x26)"
    and safe_GetMaxTreeqPerFs_api: "safe (GetMaxTreeqPerFs_api c)"
    and safe_GetConsistencyGroupByName_api: "safe (GetConsistencyGroupByName_api c x27)"
    and safe_GetFileSystemByName_api: "safe (GetFileSystemByName_api c x28)"
    and safe_GetFileSystemsByPool_api: "safe (GetFileSystemsByPool_api c x29 x30)"
    and safe_GetFileSystemsByParentID_api: "safe (GetFileSystemsByParentID_api c x31)"
    and safe_GetFileSystemByID_api: "safe (GetFileSystemByID_api c x32)"
    and safe_CreateFileSystem_api: "safe (CreateFileSystem_api c x33)"
    and safe_DeleteFileSystem_api: "safe (DeleteFileSystem_api c x34)"
    and safe_UpdateFileSystem_api: "safe (UpdateFileSystem_api c x35 x36)"
    and safe_CreateFileSystemSnapshot_api: "safe (CreateFileSystemSnapshot_api c x37)"
    and safe_GetTreeqsByFileSystem_api: "safe (GetTreeqsByFileSystem_api c x38)"
    and safe_UpdateTreeq_api: "safe (UpdateTreeq_api c x39 x40 x41)"
    and safe_CreateTreeq_api: "safe (CreateTreeq_api c x42 x43)"
    and safe_DeleteTreeq_api: "safe (DeleteTreeq_api c x44 x45)"
    and safe_GetTreeq_api: "safe (GetTreeq_api c x46 x47)"
    and safe_GetTreeqByName_api: "safe (GetTreeqByName_api c x48 x49)"
    and safe_GetExportsByFileSystemID_api: "safe (GetExportsByFileSystemID_api c x50)"
    and safe_GetExportByID_api: "safe (GetExportByID_api c x51)"
    and safe_DeleteExport_api: "safe (DeleteExport_api c x52)"
    and safe_CreateExport_api: "safe (CreateExport_api c x53)"
    and safe_UpdateExportPermissions_api: "safe (UpdateExportPermissions_api c x54 x55)"
    and safe_PutMetadata_api: "safe (PutMetadata_api c x56 x57)"
    and safe_GetMetadata_api: "safe (GetMetadata_api c x58)"
    and safe_DeleteMetadata_api: "safe (DeleteMetadata_api c x59)"
    and safe_GetLinks_api: "safe (GetLinks_api c)"
    and safe_GetSystem_api: "safe (GetSystem_api c)"
    and safe_GetNtpStatus_api: "safe (GetNtpStatus_api c)"
    and safe_GetAllSnapshots_api: "safe (GetAllSnapshots_api c)"
    and safe_GetAllHosts_api: "safe (GetAllHosts_api c)"
    and safe_AddHostSecurity_api: "safe (AddHostSecurity_api c x60 x61)"
    and safe_GetHostPort_api: "safe (GetHostPort_api c x62 x63)"
    and safe_GetLunsByVolume_api: "safe (GetLunsByVolume_api c x64)"
    and safe_GetMaxFileSystems_api: "safe (GetMaxFileSystems_api c)"
    and safe_GetFCPorts_api: "safe (GetFCPorts_api c)"
    and safe_GetConsistencyGroup_api: "safe (GetConsistencyGroup_api c x65)"
    and safe_DeleteConsistencyGroup_api: "safe (DeleteConsistencyGroup_api c x66)"
    and safe_CreateSnapshotGroup_api: "safe (CreateSnapshotGroup_api c x67)"
    and safe_GetMembersByCGID_api: "safe (GetMembersByCGID_api c x68)"
    and safe_AddMemberToCG_api: "safe (AddMemberToCG_api c x69 x70 x71)"
    and safe_RemoveMemberFromCG_api: "safe (RemoveMemberFromCG_api c x72 x73)"
    and safe_AddMemberToSnapshotGroup_api: "safe (AddMemberToSnapshotGroup_api c x74 x75)"
    and safe_CreateConsistencyGroup_api: "safe (CreateConsistencyGroup_api c x76)"
    and safe_GetLink_api: "safe (GetLink_api c x77)"
    and safe_CreateReplica_api: "safe (CreateReplica_api c x78)"
    and safe_GetReplicas_api: "safe (GetReplicas_api c)"
    and safe_DeleteReplica_api: "safe (DeleteReplica_api c x79)"
    and safe_GetReplica_api: "safe (GetReplica_api c x80)"
    and safe_GetReplicaForCG_api: "safe (GetReplicaForCG_api c x81)"
    and safe_GetReplicaForLocalEntityName_api: "safe (GetReplicaForLocalEntityName_api c x82)"
    and safe_ResumeReplica_api: "safe (ResumeReplica_api c x83)"
    and safe_SuspendReplica_api: "safe (SuspendReplica_api c x84)"
    and safe_CreateEvent_api: "safe (CreateEvent_api c x85)"
  by (simp_all add: ibox_api_defs safe_invoke)

lemma safe_kube [safe_intros]:
  shows safe_BuildClient_kube: "safe (BuildClient_kube c)"
    and safe_GetSecret_kube: "safe (GetSecret_kube c x1 x2)"
    and safe_GetAllPersistentVolumes_kube: "safe (GetAllPersistentVolumes_kube c)"
    and safe_GetStorageClass_kube: "safe (GetStorageClass_kube c x3)"
    and safe_GetNodes_kube: "safe (GetNodes_kube c)"
    and safe_GetPVC_kube: "safe (GetPVC_kube c x4 x5)"
    and safe_GetRunningDriverNodePods_kube: "safe (GetRunningDriverNodePods_kube c x6)"
    and safe_ExecCmdInPod_kube: "safe (ExecCmdInPod_kube c x7 x8 x9)"
    and safe_GetClusterVersion_kube: "safe (GetClusterVersion_kube c)"
    and safe_CreateIboxreplica_kube: "safe (CreateIboxreplica_kube c x10)"
    and safe_CreateIboxcg_kube: "safe (CreateIboxcg_kube c x11)"
    and safe_GetSecrets_kube: "safe (GetSecrets_kube c x12)"
    and safe_GetSecretContainsName_kube: "safe (GetSecretContainsName_kube c x13 x14)"
  by (simp_all add: kube_defs safe_invoke)

end
