(* ===== verification/Storage_Params.thy ===== *)
theory Storage_Params
  imports Helpers Ibox_Client
begin

text \<open>
  The parts of \<open>storage/common\<close> that only compute: volume ids, node ids, StorageClass parameters,
  snapshot locks, the SSD choice and the NFS mount options.
\<close>

section \<open>Volume ids and node ids (storage/common/common.go)\<close>

definition ValidateVolumeID :: "string \<Rightarrow> VolumeProtocolConfig res" where
  "ValidateVolumeID volumeIDString =
     (if volumeIDString = '''' then Err (Errors_New ''volume Id string is empty'')
      else let volproto = Split volumeIDString ''$$'' in
      if length volproto \<noteq> 2 then Err (Errors_New ''volume Id and other details not found'')
      else if volproto ! 0 = '''' then Err (Errors_New ''volume Id in volproto is empty'')
      else if volproto ! 1 = '''' then Err (Errors_New ''volume storagetype in volproto is empty'')
      else let volprotoconf = zero_VolProto\<lparr>vpc_StorageType := volproto ! 1\<rparr> in
      if vpc_StorageType volprotoconf = ProtocolTreeq then
        (let tmp = Split (volproto ! 0) ''#'' in
         if length tmp \<noteq> 2
         then Err (Errors_New (''treeq volume not correctly formatted '' @ volproto ! 0))
         else case Atoi (tmp ! 0) of
           None \<Rightarrow> Err (parse_error (tmp ! 0))
         | Some v \<Rightarrow> (case Atoi (tmp ! 1) of
             None \<Rightarrow> Err (Errorf ''volume treeq id parse error '' (parse_error (tmp ! 1)))
           | Some t \<Rightarrow> Ok (volprotoconf\<lparr>vpc_VolumeID := v, vpc_TreeqID := t\<rparr>)))
      else (case Atoi (volproto ! 0) of
          None \<Rightarrow> Err (Errorf ''volume id in volproto is not an integer '' (parse_error (volproto ! 0)))
        | Some v \<Rightarrow> Ok (volprotoconf\<lparr>vpc_VolumeID := v\<rparr>)))"

definition short_name :: "string \<Rightarrow> string" where
  "short_name hostName = hd (Split hostName ''.'')"

definition DetermineHostName :: "Env \<Rightarrow> string \<Rightarrow> string res" where
  "DetermineHostName E nodeID =
     (if nodeID = '''' then Err (Errors_New ''node ID empty'')
      else let nodeNameIP = Split nodeID ''$$'' in
      if length nodeNameIP \<noteq> 2 then Err (Errors_New (''node ID: '' @ nodeID @ '' not found''))
      else let hostName = nodeNameIP ! 0 in
      if getenv E EnvVarRemoveDomainName = ''true'' then Ok (short_name hostName) else Ok hostName)"

definition ValidatePublishContext :: "gomap \<Rightarrow> (int \<times> string) res" where
  "ValidatePublishContext publishContext =
     (let hostIDString = lookup publishContext HostIDPublishContext in
      case Atoi hostIDString of
        None \<Rightarrow> Err (Errorf (''hostID string '' @ hostIDString @ '' is not valid host ID: '')
                  (parse_error hostIDString))
      | Some hostID \<Rightarrow>
          if hostID < 1 then Err (Errors_New (''hostID '' @ Itoa hostID @ '' is not valid host ID''))
          else Ok (hostID, lookup publishContext HostPortsPublishContext))"

definition PortalMounter :: "string \<Rightarrow> string" where
  "PortalMounter portal = (if \<not> Contains portal '':'' then portal @ '':3260'' else portal)"

text \<open>Copies the non-empty parameters into \<open>out\<close>.\<close>

fun CopyRequestParameters :: "gomap \<Rightarrow> gomap \<Rightarrow> gomap" where
  "CopyRequestParameters [] out = out"
| "CopyRequestParameters ((key, val) # rest) out =
     CopyRequestParameters rest (if val \<noteq> '''' then store out key val else out)"

definition DetermineSSDValue :: "string \<Rightarrow> PoolResult \<Rightarrow> bool res" where
  "DetermineSSDValue ssdStorageClassParameter pool =
     (if ssdStorageClassParameter \<noteq> '''' then
        (case ParseBool ssdStorageClassParameter of
           None \<Rightarrow> Err (Errorf (''error parsing '' @ ssdStorageClassParameter)
                     (parse_error ssdStorageClassParameter))
         | Some b \<Rightarrow> Ok b)
      else Ok (pool_SsdEnabled pool))"

subsection \<open>Reading back what the driver prints\<close>

lemma ValidateVolumeID_plain:
  assumes "is_int64 v" and "CHR ''$'' \<notin> set proto" and "proto \<noteq> ''''" and "proto \<noteq> ProtocolTreeq"
  shows "ValidateVolumeID (Itoa v @ ''$$'' @ proto) =
    Ok (zero_VolProto\<lparr>vpc_StorageType := proto, vpc_VolumeID := v\<rparr>)"
proof -
  have "Split (Itoa v @ ''$$'' @ proto) ''$$'' = [Itoa v, proto]"
    using assms(2) by (intro Split_two) simp_all
  with assms show ?thesis by (simp add: ValidateVolumeID_def Let_def zero_VolProto_def)
qed

lemma ValidateVolumeID_treeq:
  assumes "is_int64 v" and "is_int64 t"
  shows "ValidateVolumeID ((Itoa v @ ''#'' @ Itoa t) @ ''$$'' @ ProtocolTreeq) =
    Ok (zero_VolProto\<lparr>vpc_StorageType := ProtocolTreeq, vpc_VolumeID := v, vpc_TreeqID := t\<rparr>)"
proof -
  have "Split ((Itoa v @ ''#'' @ Itoa t) @ ''$$'' @ ProtocolTreeq) ''$$''
      = [Itoa v @ ''#'' @ Itoa t, ProtocolTreeq]"
    by (intro Split_two) (simp_all add: ProtocolTreeq_def)
  moreover have "Split (Itoa v @ ''#'' @ Itoa t) ''#'' = [Itoa v, Itoa t]"
    by (intro Split_two) simp_all
  ultimately show ?thesis
    using assms by (simp add: ValidateVolumeID_def Let_def zero_VolProto_def protocol_defs)
qed

lemma length_2E:
  assumes "length xs = 2"
  obtains a b where "xs = [a, b]"
  using assms that by (auto simp: numeral_2_eq_2 length_Suc_conv)

lemma ValidateVolumeID_shape:
  assumes "ValidateVolumeID s = Ok c"
  shows "\<exists>left. s = left @ ''$$'' @ vpc_StorageType c \<and> left \<noteq> '''' \<and> vpc_StorageType c \<noteq> '''' \<and>
    (if vpc_StorageType c = ProtocolTreeq
     then (\<exists>a b. left = a @ ''#'' @ b \<and> Atoi a = Some (vpc_VolumeID c) \<and> Atoi b = Some (vpc_TreeqID c))
     else Atoi left = Some (vpc_VolumeID c) \<and> vpc_TreeqID c = 0)"
proof -
  from assms have "length (Split s ''$$'') = 2"
    by (auto simp: ValidateVolumeID_def Let_def split: if_splits)
  then obtain l p where lp: "Split s ''$$'' = [l, p]" by (rule length_2E)
  have s: "s = l @ ''$$'' @ p"
    using join_Split [of "''$$''" s] lp by simp
  have ne: "s \<noteq> ''''" "l \<noteq> ''''" "p \<noteq> ''''"
    using assms lp by (auto simp: ValidateVolumeID_def Let_def split: if_splits)
  show ?thesis
  proof (cases "p = ProtocolTreeq")
    case False
    then have "Atoi l = Some (vpc_VolumeID c)" "vpc_StorageType c = p" "vpc_TreeqID c = 0"
      using assms lp ne
      by (auto simp: ValidateVolumeID_def Let_def zero_VolProto_def split: option.splits)
    with False s ne show ?thesis by auto
  next
    case True
    with assms lp ne have "length (Split l ''#'') = 2"
      by (auto simp: ValidateVolumeID_def Let_def zero_VolProto_def split: if_splits)
    then obtain a b where ab: "Split l ''#'' = [a, b]" by (rule length_2E)
    have "l = a @ ''#'' @ b" using join_Split [of "''#''" l] ab by simp
    moreover have "Atoi a = Some (vpc_VolumeID c)" "Atoi b = Some (vpc_TreeqID c)"
        "vpc_StorageType c = p"
      using assms lp ne ab True
      by (auto simp: ValidateVolumeID_def Let_def zero_VolProto_def split: option.splits)
    ultimately show ?thesis using True s ne by auto
  qed
qed

lemma lookup_CopyRequestParameters_other:
  "k \<notin> fst ` set ps \<Longrightarrow> lookup (CopyRequestParameters ps out) k = lookup out k"
  by (induction ps out rule: CopyRequestParameters.induct) auto

lemma lookup_CopyRequestParameters:
  "distinct (map fst ps) \<Longrightarrow>
     lookup (CopyRequestParameters ps out) k = (if lookup ps k \<noteq> '''' then lookup ps k else lookup out k)"
proof (induction ps out rule: CopyRequestParameters.induct)
  case (1 out)
  then show ?case by simp
next
  case (2 key val rest out)
  have look: "lookup ((key, val) # rest) k = (if k = key then val else lookup rest k)"
    by (simp add: lookup_def)
  have "k = key \<Longrightarrow> lookup rest k = ''''"
    using 2(2) by (force simp: lookup_def split: option.splits dest: map_of_SomeD)
  with 2 look show ?case by auto
qed

section \<open>StorageClass parameters (storage/common/validation.go)\<close>

definition protoToServiceMap :: gomap where
  "protoToServiceMap =
     [(ProtocolNFS, NetworkSpaceNFSService), (ProtocolTreeq, NetworkSpaceNFSService),
      (ProtocolISCSI, NetworkSpaceISCSIService), (ProtocolNVME, NetworkSpaceNVMEService)]"

text \<open>The parameters that are missing or do not match, required ones first.\<close>

definition badParams :: "(string \<times> pattern) list \<Rightarrow> (string \<times> pattern) list \<Rightarrow> gomap \<Rightarrow> string list" where
  "badParams required optional prov =
     map fst (filter (\<lambda>(param, re). \<not> (provided prov param \<and> MatchString re (lookup prov param))) required) @
     map fst (filter (\<lambda>(param, re). provided prov param \<and> \<not> MatchString re (lookup prov param)) optional)"

definition ValidateRequiredOptionalSCParameters ::
    "(string \<times> pattern) list \<Rightarrow> (string \<times> pattern) list \<Rightarrow> gomap \<Rightarrow> unit res" where
  "ValidateRequiredOptionalSCParameters required optional prov =
     (let badParamsMap = badParams required optional prov in
      if badParamsMap \<noteq> []
      then Err (Errors_New (''invalid StorageClass parameters provided: '' @ concat badParamsMap))
      else Ok ())"

text \<open>StorageClass parameters are accepted exactly when every required one is given and matches its pattern,
  and every optional one that is given matches its pattern.\<close>

theorem ValidateSC_Ok_iff:
  "ValidateRequiredOptionalSCParameters required optional prov = Ok () \<longleftrightarrow>
     list_all (\<lambda>(param, re). provided prov param \<and> MatchString re (lookup prov param)) required \<and>
     list_all (\<lambda>(param, re). \<not> (provided prov param \<and> \<not> MatchString re (lookup prov param))) optional"
  by (auto simp: ValidateRequiredOptionalSCParameters_def badParams_def Let_def filter_empty_conv list_all_iff
      split: if_splits)

section \<open>Snapshot locks (storage/common/snapshot.go)\<close>

definition millis_per :: "string \<Rightarrow> int option" where
  "millis_per unit =
     (if unit = ''Hours'' then Some 3600000
      else if unit = ''Days'' then Some (24 * 3600000)
      else if unit = ''Weeks'' then Some (7 * 24 * 3600000)
      else if unit = ''Months'' then Some (4 * 7 * 24 * 3600000)
      else if unit = ''Years'' then Some (12 * 4 * 7 * 24 * 3600000)
      else None)"

definition ValidateSnapshotLockingParameter :: "int64 \<Rightarrow> string \<Rightarrow> int64 res" where
  "ValidateSnapshotLockingParameter nowTime input =
     (let parts = Split input '' '' in
      if length parts \<noteq> 2
      then Err (Errors_New ''invalid format of lock_expires_at parameter'')
      else case Atoi (parts ! 0) of
        None \<Rightarrow> Err (Errors_New ''invalid format of lock_expires_at count'')
      | Some count \<Rightarrow>
          if count < 1 then Err (Errors_New ''invalid lock_expires_at count, should be greater than 0'')
          else (case millis_per (parts ! 1) of
              None \<Rightarrow> Err (Errors_New ''invalid format of lock_expires_at frequency'')
            | Some millis \<Rightarrow> Ok (wrap64 (nowTime + wrap64 (count * millis)))))"

lemma millis_per_pos: "millis_per u = Some m \<Longrightarrow> 0 < m \<and> m \<le> 29030400000"
  by (auto simp: millis_per_def split: if_splits)

section \<open>NFS mount options (storage/common/permissions.go)\<close>

text \<open>\<open>FindStringSubmatch\<close> of \<^verbatim>\<open>(nfs){0,1}vers=([0-9]*)\<close>: the digits behind the first \<open>vers=\<close>.\<close>

fun nfs_version :: "string \<Rightarrow> string option" where
  "nfs_version [] = None"
| "nfs_version (c # s) =
     (if HasPrefix (c # s) ''vers='' then Some (takeWhile is_digit (drop 5 (c # s))) else nfs_version s)"

definition bad_version :: "string \<Rightarrow> bool" where
  "bad_version opt = (case nfs_version opt of
     None \<Rightarrow> False | Some version \<Rightarrow> version \<notin> {''3'', ''4'', ''4.1''})"

definition version_options :: "string list" where
  "version_options = [''vers=3'', ''nfsvers=3'', ''vers=4'', ''nfsvers=4'', ''vers=4.1'', ''nfsvers=4.1'']"

definition UpdateNfsMountOptions :: "string list \<Rightarrow> bool \<Rightarrow> string list res" where
  "UpdateNfsMountOptions mountOptions readonly =
     (case find bad_version mountOptions of
        Some opt \<Rightarrow> Err (Errors_New (''nfs version mount option '' @ opt @
                      '' encountered, but only NFS versions 3 and 4 are supported''))
      | None \<Rightarrow>
         (let o1 = (if list_ex (\<lambda>opt. opt \<in> set version_options) mountOptions
                    then mountOptions else mountOptions @ [''vers=3'']);
              o2 = (if ''hard'' \<in> set o1 \<or> ''soft'' \<in> set o1 then o1 else o1 @ [''hard'']);
              o3 = (if readonly then o2 @ [''ro''] else o2)
          in Ok (Compact o3)))"

definition StandardMountOptions :: string where
  "StandardMountOptions = ''vers=3,tcp,rsize=262144,wsize=262144''"

definition mount_flags :: "VolumeCapability \<Rightarrow> string list" where
  "mount_flags c = (case cap_AccessType c of MountAccess _ flags \<Rightarrow> flags | _ \<Rightarrow> [])"

definition GetNFSMountOptions :: "CsiNodePublishRequest \<Rightarrow> string list res" where
  "GetNFSMountOptions req =
     (let flags = mount_flags (np_capability req);
          mountOptions = (if flags = []
             then filter (\<lambda>option. option \<noteq> '''') (Split StandardMountOptions '','') else flags)
      in case UpdateNfsMountOptions mountOptions (np_Readonly req) of
           Ok opts \<Rightarrow>
             Ok (if np_Readonly req \<or> mode_of (np_capability req) = MULTI_NODE_READER_ONLY
                 then opts @ [''ro''] else opts)
         | other \<Rightarrow> other)"

lemma accepted_mount_options:
  assumes "UpdateNfsMountOptions opts ro = Ok out"
  shows "set opts \<subseteq> set out" and "\<exists>v \<in> set version_options. v \<in> set out"
    and "''hard'' \<in> set out \<or> ''soft'' \<in> set out" and "ro \<Longrightarrow> ''ro'' \<in> set out"
    and "\<forall>opt \<in> set opts. \<not> bad_version opt"
    and "set out \<subseteq> set opts \<union> {''vers=3'', ''hard'', ''ro''}"
proof -
  from assms have f: "find bad_version opts = None"
    by (auto simp: UpdateNfsMountOptions_def split: option.splits)
  then show "\<forall>opt \<in> set opts. \<not> bad_version opt" by (auto simp: find_None_iff)
  have out: "set out = set (let o1 = (if list_ex (\<lambda>opt. opt \<in> set version_options) opts
                    then opts else opts @ [''vers=3'']);
              o2 = (if ''hard'' \<in> set o1 \<or> ''soft'' \<in> set o1 then o1 else o1 @ [''hard''])
          in (if ro then o2 @ [''ro''] else o2))"
    using assms f by (auto simp: UpdateNfsMountOptions_def Let_def)
  show "set opts \<subseteq> set out" "ro \<Longrightarrow> ''ro'' \<in> set out"
    "''hard'' \<in> set out \<or> ''soft'' \<in> set out"
    "set out \<subseteq> set opts \<union> {''vers=3'', ''hard'', ''ro''}"
    unfolding out by (auto simp: Let_def)
  show "\<exists>v \<in> set version_options. v \<in> set out"
  proof (cases "list_ex (\<lambda>opt. opt \<in> set version_options) opts")
    case True
    with \<open>set opts \<subseteq> set out\<close> show ?thesis by (auto simp: list_ex_iff)
  next
    case False
    then have "''vers=3'' \<in> set out" unfolding out by (simp add: Let_def)
    then show ?thesis by (auto simp: version_options_def)
  qed
qed

text \<open>The mount options for NFS that are accepted keep all options of the request and add at most \<open>vers=3\<close>,
  \<open>hard\<close> and \<open>ro\<close>; the result names a version and one of \<open>hard\<close> and \<open>soft\<close>, and \<open>ro\<close> for a
  read-only request.\<close>

theorem UpdateNfsMountOptions_Ok:
  assumes "UpdateNfsMountOptions opts ro = Ok out"
  shows "set opts \<subseteq> set out \<and> (\<exists>v \<in> set version_options. v \<in> set out) \<and>
    (''hard'' \<in> set out \<or> ''soft'' \<in> set out) \<and> (ro \<longrightarrow> ''ro'' \<in> set out) \<and>
    (\<forall>opt \<in> set opts. \<not> bad_version opt) \<and> set out \<subseteq> set opts \<union> {''vers=3'', ''hard'', ''ro''}"
  using accepted_mount_options [OF assms] by blast

theorem UpdateNfsMountOptions_Ok_witness:
  "UpdateNfsMountOptions [''tcp'', ''soft''] True = Ok [''tcp'', ''soft'', ''vers=3'', ''ro''] \<and>
   set [''tcp'', ''soft''] \<subseteq> set [''tcp'', ''soft'', ''vers=3'', ''ro'']"
proof -
  have "UpdateNfsMountOptions [''tcp'', ''soft''] True = Ok [''tcp'', ''soft'', ''vers=3'', ''ro'']" by code_simp
  from this and UpdateNfsMountOptions_Ok [OF this] show ?thesis by blast
qed

end
