(* ===== verification/Sample_World.thy ===== *)
theory Sample_World
  imports Ibox_Client
begin

text \<open>
  A concrete world for examples: an InfiniBox and a cluster in which nothing exists. An example
  overrides the answers it is about.
\<close>

definition empty_ibox :: Client where
  "empty_ibox = \<lparr>r_GetFeatures = (\<lambda>h. Inl ErrNotFound),
     r_GetPoolByName = (\<lambda>h _. Inl ErrNotFound),
     r_GetPoolByID = (\<lambda>h _. Inl ErrNotFound),
     r_DeleteVolume = (\<lambda>h _. Inl ErrNotFound),
     r_GetVolumeByName = (\<lambda>h _. Inl ErrNotFound),
     r_GetVolume = (\<lambda>h _. Inl ErrNotFound),
     r_UpdateVolume = (\<lambda>h _ _. Inl ErrNotFound),
     r_CreateSnapshotVolume = (\<lambda>h _. Inl ErrNotFound),
     r_PromoteSnapshot = (\<lambda>h _. Inl ErrNotFound),
     r_GetVolumesByParentID = (\<lambda>h _. ([], None)),
     r_GetNetworkSpaceByName = (\<lambda>h _. Inl ErrNotFound),
     r_GetHostByName = (\<lambda>h _. Inl ErrNotFound),
     r_CreateHost = (\<lambda>h _. Inl ErrNotFound),
     r_DeleteHost = (\<lambda>h _. Inl ErrNotFound),
     r_AddHostPort = (\<lambda>h _ _ _. Inl ErrNotFound),
     r_MapVolumeToHost = (\<lambda>h _ _ _. Inl ErrNotFound),
     r_GetAllLunByHost = (\<lambda>h _. ([], None)),
     r_GetLunByHostVolume = (\<lambda>h _ _. Inl ErrNotFound),
     r_UnMapVolumeFromHost = (\<lambda>h _ _. Inl ErrNotFound),
     r_CreateVolume = (\<lambda>h _. Inl ErrNotFound),
     r_GetMaxTreeqPerFs = (\<lambda>h. Inl ErrNotFound),
     r_GetConsistencyGroupByName = (\<lambda>h _. Inl ErrNotFound),
     r_GetFileSystemByName = (\<lambda>h _. Inl ErrNotFound),
     r_GetFileSystemsByPool = (\<lambda>h _ _. Inl ErrNotFound),
     r_GetFileSystemsByParentID = (\<lambda>h _. Inl ErrNotFound),
     r_GetFileSystemByID = (\<lambda>h _. Inl ErrNotFound),
     r_CreateFileSystem = (\<lambda>h _. Inl ErrNotFound),
     r_DeleteFileSystem = (\<lambda>h _. Inl ErrNotFound),
     r_UpdateFileSystem = (\<lambda>h _ _. Inl ErrNotFound),
     r_CreateFileSystemSnapshot = (\<lambda>h _. Inl ErrNotFound),
     r_GetTreeqsByFileSystem = (\<lambda>h _. Inl ErrNotFound),
     r_UpdateTreeq = (\<lambda>h _ _ _. Inl ErrNotFound),
     r_CreateTreeq = (\<lambda>h _ _. Inl ErrNotFound),
     r_DeleteTreeq = (\<lambda>h _ _. Inl ErrNotFound),
     r_GetTreeq = (\<lambda>h _ _. Inl ErrNotFound),
     r_GetTreeqByName = (\<lambda>h _ _. Inl ErrNotFound),
     r_GetExportsByFileSystemID = (\<lambda>h _. Inl ErrNotFound),
     r_GetExportByID = (\<lambda>h _. Inl ErrNotFound),
     r_DeleteExport = (\<lambda>h _. Inl ErrNotFound),
     r_CreateExport = (\<lambda>h _. Inl ErrNotFound),
     r_UpdateExportPermissions = (\<lambda>h _ _. Inl ErrNotFound),
     r_PutMetadata = (\<lambda>h _ _. Inl ErrNotFound),
     r_GetMetadata = (\<lambda>h _. Inl ErrNotFound),
     r_DeleteMetadata = (\<lambda>h _. Inl ErrNotFound),
     r_GetLinks = (\<lambda>h. Inl ErrNotFound),
     r_GetSystem = (\<lambda>h. Inl ErrNotFound),
     r_GetNtpStatus = (\<lambda>h. Inl ErrNotFound),
     r_GetAllSnapshots = (\<lambda>h. Inl ErrNotFound),
     r_GetAllHosts = (\<lambda>h. Inl ErrNotFound),
     r_AddHostSecurity = (\<lambda>h _ _. Inl ErrNotFound),
     r_GetHostPort = (\<lambda>h _ _. Inl ErrNotFound),
     r_GetLunsByVolume = (\<lambda>h _. Inl ErrNotFound),
     r_GetMaxFileSystems = (\<lambda>h. Inl ErrNotFound),
     r_GetFCPorts = (\<lambda>h. Inl ErrNotFound),
     r_GetConsistencyGroup = (\<lambda>h _. Inl ErrNotFound),
     r_DeleteConsistencyGroup = (\<lambda>h _. Inl ErrNotFound),
     r_CreateSnapshotGroup = (\<lambda>h _. Inl ErrNotFound),
     r_GetMembersByCGID = (\<lambda>h _. Inl ErrNotFound),
     r_AddMemberToCG = (\<lambda>h _ _ _. Inl ErrNotFound),
     r_RemoveMemberFromCG = (\<lambda>h _ _. Inl ErrNotFound),
     r_AddMemberToSnapshotGroup = (\<lambda>h _ _. Inl ErrNotFound),
     r_CreateConsistencyGroup = (\<lambda>h _. Inl ErrNotFound),
     r_GetLink = (\<lambda>h _. Inl ErrNotFound),
     r_CreateReplica = (\<lambda>h _. Inl ErrNotFound),
     r_GetReplicas = (\<lambda>h. Inl ErrNotFound),
     r_DeleteReplica = (\<lambda>h _. Inl ErrNotFound),
     r_GetReplica = (\<lambda>h _. Inl ErrNotFound),
     r_GetReplicaForCG = (\<lambda>h _. Inl ErrNotFound),
     r_GetReplicaForLocalEntityName = (\<lambda>h _. Inl ErrNotFound),
     r_ResumeReplica = (\<lambda>h _. Inl ErrNotFound),
     r_SuspendReplica = (\<lambda>h _. Inl ErrNotFound),
     r_CreateEvent = (\<lambda>h _. Inl ErrNotFound)\<rparr>"

definition empty_cluster :: KubeClient where
  "empty_cluster = \<lparr>kr_BuildClient = (\<lambda>h. Inl ErrNotFound),
     kr_GetSecret = (\<lambda>h _ _. Inl ErrNotFound),
     kr_GetAllPersistentVolumes = (\<lambda>h. Inl ErrNotFound),
     kr_GetStorageClass = (\<lambda>h _. Inl ErrNotFound),
     kr_GetNodes = (\<lambda>h. Inl ErrNotFound),
     kr_GetPVC = (\<lambda>h _ _. Inl ErrNotFound),
     kr_GetRunningDriverNodePods = (\<lambda>h _. Inl ErrNotFound),
     kr_ExecCmdInPod = (\<lambda>h _ _ _. Inl ErrNotFound),
     kr_GetClusterVersion = (\<lambda>h. Inl ErrNotFound),
     kr_CreateIboxreplica = (\<lambda>h _. Inl ErrNotFound),
     kr_CreateIboxcg = (\<lambda>h _. Inl ErrNotFound),
     kr_GetSecrets = (\<lambda>h _. Inl ErrNotFound),
     kr_GetSecretContainsName = (\<lambda>h _ _. Inl ErrNotFound)\<rparr>"

definition sample_env :: Env where
  "sample_env = \<lparr>getenv = (\<lambda>_. []), now = (\<lambda>h. 0), rand_Intn = (\<lambda>h n. 0),
     unix_text = (\<lambda>t. []), dial = (\<lambda>creds. empty_ibox), cluster = empty_cluster,
     url_Parse = (\<lambda>s. Some ([], s)), url_ParseRequestURI = (\<lambda>s. True), stack_depth = 4,
     net_ParseIP = (\<lambda>s. []), json_Unmarshal_maps = (\<lambda>s. Some [])\<rparr>"

text \<open>A world in which requests succeed: one pool, one host, one network space; every volume and file
  system that is asked for by its id exists, none is found by name, and nothing is locked or shared.\<close>

definition sample_volume :: Volume where
  "sample_volume = zero_Volume\<lparr>vol_ID := 7, vol_Name := ''pvc-1'', vol_Size := 1073741824, vol_PoolID := 3,
     vol_PoolName := ''pool''\<rparr>"

definition sample_pool :: PoolResult where
  "sample_pool = \<lparr>pool_ID = 3, pool_Name = ''pool'', pool_SsdEnabled = False, pool_TotalDiskUsage = 25, pool_PhysicalCapacity = 100\<rparr>"

definition sample_host :: Host where
  "sample_host = \<lparr>host_ID = 5, host_Name = ''node1'', host_Ports = [\<lparr>port_Address = ''20:00'', port_Type = ''FC'',
     port_HostID = 5\<rparr>], host_Luns = [], host_SecurityMethod = ''NONE''\<rparr>"

definition sample_lun :: LunInfo where
  "sample_lun = \<lparr>lun_ID = 1, lun_Lun = 11, lun_CLustered = False, lun_VolumeID = 7, lun_HostClusterID = 0,
     lun_HostID = 5\<rparr>"

definition sample_space :: NetworkSpace where
  "sample_space = \<lparr>ns_Service = NetworkSpaceNFSService, ns_Name = ''nas'', ns_Portals = [\<lparr>portal_Type = '''', portal_Tpgt = 1,
     portal_IPAddress = ''10.0.0.1'', portal_VlanID = 0, portal_Enabled = True, portal_Reserved = False,
     portal_InterfaceID = 1\<rparr>], ns_ISCSIIqn = ''iqn'', ns_ISCSITCPPort = 3260\<rparr>"

definition sample_fs :: FileSystem where
  "sample_fs = zero_FileSystem\<lparr>fs_ID := 9, fs_Name := ''pvc-1'', fs_Size := 1073741824, fs_PoolID := 3\<rparr>"

definition sample_treeq :: Treeq where
  "sample_treeq = \<lparr>tq_ID = 2, tq_FilesystemID = 9, tq_Name = ''pvc-1'', tq_Path = ''/pvc-1'',
     tq_HardCapacity = 1073741824, tq_UsedCapacity = 0\<rparr>"

definition sample_export :: Export where
  "sample_export = \<lparr>exp_Permissions = [], exp_FilesystemID = 9, exp_ID = 4, exp_ExportPath = ''/pvc-1'', exp_SnapdirVisible = False\<rparr>"

definition stocked_ibox :: Client where
  "stocked_ibox = empty_ibox\<lparr>
     r_GetPoolByName := (\<lambda>h _. Inr sample_pool),
     r_GetVolume := (\<lambda>h i. Inr (sample_volume\<lparr>vol_ID := i\<rparr>)),
     r_CreateVolume := (\<lambda>h q. Inr (sample_volume\<lparr>vol_Name := cvr_Name q, vol_Size := cvr_VolumeSize q\<rparr>)),
     r_UpdateVolume := (\<lambda>h i v. Inr v),
     r_DeleteVolume := (\<lambda>h _. Inr ()),
     r_PutMetadata := (\<lambda>h _ _. Inr ()),
     r_DeleteMetadata := (\<lambda>h _. Inr ()),
     r_GetMetadata := (\<lambda>h _. Inr []),
     r_GetNetworkSpaceByName := (\<lambda>h _. Inr sample_space),
     r_GetHostByName := (\<lambda>h _. Inr sample_host),
     r_MapVolumeToHost := (\<lambda>h _ _ _. Inr sample_lun),
     r_GetFileSystemByID := (\<lambda>h i. Inr (sample_fs\<lparr>fs_ID := i\<rparr>)),
     r_GetFileSystemsByParentID := (\<lambda>h _. Inr []),
     r_CreateFileSystem := (\<lambda>h q. Inr (sample_fs\<lparr>fs_Name := cfs_Name q, fs_Size := cfs_Size q\<rparr>)),
     r_DeleteFileSystem := (\<lambda>h _. Inr ()),
     r_GetExportsByFileSystemID := (\<lambda>h _. Inr []),
     r_GetExportByID := (\<lambda>h _. Inr sample_export),
     r_GetTreeqsByFileSystem := (\<lambda>h _. Inr [sample_treeq]),
     r_GetTreeq := (\<lambda>h _ _. Inr sample_treeq)\<rparr>"

definition stocked_cluster :: KubeClient where
  "stocked_cluster = empty_cluster\<lparr>
     kr_BuildClient := (\<lambda>h. Inr ()),
     kr_GetPVC := (\<lambda>h _ _. Inr \<lparr>pvc_StorageClassName = Some ''gold'', pvc_Annotations = []\<rparr>),
     kr_GetStorageClass := (\<lambda>h _. Inr (map (\<lambda>k. (k, ''secret'')) [CSIProvisionerSecretName,
        CSIProvisionerSecretNamespace, CSIControllerPublishSecretName, CSIControllerPublishSecretNamespace,
        CSINodeStageSecretName, CSINodeStageSecretNamespace, CSINodePublishSecretName,
        CSINodePublishSecretNamespace, CSIControllerExpandSecretName, CSIControllerExpandSecretNamespace,
        CSINodeExpandSecretName, CSINodeExpandSecretNamespace])),
     kr_GetNodes := (\<lambda>h. Inr [\<lparr>kn_Name = ''node1'', kn_Labels = []\<rparr>]),
     kr_GetAllPersistentVolumes := (\<lambda>h. Inr [])\<rparr>"

definition stocked_env :: Env where
  "stocked_env = sample_env\<lparr>dial := (\<lambda>creds. stocked_ibox), cluster := stocked_cluster\<rparr>"

definition sample_secrets :: gomap where
  "sample_secrets = [(CredentialHostname, ''ibox''), (CredentialUsername, ''admin''), (CredentialPassword, ''pw'')]"

definition sample_create :: CsiCreateVolumeRequest where
  "sample_create = \<lparr>req_Name = ''pvc-1'',
     req_Parameters = [(StorageClassStorageProtocol, ProtocolFC), (StorageClassPoolName, ''pool'')],
     req_VolumeCapabilities = Some [\<lparr>cap_AccessMode = Some SINGLE_NODE_WRITER, cap_AccessType = BlockAccess\<rparr>],
     req_RequiredBytes = Some 1073741824, req_Secrets = sample_secrets, req_ContentSource = None\<rparr>"

definition sample_publish :: CsiPublishRequest where
  "sample_publish = \<lparr>pub_VolumeId = ''7$$fc'', pub_NodeId = ''node1$$10.0.0.9'',
     pub_VolumeCapability = Some \<lparr>cap_AccessMode = Some SINGLE_NODE_WRITER, cap_AccessType = BlockAccess\<rparr>,
     pub_VolumeContext = Some [], pub_Secrets = sample_secrets\<rparr>"

lemmas sample_defs = empty_ibox_def empty_cluster_def sample_env_def
lemmas stocked_defs = sample_defs sample_volume_def sample_pool_def sample_host_def sample_lun_def sample_space_def
  sample_fs_def sample_treeq_def sample_export_def stocked_ibox_def stocked_cluster_def stocked_env_def
  sample_secrets_def sample_create_def sample_publish_def

end
