(* ===== verification/Storage_Common.thy ===== *)
theory Storage_Common
  imports Storage_Params Sample_World
begin

text \<open>
  The operations of \<open>storage/common\<close> that the storage protocols share: building the service from
  the secrets, mapping and unmapping, hosts, network spaces, clones, snapshots, deletion and
  unpublishing. The map \<open>storagePoolIDName\<close> of \<open>Commonservice\<close> is never made by the driver: reading
  the nil map gives the empty string and writing it panics.
\<close>

section \<open>Errors of the storage protocols\<close>

text \<open>\<open>storagecommon.ImplementationError\<close> with code \<open>Internal\<close> and the text of the error.\<close>

definition impl_error :: "go_error \<Rightarrow> go_error" where
  "impl_error e = ImplementationError Internal (err_text e)"

definition or_impl :: "('c, 'a) prog \<Rightarrow> ('a \<Rightarrow> ('c, 'b) prog) \<Rightarrow> ('c, 'b) prog" where
  "or_impl m k = try_go m (\<lambda>e. fail_go (impl_error e)) k"

text \<open>\<open>status.Error(code, text)\<close> in place of the error.\<close>

definition or_status :: "grpc_code \<Rightarrow> string \<Rightarrow> ('c, 'a) prog \<Rightarrow> ('a \<Rightarrow> ('c, 'b) prog) \<Rightarrow> ('c, 'b) prog" where
  "or_status code prefix m k =
     try_go m (\<lambda>e. fail_go (Status_Error code (prefix @ err_text e))) k"

text \<open>\<open>common.Errorf("... %w", err)\<close> around the error.\<close>

definition or_wrap :: "string \<Rightarrow> ('c, 'a) prog \<Rightarrow> ('a \<Rightarrow> ('c, 'b) prog) \<Rightarrow> ('c, 'b) prog" where
  "or_wrap prefix m k = try_go m (\<lambda>e. fail_go (Errorf prefix e)) k"

lemmas go_error_defs = or_impl_def or_status_def or_wrap_def

lemma wp_or_impl [wp_simps]:
  "wp (or_impl m k) h Q = wp m h (\<lambda>r t. case r of
      Ok a \<Rightarrow> wp (k a) (h @ t) (\<lambda>r' t'. Q r' (t @ t'))
    | Err e \<Rightarrow> Q (Err (impl_error e)) t
    | Crash x \<Rightarrow> Q (Crash x) t)"
  by (simp add: or_impl_def wp_try wp_fail cong: res.case_cong)

lemma wp_or_status [wp_simps]:
  "wp (or_status c s m k) h Q = wp m h (\<lambda>r t. case r of
      Ok a \<Rightarrow> wp (k a) (h @ t) (\<lambda>r' t'. Q r' (t @ t'))
    | Err e \<Rightarrow> Q (Err (Status_Error c (s @ err_text e))) t
    | Crash x \<Rightarrow> Q (Crash x) t)"
  by (simp add: or_status_def wp_try wp_fail cong: res.case_cong)

lemma wp_or_wrap [wp_simps]:
  "wp (or_wrap s m k) h Q = wp m h (\<lambda>r t. case r of
      Ok a \<Rightarrow> wp (k a) (h @ t) (\<lambda>r' t'. Q r' (t @ t'))
    | Err e \<Rightarrow> Q (Err (Errorf s e)) t
    | Crash x \<Rightarrow> Q (Crash x) t)"
  by (simp add: or_wrap_def wp_try wp_fail cong: res.case_cong)

lemma only_or_impl [only_intros]:
  "only P m \<Longrightarrow> (\<And>a. only P (k a)) \<Longrightarrow> only P (or_impl m k)"
  by (simp add: or_impl_def only_try only_fail)

lemma only_or_status [only_intros]:
  "only P m \<Longrightarrow> (\<And>a. only P (k a)) \<Longrightarrow> only P (or_status c s m k)"
  by (simp add: or_status_def only_try only_fail)

lemma only_or_wrap [only_intros]:
  "only P m \<Longrightarrow> (\<And>a. only P (k a)) \<Longrightarrow> only P (or_wrap s m k)"
  by (simp add: or_wrap_def only_try only_fail)

lemma allows_or [allows_intros]:
  assumes "allows Q m" and "\<And>a. allows Q (k a)"
  shows allows_or_impl: "allows Q (or_impl m k)"
    and allows_or_status: "allows Q (or_status c s m k)"
    and allows_or_wrap: "allows Q (or_wrap s m k)"
  using assms by (simp_all add: go_error_defs allows_try allows_fail)

lemma safe_or [safe_intros]:
  assumes "safe m" and "\<And>a h t. m h = (Ok a, t) \<Longrightarrow> safe (k a)"
  shows safe_or_impl: "safe (or_impl m k)"
    and safe_or_status: "safe (or_status c s m k)"
    and safe_or_wrap: "safe (or_wrap s m k)"
  using assms by (simp_all add: go_error_defs safe_try safe_basic)

lemma wp_each_or_impl:
  "wp m h (\<lambda>r t. each_call Q h t) \<Longrightarrow> (\<And>a g. wp (k a) g (\<lambda>r t. each_call Q g t))
   \<Longrightarrow> wp (or_impl m k) h (\<lambda>r t. each_call Q h t)"
  unfolding or_impl_def by (rule wp_each_try) (simp_all add: wp_simps)

lemma returns_or [returns_intros]:
  assumes "\<And>a h t. m h = (Ok a, t) \<Longrightarrow> returns P (k a)"
  shows returns_or_impl: "returns P (or_impl m k)"
    and returns_or_status: "returns P (or_status c s m k)"
    and returns_or_wrap: "returns P (or_wrap s m k)"
  using assms by (simp_all add: go_error_defs returns_try returns_basic)

lemma or_impl_pure [pure_simps]:
  "or_impl (pure_go x) k = (case x of Ok a \<Rightarrow> k a | Err e \<Rightarrow> fail_go (impl_error e) | Crash y \<Rightarrow> pure_go (Crash y))"
  by (simp add: or_impl_def try_pure)

lemma or_status_pure [pure_simps]:
  "or_status c s (pure_go x) k = (case x of
     Ok a \<Rightarrow> k a | Err e \<Rightarrow> fail_go (Status_Error c (s @ err_text e)) | Crash y \<Rightarrow> pure_go (Crash y))"
  by (simp add: or_status_def try_pure)

section \<open>The service (common.go)\<close>

record Commonservice =
  cs_IboxAPI :: Client
  cs_driverVersion :: string
  cs_VolProto :: VolumeProtocolConfig

definition api_host :: "Env \<Rightarrow> string \<Rightarrow> string res" where
  "api_host E hostname = (case url_Parse E hostname of
      None \<Rightarrow> Err (Errors_New ''secret hostname is missing or not valid'')
    | Some (scheme, text) \<Rightarrow>
        let APIHost = (if scheme = '''' then ''https://'' @ hostname @ ''/'' else text) in
        if url_ParseRequestURI E APIHost then Ok APIHost
        else Crash (GoPanic ''nil pointer dereference: hostnameURL.String''))"

text \<open>\<open>verifyAPIClient\<close>, \<open>NewClient\<close> and \<open>getAPIConfig\<close> of \<open>api/apiclient.go\<close>: the second client
  has the same address and credentials as the first.\<close>

definition getAPIConfig :: "Env \<Rightarrow> gomap \<Rightarrow> Credentials res" where
  "getAPIConfig E secrets =
     (if lookup secrets CredentialHostname = '''' \<or> lookup secrets CredentialUsername = ''''
         \<or> lookup secrets CredentialPassword = ''''
      then Err (Errors_New ''host configuration is not valid, verify hostname, username, password is not blank'')
      else case api_host E (lookup secrets CredentialHostname) of
        Ok url \<Rightarrow> Ok \<lparr>cred_Username = lookup secrets CredentialUsername,
                     cred_Password = lookup secrets CredentialPassword, cred_URL = url\<rparr>
      | Err e \<Rightarrow> Crash (GoPanic ''nil pointer dereference: hostnameURL.String'')
      | Crash x \<Rightarrow> Crash x)"

definition BuildCommonService ::
    "Env \<Rightarrow> gomap \<Rightarrow> gomap \<Rightarrow> VolumeProtocolConfig \<Rightarrow> Commonservice res" where
  "BuildCommonService E config secrets volumePrototype =
     (if length secrets < 3 then Err (Errors_New ''secrets are missing or not valid'')
      else case api_host E (lookup secrets CredentialHostname) of
        Err e \<Rightarrow> Err e
      | Crash x \<Rightarrow> Crash x
      | Ok APIHost \<Rightarrow>
         (let creds = \<lparr>cred_Username = lookup secrets CredentialUsername,
                       cred_Password = lookup secrets CredentialPassword, cred_URL = APIHost\<rparr>
          in case getAPIConfig E secrets of
               Err e \<Rightarrow> Err (Errorf ''failed to create rest client '' e)
             | Crash x \<Rightarrow> Crash x
             | Ok _ \<Rightarrow> Ok \<lparr>cs_IboxAPI = dial E creds,
                            cs_driverVersion = lookup config ''driverversion'',
                            cs_VolProto = volumePrototype\<rparr>))"

subsection \<open>Mapping\<close>

definition MapVolumeTohost :: "Commonservice \<Rightarrow> int \<Rightarrow> int \<Rightarrow> LunInfo go" where
  "MapVolumeTohost cs volumeID hostID =
     try_go (MapVolumeToHost_api (cs_IboxAPI cs) hostID volumeID (-1))
       (\<lambda>err. if errors_is err ErrMappingExists
              then GetLunByHostVolume_api (cs_IboxAPI cs) hostID volumeID
              else fail_go err)
       return_go"

definition unmap_ignored :: "go_error \<Rightarrow> bool" where
  "unmap_ignored err \<longleftrightarrow> Contains (err_text err) ''HOST_NOT_FOUND''
     \<or> Contains (err_text err) ''LUN_NOT_FOUND'' \<or> Contains (err_text err) ''VOLUME_NOT_FOUND''"

definition UnmapVolumeFromHost :: "Commonservice \<Rightarrow> int \<Rightarrow> int \<Rightarrow> unit go" where
  "UnmapVolumeFromHost cs hostID volumeID =
     try_go (UnMapVolumeFromHost_api (cs_IboxAPI cs) hostID volumeID)
       (\<lambda>err. if unmap_ignored err then return_go () else fail_go err) return_go"

definition AddPortForHost :: "Commonservice \<Rightarrow> int \<Rightarrow> string \<Rightarrow> string \<Rightarrow> unit go" where
  "AddPortForHost cs hostID portType portName =
     AddHostPort_api (cs_IboxAPI cs) portType portName hostID"

subsection \<open>Hosts\<close>

definition ValidateHost :: "Env \<Rightarrow> Commonservice \<Rightarrow> string \<Rightarrow> Host go" where
  "ValidateHost E cs hostName0 =
     (let hostName = (if getenv E EnvVarRemoveDomainName = ''true'' then short_name hostName0
                      else hostName0) in
      try_go (GetHostByName_api (cs_IboxAPI cs) hostName)
        (\<lambda>err. if errors_is err ErrNotFound then
             or_status Internal (''error failed to create host '' @ hostName @ '' with error '')
               (CreateHost_api (cs_IboxAPI cs) hostName)
               (\<lambda>host. or_status Internal (''error creating host metadata: '' @ hostName @ '' error: '')
                  (PutMetadata_api (cs_IboxAPI cs) (host_ID host) [(CSICreatedHost, JBool True)])
                  (\<lambda>_. return_go host))
           else fail_go (Status_Error Internal
             (''validateHost - GetHostByName - hostname: '' @ hostName @ '' error: '' @ err_text err)))
        return_go)"

definition HostCleanup :: "Client \<Rightarrow> int \<Rightarrow> unit go" where
  "HostCleanup iboxClient hostID =
     or_wrap (''hostCleanup: failed to get metadata for host ID '' @ Itoa hostID @ ''. Error: '')
       (GetMetadata_api iboxClient hostID)
       (\<lambda>meta. if list_ex (\<lambda>m. md_Key m = CSICreatedHost) meta
          then try_go (DeleteHost_api iboxClient hostID)
                 (\<lambda>err. if errors_is err ErrNotFound then return_go ()
                        else fail_go (Errorf ''hostCleanup: failed to delete host with error '' err))
                 return_go
          else return_go ())"

text \<open>The text for the log; it asks the InfiniBox for its serial number.\<close>

definition GetHostInfo :: "gomap \<Rightarrow> Client \<Rightarrow> string go" where
  "GetHostInfo secrets client =
     ignore_go (GetSystem_api client)
       (\<lambda>sys. let serialNumber = (case sys of None \<Rightarrow> 0 | Some n \<Rightarrow> n) in
          return_go ('' - ibox '' @ lookup secrets CredentialHostname @ '' ('' @ Itoa serialNumber @ '')''))"

lemma GetHostInfo_run:
  "GetHostInfo secrets c h = (Ok ('' - ibox '' @ lookup secrets CredentialHostname @ '' ('' @
     Itoa (case r_GetSystem c h of Inl e \<Rightarrow> 0 | Inr n \<Rightarrow> n) @ '')''), [C_GetSystem])"
  by (simp add: GetHostInfo_def go_run ibox_api_defs split: sum.splits)

lemma wp_GetHostInfo [wp_simps]:
  "wp (GetHostInfo secrets c) h Q = Q (Ok ('' - ibox '' @ lookup secrets CredentialHostname @ '' ('' @
     Itoa (case r_GetSystem c h of Inl e \<Rightarrow> 0 | Inr n \<Rightarrow> n) @ '')'')) [C_GetSystem]"
  by (simp add: wp_def GetHostInfo_run result_of_def calls_of_def)

lemma only_GetHostInfo [only_intros]: "P C_GetSystem \<Longrightarrow> only P (GetHostInfo secrets c)"
  by (simp add: only_def calls_of_def GetHostInfo_run)

lemma safe_GetHostInfo [safe_intros]: "safe (GetHostInfo secrets c)"
  by (simp add: safe_def GetHostInfo_run)

subsection \<open>Pools and network spaces\<close>

definition getStoragePoolNameFromID :: "Commonservice \<Rightarrow> int \<Rightarrow> string go" where
  "getStoragePoolNameFromID cs poolID =
     try_go (GetPoolByID_api (cs_IboxAPI cs) poolID)
       (\<lambda>err. return_go '''')
       (\<lambda>pool. panic_go ''assignment to entry in nil map'')"

definition GetRandomIndex :: "Env \<Rightarrow> call list \<Rightarrow> nat \<Rightarrow> nat" where
  "GetRandomIndex E h maxIndex = rand_Intn E h maxIndex mod maxIndex"

definition GetNetworkSpaceIP :: "Env \<Rightarrow> Commonservice \<Rightarrow> string \<Rightarrow> string go" where
  "GetNetworkSpaceIP E cs networkSpace =
     then_go (GetNetworkSpaceByName_api (cs_IboxAPI cs) networkSpace)
       (\<lambda>ns. if ns_Portals ns = [] then fail_go (Errors_New ''error IP address not found'')
             else (\<lambda>h. (Ok (portal_IPAddress (ns_Portals ns ! GetRandomIndex E h (length (ns_Portals ns)))), [])))"

definition ValidateProtocolToNetworkSpace :: "string \<Rightarrow> string list \<Rightarrow> Client \<Rightarrow> unit go" where
  "ValidateProtocolToNetworkSpace protocol networkSpaces api =
     (if networkSpaces = [] then fail_go (Errors_New ''no network spaces provided'')
      else then_go (for_go networkSpaces (\<lambda>networkSpace.
             then_go (GetNetworkSpaceByName_api api networkSpace) (\<lambda>nSpace.
               if ns_Service nSpace = ''''
               then fail_go (Errors_New (''ibox not configured with specified network space: '' @ networkSpace))
               else if ns_Service nSpace \<noteq> lookup protoToServiceMap protocol
               then fail_go (Errors_New (''specified network space '' @ networkSpace @
                      '' does not support '' @ protocol @ '' protocol with '' @ ns_Service nSpace @ '' service''))
               else return_go (None :: unit option))))
           (\<lambda>_. return_go ()))"

definition getClusterVersion :: "Env \<Rightarrow> string go" where
  "getClusterVersion E =
     try_go (BuildClient_kube (cluster E)) (\<lambda>err. return_go '''')
       (\<lambda>_. ignore_go (GetClusterVersion_kube (cluster E))
              (\<lambda>version. return_go (case version of None \<Rightarrow> '''' | Some v \<Rightarrow> v)))"

definition GetCreatedBy :: "Env \<Rightarrow> Commonservice \<Rightarrow> string go" where
  "GetCreatedBy E cs = then_go (getClusterVersion E)
     (\<lambda>k8version. return_go (if k8version \<noteq> ''''
        then ''CSI/'' @ k8version @ ''/'' @ cs_driverVersion cs
        else ''CSI/'' @ cs_driverVersion cs))"

subsection \<open>The answer to CreateVolume\<close>

definition volume_attributes :: "Env \<Rightarrow> Volume \<Rightarrow> string \<Rightarrow> gomap \<Rightarrow> gomap" where
  "volume_attributes E vol storagePoolName params =
     [(''ID'', Itoa (vol_ID vol)), (''Name'', vol_Name vol), (''StoragePoolID'', Itoa (vol_PoolID vol)),
      (''StoragePoolName'', storagePoolName), (''CreationTime'', unix_text E (vol_CreatedAt vol)),
      (''targetWWNs'', lookup params ''targetWWNs'')]"

definition GetCSIResponse ::
    "Env \<Rightarrow> Commonservice \<Rightarrow> Volume \<Rightarrow> CsiCreateVolumeRequest \<Rightarrow> CsiVolume go" where
  "GetCSIResponse E cs vol req =
     then_go (if vol_PoolName vol = '''' then getStoragePoolNameFromID cs (vol_PoolID vol)
              else return_go (vol_PoolName vol))
       (\<lambda>storagePoolName. return_go
          \<lparr>csi_VolumeId = Itoa (vol_ID vol), csi_CapacityBytes = vol_Size vol,
           csi_VolumeContext = volume_attributes E vol storagePoolName (req_Parameters req),
           csi_ContentSource = req_ContentSource req\<rparr>)"

definition with_parameters :: "gomap \<Rightarrow> CsiVolume \<Rightarrow> CsiVolume" where
  "with_parameters params v =
     v\<lparr>csi_VolumeContext := CopyRequestParameters params (csi_VolumeContext v)\<rparr>"

section \<open>Clones and restored snapshots (snapshot.go)\<close>

definition featureEnabled :: "Client \<Rightarrow> string \<Rightarrow> bool go" where
  "featureEnabled cl requestedFeature = then_go (GetFeatures_api cl)
     (\<lambda>features. return_go (case find (\<lambda>f. feat_Name f = requestedFeature) features of
        None \<Rightarrow> False | Some f \<Rightarrow> feat_Enabled f))"

definition content_id :: "CsiCreateVolumeRequest \<Rightarrow> string" where
  "content_id req = (case req_ContentSource req of
     Some (ContentSnapshot s) \<Rightarrow> s | Some (ContentVolume v) \<Rightarrow> v | _ \<Rightarrow> '''')"

definition restore_type :: "CsiCreateVolumeRequest \<Rightarrow> string" where
  "restore_type req = (case req_ContentSource req of
     Some (ContentSnapshot s) \<Rightarrow> ''Snapshot'' | Some (ContentVolume v) \<Rightarrow> ''Volume'' | _ \<Rightarrow> '''')"

definition clone_request :: "CsiCreateVolumeRequest \<Rightarrow> int \<Rightarrow> string \<Rightarrow> CreateSnapshotVolumeRequest" where
  "clone_request req parentID name =
     (let ssd = lookup (req_Parameters req) StorageClassSSDEnabled in
      \<lparr>csv_ParentID = parentID, csv_SnapshotName = name, csv_WriteProtected = False,
       csv_SSDEnabled = (ParseBool (if ssd = '''' then ''false'' else ssd) = Some True),
       csv_LockExpiresAt = 0\<rparr>)"

definition clone_finish ::
    "Env \<Rightarrow> Commonservice \<Rightarrow> CsiCreateVolumeRequest \<Rightarrow> Snapshot \<Rightarrow> CsiVolume go" where
  "clone_finish E cs req snapResponse =
     or_status Internal ''error from GetVolume - error: ''
       (GetVolume_api (cs_IboxAPI cs) (snap_SnapShotID snapResponse)) (\<lambda>dstVol.
     or_status Internal ''from featureEnabled - error: ''
       (featureEnabled (cs_IboxAPI cs) IboxFeaturePromoteSnapshot) (\<lambda>enabled.
     or_status Internal ''from PromoteSnapshot - error: ''
       (if enabled
        then then_go (PromoteSnapshot_api (cs_IboxAPI cs) (vol_ID dstVol)) (\<lambda>_. return_go ())
        else return_go ()) (\<lambda>_.
     then_go (GetCSIResponse E cs dstVol req) (\<lambda>csiVolume.
     or_status Internal (''error from PutMetadata - volumeName: '' @ vol_Name dstVol @ '', error: '')
       (PutMetadata_api (cs_IboxAPI cs) (vol_ID dstVol) [(''host.k8s.pvname'', JStr (vol_Name dstVol))])
       (\<lambda>_. return_go (with_parameters (req_Parameters req) csiVolume))))))"

definition CreateVolumeFromVolumeContent ::
    "Env \<Rightarrow> Commonservice \<Rightarrow> CsiCreateVolumeRequest \<Rightarrow> string \<Rightarrow> int64 \<Rightarrow> string \<Rightarrow> CsiVolume go" where
  "CreateVolumeFromVolumeContent E cs req name sizeInBytes storagePool =
     or_status NotFound (''error from ValidateVolumeID - restoreType: '' @ restore_type req @ '', error: '')
       (pure_go (ValidateVolumeID (content_id req))) (\<lambda>volproto.
     or_status NotFound (''error from GetVolume - restoreType: '' @ restore_type req @ '' error: '')
       (GetVolume_api (cs_IboxAPI cs) (vpc_VolumeID volproto)) (\<lambda>srcVol.
     if vol_Size srcVol \<noteq> sizeInBytes
     then fail_go (Status_Error InvalidArgument (restore_type req @ content_id req @ '' has incompatible size''))
     else or_status Internal (''error from GetPoolByName - storagePool: '' @ storagePool @ '' error: '')
       (GetPoolByName_api (cs_IboxAPI cs) storagePool) (\<lambda>pool.
     if pool_ID pool \<noteq> vol_PoolID srcVol
     then fail_go (Status_Error InvalidArgument
            (''volume storage pool is different than requested storagePool: '' @ storagePool))
     else or_status Internal ''error from CreateSnapshotVolume - error: ''
       (CreateSnapshotVolume_api (cs_IboxAPI cs) (clone_request req (vpc_VolumeID volproto) name))
       (clone_finish E cs req))))"

section \<open>Snapshots (createsnapshot.go)\<close>

definition snapshot_answer ::
    "Env \<Rightarrow> CsiCreateSnapshotRequest \<Rightarrow> Commonservice \<Rightarrow> int \<Rightarrow> int64 \<Rightarrow> CsiSnapshot go" where
  "snapshot_answer E req cs snapID sizeBytes = then_go (read_clock E) (\<lambda>t. return_go
     \<lparr>csn_SizeBytes = sizeBytes, csn_SnapshotId = Itoa snapID @ ''$$'' @ vpc_StorageType (cs_VolProto cs),
      csn_SourceVolumeId = csr_SourceVolumeId req, csn_CreationTime = t, csn_ReadyToUse = True\<rparr>)"

text \<open>The lock a snapshot gets, computed from the clock of the InfiniBox; \<open>ntpStatus[0]\<close> panics on
  an empty list.\<close>

definition snapshot_lock :: "CsiCreateSnapshotRequest \<Rightarrow> Client \<Rightarrow> int64 go" where
  "snapshot_lock req client =
     (let lockExpiresAtParameter = lookup (csr_Parameters req) LockExpiresAtParameter in
      if lockExpiresAtParameter = '''' then return_go 0
      else or_status Internal ''error from GetNtpStatus - error: '' (GetNtpStatus_api client) (\<lambda>ntpStatus.
        case ntpStatus of [] \<Rightarrow> panic_go ''index out of range [0] with length 0''
        | ntp # _ \<Rightarrow> or_status Internal (''failed to create snapshotName: '' @ csr_Name req @ '' error: '')
            (pure_go (ValidateSnapshotLockingParameter (ntp_LastProbeTimestamp ntp) lockExpiresAtParameter))
            return_go))"

definition snapshot_create ::
    "Env \<Rightarrow> CsiCreateSnapshotRequest \<Rightarrow> Commonservice \<Rightarrow> CsiSnapshot go" where
  "snapshot_create E req cs =
     or_status NotFound ''error from GetVolume - getting parent volume when creating snapshot - error: ''
       (GetVolume_api (cs_IboxAPI cs) (vpc_VolumeID (cs_VolProto cs))) (\<lambda>parentVolume.
     then_go (snapshot_lock req (cs_IboxAPI cs)) (\<lambda>lockExpiresAt.
     or_status Internal (''error from CreateSnapshotVolume  snapshotName: '' @ csr_Name req @ '' error: '')
       (CreateSnapshotVolume_api (cs_IboxAPI cs)
          \<lparr>csv_ParentID = vpc_VolumeID (cs_VolProto cs), csv_SnapshotName = csr_Name req,
           csv_WriteProtected = True, csv_SSDEnabled = vol_SsdEnabled parentVolume,
           csv_LockExpiresAt = lockExpiresAt\<rparr>) (\<lambda>snapshot.
     snapshot_answer E req cs (snap_SnapShotID snapshot) (snap_Size snapshot))))"

definition CommonCreateSnapshot ::
    "Env \<Rightarrow> CsiCreateSnapshotRequest \<Rightarrow> Commonservice \<Rightarrow> CsiSnapshot go" where
  "CommonCreateSnapshot E req cs =
     try_go (GetVolumeByName_api (cs_IboxAPI cs) (csr_Name req))
       (\<lambda>err. if errors_is err ErrNotFound then snapshot_create E req cs
              else fail_go (Status_Error Internal (''error from GetVolumeByName - snapshotName: '' @
                     csr_Name req @ '' error: '' @ err_text err)))
       (\<lambda>volumeSnapshot. if vol_ParentID volumeSnapshot = vpc_VolumeID (cs_VolProto cs)
          then snapshot_answer E req cs (vol_ID volumeSnapshot) (vol_Size volumeSnapshot)
          else fail_go (Status_Error AlreadyExists (''snapshot Name: '' @ vol_Name volumeSnapshot @
                 '' with already existing name and different source volume ID'')))"

section \<open>Deletion (deletevolume.go)\<close>

text \<open>The argument \<open>depth\<close> is the stack left: deleting the last child of a volume that waits for its
  deletion deletes that volume too, and so on up to the root.\<close>

fun DeleteVolume_common :: "nat \<Rightarrow> Commonservice \<Rightarrow> int \<Rightarrow> unit go" where
  "DeleteVolume_common 0 cs volumeID = out_of_fuel"
| "DeleteVolume_common (Suc depth) cs volumeID =
     try_go (GetVolume_api (cs_IboxAPI cs) volumeID)
       (\<lambda>err. if errors_is err ErrNotFound then return_go () else fail_go (Errorf '''' err))
       (\<lambda>vol. if vol_LockState vol = LockedState
          then fail_go (Status_Error Aborted (''volume ID: '' @ Itoa volumeID @
                 '' was locked, can not delete till expire date is reached''))
          else then_go (GetVolumesByParentID_api (cs_IboxAPI cs) (vol_ID vol)) (\<lambda>(childVolumes, err).
          if childVolumes \<noteq> []
          then or_wrap (''failed to update host.k8s.to_be_deleted for volume '' @ vol_Name vol @ '' error: '')
                 (PutMetadata_api (cs_IboxAPI cs) (vol_ID vol) [(TOBEDELETED, JBool True)]) return_go
          else or_wrap '''' (DeleteMetadata_api (cs_IboxAPI cs) (vol_ID vol)) (\<lambda>_.
               or_wrap '''' (DeleteVolume_api (cs_IboxAPI cs) (vol_ID vol)) (\<lambda>_.
               if vol_ParentID vol = 0 then return_go ()
               else or_wrap '''' (GetMetadata_api (cs_IboxAPI cs) (vol_ParentID vol)) (\<lambda>metadata.
                 if list_ex (\<lambda>m. md_Key m = TOBEDELETED) metadata
                 then or_wrap '''' (DeleteVolume_common depth cs (vol_ParentID vol)) return_go
                 else return_go ())))))"

section \<open>Unpublishing (unpublishvolume.go)\<close>

definition CommonUnpublishVolume :: "CsiUnpublishRequest \<Rightarrow> Commonservice \<Rightarrow> string \<Rightarrow> unit go" where
  "CommonUnpublishVolume req cs hostNameSuffix =
     (case vpc_Host (cs_VolProto cs) of
        None \<Rightarrow> panic_go ''nil pointer dereference: cs.VolProto.Host''
      | Some host \<Rightarrow>
          or_status Internal ''from UnmapVolumeFromHost - error: ''
            (if host_Luns host \<noteq> []
             then UnmapVolumeFromHost cs (host_ID host) (vpc_VolumeID (cs_VolProto cs))
             else return_go ()) (\<lambda>_.
          then_go (GetAllLunByHost_api (cs_IboxAPI cs) (host_ID host)) (\<lambda>(luns, err).
          or_status Internal ''from HostCleanup - error: ''
            (if luns = [] then HostCleanup (cs_IboxAPI cs) (host_ID host) else return_go ())
            return_go)))"

end
