(* ===== verification/Storage_Common_Props.thy ===== *)
theory Storage_Common_Props
  imports Storage_Common
begin

text \<open>
  What the shared operations of \<open>storage/common\<close> guarantee, whatever the InfiniBox answers.
\<close>

lemmas run_defs = go_run go_error_defs ibox_api_defs

text \<open>The service of a given InfiniBox, for examples.\<close>

definition sample_cs :: "Client \<Rightarrow> Commonservice" where
  "sample_cs c = \<lparr>cs_IboxAPI = c, cs_driverVersion = ''1'', cs_VolProto = zero_VolProto\<lparr>vpc_VolumeID := 7\<rparr>\<rparr>"

section \<open>Deletion\<close>

text \<open>The volume waits for its deletion: its metadata was read last and holds the mark.\<close>

definition marked :: "Client \<Rightarrow> call list \<Rightarrow> int \<Rightarrow> bool" where
  "marked c h i \<longleftrightarrow> (\<exists>h0 meta. h = h0 @ [C_GetMetadata i] \<and> r_GetMetadata c h0 i = Inr meta \<and>
     (\<exists>m \<in> set meta. md_Key m = TOBEDELETED))"

text \<open>When a volume may be deleted by a deletion of \<open>root\<close> that starts at \<open>start\<close>: right before, the volume
  was read and found unlocked, its children were listed and there were none, and its metadata was
  removed; and it is \<open>root\<close> or an ancestor that waits for its deletion.\<close>

definition may_delete :: "Client \<Rightarrow> int \<Rightarrow> call list \<Rightarrow> call list \<Rightarrow> call \<Rightarrow> bool" where
  "may_delete c root start h x = (case x of
     C_DeleteVolume v \<Rightarrow> (\<exists>h0 i vol. h = h0 @ [C_GetVolume i, C_GetVolumesByParentID v, C_DeleteMetadata v] \<and>
        r_GetVolume c h0 i = Inr vol \<and> vol_ID vol = v \<and> vol_LockState vol \<noteq> LockedState \<and>
        fst (r_GetVolumesByParentID c (h0 @ [C_GetVolume i]) v) = [] \<and>
        (i = root \<and> h0 = start \<or> marked c h0 i))
   | _ \<Rightarrow> True)"

lemma may_delete_simps [simp]:
  "may_delete c root start h (C_GetVolume i)" "may_delete c root start h (C_GetVolumesByParentID i)"
  "may_delete c root start h (C_DeleteMetadata i)" "may_delete c root start h (C_GetMetadata i)"
  "may_delete c root start h (C_PutMetadata i m)"
  by (simp_all add: may_delete_def)

lemma may_delete_marked:
  "each_call (may_delete c i g) h t \<Longrightarrow> marked c g i \<Longrightarrow> each_call (may_delete c root start) h t"
  by (induction t arbitrary: h) (auto simp: may_delete_def split: call.splits)

lemma block_delete_each:
  "each_call (may_delete (cs_IboxAPI cs) volumeID h) h (calls_of (DeleteVolume_common depth cs volumeID h))"
proof (induction depth arbitrary: volumeID h)
  case 0
  show ?case by (simp add: calls_of_def)
next
  case (Suc depth)
  let ?c = "cs_IboxAPI cs"
  have rec: "each_call (may_delete ?c root start) (h @ [w, x, y, z, C_GetMetadata i]) t"
    if "DeleteVolume_common depth cs i (h @ [w, x, y, z, C_GetMetadata i]) = (r, t)"
      "r_GetMetadata ?c (h @ [w, x, y, z]) i = Inr meta" "list_ex (\<lambda>m. md_Key m = TOBEDELETED) meta"
    for i r t meta root start w x y z
  proof (rule may_delete_marked)
    show "each_call (may_delete ?c i (h @ [w, x, y, z, C_GetMetadata i])) (h @ [w, x, y, z, C_GetMetadata i]) t"
      using Suc.IH [of i "h @ [w, x, y, z, C_GetMetadata i]"] that(1) by (simp add: calls_of_def)
    show "marked ?c (h @ [w, x, y, z, C_GetMetadata i]) i"
      unfolding marked_def using that(2,3) by (intro exI [of _ "h @ [w, x, y, z]"]) (auto simp: list_ex_iff)
  qed
  show ?case
    by (auto simp: run_defs calls_of_def may_delete_def [of _ _ _ _ "C_DeleteVolume _"] split: go_splits
        intro: rec)
qed


text \<open>The stack is deep enough when it is deeper than the chain of parents.\<close>

definition ranked_parents :: "Client \<Rightarrow> (int \<Rightarrow> nat) \<Rightarrow> bool" where
  "ranked_parents c rank \<longleftrightarrow> (\<forall>h i vol. r_GetVolume c h i = Inr vol \<longrightarrow> vol_ParentID vol \<noteq> 0
     \<longrightarrow> rank (vol_ParentID vol) < rank i)"

text \<open>C19: Deleting a block volume always returns, a value or an error: it does not panic, and it does not run
  out of stack when the chain of parents is shorter than the stack.\<close>

theorem block_delete_total:
  assumes "ranked_parents (cs_IboxAPI cs) rank" and "rank volumeID < depth"
  shows "result_of (DeleteVolume_common depth cs volumeID h) \<noteq> Crash x"
  using assms(2)
proof (induction depth arbitrary: volumeID h)
  case 0
  then show ?case by simp
next
  case (Suc depth)
  have rec: "DeleteVolume_common depth cs (vol_ParentID vol) g \<noteq> (Crash x, t)"
    if "r_GetVolume (cs_IboxAPI cs) h volumeID = Inr vol" "vol_ParentID vol \<noteq> 0" for vol g t
  proof -
    have "rank (vol_ParentID vol) < depth"
      using Suc.prems assms(1) that by (fastforce simp: ranked_parents_def)
    from Suc.IH [OF this, of g] show ?thesis by (auto simp: result_of_def)
  qed
  show ?case
    by (auto simp: run_defs result_of_def split: go_splits dest: rec)
qed

theorem block_delete_total_witness:
  "result_of (DeleteVolume_common 1 (sample_cs stocked_ibox) 7 []) \<noteq> Crash OutOfFuel"
  by (rule block_delete_total [of _ "\<lambda>_. 0"])
    (simp_all add: ranked_parents_def sample_cs_def stocked_defs zero_Volume_def)

text \<open>A block volume that has children (snapshots or clones) is not deleted: it gets the mark
  \<open>host.k8s.to_be_deleted\<close>, and nothing else is changed.\<close>

theorem block_delete_marks:
  assumes "r_GetVolume (cs_IboxAPI cs) h volumeID = Inr vol" and "vol_LockState vol \<noteq> LockedState"
    and "fst (r_GetVolumesByParentID (cs_IboxAPI cs) (h @ [C_GetVolume volumeID]) (vol_ID vol)) \<noteq> []"
  shows "calls_of (DeleteVolume_common (Suc depth) cs volumeID h) =
    [C_GetVolume volumeID, C_GetVolumesByParentID (vol_ID vol),
     C_PutMetadata (vol_ID vol) [(TOBEDELETED, JBool True)]]"
  using assms by (auto simp: run_defs calls_of_def split: go_splits)

theorem block_delete_marks_witness:
  "calls_of (DeleteVolume_common 1 (sample_cs (stocked_ibox\<lparr>r_GetVolumesByParentID := (\<lambda>h _. ([sample_volume], None))\<rparr>)) 7 []) =
    [C_GetVolume 7, C_GetVolumesByParentID 7, C_PutMetadata 7 [(TOBEDELETED, JBool True)]]"
  using block_delete_marks [of "sample_cs (stocked_ibox\<lparr>r_GetVolumesByParentID := (\<lambda>h _. ([sample_volume], None))\<rparr>)" "[]" 7
      "sample_volume\<lparr>vol_ID := 7\<rparr>" 0]
  by (simp add: sample_cs_def stocked_defs zero_Volume_def LockedState_def)

text \<open>Deleting a block volume that is gone succeeds without any change; one that is locked gives
  \<open>Aborted\<close> without any change.\<close>

theorem block_delete_gone_or_locked:
  "(case r_GetVolume (cs_IboxAPI cs) h volumeID of
      Inl e \<Rightarrow> if errors_is e ErrNotFound
        then DeleteVolume_common (Suc depth) cs volumeID h = (Ok (), [C_GetVolume volumeID])
        else DeleteVolume_common (Suc depth) cs volumeID h = (Err (Errorf '''' e), [C_GetVolume volumeID])
    | Inr vol \<Rightarrow> if vol_LockState vol = LockedState
        then \<exists>msg. DeleteVolume_common (Suc depth) cs volumeID h =
          (Err (Status_Error Aborted msg), [C_GetVolume volumeID])
        else True)"
  by (simp add: run_defs split: sum.splits)

section \<open>Hosts\<close>

text \<open>Mapping a volume that is already mapped to the host returns the mapping that is there, and every other
  failure is returned.\<close>

theorem MapVolumeTohost_spec:
  "result_of (MapVolumeTohost cs v hst h) = (case r_MapVolumeToHost (cs_IboxAPI cs) h hst v (-1) of
     Inr lun \<Rightarrow> Ok lun
   | Inl e \<Rightarrow> if errors_is e ErrMappingExists
       then (case r_GetLunByHostVolume (cs_IboxAPI cs) (h @ [C_MapVolumeToHost hst v (-1)]) hst v of
               Inr lun \<Rightarrow> Ok lun | Inl e' \<Rightarrow> Err e')
       else Err e)"
  by (simp add: MapVolumeTohost_def run_defs result_of_def split: go_splits)



text \<open>When a host may be deleted: its LUNs were listed, none was left, and its metadata says that
  the driver created it.\<close>

definition may_delete_host :: "Client \<Rightarrow> call list \<Rightarrow> call \<Rightarrow> bool" where
  "may_delete_host c h x = (case x of
     C_DeleteHost i \<Rightarrow> (\<exists>h0 meta. h = h0 @ [C_GetAllLunByHost i, C_GetMetadata i] \<and>
        fst (r_GetAllLunByHost c h0 i) = [] \<and>
        r_GetMetadata c (h0 @ [C_GetAllLunByHost i]) i = Inr meta \<and>
        (\<exists>m \<in> set meta. md_Key m = CSICreatedHost))
   | _ \<Rightarrow> True)"

lemma may_delete_host_simps [simp]:
  "may_delete_host c h (C_UnMapVolumeFromHost i j)" "may_delete_host c h (C_GetAllLunByHost i)"
  "may_delete_host c h (C_GetMetadata i)"
  by (simp_all add: may_delete_host_def)

text \<open>C21: Unpublishing deletes a host only when the listing of its LUNs right before gave none and its metadata
  says that the driver created it.\<close>

theorem unpublish_safe:
  "each_call (may_delete_host (cs_IboxAPI cs)) h (calls_of (CommonUnpublishVolume req cs suffix h))"
proof -
  have "wp (CommonUnpublishVolume req cs suffix) h (\<lambda>r t. each_call (may_delete_host (cs_IboxAPI cs)) h t)"
    by (auto simp: CommonUnpublishVolume_def UnmapVolumeFromHost_def HostCleanup_def wp_simps
        may_delete_host_def [of _ _ "C_DeleteHost _"] list_ex_iff)
  then show ?thesis by (simp add: wp_def)
qed

section \<open>Clones and snapshots\<close>



lemma GetCSIResponse_Ok_id:
  "GetCSIResponse E cs vol req h = (Ok v, t) \<Longrightarrow>
     csi_VolumeId v = Itoa (vol_ID vol) \<and> csi_CapacityBytes v = vol_Size vol \<and>
     csi_ContentSource v = req_ContentSource req"
  by (auto simp: GetCSIResponse_def getStoragePoolNameFromID_def run_defs split: go_splits)



end
