(* ===== verification/Block_Storage.thy ===== *)
theory Block_Storage
  imports Storage_Common_Props
begin

text \<open>
  The block protocols: \<open>storage/fc/fccontroller.go\<close>, \<open>storage/iscsi/iscsicontroller.go\<close> and
  \<open>storage/nvme/nvmecontroller.go\<close>. The three structs keep the same state that the controller
  reads, the requested capacity and the common service; one record stands for them.

  The loop of iSCSI that waits while \<open>vol == nil\<close> never runs: \<open>GetVolume\<close> returns a volume
  exactly when it returns no error.
\<close>

record Storage =
  st_Capacity :: int64
  st_CS :: Commonservice

abbreviation ibox :: "Storage \<Rightarrow> Client" where
  "ibox st \<equiv> cs_IboxAPI (st_CS st)"

section \<open>StorageClass parameters\<close>

definition ValidateStorageClass_fc :: "gomap \<Rightarrow> unit res" where
  "ValidateStorageClass_fc params =
     (case ValidateRequiredOptionalSCParameters [(StorageClassPoolName, HasLetter)]
        [(StorageClassProvisionType, ThickOrThin), (StorageClassUID, AllDigits), (StorageClassGID, AllDigits)]
        params of
      Err e \<Rightarrow> Err (ImplementationError InvalidArgument (err_text e)) | r \<Rightarrow> r)"

definition ValidateStorageClass_iscsi :: "gomap \<Rightarrow> unit res" where
  "ValidateStorageClass_iscsi params =
     (case ValidateRequiredOptionalSCParameters
        [(StorageClassPoolName, HasLetter), (StorageClassUseCHAP, ChapMode), (StorageClassNetworkSpace, AnyLine)]
        [(StorageClassProvisionType, ThickOrThin), (StorageClassUID, AllDigits), (StorageClassGID, AllDigits)]
        params of
      Err e \<Rightarrow> Err (Errorf '''' (ImplementationError InvalidArgument (err_text e))) | r \<Rightarrow> r)"

definition ValidateStorageClass_nvme :: "gomap \<Rightarrow> unit res" where
  "ValidateStorageClass_nvme params =
     (case ValidateRequiredOptionalSCParameters
        [(StorageClassPoolName, HasLetter), (StorageClassNetworkSpace, AnyLine)] [] params of
      Err e \<Rightarrow> Err (ImplementationError InvalidArgument (err_text e)) | r \<Rightarrow> r)"

section \<open>CreateVolume\<close>

text \<open>A volume of that name exists: it is the answer when its size is the requested one.\<close>

definition existing_volume :: "Env \<Rightarrow> Storage \<Rightarrow> CsiCreateVolumeRequest \<Rightarrow> string \<Rightarrow> Volume \<Rightarrow> CsiVolume go" where
  "existing_volume E st req msg targetVol =
     (if vol_Size targetVol = st_Capacity st
      then then_go (GetCSIResponse E (st_CS st) targetVol req)
             (\<lambda>v. return_go (with_parameters (req_Parameters req) v))
      else fail_go (ImplementationError AlreadyExists msg))"

definition provision_type :: "gomap \<Rightarrow> string" where
  "provision_type params = (if provided params StorageClassProvisionType
     then lookup params StorageClassProvisionType else StorageClassThinProvision)"

definition volume_request :: "Storage \<Rightarrow> CsiCreateVolumeRequest \<Rightarrow> CreateVolumeRequest go" where
  "volume_request st req =
     (let params = req_Parameters req in
      or_impl (GetPoolByName_api (ibox st) (lookup params StorageClassPoolName)) (\<lambda>pool.
      or_impl (pure_go (DetermineSSDValue (lookup params StorageClassSSDEnabled) pool)) (\<lambda>ssd.
      return_go \<lparr>cvr_PoolID = pool_ID pool, cvr_VolumeSize = st_Capacity st, cvr_Name = req_Name req,
                 cvr_ProvisionType = provision_type params, cvr_SSDEnabled = ssd\<rparr>)))"

definition put_pvname :: "Client \<Rightarrow> int \<Rightarrow> string \<Rightarrow> unit go" where
  "put_pvname c volumeID name = PutMetadata_api c volumeID [(''host.k8s.pvname'', JStr name)]"

definition create_new :: "Storage \<Rightarrow> CsiCreateVolumeRequest \<Rightarrow> (Volume \<Rightarrow> CsiVolume go) \<Rightarrow> CsiVolume go" where
  "create_new st req finish = then_go (volume_request st req) (\<lambda>createVolumeRequest.
     or_impl (CreateVolume_api (ibox st) createVolumeRequest) finish)"

text \<open>
  The part the three protocols write alike: look the volume up by name, answer with it, clone, or
  create it; \<open>lookup_error\<close> is what a failed lookup becomes and \<open>finish\<close> what follows the creation.
\<close>

definition create_block :: "Env \<Rightarrow> Storage \<Rightarrow> (go_error \<Rightarrow> go_error) \<Rightarrow> string
    \<Rightarrow> (Volume \<Rightarrow> CsiVolume go) \<Rightarrow> CsiCreateVolumeRequest \<Rightarrow> CsiVolume go" where
  "create_block E st lookup_error size_msg finish req =
     then_go (GetHostInfo (req_Secrets req) (ibox st)) (\<lambda>_.
     try_go (GetVolumeByName_api (ibox st) (req_Name req))
       (\<lambda>err. if errors_is err ErrNotFound then
            (if req_ContentSource req \<noteq> None
             then CreateVolumeFromVolumeContent E (st_CS st) req (req_Name req) (st_Capacity st)
                    (lookup (req_Parameters req) StorageClassPoolName)
             else create_new st req finish)
          else fail_go (lookup_error err))
       (existing_volume E st req size_msg))"

text \<open>Fibre Channel reads the volume back, and a second time when the first read fails.\<close>

definition finish_fc :: "Env \<Rightarrow> Storage \<Rightarrow> CsiCreateVolumeRequest \<Rightarrow> Volume \<Rightarrow> CsiVolume go" where
  "finish_fc E st req volumeResp =
     ignore_go (GetVolume_api (ibox st) (vol_ID volumeResp)) (\<lambda>vol.
     or_impl (case vol of
         None \<Rightarrow> then_go (GetVolume_api (ibox st) (vol_ID volumeResp)) (\<lambda>_. return_go ())
       | Some _ \<Rightarrow> return_go ()) (\<lambda>_.
     or_impl (put_pvname (ibox st) (vol_ID volumeResp) (vol_Name volumeResp)) (\<lambda>_.
     return_go (with_parameters (req_Parameters req)
       \<lparr>csi_VolumeId = Itoa (vol_ID volumeResp), csi_CapacityBytes = vol_Size volumeResp,
        csi_VolumeContext = volume_attributes E volumeResp (vol_PoolName volumeResp) (req_Parameters req),
        csi_ContentSource = req_ContentSource req\<rparr>))))"

definition CreateVolume_fc :: "Env \<Rightarrow> Storage \<Rightarrow> CsiCreateVolumeRequest \<Rightarrow> CsiVolume go" where
  "CreateVolume_fc E st req = create_block E st impl_error
     (''volume: '' @ req_Name req @ '' already exists with a different size'') (finish_fc E st req) req"

definition finish_iscsi :: "Env \<Rightarrow> Storage \<Rightarrow> CsiCreateVolumeRequest \<Rightarrow> Volume \<Rightarrow> CsiVolume go" where
  "finish_iscsi E st req volumeResp =
     then_go (GetCSIResponse E (st_CS st) volumeResp req) (\<lambda>csiResponse.
     case Atoi (csi_VolumeId csiResponse) of
       None \<Rightarrow> fail_go (impl_error (parse_error (csi_VolumeId csiResponse)))
     | Some volID \<Rightarrow>
         or_impl (GetVolume_api (ibox st) volID) (\<lambda>vol.
         or_impl (put_pvname (ibox st) (vol_ID vol) (vol_Name vol)) (\<lambda>_.
         return_go (with_parameters (req_Parameters req) csiResponse))))"

definition CreateVolume_iscsi :: "Env \<Rightarrow> Storage \<Rightarrow> CsiCreateVolumeRequest \<Rightarrow> CsiVolume go" where
  "CreateVolume_iscsi E st req = create_block E st
     (\<lambda>err. Errorf (''iscsi GetVolumeByName name: '' @ req_Name req @ '' error: '')
              (ImplementationError NotFound (err_text err)))
     (''(iscsi) - failed: volume '' @ req_Name req @ '' exists but has different size'')
     (finish_iscsi E st req) req"

text \<open>The wait for the new volume: at most \<open>tries\<close> reads.\<close>

fun wait_for_volume :: "nat \<Rightarrow> Client \<Rightarrow> int \<Rightarrow> Volume option go" where
  "wait_for_volume 0 c volumeID = return_go None"
| "wait_for_volume (Suc tries) c volumeID =
     try_go (GetVolume_api c volumeID) (\<lambda>err. wait_for_volume tries c volumeID)
       (\<lambda>volume. return_go (Some volume))"

definition MAX_TRIES :: nat where
  "MAX_TRIES = 10"

definition finish_nvme :: "Env \<Rightarrow> Storage \<Rightarrow> CsiCreateVolumeRequest \<Rightarrow> Volume \<Rightarrow> CsiVolume go" where
  "finish_nvme E st req createVolumeResponse =
     then_go (GetCSIResponse E (st_CS st) createVolumeResponse req) (\<lambda>csiResponse.
     case Atoi (csi_VolumeId csiResponse) of
       None \<Rightarrow> fail_go (impl_error (parse_error (csi_VolumeId csiResponse)))
     | Some volumeID \<Rightarrow>
         then_go (wait_for_volume MAX_TRIES (ibox st) volumeID) (\<lambda>volume.
         case volume of
           None \<Rightarrow> fail_go (ImplementationError Internal (''nvme GetVolume - name: '' @ req_Name req @
                     '' volumeID: '' @ Itoa volumeID))
         | Some volume \<Rightarrow>
             or_impl (put_pvname (ibox st) (vol_ID volume) (vol_Name volume)) (\<lambda>_.
             return_go (with_parameters (req_Parameters req) csiResponse))))"

definition CreateVolume_nvme :: "Env \<Rightarrow> Storage \<Rightarrow> CsiCreateVolumeRequest \<Rightarrow> CsiVolume go" where
  "CreateVolume_nvme E st req = create_block E st (\<lambda>err. ImplementationError NotFound (err_text err))
     (''nvme CreateVolume - failed: volume '' @ req_Name req @ '' exists but has different size'')
     (finish_nvme E st req) req"

section \<open>DeleteVolume and DeleteSnapshot\<close>

definition DeleteVolume_fc :: "Env \<Rightarrow> Storage \<Rightarrow> unit go" where
  "DeleteVolume_fc E st =
     or_impl (DeleteVolume_common (stack_depth E) (st_CS st) (vpc_VolumeID (cs_VolProto (st_CS st)))) return_go"

definition DeleteVolume_iscsi :: "Env \<Rightarrow> Storage \<Rightarrow> unit go" where
  "DeleteVolume_iscsi E st =
     or_impl (DeleteVolume_common (stack_depth E) (st_CS st) (vpc_VolumeID (cs_VolProto (st_CS st)))) return_go"

definition DeleteVolume_nvme :: "Env \<Rightarrow> Storage \<Rightarrow> unit go" where
  "DeleteVolume_nvme E st =
     DeleteVolume_common (stack_depth E) (st_CS st) (vpc_VolumeID (cs_VolProto (st_CS st)))"

text \<open>The three \<open>DeleteSnapshot\<close> are the same text; a snapshot id that is no number counts as 0.\<close>

definition DeleteSnapshot_block :: "Env \<Rightarrow> Storage \<Rightarrow> string \<Rightarrow> unit go" where
  "DeleteSnapshot_block E st snapshotId =
     or_impl (DeleteVolume_common (stack_depth E) (st_CS st) (Atoi_value snapshotId)) return_go"

definition CreateSnapshot_block :: "Env \<Rightarrow> Storage \<Rightarrow> CsiCreateSnapshotRequest \<Rightarrow> CsiSnapshot go" where
  "CreateSnapshot_block E st req = CommonCreateSnapshot E req (st_CS st)"

section \<open>ControllerPublishVolume and ControllerUnpublishVolume\<close>

definition host_ports :: "string \<Rightarrow> Host \<Rightarrow> string" where
  "host_ports kind host =
     drop 1 (concat (map (\<lambda>port. '','' @ port_Address port)
       (filter (\<lambda>port. port_Type port = kind) (host_Ports host))))"

definition publish_answer :: "int \<Rightarrow> Host \<Rightarrow> string \<Rightarrow> gomap" where
  "publish_answer lun host ports =
     [(LunPublishContext, Itoa lun), (HostIDPublishContext, Itoa (host_ID host)),
      (HostPortsPublishContext, ports)]"

text \<open>The optional limit \<open>max_vols_per_host\<close>.\<close>

definition check_max_vols :: "grpc_code \<Rightarrow> Host \<Rightarrow> string \<Rightarrow> nat \<Rightarrow> unit res" where
  "check_max_vols full_code host limit mapped =
     (if limit = '''' then Ok ()
      else case Atoi limit of
        None \<Rightarrow> Err (impl_error (parse_error limit))
      | Some maxAllowedVol \<Rightarrow>
          if maxAllowedVol < 1
          then Err (ImplementationError Internal (''invalid parameter: '' @ StorageClassMaxVolsPerHost @
                 '' error: required to be greater than 0''))
          else if int mapped \<ge> maxAllowedVol
          then Err (ImplementationError full_code (''unable to publish volume on hostName: '' @ host_Name host @
                 '', maximum allowed volume per host: '' @ Itoa maxAllowedVol @ '', limit reached''))
          else Ok ())"

text \<open>From the LUNs of the host on; \<open>extra\<close> is what the protocol adds for a new mapping.\<close>

definition publish_on_host ::
    "Storage \<Rightarrow> CsiPublishRequest \<Rightarrow> grpc_code \<Rightarrow> int \<Rightarrow> Host \<Rightarrow> string \<Rightarrow> gomap \<Rightarrow> gomap go" where
  "publish_on_host st req full_code volumeID host ports extra =
     then_go (GetAllLunByHost_api (ibox st) (host_ID host)) (\<lambda>(lunList, err).
     case err of
       Some e \<Rightarrow> fail_go (impl_error e)
     | None \<Rightarrow>
       (case find (\<lambda>lun. lun_VolumeID lun = volumeID) lunList of
          Some lun \<Rightarrow> return_go (publish_answer (lun_Lun lun) host ports)
        | None \<Rightarrow>
            then_go (pure_go (check_max_vols full_code host
                       (pub_context req StorageClassMaxVolsPerHost) (length lunList))) (\<lambda>_.
            or_impl (MapVolumeTohost (st_CS st) volumeID (host_ID host)) (\<lambda>luninfo.
            return_go (publish_answer (lun_Lun luninfo) host ports @ extra)))))"

definition ControllerPublishVolume_fc :: "Env \<Rightarrow> Storage \<Rightarrow> CsiPublishRequest \<Rightarrow> gomap go" where
  "ControllerPublishVolume_fc E st req =
     then_go (GetHostInfo (pub_Secrets req) (ibox st)) (\<lambda>_.
     or_impl (pure_go (ValidateVolumeID (pub_VolumeId req))) (\<lambda>volproto.
     or_impl (pure_go (DetermineHostName E (pub_NodeId req))) (\<lambda>hostName.
     or_impl (ValidateHost E (st_CS st) hostName) (\<lambda>host.
     or_impl (GetVolume_api (ibox st) (vpc_VolumeID volproto)) (\<lambda>volume.
     or_impl (pure_go (IsValidAccessMode volume req)) (\<lambda>_.
     publish_on_host st req ResourceExhausted (vpc_VolumeID volproto) host (host_ports ''FC'' host) []))))))"

definition or_impl_NotFound :: "'a go \<Rightarrow> ('a \<Rightarrow> 'b go) \<Rightarrow> 'b go" where
  "or_impl_NotFound m k = try_go m (\<lambda>e. fail_go (ImplementationError NotFound (err_text e))) k"

definition ControllerPublishVolume_iscsi :: "Env \<Rightarrow> Storage \<Rightarrow> CsiPublishRequest \<Rightarrow> gomap go" where
  "ControllerPublishVolume_iscsi E st req =
     then_go (GetHostInfo (pub_Secrets req) (ibox st)) (\<lambda>_.
     or_impl_NotFound (pure_go (ValidateVolumeID (pub_VolumeId req))) (\<lambda>volumePrototype.
     or_impl_NotFound (GetVolume_api (ibox st) (vpc_VolumeID volumePrototype)) (\<lambda>volume.
     or_impl (pure_go (IsValidAccessMode volume req)) (\<lambda>_.
     or_impl (pure_go (DetermineHostName E (pub_NodeId req))) (\<lambda>hostName.
     or_impl (ValidateHost E (st_CS st) hostName) (\<lambda>host.
     publish_on_host st req ResourceExhausted (vpc_VolumeID volumePrototype) host
       (host_ports ''ISCSI'' host) [(SecurityMethodPublishContext, host_SecurityMethod host)]))))))"

definition ControllerPublishVolume_nvme :: "Env \<Rightarrow> Storage \<Rightarrow> CsiPublishRequest \<Rightarrow> gomap go" where
  "ControllerPublishVolume_nvme E st req =
     then_go (GetHostInfo (pub_Secrets req) (ibox st)) (\<lambda>_.
     or_impl_NotFound (pure_go (ValidateVolumeID (pub_VolumeId req))) (\<lambda>volproto.
     or_impl_NotFound (GetVolume_api (ibox st) (vpc_VolumeID volproto)) (\<lambda>volume.
     or_impl (pure_go (IsValidAccessMode volume req)) (\<lambda>_.
     or_impl (pure_go (DetermineHostName E (pub_NodeId req))) (\<lambda>hostName.
     or_impl (ValidateHost E (st_CS st) (hostName @ NVMEHostSuffix)) (\<lambda>host.
     publish_on_host st req Internal (vpc_VolumeID volproto) host (host_ports ''NVME'' host) []))))))"

definition ControllerUnpublishVolume_fc :: "Storage \<Rightarrow> CsiUnpublishRequest \<Rightarrow> unit go" where
  "ControllerUnpublishVolume_fc st req = CommonUnpublishVolume req (st_CS st) ''''"

definition ControllerUnpublishVolume_iscsi :: "Storage \<Rightarrow> CsiUnpublishRequest \<Rightarrow> unit go" where
  "ControllerUnpublishVolume_iscsi st req = CommonUnpublishVolume req (st_CS st) ''''"

definition ControllerUnpublishVolume_nvme :: "Storage \<Rightarrow> CsiUnpublishRequest \<Rightarrow> unit go" where
  "ControllerUnpublishVolume_nvme st req = CommonUnpublishVolume req (st_CS st) NVMEHostSuffix"

section \<open>ControllerExpandVolume\<close>

definition expand_block :: "Storage \<Rightarrow> bool \<Rightarrow> CsiExpandResponse go" where
  "expand_block st nodeExpansionRequired =
     or_impl (UpdateVolume_api (ibox st) (vpc_VolumeID (cs_VolProto (st_CS st)))
                (zero_Volume\<lparr>vol_Size := st_Capacity st\<rparr>)) (\<lambda>_.
     return_go \<lparr>ers_CapacityBytes = st_Capacity st, ers_NodeExpansionRequired = nodeExpansionRequired\<rparr>)"

definition ControllerExpandVolume_fc :: "Storage \<Rightarrow> CsiExpandRequest \<Rightarrow> CsiExpandResponse go" where
  "ControllerExpandVolume_fc st req = expand_block st True"

definition ControllerExpandVolume_iscsi :: "Storage \<Rightarrow> CsiExpandRequest \<Rightarrow> CsiExpandResponse go" where
  "ControllerExpandVolume_iscsi st req = expand_block st True"

definition ControllerExpandVolume_nvme :: "Storage \<Rightarrow> CsiExpandRequest \<Rightarrow> CsiExpandResponse go" where
  "ControllerExpandVolume_nvme st req =
     expand_block st (case exr_Capability req of None \<Rightarrow> True | Some c \<Rightarrow> \<not> is_block c)"

end
