(* ===== verification/Block_Storage_Props.thy ===== *)
theory Block_Storage_Props
  imports Block_Storage
begin

text \<open>
  What the block protocols guarantee. The locale \<open>block_creator\<close> states what the part of
  \<open>CreateVolume\<close> behind the creation must promise, and what follows for the whole operation; it is
  interpreted on Fibre Channel, iSCSI and NVMe. The locale \<open>block_publisher\<close> does the same for
  \<open>ControllerPublishVolume\<close>.
\<close>

section \<open>CreateVolume\<close>

definition puts_pvname :: "call \<Rightarrow> bool" where
  "puts_pvname c \<longleftrightarrow> (\<exists>i n. c = C_PutMetadata i [(''host.k8s.pvname'', JStr n)])"

definition describes :: "CsiVolume \<Rightarrow> Volume \<Rightarrow> bool" where
  "describes v vol \<longleftrightarrow> csi_VolumeId v = Itoa (vol_ID vol) \<and> csi_CapacityBytes v = vol_Size vol"

lemma describes_with_parameters [simp]: "describes (with_parameters ps v) vol = describes v vol"
  by (simp add: describes_def with_parameters_def)

lemma wp_GetCSIResponse:
  "wp (GetCSIResponse E cs vol req) h (\<lambda>r t. (\<forall>c \<in> set t. \<not> mutating c) \<and>
     (\<forall>v. r = Ok v \<longrightarrow> describes v vol) \<and> (\<forall>e. r \<noteq> Err e))"
  by (auto simp: GetCSIResponse_def getStoragePoolNameFromID_def wp_simps describes_def)

lemma wp_volume_request:
  "wp (volume_request st req) h (\<lambda>r t. t = [C_GetPoolByName (lookup (req_Parameters req) StorageClassPoolName)] \<and>
     (\<forall>q. r = Ok q \<longrightarrow> cvr_Name q = req_Name req \<and> cvr_VolumeSize q = st_Capacity st \<and>
        cvr_ProvisionType q = provision_type (req_Parameters req)) \<and> (\<forall>x. r \<noteq> Crash x))"
  by (auto simp: volume_request_def Let_def wp_simps DetermineSSDValue_def split: res.splits option.splits)

text \<open>What a creation did: it created at most the requested volume, and on success it describes the
  volume the InfiniBox returned and has recorded its name.\<close>

definition created_new :: "Storage \<Rightarrow> CsiCreateVolumeRequest \<Rightarrow> call list \<Rightarrow> CsiVolume res \<Rightarrow> call list \<Rightarrow> bool" where
  "created_new st req h r t \<longleftrightarrow>
    (\<forall>c \<in> set t. mutating c \<longrightarrow> puts_pvname c \<or> (\<exists>q. c = C_CreateVolume q \<and> cvr_Name q = req_Name req \<and>
        cvr_VolumeSize q = st_Capacity st)) \<and>
    (\<forall>v. r = Ok v \<longrightarrow> puts_pvname (last t) \<and>
       (\<exists>pre q post vol. t = pre @ C_CreateVolume q # post \<and> cvr_Name q = req_Name req \<and>
          cvr_VolumeSize q = st_Capacity st \<and> r_CreateVolume (ibox st) (h @ pre) q = Inr vol \<and> describes v vol))"

lemma created_new_prefix:
  assumes "created_new st req (h @ s) r t" and "\<forall>c \<in> set s. \<not> mutating c"
  shows "created_new st req h r (s @ t)"
  unfolding created_new_def
proof (intro conjI allI impI)
  fix v
  assume "r = Ok v"
  with assms(1) obtain pre q post vol where *: "t = pre @ C_CreateVolume q # post" "puts_pvname (last t)"
      "cvr_Name q = req_Name req" "cvr_VolumeSize q = st_Capacity st"
      "r_CreateVolume (ibox st) (h @ s @ pre) q = Inr vol" "describes v vol"
    unfolding created_new_def by auto
  then show "puts_pvname (last (s @ t))" by simp
  show "\<exists>pre q post vol. s @ t = pre @ C_CreateVolume q # post \<and> cvr_Name q = req_Name req \<and>
      cvr_VolumeSize q = st_Capacity st \<and> r_CreateVolume (ibox st) (h @ pre) q = Inr vol \<and> describes v vol"
    using * by (intro exI [of _ "s @ pre"] exI [of _ q] exI [of _ post] exI [of _ vol]) simp
qed (use assms in \<open>auto simp: created_new_def\<close>)

text \<open>What follows the creation must promise: it changes nothing but the name in the metadata, and
  on success it describes the new volume and has recorded the name.\<close>

locale block_creator =
  fixes finish :: "Env \<Rightarrow> Storage \<Rightarrow> CsiCreateVolumeRequest \<Rightarrow> Volume \<Rightarrow> CsiVolume go"
    and lookup_error :: "CsiCreateVolumeRequest \<Rightarrow> go_error \<Rightarrow> go_error"
    and size_msg :: "CsiCreateVolumeRequest \<Rightarrow> string"
    and create :: "Env \<Rightarrow> Storage \<Rightarrow> CsiCreateVolumeRequest \<Rightarrow> CsiVolume go"
  assumes create_eq: "create E st req =
      create_block E st (lookup_error req) (size_msg req) (finish E st req) req"
    and finish_spec: "wp (finish E st req vol) h (\<lambda>r t. (\<forall>c \<in> set t. mutating c \<longrightarrow> puts_pvname c) \<and>
      (\<forall>v. r = Ok v \<longrightarrow> describes v vol \<and> t \<noteq> [] \<and> puts_pvname (last t)))"
begin

lemma existing:
  assumes "r_GetVolumeByName (ibox st) (h @ [C_GetSystem]) (req_Name req) = Inr vol"
  shows "wp (create E st req) h (\<lambda>r t. (\<forall>c \<in> set t. \<not> mutating c) \<and>
    (vol_Size vol = st_Capacity st \<longrightarrow> (\<forall>e. r \<noteq> Err e) \<and> (\<forall>v. r = Ok v \<longrightarrow> describes v vol)) \<and>
    (vol_Size vol \<noteq> st_Capacity st \<longrightarrow> r = Err (ImplementationError AlreadyExists (size_msg req))))"
proof -
  have "wp (GetCSIResponse E (st_CS st) vol req) (h @ [C_GetSystem, C_GetVolumeByName (req_Name req)])
      (\<lambda>r t. (\<forall>c \<in> set t. \<not> mutating c) \<and> (\<forall>v. r = Ok v \<longrightarrow> describes v vol) \<and> (\<forall>e. r \<noteq> Err e))"
    by (rule wp_GetCSIResponse)
  with assms show ?thesis
    by (simp add: create_eq create_block_def existing_volume_def wp_simps)
      (auto simp: wp_simps elim!: wp_mono split: res.splits)
qed

lemma create_call:
  "wp (or_impl (CreateVolume_api (ibox st) q) (finish E st req)) g (\<lambda>r t.
     (\<forall>c \<in> set t. mutating c \<longrightarrow> puts_pvname c \<or> c = C_CreateVolume q) \<and>
     (\<forall>v. r = Ok v \<longrightarrow> puts_pvname (last t) \<and>
        (\<exists>post vol. t = C_CreateVolume q # post \<and> r_CreateVolume (ibox st) g q = Inr vol \<and> describes v vol)))"
  by (auto simp: wp_simps intro!: wp_mono [OF finish_spec])

lemma create_new_spec:
  "wp (create_new st req (finish E st req)) g (created_new st req g)"
  unfolding create_new_def wp_then
proof (rule wp_mono [OF wp_volume_request], elim conjE)
  fix r :: "CreateVolumeRequest res" and t
  assume t: "t = [C_GetPoolByName (lookup (req_Parameters req) StorageClassPoolName)]"
    and q: "\<forall>q. r = Ok q \<longrightarrow> cvr_Name q = req_Name req \<and> cvr_VolumeSize q = st_Capacity st \<and>
        cvr_ProvisionType q = provision_type (req_Parameters req)"
  show "case r of Ok a \<Rightarrow> wp (or_impl (CreateVolume_api (ibox st) a) (finish E st req)) (g @ t)
        (\<lambda>r' t'. created_new st req g r' (t @ t'))
      | Err e \<Rightarrow> created_new st req g (Err e) t | Crash x \<Rightarrow> created_new st req g (Crash x) t"
  proof (cases r)
    case (Ok a)
    with t q show ?thesis
      by (auto simp: created_new_def intro!: wp_mono [OF create_call] exI [of _ t])
  qed (auto simp: created_new_def t)
qed

lemma fresh:
  assumes "r_GetVolumeByName (ibox st) (h @ [C_GetSystem]) (req_Name req) = Inl ErrNotFound"
    and "req_ContentSource req = None"
  shows "wp (create E st req) h (created_new st req h)"
proof -
  let ?g = "h @ [C_GetSystem, C_GetVolumeByName (req_Name req)]"
  have "wp (create_new st req (finish E st req)) ?g (created_new st req ?g)"
    by (rule create_new_spec)
  then have "wp (create_new st req (finish E st req)) ?g
      (\<lambda>r t. created_new st req h r (C_GetSystem # C_GetVolumeByName (req_Name req) # t))"
    by (rule wp_mono)
      (use created_new_prefix [of st req h "[C_GetSystem, C_GetVolumeByName (req_Name req)]"] in simp)
  with assms show ?thesis
    by (simp add: create_eq create_block_def wp_simps)
qed

end

text \<open>The three protocols.\<close>

lemma finish_fc_spec:
  "wp (finish_fc E st req vol) h (\<lambda>r t. (\<forall>c \<in> set t. mutating c \<longrightarrow> puts_pvname c) \<and>
     (\<forall>v. r = Ok v \<longrightarrow> describes v vol \<and> t \<noteq> [] \<and> puts_pvname (last t)))"
  by (auto simp: finish_fc_def put_pvname_def wp_simps puts_pvname_def describes_def with_parameters_def)

lemma finish_iscsi_spec:
  "wp (finish_iscsi E st req vol) h (\<lambda>r t. (\<forall>c \<in> set t. mutating c \<longrightarrow> puts_pvname c) \<and>
     (\<forall>v. r = Ok v \<longrightarrow> describes v vol \<and> t \<noteq> [] \<and> puts_pvname (last t)))"
  unfolding finish_iscsi_def wp_then
  by (rule wp_mono [OF wp_GetCSIResponse])
    (auto simp: put_pvname_def wp_simps puts_pvname_def split: res.splits)

lemma wp_wait_for_volume:
  "wp (wait_for_volume n c i) h (\<lambda>r t. (\<forall>c \<in> set t. \<not> mutating c) \<and> length t \<le> n \<and> (\<exists>v. r = Ok v))"
  by (induction n arbitrary: h) (auto simp: wp_simps elim!: wp_mono)

lemma finish_nvme_spec:
  "wp (finish_nvme E st req vol) h (\<lambda>r t. (\<forall>c \<in> set t. mutating c \<longrightarrow> puts_pvname c) \<and>
     (\<forall>v. r = Ok v \<longrightarrow> describes v vol \<and> t \<noteq> [] \<and> puts_pvname (last t)))"
  unfolding finish_nvme_def
  by (rule wp_then_rule [OF wp_GetCSIResponse])
    (auto simp: wp_simps put_pvname_def puts_pvname_def intro!: wp_mono [OF wp_wait_for_volume])

interpretation fc: block_creator finish_fc "\<lambda>req. impl_error"
    "\<lambda>req. ''volume: '' @ req_Name req @ '' already exists with a different size''" CreateVolume_fc
  by unfold_locales (rule CreateVolume_fc_def, rule finish_fc_spec)

interpretation iscsi: block_creator finish_iscsi
    "\<lambda>req err. Errorf (''iscsi GetVolumeByName name: '' @ req_Name req @ '' error: '')
              (ImplementationError NotFound (err_text err))"
    "\<lambda>req. ''(iscsi) - failed: volume '' @ req_Name req @ '' exists but has different size''" CreateVolume_iscsi
  by unfold_locales (rule CreateVolume_iscsi_def, rule finish_iscsi_spec)

interpretation nvme: block_creator finish_nvme "\<lambda>req err. ImplementationError NotFound (err_text err)"
    "\<lambda>req. ''nvme CreateVolume - failed: volume '' @ req_Name req @ '' exists but has different size''"
    CreateVolume_nvme
  by unfold_locales (rule CreateVolume_nvme_def, rule finish_nvme_spec)

section \<open>ControllerPublishVolume\<close>

text \<open>When a mapping may be made: the LUNs of the host were listed just before, the volume was not
  among them, and a limit on the host, if any, leaves room.\<close>

definition room_left :: "string \<Rightarrow> nat \<Rightarrow> bool" where
  "room_left limit mapped \<longleftrightarrow> limit = '''' \<or> (\<exists>n. Atoi limit = Some n \<and> int mapped < n)"

lemma check_max_vols_Ok:
  "check_max_vols code host limit mapped = Ok () \<longleftrightarrow> room_left limit mapped"
  by (auto simp: check_max_vols_def room_left_def split: option.splits if_splits)

lemma check_max_vols_no_crash [simp]: "check_max_vols code host limit mapped \<noteq> Crash x"
  by (auto simp: check_max_vols_def split: option.splits if_splits)

definition may_map :: "Storage \<Rightarrow> CsiPublishRequest \<Rightarrow> call list \<Rightarrow> call \<Rightarrow> bool" where
  "may_map st req h x = (case x of
     C_MapVolumeToHost hostID volumeID lun \<Rightarrow>
       (\<exists>h0 luns. h = h0 @ [C_GetAllLunByHost hostID] \<and> r_GetAllLunByHost (ibox st) h0 hostID = (luns, None) \<and>
          (\<forall>l \<in> set luns. lun_VolumeID l \<noteq> volumeID) \<and>
          room_left (pub_context req StorageClassMaxVolsPerHost) (length luns) \<and>
          (\<exists>c. ValidateVolumeID (pub_VolumeId req) = Ok c \<and> vpc_VolumeID c = volumeID))
   | _ \<Rightarrow> \<not> mutating x \<or> (\<exists>n. x = C_CreateHost n) \<or> (\<exists>i. x = C_PutMetadata i [(CSICreatedHost, JBool True)]))"

text \<open>What a publication returns: the LUN under which the InfiniBox has the volume on the host.\<close>

lemma publish_on_host_allowed:
  assumes "ValidateVolumeID (pub_VolumeId req) = Ok c" and "vpc_VolumeID c = volumeID"
  shows "allows (may_map st req) (publish_on_host st req code volumeID host ports extra)"
  by (rule allowsI)
    (use assms in \<open>auto simp: publish_on_host_def MapVolumeTohost_def wp_simps may_map_def find_None_iff
      check_max_vols_Ok split: res.splits\<close>)

lemma ValidateHost_calls:
  "only (\<lambda>c. \<not> mutating c \<or> (\<exists>n. c = C_CreateHost n) \<or> (\<exists>i. c = C_PutMetadata i [(CSICreatedHost, JBool True)]))
     (ValidateHost E cs name)"
  unfolding ValidateHost_def Let_def by (intro only_intros) auto

lemma ValidateHost_allowed [allows_intros]: "allows (may_map st req) (ValidateHost E cs name)"
proof (rule allows_only [OF ValidateHost_calls])
  fix h c
  assume "\<not> mutating c \<or> (\<exists>n. c = C_CreateHost n) \<or> (\<exists>i. c = C_PutMetadata i [(CSICreatedHost, JBool True)])"
  then show "may_map st req h c" by (cases c) (auto simp: may_map_def)
qed

lemma may_map_reads [simp]:
  "may_map st req h C_GetSystem" "may_map st req h (C_GetVolume i)"
  by (simp_all add: may_map_def)

lemma GetHostInfo_may_map [allows_intros]: "allows (may_map st req) (GetHostInfo secrets c)"
  by (rule allows_only [OF only_GetHostInfo, of "\<lambda>c. c = C_GetSystem"]) auto

text \<open>What a publication may do, and what its callers conclude.\<close>

locale block_publisher =
  fixes publish :: "Env \<Rightarrow> Storage \<Rightarrow> CsiPublishRequest \<Rightarrow> gomap go"
  assumes allowed: "allows (may_map st req) (publish E st req)"
begin

lemma maps_within_limit:
  assumes "C_MapVolumeToHost hostID volumeID lun \<in> set (calls_of (publish E st req h))"
  shows "\<exists>g luns. r_GetAllLunByHost (ibox st) g hostID = (luns, None) \<and>
    (\<forall>l \<in> set luns. lun_VolumeID l \<noteq> volumeID) \<and>
    room_left (pub_context req StorageClassMaxVolsPerHost) (length luns) \<and>
    (\<exists>c. ValidateVolumeID (pub_VolumeId req) = Ok c \<and> vpc_VolumeID c = volumeID)"
  using allowsD [OF allowed assms] by (auto simp: may_map_def)

lemma only_maps_and_creates:
  assumes "c \<in> set (calls_of (publish E st req h))" and "mutating c"
  shows "(\<exists>i v l. c = C_MapVolumeToHost i v l) \<or> (\<exists>n. c = C_CreateHost n) \<or>
    (\<exists>i. c = C_PutMetadata i [(CSICreatedHost, JBool True)])"
  using allowsD [OF allowed assms(1)] assms(2) by (cases c) (auto simp: may_map_def)

end

lemma allows_or_impl_NotFound [allows_intros]:
  "allows Q m \<Longrightarrow> (\<And>a. allows Q (k a)) \<Longrightarrow> allows Q (or_impl_NotFound m k)"
  by (simp add: or_impl_NotFound_def allows_try allows_fail)

lemma or_impl_NotFound_pure [pure_simps]:
  "or_impl_NotFound (pure_go x) k = (case x of
     Ok a \<Rightarrow> k a | Err e \<Rightarrow> fail_go (ImplementationError NotFound (err_text e)) | Crash y \<Rightarrow> pure_go (Crash y))"
  by (simp add: or_impl_NotFound_def try_pure)

interpretation fc_publish: block_publisher ControllerPublishVolume_fc
  by unfold_locales
    (auto simp: ControllerPublishVolume_fc_def pure_simps intro!: allows_intros publish_on_host_allowed)

interpretation iscsi_publish: block_publisher ControllerPublishVolume_iscsi
  by unfold_locales
    (auto simp: ControllerPublishVolume_iscsi_def pure_simps intro!: allows_intros publish_on_host_allowed)

interpretation nvme_publish: block_publisher ControllerPublishVolume_nvme
  by unfold_locales
    (auto simp: ControllerPublishVolume_nvme_def pure_simps intro!: allows_intros publish_on_host_allowed)

end
