(* ===== verification/Nfs_Api.thy ===== *)
theory Nfs_Api
  imports Block_Storage_Props
begin

text \<open>
  \<open>api/nfsapiclient.go\<close>: the rules of an NFS export and the deletion of file systems, and
  \<open>storage/nfs/nfspermissions.go\<close>, \<open>storage/nfs/nfsmount.go\<close>.

  \<open>removeIndex\<close> shifts the elements of the slice it is given, so the array behind
  \<open>export.Permissions\<close> changes under the callers that still hold it; \<open>shifted\<close> is that array
  afterwards, and the loop over it in \<open>DeleteExportRule\<close> reads the changed array.
\<close>

section \<open>Export rules\<close>

text \<open>\<open>bytes.Compare(a, b) <= 0\<close>\<close>

fun bytes_le :: "nat list \<Rightarrow> nat list \<Rightarrow> bool" where
  "bytes_le [] ys = True"
| "bytes_le (x # xs) [] = False"
| "bytes_le (x # xs) (y # ys) = (x < y \<or> x = y \<and> bytes_le xs ys)"

definition compareClientIP :: "Env \<Rightarrow> string \<Rightarrow> string \<Rightarrow> bool" where
  "compareClientIP E permissionIP ipAddress =
     (if Contains permissionIP ''-'' then
        (let iprange = Split permissionIP ''-'';
             ip1 = net_ParseIP E (iprange ! 0);
             ip2 = net_ParseIP E (iprange ! 1);
             clientIP = net_ParseIP E ipAddress
         in bytes_le ip1 clientIP \<and> bytes_le clientIP ip2)
      else permissionIP = ipAddress)"

definition removeIndex :: "'a list \<Rightarrow> nat \<Rightarrow> 'a list" where
  "removeIndex s index = take index s @ drop (Suc index) s"

definition shifted :: "'a list \<Rightarrow> nat \<Rightarrow> 'a list" where
  "shifted s index = (if s = [] then [] else removeIndex s index @ [last s])"

text \<open>The last index at which a loop over the permissions sets its variable.\<close>

definition last_index :: "('a \<Rightarrow> bool) \<Rightarrow> 'a list \<Rightarrow> nat option" where
  "last_index P xs = (case filter (\<lambda>i. P (xs ! i)) [0..<length xs] of
     [] \<Rightarrow> None | is \<Rightarrow> Some (last is))"

definition AddNodeInExport :: "Env \<Rightarrow> Client \<Rightarrow> int \<Rightarrow> string \<Rightarrow> bool \<Rightarrow> string \<Rightarrow> Export go" where
  "AddNodeInExport E c exportID access noRootSquash ipAddress =
     try_go (GetExportByID_api c exportID)
       (\<lambda>err. panic_go ''nil pointer dereference: export.ID'')
       (\<lambda>export.
          let permissionList = exp_Permissions export;
              covered = (\<lambda>p. compareClientIP E (perm_Client p) ipAddress);
              star = (\<lambda>p. \<not> covered p \<and> perm_Client p = ''*'');
              flag = list_ex (\<lambda>p. covered p \<or> star p) permissionList;
              export1 = (case last_index star permissionList of
                  None \<Rightarrow> export
                | Some index \<Rightarrow> export\<lparr>exp_Permissions := shifted permissionList index\<rparr>)
          in if flag then return_go export1
             else or_wrap ''error updating export rule - error: ''
                (UpdateExportPermissions_api c export
                   \<lparr>epr_Permissions = permissionList @
                      [\<lparr>perm_Access = access, perm_NoRootSquash = noRootSquash, perm_Client = ipAddress\<rparr>]\<rparr>)
                return_go)"

definition default_permission :: Permissions where
  "default_permission = \<lparr>perm_Access = ''RW'', perm_NoRootSquash = True, perm_Client = ''*''\<rparr>"

text \<open>Returns the array behind \<open>export.Permissions\<close> as the call leaves it.\<close>

definition DeleteNodeFromExport :: "Client \<Rightarrow> Export \<Rightarrow> string \<Rightarrow> Permissions list go" where
  "DeleteNodeFromExport c export ipAddress =
     (case last_index (\<lambda>p. perm_Client p = ipAddress) (exp_Permissions export) of
        None \<Rightarrow> return_go (exp_Permissions export)
      | Some index \<Rightarrow>
          let rest = removeIndex (exp_Permissions export) index;
              permissionList = (if rest = [] then [default_permission] else rest);
              array = (if rest = [] then [default_permission] else shifted (exp_Permissions export) index)
          in or_wrap ''error occurred while updating permission - error: ''
               (UpdateExportPermissions_api c (export\<lparr>exp_Permissions := array\<rparr>)
                  \<lparr>epr_Permissions = permissionList\<rparr>)
               (\<lambda>_. return_go array))"

text \<open>The inner loop of \<open>DeleteExportRule\<close> from position \<open>i\<close> on, \<open>steps\<close> positions being left.\<close>

fun delete_rules :: "Client \<Rightarrow> string \<Rightarrow> nat \<Rightarrow> nat \<Rightarrow> Export \<Rightarrow> unit go" where
  "delete_rules c ipAddress 0 i export = return_go ()"
| "delete_rules c ipAddress (Suc steps) i export =
     (if i < length (exp_Permissions export) \<and> perm_Client (exp_Permissions export ! i) = ipAddress
      then or_wrap ''error occurred while getting export path - error: ''
             (DeleteNodeFromExport c export ipAddress)
             (\<lambda>array. delete_rules c ipAddress steps (Suc i) (export\<lparr>exp_Permissions := array\<rparr>))
      else delete_rules c ipAddress steps (Suc i) export)"

definition DeleteExportRule :: "Client \<Rightarrow> int \<Rightarrow> string \<Rightarrow> unit go" where
  "DeleteExportRule c fileSystemID ipAddress =
     or_wrap ''error occurred while getting export - error: ''
       (GetExportsByFileSystemID_api c fileSystemID)
       (\<lambda>exports. then_go (for_go exports (\<lambda>export.
            then_go (delete_rules c ipAddress (length (exp_Permissions export)) 0 export)
              (\<lambda>_. return_go (None :: unit option))))
          (\<lambda>_. return_go ()))"

section \<open>Deleting file systems\<close>

text \<open>An export that is already gone stops the deletion; any other failure is passed over.\<close>

definition delete_exports :: "Client \<Rightarrow> Export list \<Rightarrow> unit go" where
  "delete_exports c exportResp =
     then_go (for_go exportResp (\<lambda>export.
         try_go (DeleteExport_api c (exp_ID export))
           (\<lambda>err. if errors_is err ErrNotFound then fail_go err else return_go (None :: unit option))
           (\<lambda>_. return_go None))) (\<lambda>_. return_go ())"

definition delete_metadata_and_fs :: "Client \<Rightarrow> int \<Rightarrow> unit go" where
  "delete_metadata_and_fs c fileSystemID =
     then_go (try_go (DeleteMetadata_api c fileSystemID)
         (\<lambda>err. if \<not> Contains (err_text err) ''METADATA_IS_NOT_SUPPORTED_FOR_ENTITY''
                then fail_go err else return_go ()) return_go) (\<lambda>_.
     DeleteFileSystem_api c fileSystemID)"

definition DeleteFileSystemComplete :: "Client \<Rightarrow> int \<Rightarrow> unit go" where
  "DeleteFileSystemComplete c fileSystemID =
     then_go (try_go (GetExportsByFileSystemID_api c fileSystemID)
         (\<lambda>err. if \<not> Contains (err_text err) ''EXPORT_NOT_FOUND'' then fail_go err else return_go [])
         return_go) (\<lambda>exportResp.
     then_go (delete_exports c exportResp) (\<lambda>_. delete_metadata_and_fs c fileSystemID))"

text \<open>The ancestors of a deleted file system that wait for their deletion; \<open>depth\<close> is the stack
  left.\<close>

fun DeleteParentFileSystem :: "nat \<Rightarrow> Client \<Rightarrow> int \<Rightarrow> unit go" where
  "DeleteParentFileSystem 0 c fileSystemID = out_of_fuel"
| "DeleteParentFileSystem (Suc depth) c fileSystemID =
     then_go (GetMetadata_api c fileSystemID) (\<lambda>metadataList.
     let toBeDeleted = list_ex (\<lambda>m. md_Key m = TOBEDELETED) metadataList in
     then_go (GetFileSystemsByParentID_api c fileSystemID) (\<lambda>childFileSystems.
     if childFileSystems = [] \<and> toBeDeleted then
       then_go (GetFileSystemByID_api c fileSystemID) (\<lambda>fileSystem.
       then_go (DeleteFileSystemComplete c fileSystemID) (\<lambda>_.
       if fs_ParentID fileSystem \<noteq> 0 then DeleteParentFileSystem depth c (fs_ParentID fileSystem)
       else return_go ()))
     else return_go ()))"

section \<open>Export permissions of a StorageClass (nfspermissions.go)\<close>

definition quote_fix :: "string \<Rightarrow> string" where
  "quote_fix s = map (\<lambda>ch. if ch = CHR 0x27 then CHR 0x22 else ch) s"

definition fix_root_squash :: "jsonmap \<Rightarrow> jsonmap" where
  "fix_root_squash pass = (case map_of pass ''no_root_squash'' of
     Some (JStr s) \<Rightarrow> AList.update ''no_root_squash''
        (JBool (case ParseBool s of None \<Rightarrow> True | Some b \<Rightarrow> b)) pass
   | _ \<Rightarrow> pass)"

definition getPermissionMaps :: "Env \<Rightarrow> string \<Rightarrow> jsonmap list res" where
  "getPermissionMaps E permission = (case json_Unmarshal_maps E (quote_fix permission) of
     None \<Rightarrow> Err (Errors_New (''unmarshal error permission: '' @ permission))
   | Some permissionsMapArray \<Rightarrow> Ok (map fix_root_squash permissionsMapArray))"

definition ValidateNFSExportPermissions :: "Env \<Rightarrow> gomap \<Rightarrow> unit res" where
  "ValidateNFSExportPermissions E scParameters =
     (if lookup scParameters StorageClassNFSExportPermissions = '''' then Ok ()
      else case getPermissionMaps E (lookup scParameters StorageClassNFSExportPermissions) of
        Err e \<Rightarrow> Err e
      | Crash x \<Rightarrow> Crash x
      | Ok permissionsMapArray \<Rightarrow>
          if (lookup scParameters StorageClassUID \<noteq> '''' \<or> lookup scParameters StorageClassGID \<noteq> ''''
              \<or> lookup scParameters StorageClassUNIXPermissions \<noteq> '''')
             \<and> permissionsMapArray \<noteq> []
             \<and> map_of (hd permissionsMapArray) ''no_root_squash'' = Some (JBool False)
          then Err (Errors_New ''error: uid, gid, or unix_permissions were set, but no_root_squash is false'')
          else Ok ())"

definition convertToExportRulePermissions :: "jsonmap list \<Rightarrow> Permissions list res" where
  "convertToExportRulePermissions permissionsMapArray =
     foldr (\<lambda>pass acc. case (map_of pass ''no_root_squash'', map_of pass ''access'', map_of pass ''client'', acc) of
         (Some (JBool b), Some (JStr a), Some (JStr c), Ok ps) \<Rightarrow>
            Ok (\<lparr>perm_Access = a, perm_NoRootSquash = b, perm_Client = c\<rparr> # ps)
       | _ \<Rightarrow> Crash (GoPanic ''interface conversion'')) permissionsMapArray (Ok [])"

section \<open>Version and port of a mount (nfsmount.go)\<close>

definition option_value :: "string \<Rightarrow> string \<Rightarrow> string \<Rightarrow> string" where
  "option_value key opt old = (if Contains opt key then
     (let parts = Split opt ''='' in if length parts = 2 then parts ! 1 else old) else old)"

definition GetNFSVersionPort :: "string list \<Rightarrow> string \<times> string" where
  "GetNFSVersionPort mountOptions =
     (let version = fold (option_value ''vers'') mountOptions ''3'';
          port = fold (option_value ''port'') mountOptions ''2049''
      in (version, if version = ''4'' \<or> version = ''4.1'' then ''12049'' else port))"

end
