(* ===== verification/Nfs_Storage.thy ===== *)
theory Nfs_Storage
  imports Nfs_Api
begin

text \<open>
  \<open>storage/nfs/nfscontroller.go\<close>. The methods of \<open>NFSstorage\<close> change the fields of the object they
  are called on; here they return the changed object. \<open>StorageClassParameters\<close> is the parameter map
  of the request itself, so what is written to it is what the answer's volume context holds.
\<close>

record NFSstorage =
  nfs_UniqueID :: int
  nfs_StorageClassParameters :: gomap
  nfs_PVName :: string
  nfs_Capacity :: int64
  nfs_FileSystemID :: int
  nfs_ExportPath :: string
  nfs_UsePrivilegedPorts :: bool
  nfs_SnapdirVisible :: bool
  nfs_ExportID :: int
  nfs_ExportBlock :: string
  nfs_IPAddress :: string
  nfs_CS :: Commonservice

definition NewNFSstorage :: "int64 \<Rightarrow> Commonservice \<Rightarrow> NFSstorage" where
  "NewNFSstorage capacity cs = \<lparr>nfs_UniqueID = 0, nfs_StorageClassParameters = [], nfs_PVName = '''',
     nfs_Capacity = capacity, nfs_FileSystemID = 0, nfs_ExportPath = '''', nfs_UsePrivilegedPorts = False,
     nfs_SnapdirVisible = False, nfs_ExportID = 0, nfs_ExportBlock = '''', nfs_IPAddress = '''',
     nfs_CS = cs\<rparr>"

abbreviation nfs_ibox :: "NFSstorage \<Rightarrow> Client" where
  "nfs_ibox nfs \<equiv> cs_IboxAPI (nfs_CS nfs)"

section \<open>StorageClass parameters\<close>

definition optional_bool :: "string \<Rightarrow> bool res" where
  "optional_bool s = (if s = '''' then Ok False
     else case ParseBool s of
       None \<Rightarrow> Err (ImplementationError InvalidArgument (err_text (parse_error s)))
     | Some b \<Rightarrow> Ok b)"

definition ValidateStorageClass_nfs :: "Env \<Rightarrow> NFSstorage \<Rightarrow> gomap \<Rightarrow> NFSstorage res" where
  "ValidateStorageClass_nfs E nfs params =
     (case ValidateRequiredOptionalSCParameters
        [(StorageClassNetworkSpace, AnyLine), (StorageClassPoolName, HasLetter)]
        [(StorageClassUID, AllDigits), (StorageClassGID, AllDigits)] params of
      Crash x \<Rightarrow> Crash x
    | Err e \<Rightarrow> Err (ImplementationError InvalidArgument (err_text e))
    | Ok _ \<Rightarrow>
     (case ValidateNFSExportPermissions E params of
      Crash x \<Rightarrow> Crash x
    | Err e \<Rightarrow> Err (ImplementationError InvalidArgument (err_text e))
    | Ok _ \<Rightarrow>
     (case optional_bool (lookup params StorageClassSnapDirVisible) of
      Crash x \<Rightarrow> Crash x
    | Err e \<Rightarrow> Err e
    | Ok snapdirVisible \<Rightarrow>
     (case optional_bool (lookup params StorageClassPrivPorts) of
      Crash x \<Rightarrow> Crash x
    | Err e \<Rightarrow> Err e
    | Ok usePrivilegedPorts \<Rightarrow>
        Ok (nfs\<lparr>nfs_SnapdirVisible := snapdirVisible, nfs_UsePrivilegedPorts := usePrivilegedPorts\<rparr>)))))"

section \<open>CreateVolume\<close>

definition impl_of :: "grpc_code \<Rightarrow> 'a go \<Rightarrow> ('a \<Rightarrow> 'b go) \<Rightarrow> 'b go" where
  "impl_of code m k = try_go m (\<lambda>e. fail_go (ImplementationError code (err_text e))) k"

lemma impl_of_rules [wp_simps]:
  "wp (impl_of code m k) h Q = wp m h (\<lambda>r t. case r of
      Ok a \<Rightarrow> wp (k a) (h @ t) (\<lambda>r' t'. Q r' (t @ t'))
    | Err e \<Rightarrow> Q (Err (ImplementationError code (err_text e))) t
    | Crash x \<Rightarrow> Q (Crash x) t)"
  by (simp add: impl_of_def wp_try wp_fail cong: res.case_cong)

lemma only_impl_of [only_intros]:
  "only P m \<Longrightarrow> (\<And>a. only P (k a)) \<Longrightarrow> only P (impl_of code m k)"
  by (simp add: impl_of_def only_try only_fail)

lemma allows_impl_of [allows_intros]:
  "allows Q m \<Longrightarrow> (\<And>a. allows Q (k a)) \<Longrightarrow> allows Q (impl_of code m k)"
  by (simp add: impl_of_def allows_try allows_fail)

lemma safe_impl_of [safe_intros]:
  "safe m \<Longrightarrow> (\<And>a h t. m h = (Ok a, t) \<Longrightarrow> safe (k a)) \<Longrightarrow> safe (impl_of code m k)"
  by (simp add: impl_of_def safe_try safe_basic)

lemma returns_impl_of [returns_intros]:
  "(\<And>a h t. m h = (Ok a, t) \<Longrightarrow> returns P (k a)) \<Longrightarrow> returns P (impl_of code m k)"
  by (simp add: impl_of_def returns_try returns_basic)

lemma impl_of_pure [pure_simps]:
  "impl_of code (pure_go x) k = (case x of
     Ok a \<Rightarrow> k a | Err e \<Rightarrow> fail_go (ImplementationError code (err_text e)) | Crash y \<Rightarrow> pure_go (Crash y))"
  by (simp add: impl_of_def try_pure)

definition getNfsCsiResponse :: "NFSstorage \<Rightarrow> CsiCreateVolumeRequest \<Rightarrow> CsiVolume" where
  "getNfsCsiResponse nfs req =
     \<lparr>csi_VolumeId = Itoa (nfs_FileSystemID nfs), csi_CapacityBytes = nfs_Capacity nfs,
      csi_VolumeContext = store (store (store (nfs_StorageClassParameters nfs)
          ''ipAddress'' (nfs_IPAddress nfs)) ''exportID'' (Itoa (nfs_ExportID nfs)))
          ''volPathd'' (nfs_ExportPath nfs),
      csi_ContentSource = req_ContentSource req\<rparr>"

definition provtype_of :: "gomap \<Rightarrow> string res" where
  "provtype_of params = (let provtype = ToUpper (lookup params StorageClassProvisionType) in
     if provtype = '''' then Ok StorageClassThinProvision
     else if provtype = StorageClassThinProvision \<or> provtype = StorageClassThickProvision then Ok provtype
     else Err (ImplementationError Internal (''nfs - '' @ StorageClassProvisionType @
            '' valid values are THICK or THIN, entered value was ['' @ provtype @ '']'')))"

definition CreateFileSystem_nfs :: "NFSstorage \<Rightarrow> string \<Rightarrow> NFSstorage go" where
  "CreateFileSystem_nfs nfs fileSystemName =
     (let params = nfs_StorageClassParameters nfs in
      or_impl (GetPoolByName_api (nfs_ibox nfs) (lookup params StorageClassPoolName)) (\<lambda>pool.
      then_go (pure_go (provtype_of params)) (\<lambda>provtype.
      or_impl (pure_go (DetermineSSDValue (lookup params StorageClassSSDEnabled) pool)) (\<lambda>ssd.
      or_impl (CreateFileSystem_api (nfs_ibox nfs)
          \<lparr>cfs_AtimeMode = '''', cfs_PoolID = pool_ID pool, cfs_Name = fileSystemName,
           cfs_Provtype = provtype, cfs_Size = nfs_Capacity nfs, cfs_SsdEnabled = ssd\<rparr>) (\<lambda>fileSystem.
      return_go (nfs\<lparr>nfs_FileSystemID := fs_ID fileSystem\<rparr>))))))"

definition createExportPath :: "Env \<Rightarrow> NFSstorage \<Rightarrow> NFSstorage go" where
  "createExportPath E nfs =
     or_impl (pure_go (getPermissionMaps E
        (lookup (nfs_StorageClassParameters nfs) StorageClassNFSExportPermissions))) (\<lambda>permissionsMapArray.
     or_impl (CreateExport_api (nfs_ibox nfs)
        \<lparr>cer_FilesystemID = nfs_FileSystemID nfs, cer_Name = '''', cer_TransportProtocols = ''TCP'',
         cer_PrivilegedPort = nfs_UsePrivilegedPorts nfs, cer_ExportPath = nfs_ExportPath nfs,
         cer_Permissionsput = permissionsMapArray, cer_SnapdirVisible = nfs_SnapdirVisible nfs\<rparr>) (\<lambda>exportResp.
     return_go (nfs\<lparr>nfs_ExportID := exp_ID exportResp, nfs_ExportBlock := exp_ExportPath exportResp\<rparr>)))"

text \<open>The two deferred functions run in the opposite order: the export first, then the file system.\<close>

definition revert_filesystem :: "NFSstorage \<Rightarrow> unit go" where
  "revert_filesystem nfs = (if nfs_FileSystemID nfs \<noteq> 0
     then DeleteFileSystem_api (nfs_ibox nfs) (nfs_FileSystemID nfs) else return_go ())"

definition revert_export :: "NFSstorage \<Rightarrow> unit go" where
  "revert_export nfs = (if nfs_ExportID nfs \<noteq> 0
     then DeleteExport_api (nfs_ibox nfs) (nfs_ExportID nfs) else return_go ())"

definition CreateExportPathAndAddMetadata :: "Env \<Rightarrow> NFSstorage \<Rightarrow> NFSstorage go" where
  "CreateExportPathAndAddMetadata E nfs =
     defer_on_err
       (then_go (if lookup (nfs_StorageClassParameters nfs) StorageClassNFSExportPermissions = ''''
                 then return_go nfs
                 else or_impl (createExportPath E nfs) return_go) (\<lambda>nfs1.
        defer_on_err
          (then_go (GetCreatedBy E (nfs_CS nfs1)) (\<lambda>createdBy.
           or_impl (PutMetadata_api (nfs_ibox nfs1) (nfs_FileSystemID nfs1)
              [(''host.k8s.pvname'', JStr (nfs_PVName nfs1)), (''host.created_by'', JStr createdBy)]) (\<lambda>_.
           return_go nfs1)))
          (revert_export nfs1)))
       (revert_filesystem nfs)"

definition CreateNFSVolume :: "Env \<Rightarrow> NFSstorage \<Rightarrow> CsiCreateVolumeRequest \<Rightarrow> CsiVolume go" where
  "CreateNFSVolume E nfs req =
     or_impl (CreateFileSystem_nfs nfs (nfs_PVName nfs)) (\<lambda>nfs1.
     or_impl (CreateExportPathAndAddMetadata E nfs1) (\<lambda>nfs2.
     return_go (getNfsCsiResponse nfs2 req)))"

definition createVolumeFromPVCSource ::
    "Env \<Rightarrow> NFSstorage \<Rightarrow> CsiCreateVolumeRequest \<Rightarrow> int64 \<Rightarrow> string \<Rightarrow> string \<Rightarrow> CsiVolume go" where
  "createVolumeFromPVCSource E nfs req sizeBytes storagePool srcVolumeID =
     impl_of NotFound (pure_go (ValidateVolumeID srcVolumeID)) (\<lambda>volproto.
     impl_of NotFound (GetFileSystemByID_api (nfs_ibox nfs) (vpc_VolumeID volproto)) (\<lambda>srcfsys.
     if fs_Size srcfsys \<noteq> sizeBytes
     then fail_go (ImplementationError InvalidArgument (''nfs volumeID: '' @ Itoa (vpc_VolumeID volproto) @
            '', invalid size: '' @ Itoa (fs_Size srcfsys) @ '', requested size: '' @ Itoa sizeBytes))
     else impl_of InvalidArgument (GetPoolByName_api (nfs_ibox nfs) storagePool) (\<lambda>pool.
     if pool_ID pool \<noteq> fs_PoolID srcfsys
     then fail_go (ImplementationError InvalidArgument
            (''nfs source storagepool id differs from requested: '' @ storagePool))
     else impl_of Internal (CreateFileSystemSnapshot_api (nfs_ibox nfs)
          \<lparr>fss_LockExpiresAt = 0, fss_ParentID = vpc_VolumeID volproto, fss_SnapshotName = req_Name req,
           fss_WriteProtected = False, fss_SSDEnabled = False\<rparr>) (\<lambda>newSnapshot.
     impl_of Internal (CreateExportPathAndAddMetadata E
          (nfs\<lparr>nfs_FileSystemID := fsr_SnapshotID newSnapshot\<rparr>)) (\<lambda>nfs1.
     return_go (getNfsCsiResponse nfs1 req))))))"

text \<open>A file system of that name exists.\<close>

definition existing_filesystem :: "NFSstorage \<Rightarrow> CsiCreateVolumeRequest \<Rightarrow> FileSystem \<Rightarrow> CsiVolume go" where
  "existing_filesystem nfs req fsys =
     or_impl (GetExportsByFileSystemID_api (nfs_ibox nfs) (fs_ID fsys)) (\<lambda>exportArray.
     if nfs_Capacity nfs \<noteq> fs_Size fsys
     then fail_go (ImplementationError AlreadyExists ''nfs - error nfs.capacity not equal volume.Size'')
     else let nfs1 = nfs\<lparr>nfs_FileSystemID := fs_ID fsys\<rparr>;
              nfs2 = (case exportArray of [] \<Rightarrow> nfs1
                | export # _ \<Rightarrow> nfs1\<lparr>nfs_ExportBlock := exp_ExportPath export, nfs_ExportID := exp_ID export\<rparr>)
          in return_go (getNfsCsiResponse nfs2 req))"

definition wants_block :: "CsiCreateVolumeRequest \<Rightarrow> bool" where
  "wants_block req = (case req_VolumeCapabilities req of
     None \<Rightarrow> False | Some caps \<Rightarrow> list_ex is_block caps)"

definition CreateVolume_nfs :: "Env \<Rightarrow> NFSstorage \<Rightarrow> CsiCreateVolumeRequest \<Rightarrow> CsiVolume go" where
  "CreateVolume_nfs E nfs req =
     (let params = req_Parameters req; pvName = req_Name req;
          clone = (\<lambda>nfs1 source. or_impl (createVolumeFromPVCSource E nfs1 req (nfs_Capacity nfs1)
            (lookup params StorageClassPoolName) source) return_go)
      in then_go (GetHostInfo (req_Secrets req) (nfs_ibox nfs)) (\<lambda>_.
      if wants_block req then fail_go (ImplementationError InvalidArgument ''block not allowed for NFS'')
      else impl_of InvalidArgument
        (GetNetworkSpaceIP E (nfs_CS nfs) (TrimBlank (lookup params StorageClassNetworkSpace))) (\<lambda>ipAddress.
      let nfs1 = nfs\<lparr>nfs_PVName := pvName, nfs_StorageClassParameters := params,
                     nfs_ExportPath := ''/'' @ pvName, nfs_IPAddress := ipAddress\<rparr>
      in try_go (GetFileSystemByName_api (nfs_ibox nfs) pvName)
        (\<lambda>err. if errors_is err ErrNotFound then
             (case req_ContentSource req of
                Some (ContentSnapshot s) \<Rightarrow> clone nfs1 s
              | Some (ContentVolume v) \<Rightarrow> clone nfs1 v
              | _ \<Rightarrow> or_impl (CreateNFSVolume E nfs1 req) return_go)
           else fail_go (impl_error err))
        (existing_filesystem nfs1 req))))"

section \<open>DeleteVolume and DeleteSnapshot\<close>

definition DeleteNFSVolume :: "Env \<Rightarrow> NFSstorage \<Rightarrow> unit go" where
  "DeleteNFSVolume E nfs =
     or_impl (GetFileSystemByID_api (nfs_ibox nfs) (nfs_UniqueID nfs)) (\<lambda>fileSystem.
     if fs_LockState fileSystem = LockedState
     then fail_go (ImplementationError Aborted (''snapshot '' @ Itoa (nfs_UniqueID nfs) @
            '' is locked and can not be deleted till it expires''))
     else or_impl (GetFileSystemsByParentID_api (nfs_ibox nfs) (nfs_UniqueID nfs)) (\<lambda>fileSystems.
     if fileSystems \<noteq> [] then or_impl (PutMetadata_api (nfs_ibox nfs) (nfs_UniqueID nfs) []) return_go
     else or_impl (DeleteFileSystemComplete (nfs_ibox nfs) (nfs_UniqueID nfs)) (\<lambda>_.
     if fs_ParentID fileSystem \<noteq> 0
     then or_impl (DeleteParentFileSystem (stack_depth E) (nfs_ibox nfs) (fs_ParentID fileSystem)) return_go
     else return_go ())))"

text \<open>A missing file system counts as deleted.\<close>

definition delete_or_gone :: "Env \<Rightarrow> NFSstorage \<Rightarrow> unit go" where
  "delete_or_gone E nfs = try_go (DeleteNFSVolume E nfs)
     (\<lambda>err. if Contains (err_text err) ''FILESYSTEM_NOT_FOUND'' then return_go () else fail_go err) return_go"

definition DeleteVolume_nfs :: "Env \<Rightarrow> NFSstorage \<Rightarrow> unit go" where
  "DeleteVolume_nfs E nfs = delete_or_gone E (nfs\<lparr>nfs_UniqueID := vpc_VolumeID (cs_VolProto (nfs_CS nfs))\<rparr>)"

definition DeleteSnapshot_nfs :: "Env \<Rightarrow> NFSstorage \<Rightarrow> string \<Rightarrow> unit go" where
  "DeleteSnapshot_nfs E nfs snapshotId = (case Atoi snapshotId of
     None \<Rightarrow> fail_go (ImplementationError Aborted (err_text (parse_error snapshotId)))
   | Some snapshotID \<Rightarrow> delete_or_gone E (nfs\<lparr>nfs_UniqueID := snapshotID\<rparr>))"

section \<open>Publishing\<close>

definition ControllerPublishVolume_nfs :: "Env \<Rightarrow> NFSstorage \<Rightarrow> CsiPublishRequest \<Rightarrow> gomap go" where
  "ControllerPublishVolume_nfs E nfs req =
     then_go (GetHostInfo (pub_Secrets req) (nfs_ibox nfs)) (\<lambda>_.
     if pub_NodeId req = '''' then fail_go (ImplementationError InvalidArgument ''node ID is required'')
     else or_impl (pure_go (IsValidAccessModeNfs req)) (\<lambda>_.
     if pub_context req StorageClassNFSExportPermissions = '''' then return_go []
     else or_impl (pure_go (getPermissionMaps E (pub_context req StorageClassNFSExportPermissions)))
       (\<lambda>exportPermissionMapArray.
     then_go (case exportPermissionMapArray of
         [] \<Rightarrow> return_go ''''
       | m # _ \<Rightarrow> (case map_of m ''access'' of
           Some (JStr access) \<Rightarrow> return_go access
         | _ \<Rightarrow> panic_go ''interface conversion: access is not string'')) (\<lambda>access.
     let nodeNameIP = Split (pub_NodeId req) ''$$'' in
     if length nodeNameIP \<noteq> 2 then fail_go (ImplementationError Internal ''node ID not found'')
     else or_impl (AddNodeInExport E (nfs_ibox nfs) (Atoi_value (pub_context req ''exportID'')) access True
            (nodeNameIP ! 1)) (\<lambda>_. return_go [])))))"

definition ControllerUnpublishVolume_nfs :: "NFSstorage \<Rightarrow> unit go" where
  "ControllerUnpublishVolume_nfs nfs =
     or_impl (DeleteExportRule (nfs_ibox nfs) (vpc_VolumeID (cs_VolProto (nfs_CS nfs)))
                (vpc_NodeID (cs_VolProto (nfs_CS nfs)))) return_go"

section \<open>Snapshots and expansion\<close>

definition nfs_snapshot_answer ::
    "Env \<Rightarrow> NFSstorage \<Rightarrow> CsiCreateSnapshotRequest \<Rightarrow> int \<Rightarrow> int64 \<Rightarrow> CsiSnapshot go" where
  "nfs_snapshot_answer E nfs req snapID sizeBytes = snapshot_answer E req (nfs_CS nfs) snapID sizeBytes"

definition nfs_snapshot_lock :: "CsiCreateSnapshotRequest \<Rightarrow> Client \<Rightarrow> int64 go" where
  "nfs_snapshot_lock req client =
     (let lockExpiresAtParameter = lookup (csr_Parameters req) LockExpiresAtParameter in
      if lockExpiresAtParameter = '''' then return_go 0
      else impl_of AlreadyExists (GetNtpStatus_api client) (\<lambda>ntpStatus.
        case ntpStatus of [] \<Rightarrow> panic_go ''index out of range [0] with length 0''
        | ntp # _ \<Rightarrow> impl_of Internal
            (pure_go (ValidateSnapshotLockingParameter (ntp_LastProbeTimestamp ntp) lockExpiresAtParameter))
            return_go))"

definition CreateSnapshot_nfs :: "Env \<Rightarrow> NFSstorage \<Rightarrow> CsiCreateSnapshotRequest \<Rightarrow> CsiSnapshot go" where
  "CreateSnapshot_nfs E nfs req =
     (let sourceFilesystemID = vpc_VolumeID (cs_VolProto (nfs_CS nfs)) in
      try_go (GetFileSystemByName_api (nfs_ibox nfs) (csr_Name req))
        (\<lambda>err. if \<not> errors_is err ErrNotFound then fail_go (impl_error err)
           else impl_of AlreadyExists (GetFileSystemByID_api (nfs_ibox nfs) sourceFilesystemID) (\<lambda>parentFilesystem.
                then_go (nfs_snapshot_lock req (nfs_ibox nfs)) (\<lambda>lockExpiresAt.
                or_impl (CreateFileSystemSnapshot_api (nfs_ibox nfs)
                   \<lparr>fss_LockExpiresAt = lockExpiresAt, fss_ParentID = sourceFilesystemID,
                    fss_SnapshotName = csr_Name req, fss_WriteProtected = True,
                    fss_SSDEnabled = fs_SSDEnabled parentFilesystem\<rparr>) (\<lambda>resp.
                nfs_snapshot_answer E nfs req (fsr_SnapshotID resp) (fsr_Size resp)))))
        (\<lambda>snap. if fs_ParentID snap = sourceFilesystemID
           then nfs_snapshot_answer E nfs req (fs_ID snap) (fs_Size snap)
           else fail_go (ImplementationError AlreadyExists
             ''CreateSnapshot (nfs) - snapshot with already existing name and different source volume ID'')))"

definition ControllerExpandVolume_nfs :: "NFSstorage \<Rightarrow> CsiExpandResponse go" where
  "ControllerExpandVolume_nfs nfs =
     or_impl (UpdateFileSystem_api (nfs_ibox nfs) (vpc_VolumeID (cs_VolProto (nfs_CS nfs)))
        (zero_FileSystem\<lparr>fs_Size := nfs_Capacity nfs\<rparr>)) (\<lambda>_.
     return_go \<lparr>ers_CapacityBytes = nfs_Capacity nfs, ers_NodeExpansionRequired = False\<rparr>)"

end
