(* ===== verification/Treeq_Storage.thy ===== *)
theory Treeq_Storage
  imports Nfs_Storage
begin

text \<open>
  \<open>storage/treeq/treeqservice.go\<close> and \<open>storage/treeq/treeqcontroller.go\<close>. The service keeps its own
  copy of \<open>NFSstorage\<close>. The goroutines of \<open>checkTreeqName\<close> are run one after the other, in the order
  of the file systems; the two mutexes make the bodies of \<open>CreateTreeqVolume\<close> and
  \<open>DeleteTreeqVolume\<close> one step each here. The size units of \<open>convertToByte\<close> stand in a Go map; for a
  text that holds both units the order is not determined, and the model takes \<open>gib\<close> first.
\<close>

record TreeqService =
  ts_NFSstorage :: NFSstorage
  ts_CS :: Commonservice
  ts_PoolID :: int
  ts_TreeqCnt :: int

abbreviation ts_ibox :: "TreeqService \<Rightarrow> Client" where
  "ts_ibox ts \<equiv> cs_IboxAPI (ts_CS ts)"

record Treeqstorage =
  tqs_NFSstorage :: NFSstorage
  tqs_TreeqService :: TreeqService

definition NewTreeqstorage :: "int64 \<Rightarrow> Commonservice \<Rightarrow> Treeqstorage" where
  "NewTreeqstorage capacity commonService =
     \<lparr>tqs_NFSstorage = NewNFSstorage capacity commonService,
      tqs_TreeqService = \<lparr>ts_NFSstorage = NewNFSstorage capacity commonService, ts_CS = commonService,
                         ts_PoolID = 0, ts_TreeqCnt = 0\<rparr>\<rparr>"

definition GIB :: int64 where
  "GIB = 1024 * 1024 * 1024"

definition TIB :: int64 where
  "TIB = 1024 * GIB"

section \<open>The service\<close>

definition fs_prefix :: "gomap \<Rightarrow> string" where
  "fs_prefix params = (if lookup params StorageClassFSPrefix = '''' then StorageClassFSPrefixDefault
     else lookup params StorageClassFSPrefix)"

definition parse_unit :: "string \<Rightarrow> string \<Rightarrow> int64 \<Rightarrow> int64 res" where
  "parse_unit sizeText key unit = (let arg = hd (Split sizeText key) in
     case Atoi arg of None \<Rightarrow> Err (parse_error arg) | Some n \<Rightarrow> Ok (wrap64 (n * unit)))"

definition convertToByte :: "string \<Rightarrow> int64 res" where
  "convertToByte sizeText =
     (if Contains sizeText ''gib'' \<or> Contains sizeText ''GIB'' then parse_unit sizeText ''gib'' GIB
      else if Contains sizeText ''tib'' \<or> Contains sizeText ''TIB'' then parse_unit sizeText ''tib'' TIB
      else Err (Errors_New ''unexpected maxfilesystemsize, expected format: gib,tib''))"

definition getExportPath :: "TreeqService \<Rightarrow> int \<Rightarrow> TreeqService go" where
  "getExportPath ts filesystemID =
     then_go (GetExportsByFileSystemID_api (ts_ibox ts) filesystemID) (\<lambda>exportResponse.
     return_go (case exportResponse of [] \<Rightarrow> ts
       | export # _ \<Rightarrow> ts\<lparr>ts_NFSstorage := (ts_NFSstorage ts)\<lparr>nfs_ExportPath := exp_ExportPath export\<rparr>\<rparr>))"

fun found_treeqs :: "Client \<Rightarrow> FileSystem list \<Rightarrow> string \<Rightarrow> Treeq list go" where
  "found_treeqs c [] name = return_go []"
| "found_treeqs c (fsys # rest) name =
     ignore_go (GetTreeqByName_api c (fs_ID fsys) name) (\<lambda>treeq.
     then_go (found_treeqs c rest name) (\<lambda>items.
     return_go (case treeq of None \<Rightarrow> items | Some t \<Rightarrow> t # items)))"

definition checkTreeqName :: "TreeqService \<Rightarrow> FileSystem list \<Rightarrow> string \<Rightarrow> Treeq option go" where
  "checkTreeqName ts fileSystems persistentVolumeName =
     then_go (found_treeqs (ts_ibox ts) fileSystems persistentVolumeName) (\<lambda>items.
     return_go (case items of [] \<Rightarrow> None | treeq # _ \<Rightarrow> Some treeq))"

definition treeq_context :: "int \<Rightarrow> int \<Rightarrow> string \<Rightarrow> string \<Rightarrow> gomap" where
  "treeq_context filesystemID treeqID ipAddress volumePath =
     [(''ID'', Itoa filesystemID), (''TREEQID'', Itoa treeqID), (''ipAddress'', ipAddress),
      (''volumePath'', volumePath)]"

text \<open>When the address of the network space cannot be read, the error returned is the one of the
  export path: none, when that was read. The result is then the empty map without an error.\<close>

definition IsTreeqAlreadyExist ::
    "Env \<Rightarrow> TreeqService \<Rightarrow> string \<Rightarrow> string \<Rightarrow> string \<Rightarrow> string \<Rightarrow> (gomap \<times> TreeqService) go" where
  "IsTreeqAlreadyExist E ts0 poolName networkSpace persistentVolumeName fileSystemPrefix =
     then_go (GetPoolByName_api (ts_ibox ts0) poolName) (\<lambda>pool.
     let ts = ts0\<lparr>ts_PoolID := pool_ID pool\<rparr> in
     try_go (GetFileSystemsByPool_api (ts_ibox ts) (ts_PoolID ts) fileSystemPrefix)
       (\<lambda>poolErr. fail_go (Errors_New (''failed to get filesystems from poolName '' @ poolName)))
       (\<lambda>fileSystemMetaData.
     if fileSystemMetaData = [] then return_go ([], ts)
     else then_go (checkTreeqName ts fileSystemMetaData persistentVolumeName) (\<lambda>treeqData.
     case treeqData of
       None \<Rightarrow> return_go ([], ts)
     | Some treeq \<Rightarrow>
         then_go (try_go (getExportPath ts (tq_FilesystemID treeq))
                    (\<lambda>e. return_go (ts, Some e)) (\<lambda>ts'. return_go (ts', None))) (\<lambda>(ts1, exportErr).
         try_go (GetNetworkSpaceIP E (ts_CS ts1) networkSpace)
           (\<lambda>networkErr. case exportErr of Some e \<Rightarrow> fail_go e | None \<Rightarrow> return_go ([], ts1))
           (\<lambda>ipAddress.
              let ts2 = ts1\<lparr>ts_NFSstorage := (ts_NFSstorage ts1)\<lparr>nfs_IPAddress := ipAddress\<rparr>\<rparr> in
              case exportErr of Some e \<Rightarrow> fail_go e
              | None \<Rightarrow> return_go (treeq_context (tq_FilesystemID treeq) (tq_ID treeq) ipAddress
                  (path_Join (nfs_ExportPath (ts_NFSstorage ts2)) (tq_Path treeq)), ts2))))))"

datatype Action = IncrementTreeqCount | DecrementTreeqCount | NONE

definition TreeqCount :: string where
  "TreeqCount = ''host.k8s.treeqs''"

definition UpdateTreeqCnt :: "TreeqService \<Rightarrow> int \<Rightarrow> Action \<Rightarrow> int \<Rightarrow> int go" where
  "UpdateTreeqCnt ts fileSystemID action treeqCnt0 =
     then_go (if treeqCnt0 = 0
        then then_go (GetTreeqsByFileSystem_api (ts_ibox ts) fileSystemID) (\<lambda>treeqs. return_go (int (length treeqs)))
        else return_go treeqCnt0) (\<lambda>treeqCnt1.
     let treeqCnt = (case action of IncrementTreeqCount \<Rightarrow> treeqCnt1 + 1
                     | DecrementTreeqCount \<Rightarrow> treeqCnt1 - 1 | NONE \<Rightarrow> treeqCnt1) in
     then_go (PutMetadata_api (ts_ibox ts) fileSystemID [(TreeqCount, JInt treeqCnt)]) (\<lambda>_.
     return_go treeqCnt))"

text \<open>The first file system of the pool with room for the new treeq, in bytes and in treeqs. The
  treeq count of the service is set before the export path is read, and stays set when that fails:
  the result is an error or a file system, and the changed service.\<close>

fun pick_filesystem :: "TreeqService \<Rightarrow> int64 \<Rightarrow> int \<Rightarrow> FileSystem list
    \<Rightarrow> ((go_error + FileSystem) \<times> TreeqService) go" where
  "pick_filesystem ts maxFileSystemSize maxTreeqPerFS [] = return_go (Inl ErrNotFound, ts)"
| "pick_filesystem ts maxFileSystemSize maxTreeqPerFS (fsys # rest) =
     (if wrap64 (fs_Size fsys + nfs_Capacity (ts_NFSstorage ts)) < maxFileSystemSize
      then try_go (GetTreeqsByFileSystem_api (ts_ibox ts) (fs_ID fsys))
        (\<lambda>err. return_go (Inl (Errors_New (''failed to get treeq count of filesystemID '' @ Itoa (fs_ID fsys))), ts))
        (\<lambda>treeqs. if int (length treeqs) < maxTreeqPerFS
           then let ts1 = ts\<lparr>ts_TreeqCnt := int (length treeqs)\<rparr> in
                try_go (getExportPath ts1 (fs_ID fsys))
                  (\<lambda>exportErr. return_go (Inl exportErr, ts1)) (\<lambda>ts2. return_go (Inr fsys, ts2))
           else pick_filesystem ts maxFileSystemSize maxTreeqPerFS rest)
      else pick_filesystem ts maxFileSystemSize maxTreeqPerFS rest)"

definition getExpectedFileSystemID ::
    "TreeqService \<Rightarrow> int64 \<Rightarrow> ((go_error + FileSystem) \<times> TreeqService) go" where
  "getExpectedFileSystemID ts maxFileSystemSize =
     (let params = nfs_StorageClassParameters (ts_NFSstorage ts);
          tmpValue = lookup params StorageClassMaxTreeqsPerFS in
      if nfs_Capacity (ts_NFSstorage ts) > maxFileSystemSize
      then return_go (Inl (Errors_New ''request treeq size is greater than allowed max_filesystem_size''), ts)
      else try_go (GetMaxTreeqPerFs_api (ts_ibox ts)) (\<lambda>err. return_go (Inl err, ts)) (\<lambda>iboxLimit.
      case (if tmpValue = '''' then Some iboxLimit else Atoi tmpValue) of
        None \<Rightarrow> return_go (Inl (parse_error tmpValue), ts)
      | Some maxTreeqPerFS \<Rightarrow>
          try_go (GetFileSystemsByPool_api (ts_ibox ts) (ts_PoolID ts) (fs_prefix params))
            (\<lambda>poolErr. return_go (Inl (Errors_New (''failed to get filesystems from poolName '' @
               lookup params StorageClassPoolName)), ts))
            (pick_filesystem ts maxFileSystemSize maxTreeqPerFS)))"

text \<open>\<open>CreateTreeqVolume\<close> from the point where the file system is known; \<open>filesys\<close> is the file system
  that was there already, if any.\<close>

definition create_treeq_in :: "TreeqService \<Rightarrow> FileSystem option \<Rightarrow> int \<Rightarrow> gomap go" where
  "create_treeq_in ts filesys filesystemID =
     (let nfs = ts_NFSstorage ts in
      try_go (CreateTreeq_api (ts_ibox ts) filesystemID
          \<lparr>ctq_SoftInodes = 0, ctq_Path = path_Join ''/'' (nfs_PVName nfs), ctq_HardCapacity = nfs_Capacity nfs,
           ctq_HardInodes = 0, ctq_Name = nfs_PVName nfs\<rparr>)
        (\<lambda>createTreeqerr. ignore_go
           (if filesys = None then DeleteFileSystemComplete (ts_ibox ts) filesystemID else return_go ())
           (\<lambda>_. fail_go (Errors_New ''failed to create Treeq'')))
        (\<lambda>treeqResponse.
      let treeqVolumeContext = treeq_context filesystemID (tq_ID treeqResponse) (nfs_IPAddress nfs)
            (path_Join (nfs_ExportPath nfs) (tq_Path treeqResponse)) in
      try_go (UpdateTreeqCnt ts filesystemID NONE (ts_TreeqCnt ts + 1))
        (\<lambda>updateTreeqErr. ignore_go
           (if nfs_FileSystemID nfs \<noteq> 0
            then then_go (DeleteTreeq_api (ts_ibox ts) (nfs_FileSystemID nfs) (tq_ID treeqResponse)) (\<lambda>_. return_go ())
            else return_go ())
           (\<lambda>_. fail_go (Errors_New ''failed to increment treeq count as metadata'')))
        (\<lambda>_. case filesys of
            None \<Rightarrow> return_go treeqVolumeContext
          | Some fsys \<Rightarrow>
              try_go (UpdateFileSystem_api (ts_ibox ts) filesystemID
                  (zero_FileSystem\<lparr>fs_Size := wrap64 (fs_Size fsys + nfs_Capacity nfs)\<rparr>))
                (\<lambda>updateFileSizeErr. ignore_go
                   (if filesystemID \<noteq> 0
                    then then_go (UpdateTreeqCnt ts filesystemID DecrementTreeqCount 0) (\<lambda>_. return_go ())
                    else return_go ())
                   (\<lambda>_. fail_go (Errors_New ''failed to update files size'')))
                (\<lambda>_. return_go treeqVolumeContext))))"

definition create_filesystem_for_treeq :: "Env \<Rightarrow> TreeqService \<Rightarrow> go_error \<Rightarrow> TreeqService go" where
  "create_filesystem_for_treeq E ts err =
     (let nfs = ts_NFSstorage ts; pvSplit = Split (nfs_PVName nfs) ''-'' in
      if length pvSplit < 2 then fail_go err
      else let treeqFileSystemName = fs_prefix (nfs_StorageClassParameters nfs) @ pvSplit ! 1 in
      then_go (CreateFileSystem_nfs (nfs\<lparr>nfs_ExportPath := ''/'' @ treeqFileSystemName\<rparr>) treeqFileSystemName) (\<lambda>nfs1.
      then_go (CreateExportPathAndAddMetadata E nfs1) (\<lambda>nfs2.
      return_go (ts\<lparr>ts_NFSstorage := nfs2\<rparr>))))"

definition max_filesystem_bytes :: "gomap \<Rightarrow> int64" where
  "max_filesystem_bytes params = (let s = lookup params StorageClassMaxFilesystemSize in
     if s = '''' then MaxInt64 else case convertToByte s of Ok n \<Rightarrow> n | _ \<Rightarrow> 0)"

definition CreateTreeqVolume :: "Env \<Rightarrow> TreeqService \<Rightarrow> gomap \<Rightarrow> int64 \<Rightarrow> string \<Rightarrow> gomap go" where
  "CreateTreeqVolume E ts0 storageClassParameters capacity pVName =
     (let nfs1 = (ts_NFSstorage ts0)\<lparr>nfs_PVName := pVName, nfs_StorageClassParameters := storageClassParameters,
            nfs_Capacity := capacity, nfs_ExportPath := ''/'' @ pVName\<rparr> in
      then_go (GetNetworkSpaceIP E (ts_CS ts0)
         (TrimBlank (lookup storageClassParameters StorageClassNetworkSpace))) (\<lambda>ipAddress.
      then_go (GetPoolByName_api (ts_ibox ts0) (lookup storageClassParameters StorageClassPoolName)) (\<lambda>pool.
      then_go (getExpectedFileSystemID
         (ts0\<lparr>ts_NFSstorage := nfs1\<lparr>nfs_IPAddress := ipAddress\<rparr>, ts_PoolID := pool_ID pool\<rparr>)
         (max_filesystem_bytes storageClassParameters)) (\<lambda>(found, ts).
      case found of
        Inr fsys \<Rightarrow> create_treeq_in ts (Some fsys) (fs_ID fsys)
      | Inl err \<Rightarrow>
          if errors_is err ErrNotFound
          then then_go (create_filesystem_for_treeq E ts err)
                 (\<lambda>ts1. create_treeq_in ts1 None (nfs_FileSystemID (ts_NFSstorage ts1)))
          else fail_go err))))"

definition DeleteTreeqVolume :: "TreeqService \<Rightarrow> int \<Rightarrow> int \<Rightarrow> unit go" where
  "DeleteTreeqVolume ts filesystemID treeqID =
     then_go (GetTreeq_api (ts_ibox ts) filesystemID treeqID) (\<lambda>treeq.
     if tq_UsedCapacity treeq > 0 then fail_go (Errors_New ''can not delete NFS-treeq PV with data'')
     else then_go (UpdateTreeqCnt ts filesystemID DecrementTreeqCount 0) (\<lambda>treeqCnt.
     try_go (DeleteTreeq_api (ts_ibox ts) filesystemID treeqID)
       (\<lambda>err. ignore_go (UpdateTreeqCnt ts filesystemID IncrementTreeqCount 0) (\<lambda>_. fail_go err))
       (\<lambda>_. if treeqCnt = 0 then DeleteFileSystemComplete (ts_ibox ts) filesystemID else return_go ())))"

definition sum_capacity :: "Treeq list \<Rightarrow> int64" where
  "sum_capacity treeqs = fold (\<lambda>t total. wrap64 (total + tq_HardCapacity t)) treeqs 0"

definition UpdateTreeqVolume :: "TreeqService \<Rightarrow> int \<Rightarrow> int \<Rightarrow> int64 \<Rightarrow> string \<Rightarrow> unit go" where
  "UpdateTreeqVolume ts filesystemID treeqID capacity maxFileSystemSize =
     (let expand_treeq = then_go (UpdateTreeq_api (ts_ibox ts) filesystemID treeqID
            \<lparr>utq_SoftInodes = 0, utq_Path = '''', utq_HardCapacity = capacity, utq_HardInodes = 0, utq_Name = ''''\<rparr>)
            (\<lambda>_. return_go ()) in
      then_go (GetFileSystemByID_api (ts_ibox ts) filesystemID) (\<lambda>fileSystemResponse.
      try_go (GetTreeq_api (ts_ibox ts) filesystemID treeqID)
        (\<lambda>err. if errors_is err ErrNotFound then return_go () else fail_go err) (\<lambda>treeq.
      then_go (GetTreeqsByFileSystem_api (ts_ibox ts) filesystemID) (\<lambda>treeqsInFileSystem.
      let totalTreeqSize = sum_capacity treeqsInFileSystem;
          needToIncreaseSize = wrap64 (capacity - tq_HardCapacity treeq) in
      if wrap64 (totalTreeqSize + needToIncreaseSize) > fs_Size fileSystemResponse then
        (let freeSpace = wrap64 (fs_Size fileSystemResponse - totalTreeqSize);
             increaseFileSizeBy = wrap64 (needToIncreaseSize - freeSpace);
             newSize = wrap64 (fs_Size fileSystemResponse + increaseFileSizeBy);
             resize = then_go (UpdateFileSystem_api (ts_ibox ts) filesystemID (zero_FileSystem\<lparr>fs_Size := newSize\<rparr>))
                        (\<lambda>_. expand_treeq)
         in if maxFileSystemSize = '''' then resize
            else then_go (pure_go (convertToByte maxFileSystemSize)) (\<lambda>maxFileSystemSizeInBytes.
              if newSize > maxFileSystemSizeInBytes
              then fail_go (Status_Error PermissionDenied ''expansion capacity not allowed'')
              else resize))
      else expand_treeq))))"

section \<open>The controller\<close>

definition ValidateStorageClass_treeq :: "Env \<Rightarrow> gomap \<Rightarrow> unit res" where
  "ValidateStorageClass_treeq E params =
     (case ValidateRequiredOptionalSCParameters
        [(StorageClassNetworkSpace, AnyLine), (StorageClassPoolName, HasLetter)]
        [(StorageClassUID, AllDigits), (StorageClassGID, AllDigits), (StorageClassMaxFilesystems, AllDigits),
         (StorageClassMaxTreeqsPerFS, AllDigits), (StorageClassMaxFilesystemSize, AnyLine)] params of
      Crash x \<Rightarrow> Crash x
    | Err e \<Rightarrow> Err (ImplementationError InvalidArgument (err_text e))
    | Ok _ \<Rightarrow> (case ValidateNFSExportPermissions E params of
        Crash x \<Rightarrow> Crash x
      | Err e \<Rightarrow> Err (ImplementationError InvalidArgument (err_text e))
      | Ok _ \<Rightarrow> Ok ()))"

definition treeq_answer :: "Treeqstorage \<Rightarrow> CsiCreateVolumeRequest \<Rightarrow> gomap \<Rightarrow> CsiVolume" where
  "treeq_answer treeq req ctx =
     (let params = req_Parameters req;
          copy = (\<lambda>k c. store c k (lookup params k));
          treeqVolumeContext = copy StorageClassGID (copy StorageClassUID (copy StorageClassStorageProtocol
             (copy StorageClassNFSExportPermissions ctx)))
      in \<lparr>csi_VolumeId = lookup treeqVolumeContext ''ID'' @ ''#'' @ lookup treeqVolumeContext ''TREEQID'',
          csi_CapacityBytes = nfs_Capacity (tqs_NFSstorage treeq),
          csi_VolumeContext = treeqVolumeContext, csi_ContentSource = req_ContentSource req\<rparr>)"

definition CreateVolume_treeq :: "Env \<Rightarrow> Treeqstorage \<Rightarrow> CsiCreateVolumeRequest \<Rightarrow> CsiVolume go" where
  "CreateVolume_treeq E treeq req =
     (let params = req_Parameters req; nfs = tqs_NFSstorage treeq in
      then_go (GetHostInfo (req_Secrets req) (nfs_ibox nfs)) (\<lambda>_.
      if wants_block req
      then fail_go (ImplementationError InvalidArgument (''treeq GetBlock - block access requested for '' @
             lookup params StorageClassStorageProtocol @ '' PV: '' @ req_Name req))
      else or_impl (IsTreeqAlreadyExist E (tqs_TreeqService treeq) (lookup params StorageClassPoolName)
             (lookup params StorageClassNetworkSpace) (req_Name req) (fs_prefix params)) (\<lambda>(found, ts).
      or_impl (if found = []
               then CreateTreeqVolume E ts params (nfs_Capacity nfs) (req_Name req)
               else return_go found) (\<lambda>ctx.
      return_go (treeq_answer treeq req ctx)))))"

definition DeleteVolume_treeq :: "Treeqstorage \<Rightarrow> unit go" where
  "DeleteVolume_treeq treeq =
     (let vp = cs_VolProto (nfs_CS (tqs_NFSstorage treeq)) in
      try_go (DeleteTreeqVolume (tqs_TreeqService treeq) (vpc_VolumeID vp) (vpc_TreeqID vp))
        (\<lambda>err. if errors_is err ErrNotFound then return_go () else fail_go err) return_go)"

definition ControllerPublishVolume_treeq :: "Treeqstorage \<Rightarrow> gomap go" where
  "ControllerPublishVolume_treeq treeq = return_go []"

definition ControllerUnpublishVolume_treeq :: "Treeqstorage \<Rightarrow> unit go" where
  "ControllerUnpublishVolume_treeq treeq =
     (let cs = nfs_CS (tqs_NFSstorage treeq); vp = cs_VolProto cs in
      or_impl (DeleteExportRule (cs_IboxAPI cs) (vpc_VolumeID vp) (vpc_NodeID vp)) return_go)"

definition Snapshot_treeq :: "'a go" where
  "Snapshot_treeq = fail_go (Status_Error Unimplemented ''Unsupported operation for treeq'')"

definition ControllerExpandVolume_treeq :: "Treeqstorage \<Rightarrow> CsiExpandRequest \<Rightarrow> CsiExpandResponse go" where
  "ControllerExpandVolume_treeq treeq req =
     (let nfs = tqs_NFSstorage treeq;
          maxFileSystemSize = lookup (nfs_StorageClassParameters nfs) StorageClassMaxFilesystemSize;
          vp = cs_VolProto (nfs_CS nfs);
          requested = (case exr_RequiredBytes req of None \<Rightarrow> 0 | Some b \<Rightarrow> b);
          capacity = (if requested < GIB then GIB else requested)
      in or_impl (UpdateTreeqVolume (tqs_TreeqService treeq) (vpc_VolumeID vp) (vpc_TreeqID vp) capacity
            maxFileSystemSize) (\<lambda>_.
         return_go \<lparr>ers_CapacityBytes = capacity, ers_NodeExpansionRequired = False\<rparr>))"

end
