(* ===== verification/Storage_Service.thy ===== *)
theory Storage_Service
  imports Treeq_Storage
begin

text \<open>
  \<open>storage/storageservice.go\<close>: the choice of the implementation of \<open>StorageOperations\<close> by the
  storage type of the volume, and the operations of the interface.
\<close>

datatype StorageController = FCstorage Storage | ISCSIstorage Storage | NVMEstorage Storage
  | NFScontroller NFSstorage | TreeqController Treeqstorage

definition NewStorageNode :: "Commonservice \<Rightarrow> int64 \<Rightarrow> StorageController res" where
  "NewStorageNode commonService capacity =
     (let storageProtocol = vpc_StorageType (cs_VolProto commonService);
          block = \<lparr>st_Capacity = capacity, st_CS = commonService\<rparr> in
      if storageProtocol = ProtocolFC then Ok (FCstorage block)
      else if storageProtocol = ProtocolISCSI then Ok (ISCSIstorage block)
      else if storageProtocol = ProtocolNVME then Ok (NVMEstorage block)
      else if storageProtocol = ProtocolNFS then Ok (NFScontroller (NewNFSstorage capacity commonService))
      else if storageProtocol = ProtocolTreeq then Ok (TreeqController (NewTreeqstorage capacity commonService))
      else Err (Errors_New (''Error: Invalid storage protocol -'' @ storageProtocol)))"

definition NewStorageController :: "Env \<Rightarrow> gomap \<Rightarrow> gomap \<Rightarrow> VolumeProtocolConfig \<Rightarrow> int64
    \<Rightarrow> (StorageController \<times> Commonservice) res" where
  "NewStorageController E config secrets volumePrototype capacity =
     (case BuildCommonService E config secrets volumePrototype of
        Err e \<Rightarrow> Err e
      | Crash x \<Rightarrow> Crash x
      | Ok commonService \<Rightarrow>
         (case NewStorageNode commonService capacity of
            Err e \<Rightarrow> Err e
          | Crash x \<Rightarrow> Crash x
          | Ok operations \<Rightarrow> Ok (operations, commonService)))"

section \<open>The interface StorageOperations\<close>

fun sc_ValidateStorageClass :: "Env \<Rightarrow> StorageController \<Rightarrow> gomap \<Rightarrow> StorageController res" where
  "sc_ValidateStorageClass E (FCstorage st) params = (case ValidateStorageClass_fc params of
     Ok _ \<Rightarrow> Ok (FCstorage st) | Err e \<Rightarrow> Err e | Crash x \<Rightarrow> Crash x)"
| "sc_ValidateStorageClass E (ISCSIstorage st) params = (case ValidateStorageClass_iscsi params of
     Ok _ \<Rightarrow> Ok (ISCSIstorage st) | Err e \<Rightarrow> Err e | Crash x \<Rightarrow> Crash x)"
| "sc_ValidateStorageClass E (NVMEstorage st) params = (case ValidateStorageClass_nvme params of
     Ok _ \<Rightarrow> Ok (NVMEstorage st) | Err e \<Rightarrow> Err e | Crash x \<Rightarrow> Crash x)"
| "sc_ValidateStorageClass E (NFScontroller nfs) params = (case ValidateStorageClass_nfs E nfs params of
     Ok nfs1 \<Rightarrow> Ok (NFScontroller nfs1) | Err e \<Rightarrow> Err e | Crash x \<Rightarrow> Crash x)"
| "sc_ValidateStorageClass E (TreeqController tq) params = (case ValidateStorageClass_treeq E params of
     Ok _ \<Rightarrow> Ok (TreeqController tq) | Err e \<Rightarrow> Err e | Crash x \<Rightarrow> Crash x)"

fun sc_CreateVolume :: "Env \<Rightarrow> StorageController \<Rightarrow> CsiCreateVolumeRequest \<Rightarrow> CsiVolume go" where
  "sc_CreateVolume E (FCstorage st) req = CreateVolume_fc E st req"
| "sc_CreateVolume E (ISCSIstorage st) req = CreateVolume_iscsi E st req"
| "sc_CreateVolume E (NVMEstorage st) req = CreateVolume_nvme E st req"
| "sc_CreateVolume E (NFScontroller nfs) req = CreateVolume_nfs E nfs req"
| "sc_CreateVolume E (TreeqController tq) req = CreateVolume_treeq E tq req"

fun sc_DeleteVolume :: "Env \<Rightarrow> StorageController \<Rightarrow> unit go" where
  "sc_DeleteVolume E (FCstorage st) = DeleteVolume_fc E st"
| "sc_DeleteVolume E (ISCSIstorage st) = DeleteVolume_iscsi E st"
| "sc_DeleteVolume E (NVMEstorage st) = DeleteVolume_nvme E st"
| "sc_DeleteVolume E (NFScontroller nfs) = DeleteVolume_nfs E nfs"
| "sc_DeleteVolume E (TreeqController tq) = DeleteVolume_treeq tq"

fun sc_ControllerPublishVolume :: "Env \<Rightarrow> StorageController \<Rightarrow> CsiPublishRequest \<Rightarrow> gomap go" where
  "sc_ControllerPublishVolume E (FCstorage st) req = ControllerPublishVolume_fc E st req"
| "sc_ControllerPublishVolume E (ISCSIstorage st) req = ControllerPublishVolume_iscsi E st req"
| "sc_ControllerPublishVolume E (NVMEstorage st) req = ControllerPublishVolume_nvme E st req"
| "sc_ControllerPublishVolume E (NFScontroller nfs) req = ControllerPublishVolume_nfs E nfs req"
| "sc_ControllerPublishVolume E (TreeqController tq) req = ControllerPublishVolume_treeq tq"

fun sc_ControllerUnpublishVolume :: "StorageController \<Rightarrow> CsiUnpublishRequest \<Rightarrow> unit go" where
  "sc_ControllerUnpublishVolume (FCstorage st) req = ControllerUnpublishVolume_fc st req"
| "sc_ControllerUnpublishVolume (ISCSIstorage st) req = ControllerUnpublishVolume_iscsi st req"
| "sc_ControllerUnpublishVolume (NVMEstorage st) req = ControllerUnpublishVolume_nvme st req"
| "sc_ControllerUnpublishVolume (NFScontroller nfs) req = ControllerUnpublishVolume_nfs nfs"
| "sc_ControllerUnpublishVolume (TreeqController tq) req = ControllerUnpublishVolume_treeq tq"

fun sc_CreateSnapshot :: "Env \<Rightarrow> StorageController \<Rightarrow> CsiCreateSnapshotRequest \<Rightarrow> CsiSnapshot go" where
  "sc_CreateSnapshot E (FCstorage st) req = CreateSnapshot_block E st req"
| "sc_CreateSnapshot E (ISCSIstorage st) req = CreateSnapshot_block E st req"
| "sc_CreateSnapshot E (NVMEstorage st) req = CreateSnapshot_block E st req"
| "sc_CreateSnapshot E (NFScontroller nfs) req = CreateSnapshot_nfs E nfs req"
| "sc_CreateSnapshot E (TreeqController tq) req = Snapshot_treeq"

fun sc_DeleteSnapshot :: "Env \<Rightarrow> StorageController \<Rightarrow> string \<Rightarrow> unit go" where
  "sc_DeleteSnapshot E (FCstorage st) snapshotId = DeleteSnapshot_block E st snapshotId"
| "sc_DeleteSnapshot E (ISCSIstorage st) snapshotId = DeleteSnapshot_block E st snapshotId"
| "sc_DeleteSnapshot E (NVMEstorage st) snapshotId = DeleteSnapshot_block E st snapshotId"
| "sc_DeleteSnapshot E (NFScontroller nfs) snapshotId = DeleteSnapshot_nfs E nfs snapshotId"
| "sc_DeleteSnapshot E (TreeqController tq) snapshotId = Snapshot_treeq"

fun sc_ControllerExpandVolume :: "StorageController \<Rightarrow> CsiExpandRequest \<Rightarrow> CsiExpandResponse go" where
  "sc_ControllerExpandVolume (FCstorage st) req = ControllerExpandVolume_fc st req"
| "sc_ControllerExpandVolume (ISCSIstorage st) req = ControllerExpandVolume_iscsi st req"
| "sc_ControllerExpandVolume (NVMEstorage st) req = ControllerExpandVolume_nvme st req"
| "sc_ControllerExpandVolume (NFScontroller nfs) req = ControllerExpandVolume_nfs nfs"
| "sc_ControllerExpandVolume (TreeqController tq) req = ControllerExpandVolume_treeq tq req"

text \<open>The controller holds a pointer to the volume's description and sets its host later.\<close>

definition set_host :: "Host \<Rightarrow> Storage \<Rightarrow> Storage" where
  "set_host host st = st\<lparr>st_CS := (st_CS st)\<lparr>cs_VolProto := (cs_VolProto (st_CS st))\<lparr>vpc_Host := Some host\<rparr>\<rparr>\<rparr>"

fun with_host :: "Host \<Rightarrow> StorageController \<Rightarrow> StorageController" where
  "with_host host (FCstorage st) = FCstorage (set_host host st)"
| "with_host host (ISCSIstorage st) = ISCSIstorage (set_host host st)"
| "with_host host (NVMEstorage st) = NVMEstorage (set_host host st)"
| "with_host host sc = sc"

end
