(* ===== verification/Replica_Service.thy ===== *)
theory Replica_Service
  imports Storage_Service
begin

text \<open>\<open>service/screplica.go\<close>: the replica a StorageClass asks for, as a custom resource.\<close>

definition IboxReplicaTypeParameter :: string where "IboxReplicaTypeParameter = ''replication_type''"
definition IboxReplicaCGNameParameter :: string where "IboxReplicaCGNameParameter = ''cg_name''"
definition IboxReplicaRemotePoolIDParameter :: string where "IboxReplicaRemotePoolIDParameter = ''remote_pool_id''"
definition IboxReplicaRemoteIboxCredNameParameter :: string where "IboxReplicaRemoteIboxCredNameParameter = ''remote_ibox_credential_name''"
definition IboxReplicaRemoteIboxCredNamespaceParameter :: string where "IboxReplicaRemoteIboxCredNamespaceParameter = ''remote_ibox_credential_namespace''"
definition IboxReplicaLocalIboxCredNameParameter :: string where "IboxReplicaLocalIboxCredNameParameter = ''local_ibox_credential_name''"
definition IboxReplicaLocalIboxCredNamespaceParameter :: string where "IboxReplicaLocalIboxCredNamespaceParameter = ''local_ibox_credential_namespace''"
definition IboxReplicaRemoteIboxLinkNameParameter :: string where "IboxReplicaRemoteIboxLinkNameParameter = ''link_remote_system_name''"
definition IboxReplicaCreatePVC :: string where "IboxReplicaCreatePVC = ''remote_create_pvc''"
definition IboxReplicaCreatePVCSuffix :: string where "IboxReplicaCreatePVCSuffix = ''remote_pvc_name_suffix''"
definition IboxReplicaCreatePVCNamespace :: string where "IboxReplicaCreatePVCNamespace = ''remote_pvc_namespace''"
definition IboxReplicaCreatePVCNetworkSpace :: string where "IboxReplicaCreatePVCNetworkSpace = ''remote_network_space''"
definition IboxReplicaCreatePVCPoolName :: string where "IboxReplicaCreatePVCPoolName = ''remote_pool_name''"
definition IboxReplicaCreatePVCKubeconfigSecretName :: string where "IboxReplicaCreatePVCKubeconfigSecretName = ''remote_kubeconfig_secret_name''"
definition IboxReplicaCreatePVCKubeconfigSecretNamespace :: string where "IboxReplicaCreatePVCKubeconfigSecretNamespace = ''remote_kubeconfig_secret_namespace''"

definition ReplicaEntityCG :: string where "ReplicaEntityCG = ''CONSISTENCY_GROUP''"
definition ReplicaEntityVolume :: string where "ReplicaEntityVolume = ''VOLUME''"
definition ReplicaEntityFilesystem :: string where "ReplicaEntityFilesystem = ''FILESYSTEM''"

definition verifyLinkExists :: "Commonservice \<Rightarrow> string \<Rightarrow> unit go" where
  "verifyLinkExists cs linkName = then_go (GetLinks_api (cs_IboxAPI cs)) (\<lambda>links.
     if list_ex (\<lambda>l. link_RemoteSystemName l = linkName) links then return_go ()
     else fail_go (Errors_New (''link '' @ linkName @ '' not found and is required for creating replicas'')))"

text \<open>At most \<open>tries\<close> reads, one per second.\<close>

fun wait_for_cg :: "nat \<Rightarrow> Client \<Rightarrow> string \<Rightarrow> bool go" where
  "wait_for_cg 0 c cgName = return_go False"
| "wait_for_cg (Suc tries) c cgName = try_go (GetConsistencyGroupByName_api c cgName)
     (\<lambda>err. wait_for_cg tries c cgName) (\<lambda>_. return_go True)"

definition verifyCGExists :: "Commonservice \<Rightarrow> string \<Rightarrow> unit go" where
  "verifyCGExists cs cgName = then_go (wait_for_cg 10 (cs_IboxAPI cs) cgName) (\<lambda>cgFound.
     if cgFound then return_go ()
     else fail_go (Errors_New (''cg not found after 10 seconds, giving up '' @ cgName)))"

definition missing_parameter :: "string \<Rightarrow> go_error" where
  "missing_parameter p = Errors_New (p @ '' parameter is required with '' @ IboxReplicaCreatePVC @ '' set to true'')"

text \<open>The parameters a remote claim needs, in the order they are checked.\<close>

definition remote_pvc_required :: "string list" where
  "remote_pvc_required = [IboxReplicaCreatePVCNamespace, IboxReplicaCreatePVCNetworkSpace,
     IboxReplicaCreatePVCPoolName, IboxReplicaRemoteIboxCredNameParameter,
     IboxReplicaRemoteIboxCredNamespaceParameter]"

definition handleCreatePVC :: "gomap \<Rightarrow> RemoteFields option res" where
  "handleCreatePVC params =
     (let tmp = lookup params IboxReplicaCreatePVC in
      if tmp = '''' then Ok None
      else case ParseBool tmp of
        None \<Rightarrow> Err (parse_error tmp)
      | Some False \<Rightarrow> Ok None
      | Some True \<Rightarrow>
         (case find (\<lambda>p. lookup params p = '''') remote_pvc_required of
            Some p \<Rightarrow> Err (missing_parameter p)
          | None \<Rightarrow> Ok (Some
              \<lparr>rf_RemoteIboxCredentialName = lookup params IboxReplicaRemoteIboxCredNameParameter,
               rf_RemoteIboxCredentialNamespace = lookup params IboxReplicaRemoteIboxCredNamespaceParameter,
               rf_RemoteCreatePVC = True,
               rf_RemotePVCNameSuffix = lookup params IboxReplicaCreatePVCSuffix,
               rf_RemotePVCName = '''',
               rf_RemotePVCKubeconfigSecretName = lookup params IboxReplicaCreatePVCKubeconfigSecretName,
               rf_RemotePVCKubeconfigSecretNamespace = lookup params IboxReplicaCreatePVCKubeconfigSecretNamespace,
               rf_RemotePVCNamespace = lookup params IboxReplicaCreatePVCNamespace,
               rf_RemoteNetworkSpace = lookup params IboxReplicaCreatePVCNetworkSpace,
               rf_RemotePoolName = lookup params IboxReplicaCreatePVCPoolName\<rparr>)))"

text \<open>Where a remote claim is made, its fields replace the pool and the credentials of the replica.\<close>

definition new_replica :: "string \<Rightarrow> string \<Rightarrow> gomap \<Rightarrow> int \<Rightarrow> RemoteFields option \<Rightarrow> Iboxreplica" where
  "new_replica volName entityType params poolID remote =
     \<lparr>ir_Name = ''iboxreplica-'' @ volName,
      ir_SecretName = lookup params IboxReplicaLocalIboxCredNameParameter,
      ir_SecretNamespace = lookup params IboxReplicaLocalIboxCredNamespaceParameter,
      ir_BaseAction = ''NEW'', ir_Description = ''iboxreplica-'' @ volName, ir_EntityType = entityType,
      ir_LocalEntityName = volName, ir_RemoteEntityName = volName,
      ir_LinkRemoteSystemName = lookup params IboxReplicaRemoteIboxLinkNameParameter,
      ir_ReplicationType = lookup params IboxReplicaTypeParameter, ir_RemotePoolID = poolID,
      ir_RemotePoolName = (case remote of None \<Rightarrow> lookup params IboxReplicaCreatePVCPoolName
        | Some f \<Rightarrow> rf_RemotePoolName f),
      ir_RemoteIboxCredentialName = (case remote of None \<Rightarrow> lookup params IboxReplicaRemoteIboxCredNameParameter
        | Some f \<Rightarrow> rf_RemoteIboxCredentialName f),
      ir_RemoteIboxCredentialNamespace = (case remote of
          None \<Rightarrow> lookup params IboxReplicaRemoteIboxCredNamespaceParameter
        | Some f \<Rightarrow> rf_RemoteIboxCredentialNamespace f),
      ir_CreatePVC = remote\<rparr>"

definition new_cg :: "string \<Rightarrow> string \<Rightarrow> gomap \<Rightarrow> RemoteFields option \<Rightarrow> Iboxcg" where
  "new_cg volName cgName params remote =
     \<lparr>icg_Name = ''iboxcg-'' @ volName,
      icg_SecretName = lookup params IboxReplicaLocalIboxCredNameParameter,
      icg_SecretNamespace = lookup params IboxReplicaLocalIboxCredNamespaceParameter,
      icg_Description = volName @ ''-'' @ cgName, icg_LocalCGName = cgName, icg_LocalVolumeName = volName,
      icg_BaseAction = ''ADD'', icg_CreatePVC = remote\<rparr>"

definition handleSCReplica :: "Env \<Rightarrow> Commonservice \<Rightarrow> string \<Rightarrow> string \<Rightarrow> gomap \<Rightarrow> unit go" where
  "handleSCReplica E cs volName storageProtocol params =
     (let K = cluster E; replicaType = lookup params IboxReplicaTypeParameter;
          poolText = lookup params IboxReplicaRemotePoolIDParameter;
          linkName = lookup params IboxReplicaRemoteIboxLinkNameParameter;
          cgName = lookup params IboxReplicaCGNameParameter;
          entityType = (if cgName \<noteq> '''' then ReplicaEntityCG
            else if storageProtocol = ProtocolNFS then ReplicaEntityFilesystem else ReplicaEntityVolume);
          secretName = lookup params IboxReplicaLocalIboxCredNameParameter;
          secretNamespace = lookup params IboxReplicaLocalIboxCredNamespaceParameter in
      if replicaType = '''' then return_go ()
      else if replicaType \<notin> {''SYNC'', ''ASYNC'', ''ACTIVE_ACTIVE''}
      then fail_go (Errors_New ''invalid replication type specified in StorageClass'')
      else case (if poolText = '''' then Some 0 else Atoi poolText) of
        None \<Rightarrow> fail_go (Errors_New ''sc replica parameter is set but is not an integer'')
      | Some poolID \<Rightarrow>
      if linkName = '''' then fail_go (Errors_New ''sc replica parameter is not set but is required'')
      else then_go (verifyLinkExists cs linkName) (\<lambda>_.
      if secretName = '''' then fail_go (Errors_New ''storageclass parameter is not set but is required'')
      else if secretNamespace = '''' then fail_go (Errors_New ''sc replica parameter is not set but is required'')
      else then_go (BuildClient_kube K) (\<lambda>_.
      then_go (GetSecret_kube K secretName secretNamespace) (\<lambda>_.
      then_go (pure_go (handleCreatePVC params)) (\<lambda>createPVCFields.
      then_go (case createPVCFields of
          None \<Rightarrow> return_go ()
        | Some f \<Rightarrow> if rf_RemotePVCKubeconfigSecretName f \<noteq> ''''
            then then_go (GetSecret_kube K (rf_RemotePVCKubeconfigSecretName f)
                   (rf_RemotePVCKubeconfigSecretNamespace f)) (\<lambda>_. return_go ())
            else return_go ()) (\<lambda>_.
      if cgName = ''''
      then CreateIboxreplica_kube K (new_replica volName entityType params poolID createPVCFields)
      else then_go (verifyCGExists cs cgName) (\<lambda>_.
           CreateIboxcg_kube K (new_cg volName cgName params createPVCFields))))))))"

end
