(* ===== verification/Controller_Service.thy ===== *)
theory Controller_Service
  imports Replica_Service
begin

text \<open>
  \<open>service/controller.go\<close>, \<open>service/protocolsecret.go\<close> and \<open>service/listvolumes.go\<close>: the CSI
  controller service. The maps of a request are changed in place by the code; here the changed
  parameters are handed on. NFS also writes the keys \<open>ipAddress\<close>, \<open>exportID\<close> and \<open>volPathd\<close> to the
  parameters of the request, which nothing reads afterwards. The mutex around publishing
  (\<open>ManageNodeVolumeMutex\<close>) and the event counters are left out.
\<close>

record Driver =
  drv_nodeID :: string
  drv_version :: string

definition ServiceName :: string where "ServiceName = ''infinibox-csi-driver''"

definition ProtocolSecretISCSINetworkSpace :: string where "ProtocolSecretISCSINetworkSpace = ''iscsi.network_space''"
definition ProtocolSecretISCSIUseCHAP :: string where "ProtocolSecretISCSIUseCHAP = ''iscsi.useCHAP''"
definition ProtocolSecretNVMENetworkSpace :: string where "ProtocolSecretNVMENetworkSpace = ''nvme.network_space''"
definition ProtocolSecretNFSNetworkSpace :: string where "ProtocolSecretNFSNetworkSpace = ''nfs.network_space''"
definition ProtocolSecretNFSExportPermissions :: string where "ProtocolSecretNFSExportPermissions = ''nfs.nfs_export_permissions''"

section \<open>The protocol secret (protocolsecret.go)\<close>

definition GetProtocolSecret :: "Env \<Rightarrow> (gomap \<times> bool) go" where
  "GetProtocolSecret E =
     (let secretName = getenv E EnvVarProtocolSecret; secretNamespace = getenv E EnvVarPodNamespace in
      if secretName = '''' then return_go ([], False)
      else if secretNamespace = ''''
      then fail_go (Status_Error InvalidArgument ''error - protocol secret namespace is blank'')
      else or_status InvalidArgument ''could not get kube client '' (BuildClient_kube (cluster E)) (\<lambda>_.
      or_status InvalidArgument ''could not get protocol secret ''
        (GetSecret_kube (cluster E) secretName secretNamespace) (\<lambda>protocolSecret.
      let storageProtocol = lookup protocolSecret StorageClassStorageProtocol in
      if storageProtocol \<in> {'''', ProtocolNFS, ProtocolTreeq, ProtocolNVME, ProtocolFC, ProtocolISCSI, ProtocolAuto}
      then return_go (protocolSecret, True)
      else fail_go (Status_Error InvalidArgument (''error - unsupported protocol specified '' @ storageProtocol)))))"

section \<open>Checks of a request\<close>

definition supported_modes :: "AccessMode list" where
  "supported_modes = [MULTI_NODE_READER_ONLY, SINGLE_NODE_WRITER, MULTI_NODE_MULTI_WRITER]"

definition supported_fstypes :: "string list" where
  "supported_fstypes = ['''', ''ext3'', ''ext4'', ''xfs'']"

definition check_capability :: "VolumeCapability \<Rightarrow> unit res" where
  "check_capability capability = (case cap_AccessMode capability of
     None \<Rightarrow> Err (Errors_New ''no accessmode specified in volume capability'')
   | Some mode \<Rightarrow> (case cap_AccessType capability of
       NoAccessType \<Rightarrow> Ok ()
     | BlockAccess \<Rightarrow> if mode \<in> set supported_modes then Ok ()
         else Err (Errors_New ''access mode is not a supported block access mode'')
     | MountAccess fsType flags \<Rightarrow>
         if mode \<notin> set supported_modes
         then Err (Errors_New ''access mode is not a supported file access mode'')
         else if fsType \<notin> set supported_fstypes
         then Err (Errors_New (''fstype ['' @ fsType @ ''] is not supported''))
         else Ok ()))"

fun check_capabilities :: "VolumeCapability list \<Rightarrow> unit res" where
  "check_capabilities [] = Ok ()"
| "check_capabilities (c # cs) = (case check_capability c of Ok _ \<Rightarrow> check_capabilities cs | r \<Rightarrow> r)"

definition is_mount :: "VolumeCapability \<Rightarrow> bool" where
  "is_mount c = (case cap_AccessType c of MountAccess _ _ \<Rightarrow> True | _ \<Rightarrow> False)"

text \<open>The summary for the log is left out.\<close>

definition validateCapabilities :: "VolumeCapability list option \<Rightarrow> unit res" where
  "validateCapabilities capabilities = (case capabilities of
     None \<Rightarrow> Err (Errors_New ''no volume capabilities specified'')
   | Some caps \<Rightarrow>
       if caps = [] then Err (Status_Error InvalidArgument ''volume capabilities empty'')
       else (case check_capabilities caps of
           Ok _ \<Rightarrow> if list_ex is_block caps \<and> list_ex is_mount caps
             then Err (Errors_New ''both file and block volume capabilities specified'') else Ok ()
         | r \<Rightarrow> r))"

definition validateNodeID :: "string \<Rightarrow> unit res" where
  "validateNodeID nodeID =
     (if nodeID = '''' then Err (Status_Error InvalidArgument ''node ID empty'')
      else if length (Split nodeID ''$$'') \<noteq> 2
      then Err (Status_Error NotFound (''node ID: '' @ nodeID @ '' does not follow <fqdn>$$<id> pattern''))
      else Ok ())"

definition validateExpandVolumeRequest :: "CsiExpandRequest \<Rightarrow> unit res" where
  "validateExpandVolumeRequest req =
     (if exr_VolumeId req = '''' then Err (Status_Error InvalidArgument ''volume ID cannot be empty'')
      else if exr_RequiredBytes req = None
      then Err (Status_Error InvalidArgument ''capacityRange cannot be empty'')
      else Ok ())"

definition validateSecret :: "string \<Rightarrow> gomap \<Rightarrow> unit res" where
  "validateSecret volumeID secrets =
     (if lookup secrets CredentialUsername = '''' \<or> lookup secrets CredentialPassword = ''''
         \<or> lookup secrets CredentialHostname = ''''
      then Err (Status_Error InvalidArgument (''volumeID '' @ volumeID @
             '' - hostname/username/password secrets are not found and are required''))
      else Ok ())"

definition required_secret_params :: "string list" where
  "required_secret_params = [CSIProvisionerSecretName, CSIProvisionerSecretNamespace,
     CSIControllerPublishSecretName, CSIControllerPublishSecretNamespace, CSINodeStageSecretName,
     CSINodeStageSecretNamespace, CSINodePublishSecretName, CSINodePublishSecretNamespace,
     CSIControllerExpandSecretName, CSIControllerExpandSecretNamespace, CSINodeExpandSecretName,
     CSINodeExpandSecretNamespace]"

definition validateStorageClassSecretParameters :: "Env \<Rightarrow> gomap \<Rightarrow> unit go" where
  "validateStorageClassSecretParameters E reqParameters =
     (let pvcName = lookup reqParameters CSIPVCName; pvcNamespace = lookup reqParameters CSIPVCNamespace;
          K = cluster E in
      or_wrap ''BuildClient error '' (BuildClient_kube K) (\<lambda>_.
      or_wrap (''GetPVC - name '' @ pvcName @ '' error '') (GetPVC_kube K pvcNamespace pvcName) (\<lambda>pvc.
      case pvc_StorageClassName pvc of
        None \<Rightarrow> fail_go (Errors_New (''PVC '' @ pvcName @ '' has no StorageClassName''))
      | Some scName \<Rightarrow>
          if scName = '''' then fail_go (Errors_New (''PVC '' @ pvcName @ '' has no StorageClassName''))
          else or_wrap (''GetStorageClass - name '' @ scName @ '' error '') (GetStorageClass_kube K scName)
            (\<lambda>scParameters. case find (\<lambda>param. lookup scParameters param = '''') required_secret_params of
               Some param \<Rightarrow> fail_go (Errors_New (''required CSI parameter '' @ param @ '' is missing''))
             | None \<Rightarrow> return_go ()))))"

definition invalidFormatError :: "string \<Rightarrow> string \<Rightarrow> go_error" where
  "invalidFormatError parameterName enteredValue =
     Errors_New (''format error in StorageClass, storage class parameter ['' @ parameterName @
       ''], value entered was '' @ enteredValue)"

definition int_parameter :: "gomap \<Rightarrow> string \<Rightarrow> bool" where
  "int_parameter params p = (lookup params p = '''' \<or>
     (case Atoi (lookup params p) of None \<Rightarrow> False | Some n \<Rightarrow> n \<ge> -1))"

text \<open>The optional parameters that have a format, in the order they are checked.\<close>

definition optional_formats :: "(string \<times> (gomap \<Rightarrow> bool)) list" where
  "optional_formats =
     [(StorageClassGID, \<lambda>ps. int_parameter ps StorageClassGID),
      (StorageClassUID, \<lambda>ps. int_parameter ps StorageClassUID),
      (StorageClassUNIXPermissions, \<lambda>ps. lookup ps StorageClassUNIXPermissions = '''' \<or>
         ParseUint8_32 (lookup ps StorageClassUNIXPermissions) \<noteq> None),
      (StorageClassMaxVolsPerHost, \<lambda>ps. int_parameter ps StorageClassMaxVolsPerHost),
      (StorageClassProvisionType, \<lambda>ps. lookup ps StorageClassProvisionType = '''' \<or>
         ToUpper (lookup ps StorageClassProvisionType) \<in> {StorageClassThickProvision, StorageClassThinProvision}),
      (StorageClassSSDEnabled, \<lambda>ps. lookup ps StorageClassSSDEnabled = '''' \<or>
         ParseBool (lookup ps StorageClassSSDEnabled) \<noteq> None)]"

definition validateCommonStorageClassParameters ::
    "Commonservice \<Rightarrow> gomap \<Rightarrow> string \<Rightarrow> unit go" where
  "validateCommonStorageClassParameters commonService scParameters protocol =
     (let poolName = lookup scParameters StorageClassPoolName; api = cs_IboxAPI commonService;
          networkSpaces = Split (lookup scParameters StorageClassNetworkSpace) '','' in
      or_wrap (''pool '' @ poolName) (GetPoolByName_api api poolName) (\<lambda>_.
      then_go (if protocol \<noteq> ProtocolFC
         then then_go (for_go networkSpaces (\<lambda>name. or_wrap (''network space '' @ name)
                (GetNetworkSpaceByName_api api name) (\<lambda>_. return_go (None :: unit option)))) (\<lambda>_.
              ValidateProtocolToNetworkSpace protocol networkSpaces api)
         else return_go ()) (\<lambda>_.
      case find (\<lambda>(p, ok). \<not> ok scParameters) optional_formats of
        Some (p, ok) \<Rightarrow> fail_go (invalidFormatError p (lookup scParameters p))
      | None \<Rightarrow> return_go ())))"

section \<open>The protocol of a volume\<close>

definition isFC :: "string \<Rightarrow> bool" where
  "isFC output = Contains output ''Online''"

definition isISCSI :: "string \<Rightarrow> bool" where
  "isISCSI output = (TrimSpace output \<noteq> '''')"

definition isNVME :: "string \<Rightarrow> bool" where
  "isNVME output = (output \<noteq> '''')"

text \<open>A probe in the pod of a node: no answer, or anything on standard error, counts as disabled.\<close>

definition probe :: "Env \<Rightarrow> string \<Rightarrow> string \<Rightarrow> string \<Rightarrow> (string \<Rightarrow> bool) \<Rightarrow> bool go" where
  "probe E pod namespace command enabled =
     ignore_go (ExecCmdInPod_kube (cluster E) pod namespace command) (\<lambda>out.
     return_go (case out of None \<Rightarrow> False | Some (stdout, stderr) \<Rightarrow> stderr = '''' \<and> enabled stdout))"

definition choose_protocol :: "string list \<Rightarrow> (string \<Rightarrow> bool) \<Rightarrow> string" where
  "choose_protocol order enabled = (case find (\<lambda>p. p \<in> {ProtocolFC, ProtocolISCSI, ProtocolNVME} \<and> enabled p) order of
     None \<Rightarrow> ProtocolFC | Some p \<Rightarrow> p)"

definition DetermineProtocol :: "Env \<Rightarrow> (string \<times> gomap) go" where
  "DetermineProtocol E =
     try_go (GetProtocolSecret E)
       (\<lambda>err. fail_go (Errors_New (''error: could not get protocol secret '' @ err_text err)))
       (\<lambda>(protocolSecret, protocolSecretInUse).
     if \<not> protocolSecretInUse then fail_go (Errors_New ''error: protocol secret not in use'')
     else let userPreferredOrder = lookup protocolSecret StorageClassProtocolSecretAutoOrder;
              preferredOrder = (if userPreferredOrder = '''' then [ProtocolFC, ProtocolNVME, ProtocolISCSI]
                else Split userPreferredOrder '','');
              namespace = getenv E EnvVarPodNamespace in
     or_wrap ''BuildClient - error: '' (BuildClient_kube (cluster E)) (\<lambda>_.
     if namespace = '''' then fail_go (Errors_New ''env var POD_NAMESPACE was not set, this is a required env var'')
     else or_wrap ''GetRunningDriverNodePods - error: ''
       (then_go (GetRunningDriverNodePods_kube (cluster E) namespace) (\<lambda>pods. case pods of
          [] \<Rightarrow> fail_go (Errors_New ''no CSI driver node pods are in running status'')
        | pod # _ \<Rightarrow> return_go pod)) (\<lambda>podToTest.
     then_go (probe E podToTest namespace ''cat /sys/class/fc_host/ho*/port_state'' isFC) (\<lambda>fcEnabled.
     then_go (probe E podToTest namespace ''nvme list'' isNVME) (\<lambda>nvmeEnabled.
     then_go (probe E podToTest namespace ''pgrep iscsid'' isISCSI) (\<lambda>iscsiEnabled.
     return_go (choose_protocol preferredOrder (\<lambda>p.
        p = ProtocolFC \<and> fcEnabled \<or> p = ProtocolISCSI \<and> iscsiEnabled \<or> p = ProtocolNVME \<and> nvmeEnabled),
        protocolSecret)))))))"

definition getNodeProtocol :: "Env \<Rightarrow> string \<Rightarrow> string go" where
  "getNodeProtocol E nodeID =
     (let fullNodeName = hd (Split nodeID ''$$''); shortNodeName = short_name fullNodeName in
      then_go (BuildClient_kube (cluster E)) (\<lambda>_.
      then_go (GetNodes_kube (cluster E)) (\<lambda>nodes.
      if nodes = [] then fail_go (Errors_New ''zero nodes found, problem getting a node'')
      else return_go (case find (\<lambda>node. shortNodeName = kn_Name node \<or> fullNodeName = kn_Name node) nodes of
          None \<Rightarrow> ''''
        | Some node \<Rightarrow> lookup (kn_Labels node) ''infinidat.com/node-protocol''))))"

text \<open>Returns the protocol and the parameters with what the protocol secret puts into them.\<close>

definition determineStorageProtocol :: "Env \<Rightarrow> gomap \<Rightarrow> (string \<times> gomap) go" where
  "determineStorageProtocol E reqParameters =
     (let networkSpace = lookup reqParameters StorageClassNetworkSpace;
          finish = (\<lambda>(storageProtocol, networkSpace, params).
            if storageProtocol = '''' then fail_go (Errors_New ''storage protocol empty'')
            else if storageProtocol \<noteq> ProtocolFC \<and> networkSpace = '''' then fail_go (Errors_New ''network space empty'')
            else return_go (storageProtocol, params)) in
      if lookup reqParameters StorageClassStorageProtocol \<noteq> ''''
      then finish (lookup reqParameters StorageClassStorageProtocol, networkSpace, reqParameters)
      else or_status InvalidArgument '''' (GetProtocolSecret E) (\<lambda>(protocolSecretMap, protocolSecretInUse).
      if \<not> protocolSecretInUse then finish ('''', networkSpace, reqParameters)
      else let p = lookup protocolSecretMap StorageClassStorageProtocol in
      if p = ProtocolAuto
      then or_status Internal '''' (DetermineProtocol E) (\<lambda>(calculated, _).
             finish (calculated, networkSpace, reqParameters))
      else if p = '''' then finish (ProtocolFC, networkSpace, reqParameters)
      else if p = ProtocolISCSI then finish (p, networkSpace,
             store (store reqParameters StorageClassUseCHAP (lookup protocolSecretMap ProtocolSecretISCSIUseCHAP))
               StorageClassNetworkSpace (lookup protocolSecretMap ProtocolSecretISCSINetworkSpace))
      else if p = ProtocolNVME then finish (p, lookup protocolSecretMap ProtocolSecretNVMENetworkSpace, reqParameters)
      else if p = ProtocolNFS \<or> p = ProtocolTreeq
      then finish (p, lookup protocolSecretMap ProtocolSecretNFSNetworkSpace,
             store reqParameters StorageClassNFSExportPermissions
               (lookup protocolSecretMap ProtocolSecretNFSExportPermissions))
      else finish (p, networkSpace, reqParameters)))"

section \<open>CreateVolume\<close>

definition determineCapacity :: "CsiCreateVolumeRequest \<Rightarrow> gomap \<Rightarrow> int64 res" where
  "determineCapacity req params = (case req_RequiredBytes req of
     None \<Rightarrow> Crash (GoPanic ''nil pointer dereference: CapacityRange.RequiredBytes'')
   | Some capacity \<Rightarrow>
      (let roundUpParameter = lookup params StorageClassRoundup in
       case (if roundUpParameter = '''' then Some True else ParseBool roundUpParameter) of
         None \<Rightarrow> Err (Errors_New (''parse error '' @ roundUpParameter))
       | Some roundUp \<Rightarrow> Ok (if roundUp then RoundUp capacity else capacity)))"

definition annotated :: "gomap \<Rightarrow> gomap \<Rightarrow> gomap" where
  "annotated annos params =
     (let pool = lookup annos PVCAnnotationPoolName; space = lookup annos PVCAnnotationNetworkSpace;
          meta = lookup annos PVCAnnotationVolumeMetadata;
          p1 = store (store params PVCAnnotationNetworkSpace space) PVCAnnotationPoolName pool;
          p2 = (if pool \<noteq> '''' then store p1 StorageClassPoolName pool else p1);
          p3 = (if space \<noteq> '''' then store p2 StorageClassNetworkSpace space else p2)
      in if meta \<noteq> '''' then store p3 PVCAnnotationVolumeMetadata meta else p3)"

definition handlePVCAnnotations :: "Env \<Rightarrow> CsiCreateVolumeRequest \<Rightarrow> gomap \<Rightarrow> (gomap \<times> gomap) go" where
  "handlePVCAnnotations E req params =
     (let K = cluster E; pvcName = lookup params CSIPVCName; pvcNamespace = lookup params CSIPVCNamespace in
      or_status Internal ''BuildClient - error '' (BuildClient_kube K) (\<lambda>_.
      or_status InvalidArgument (''GetPVCAnnotations - name '' @ req_Name req @ '' error '')
        (if pvcName \<noteq> '''' \<and> pvcNamespace \<noteq> ''''
         then then_go (GetPVC_kube K pvcNamespace pvcName) (\<lambda>pvc. return_go (pvc_Annotations pvc))
         else return_go []) (\<lambda>pvcAnnotations.
      let pvcAnnoSecret = lookup pvcAnnotations PVCAnnotationIBOXSecret in
      or_status InvalidArgument (''GetSecrets - '' @ pvcAnnoSecret @ '' error '')
        (if pvcAnnoSecret \<noteq> '''' then GetSecret_kube K pvcAnnoSecret (getenv E EnvVarPodNamespace)
         else return_go (req_Secrets req)) (\<lambda>secretsToUse.
      return_go (secretsToUse, annotated pvcAnnotations params)))))"

definition handlePVCAnnotationForMetadata :: "Commonservice \<Rightarrow> string \<Rightarrow> string \<Rightarrow> unit go" where
  "handlePVCAnnotationForMetadata cs metadataValue volumeIDString =
     (if metadataValue = '''' then return_go ()
      else case Atoi volumeIDString of
        None \<Rightarrow> return_go ()
      | Some volumeID \<Rightarrow> ignore_go (PutMetadata_api (cs_IboxAPI cs) volumeID
            [(PVCAnnotationVolumeMetadata, JStr metadataValue)]) (\<lambda>_. return_go ()))"

definition CreateVolume :: "Env \<Rightarrow> Driver \<Rightarrow> CsiCreateVolumeRequest \<Rightarrow> CsiVolume go" where
  "CreateVolume E s req =
     (let volName = req_Name req; params0 = req_Parameters req in
      if volName = '''' then fail_go (Status_Error InvalidArgument ''volume name empty'')
      else if params0 = [] then fail_go (Status_Error InvalidArgument ''GetParameters empty'')
      else or_status InvalidArgument ''determineStorageProtocol error ''
        (determineStorageProtocol E params0) (\<lambda>(storageProtocol, params1).
      or_status InvalidArgument ''validateCapabilities - error ''
        (pure_go (validateCapabilities (req_VolumeCapabilities req))) (\<lambda>_.
      or_status InvalidArgument ''handlePVCAnnotation error ''
        (handlePVCAnnotations E req params1) (\<lambda>(secretsToUse, params).
      or_status Internal '''' (pure_go (determineCapacity req params)) (\<lambda>capacity.
      or_status InvalidArgument '''' (pure_go (validateSecret '''' (req_Secrets req))) (\<lambda>_.
      or_status InvalidArgument ''validateStorageClassSecretParameters error ''
        (validateStorageClassSecretParameters E params) (\<lambda>_.
      or_status Internal (''NewStorageController - name '' @ volName @ '' error '')
        (pure_go (NewStorageController E
           [(''nodeid'', drv_nodeID s), (''driverversion'', drv_version s),
            (StorageClassNFSExportPermissions, lookup params1 StorageClassNFSExportPermissions)]
           secretsToUse (zero_VolProto\<lparr>vpc_StorageType := storageProtocol\<rparr>) capacity)) (\<lambda>(sc, commonService).
      or_status Internal (''validateCommonStorageClassParameters - name '' @ volName @ '' error '')
        (validateCommonStorageClassParameters commonService params storageProtocol) (\<lambda>_.
      or_status Internal (''ValidateStorageClass - name '' @ volName @ '' error '')
        (pure_go (sc_ValidateStorageClass E sc params)) (\<lambda>storageController.
      then_go (sc_CreateVolume E storageController (req\<lparr>req_Parameters := params\<rparr>)) (\<lambda>volume.
      if csi_VolumeId volume = '''' then fail_go (Status_Error Internal ''sc.CreateVolume response is nil'')
      else then_go (handlePVCAnnotationForMetadata commonService (lookup params PVCAnnotationVolumeMetadata)
             (csi_VolumeId volume)) (\<lambda>_.
      or_status Internal '''' (handleSCReplica E commonService volName storageProtocol params) (\<lambda>_.
      return_go (volume\<lparr>csi_VolumeId := csi_VolumeId volume @ ''$$'' @ storageProtocol\<rparr>))))))))))))))"

section \<open>DeleteVolume\<close>

definition GetAllPersistentVolumes :: "Env \<Rightarrow> PersistentVolume list go" where
  "GetAllPersistentVolumes E = then_go (GetAllPersistentVolumes_kube (cluster E)) (\<lambda>pvs.
     return_go (filter (\<lambda>pv. pv_ProvisionedBy pv = ServiceName) pvs))"

text \<open>The secret the volume was made with; \<open>Spec.CSI\<close> is a pointer that is followed without a check.\<close>

fun secrets_of_volume :: "Env \<Rightarrow> string \<Rightarrow> gomap \<Rightarrow> PersistentVolume list \<Rightarrow> gomap go" where
  "secrets_of_volume E volumeID secrets [] = return_go secrets"
| "secrets_of_volume E volumeID secrets (pv # pvs) = (case pv_VolumeHandle pv of
     None \<Rightarrow> panic_go ''nil pointer dereference: Spec.CSI''
   | Some handle \<Rightarrow>
       if handle \<noteq> volumeID then secrets_of_volume E volumeID secrets pvs
       else (case pv_ControllerPublishSecretName pv of
           None \<Rightarrow> return_go secrets
         | Some name \<Rightarrow> if name = '''' then return_go secrets
             else or_status InvalidArgument (''GetSecret - volume ID: '' @ volumeID @ '' error '')
                    (GetSecret_kube (cluster E) name (getenv E EnvVarPodNamespace)) return_go))"

definition DeleteVolume :: "Env \<Rightarrow> Driver \<Rightarrow> string \<Rightarrow> gomap \<Rightarrow> unit go" where
  "DeleteVolume E s volumeID secrets =
     or_status InvalidArgument (''ValidateVolumeID - volume ID: '' @ volumeID @ '' error: '')
       (pure_go (ValidateVolumeID volumeID)) (\<lambda>volumeInfo.
     or_status Internal ''BuildClient - error '' (BuildClient_kube (cluster E)) (\<lambda>_.
     or_status InvalidArgument ''GetAllPersistentVolumes - error '' (GetAllPersistentVolumes E) (\<lambda>pvList.
     then_go (secrets_of_volume E volumeID secrets pvList) (\<lambda>secretsToUse.
     or_status Internal (''NewStorageController - volume ID: '' @ volumeID @ '' error: '')
       (pure_go (NewStorageController E [(''nodeid'', drv_nodeID s)] secretsToUse volumeInfo 0)) (\<lambda>(sc, _).
     or_status Internal (''sc.DeleteVolume volume ID: '' @ volumeID @ '' error: '') (sc_DeleteVolume E sc) return_go)))))"

section \<open>Publishing\<close>

text \<open>The protocol a label of the node asks for, with the network space of the protocol secret.\<close>

definition apply_node_protocol ::
    "Env \<Rightarrow> string \<Rightarrow> VolumeProtocolConfig \<Rightarrow> CsiPublishRequest \<Rightarrow> (VolumeProtocolConfig \<times> CsiPublishRequest) go" where
  "apply_node_protocol E nodeProtocol volumeInfo req =
     (let put_space = (\<lambda>networkSpace. if networkSpace = ''''
            then fail_go (Status_Error InvalidArgument ''error: protocol secret specified but network_space is empty'')
            else case pub_VolumeContext req of
              None \<Rightarrow> panic_go ''assignment to entry in nil map''
            | Some ctx \<Rightarrow> return_go (volumeInfo\<lparr>vpc_StorageType := nodeProtocol\<rparr>,
                req\<lparr>pub_VolumeContext := Some (store ctx StorageClassNetworkSpace networkSpace)\<rparr>)) in
      if nodeProtocol = '''' then return_go (volumeInfo, req)
      else or_status InvalidArgument ''error: could not get protocol secret ''
        (GetProtocolSecret E) (\<lambda>(protocolSecret, protocolSecretInUse).
      if \<not> protocolSecretInUse
      then fail_go (Status_Error InvalidArgument
             ''error: protocol secret not in use, but is required when nodeProtocol label is set on node'')
      else if nodeProtocol = ProtocolISCSI then put_space (lookup protocolSecret ProtocolSecretISCSINetworkSpace)
      else if nodeProtocol = ProtocolNVME then put_space (lookup protocolSecret ProtocolSecretNVMENetworkSpace)
      else return_go (volumeInfo\<lparr>vpc_StorageType := nodeProtocol\<rparr>, req)))"

definition ControllerPublishVolume :: "Env \<Rightarrow> CsiPublishRequest \<Rightarrow> gomap go" where
  "ControllerPublishVolume E req = (case pub_VolumeCapability req of
     None \<Rightarrow> fail_go (Status_Error InvalidArgument ''request VolumeCapability was nil'')
   | Some cap \<Rightarrow>
     or_status FailedPrecondition ''validateCapabilities - error ''
       (pure_go (validateCapabilities (Some [cap]))) (\<lambda>_.
     if pub_VolumeId req = '''' then fail_go (Status_Error InvalidArgument ''request volumeId was empty'')
     else or_status InvalidArgument (''ValidateVolumeID - volume ID: '' @ pub_VolumeId req @ '' error: '')
       (pure_go (ValidateVolumeID (pub_VolumeId req))) (\<lambda>volumeInfo0.
     or_status InvalidArgument (''ValidateVolumeID - volume ID: '' @ pub_VolumeId req @ '' error: '')
       (getNodeProtocol E (pub_NodeId req)) (\<lambda>nodeProtocol.
     then_go (apply_node_protocol E nodeProtocol volumeInfo0 req) (\<lambda>(volumeInfo, req1).
     if pub_NodeId req = '''' then fail_go (Status_Error InvalidArgument ''request nodeId was empty'')
     else or_status Internal '''' (pure_go (validateNodeID (pub_NodeId req))) (\<lambda>_.
     or_status InvalidArgument '''' (pure_go (validateSecret (pub_VolumeId req) (pub_Secrets req))) (\<lambda>_.
     or_status Internal (''NewStorageController - volume ID: '' @ pub_VolumeId req @ '' error: '')
       (pure_go (NewStorageController E [] (pub_Secrets req) volumeInfo 0)) (\<lambda>(sc, _).
     or_status Internal (''ControllerPublishVolume - volume ID: '' @ pub_VolumeId req @ '' error: '')
       (sc_ControllerPublishVolume E sc req1) return_go))))))))"

definition ControllerUnpublishVolume :: "Env \<Rightarrow> CsiUnpublishRequest \<Rightarrow> unit go" where
  "ControllerUnpublishVolume E req =
     (if unpub_VolumeId req = '''' then fail_go (Status_Error InvalidArgument ''request volumeId parameter was empty'')
      else or_status InvalidArgument (''ValidateVolumeID -  volume ID: '' @ unpub_VolumeId req @ '' error: '')
        (pure_go (ValidateVolumeID (unpub_VolumeId req))) (\<lambda>volumeInfo0.
      or_status InvalidArgument (''validateNodeID - node ID: '' @ unpub_NodeId req @ '' error: '')
        (pure_go (if unpub_NodeId req = '''' then Ok () else validateNodeID (unpub_NodeId req))) (\<lambda>_.
      or_status InvalidArgument (''volume ID: '' @ unpub_VolumeId req @ '' error: '')
        (getNodeProtocol E (unpub_NodeId req)) (\<lambda>nodeProtocol.
      or_status Internal (''DetermineHostName - volume ID: '' @ unpub_VolumeId req @ '' error: '')
        (pure_go (DetermineHostName E (unpub_NodeId req))) (\<lambda>hostName.
      let storageType = (if nodeProtocol \<noteq> '''' then nodeProtocol else vpc_StorageType volumeInfo0);
          volumeInfo = volumeInfo0\<lparr>vpc_StorageType := storageType, vpc_NodeID := unpub_NodeId req\<rparr>;
          unpublish = (\<lambda>sc. or_status Internal
             (''sc.ControllerUnpublishVolume - volume ID: '' @ unpub_VolumeId req @ '' error: '')
             (sc_ControllerUnpublishVolume sc req) return_go) in
      or_status Internal (''NewStorageController - volume ID: '' @ unpub_VolumeId req @ '' error: '')
        (pure_go (NewStorageController E [] (unpub_Secrets req) volumeInfo 0)) (\<lambda>(sc, commonService).
      if storageType = ProtocolNFS \<or> storageType = ProtocolTreeq then unpublish sc
      else try_go (GetHostByName_api (cs_IboxAPI commonService)
               (if storageType = ProtocolNVME then hostName @ NVMEHostSuffix else hostName))
             (\<lambda>err. if errors_is err ErrNotFound then return_go ()
                else fail_go (Status_Error Internal
                  (''GetHostByName - volume ID: '' @ unpub_VolumeId req @ '' error: '' @ err_text err)))
             (\<lambda>host. unpublish (with_host host sc))))))))"

section \<open>Capabilities, snapshots, expansion, listing\<close>

definition ValidateVolumeCapabilities ::
    "Env \<Rightarrow> string \<Rightarrow> VolumeCapability list option \<Rightarrow> gomap \<Rightarrow> gomap \<Rightarrow> VolumeCapability list go" where
  "ValidateVolumeCapabilities E volumeId capabilities scParameters secrets =
     (if volumeId = '''' then fail_go (Status_Error InvalidArgument ''error volumeId parameter was empty'')
      else case capabilities of
        None \<Rightarrow> fail_go (Status_Error InvalidArgument ''error volumeCapabilities parameter was nil'')
      | Some caps \<Rightarrow>
      if caps = [] then fail_go (Status_Error InvalidArgument ''error volumeCapabilities parameter was empty'')
      else or_status InvalidArgument (''ValidateVolumeID - volume ID: '' @ volumeId @ '' error: '')
        (pure_go (ValidateVolumeID volumeId)) (\<lambda>volumeInfo.
      or_status Internal (''BuildCommonService - volume ID: '' @ volumeId @ '' error: '')
        (pure_go (BuildCommonService E [] secrets volumeInfo)) (\<lambda>commonService.
      or_status Internal ''BuildCommonService - error getting protocol secret: ''
        (GetProtocolSecret E) (\<lambda>(protocolSecretMap, protocolSecretInUse).
      let protocol = (if protocolSecretInUse then lookup protocolSecretMap StorageClassStorageProtocol
                      else lookup scParameters StorageClassStorageProtocol);
          api = cs_IboxAPI commonService in
      or_status NotFound ''failed to find volume ''
        (if protocol = ProtocolNFS \<or> protocol = ProtocolTreeq
         then then_go (GetFileSystemByID_api api (vpc_VolumeID volumeInfo)) (\<lambda>_. return_go ())
         else then_go (GetVolume_api api (vpc_VolumeID volumeInfo)) (\<lambda>_. return_go ())) (\<lambda>_.
      return_go caps)))))"

definition CreateSnapshot :: "Env \<Rightarrow> Driver \<Rightarrow> CsiCreateSnapshotRequest \<Rightarrow> CsiSnapshot go" where
  "CreateSnapshot E s req =
     or_status InvalidArgument (''ValidateVolumeID - snapshot Name: '' @ csr_Name req @ '' error '')
       (pure_go (ValidateVolumeID (csr_SourceVolumeId req))) (\<lambda>volumeInfo.
     or_status Internal (''NewStorageController - snapshot name: '' @ csr_Name req @ '' error: '')
       (pure_go (NewStorageController E [(''nodeid'', drv_nodeID s)] (csr_Secrets req) volumeInfo 0)) (\<lambda>(sc, _).
     or_status Internal (''sc.CreateSnapshot - snapshot name: '' @ csr_Name req @ '' error: '')
       (sc_CreateSnapshot E sc req) return_go))"

definition DeleteSnapshot :: "Env \<Rightarrow> Driver \<Rightarrow> string \<Rightarrow> gomap \<Rightarrow> unit go" where
  "DeleteSnapshot E s snapshotID secrets =
     or_status InvalidArgument (''ValidateVolumeID - snapshot ID: '' @ snapshotID @ '' invalid, error: '')
       (pure_go (ValidateVolumeID snapshotID)) (\<lambda>volumeInfo.
     or_status Internal (''NewStorageController - snapshot ID: '' @ snapshotID @ '' error '')
       (pure_go (NewStorageController E [(''nodeid'', drv_nodeID s)] secrets volumeInfo 0)) (\<lambda>(sc, _).
     try_go (sc_DeleteSnapshot E sc (Itoa (vpc_VolumeID volumeInfo)))
       (\<lambda>err. fail_go (Status_Error (case err of ImplementationError c msg \<Rightarrow> c | _ \<Rightarrow> Internal)
          (''sc.DeleteSnapshot - snapshot ID: '' @ Itoa (vpc_VolumeID volumeInfo) @ '' error: '' @ err_text err)))
       return_go))"

definition expand_capacity :: "int64 \<Rightarrow> int64" where
  "expand_capacity requested = RoundUp (if requested < GIB then GIB else requested)"

definition ControllerExpandVolume :: "Env \<Rightarrow> Driver \<Rightarrow> CsiExpandRequest \<Rightarrow> CsiExpandResponse go" where
  "ControllerExpandVolume E s req =
     or_status InvalidArgument (''validate - volume ID: '' @ exr_VolumeId req @ '' error: '')
       (pure_go (validateExpandVolumeRequest req)) (\<lambda>_.
     or_status InvalidArgument (''ValidateVolumeID - volume ID: '' @ exr_VolumeId req @ '' error: '')
       (pure_go (ValidateVolumeID (exr_VolumeId req))) (\<lambda>volumeInfo.
     let capacity = expand_capacity (case exr_RequiredBytes req of None \<Rightarrow> 0 | Some b \<Rightarrow> b) in
     or_status InvalidArgument '''' (pure_go (validateSecret (exr_VolumeId req) (exr_Secrets req))) (\<lambda>_.
     or_status Internal (''NewStorageController - volume ID: '' @ exr_VolumeId req @ '' error: '')
       (pure_go (NewStorageController E [(''nodeid'', drv_nodeID s)] (exr_Secrets req) volumeInfo capacity)) (\<lambda>(sc, _).
     or_status Internal (''sc.ControllerExpandVolume - volume ID: '' @ Itoa (vpc_VolumeID volumeInfo) @ '' error: '')
       (sc_ControllerExpandVolume sc (req\<lparr>exr_VolumeId := Itoa (vpc_VolumeID volumeInfo)\<rparr>)) return_go))))"

text \<open>An entry of the list: the volume and the names it is published under.\<close>

definition list_entry :: "PersistentVolume \<Rightarrow> CsiVolume \<times> string list" where
  "list_entry pv =
     (\<lparr>csi_VolumeId = pv_Name pv, csi_CapacityBytes = pv_Capacity pv,
       csi_VolumeContext = map (\<lambda>k. (k, lookup (pv_VolumeAttributes pv) k))
         [StorageClassNetworkSpace, StorageClassPoolName, StorageClassStorageProtocol],
       csi_ContentSource = None\<rparr>, [pv_Name pv])"

definition ListVolumesImplementation :: "Env \<Rightarrow> (CsiVolume \<times> string list) list go" where
  "ListVolumesImplementation E =
     or_status Unavailable ''GetAllPersistentVolumes - error: '' (GetAllPersistentVolumes E) (\<lambda>pvList.
     if list_ex (\<lambda>pv. pv_ProvisionedBy pv = ServiceName \<and> pv_VolumeHandle pv = None) pvList
     then panic_go ''nil pointer dereference: Spec.CSI''
     else return_go (map list_entry (filter (\<lambda>pv. pv_ProvisionedBy pv = ServiceName) pvList)))"

definition ListVolumes :: "Env \<Rightarrow> string \<Rightarrow> (CsiVolume \<times> string list) list go" where
  "ListVolumes E StartingToken =
     (if StartingToken \<noteq> '''' \<and> StartingToken \<noteq> ''next-token''
      then fail_go (Status_Error Aborted (''error startingToken parameter was incorrect ['' @ StartingToken @ '']''))
      else or_status Unavailable ''BuildClient - error: '' (BuildClient_kube (cluster E)) (\<lambda>_.
      or_status Unavailable ''ListVolumesImpl - error: '' (ListVolumesImplementation E) return_go))"

end
