(* ===== verification/Go_Loops.thy ===== *)
theory Go_Loops
  imports Go_Base
begin

text \<open>
  Loops that collect one value per element, and programs that talk to several remote parties of the
  same kind.
\<close>

section \<open>Collecting loops\<close>

text \<open>\<^verbatim>\<open>for _, x := range xs { y, err := f(x); if err != nil { return err }; ys = append(ys, y) }\<close>\<close>

fun map_go :: "('x \<Rightarrow> ('c, 'y) prog) \<Rightarrow> 'x list \<Rightarrow> ('c, 'y list) prog" where
  "map_go f [] = return_go []"
| "map_go f (x # xs) = then_go (f x) (\<lambda>y. then_go (map_go f xs) (\<lambda>ys. return_go (y # ys)))"

lemma only_map [only_intros]: "(\<And>x. x \<in> set xs \<Longrightarrow> only P (f x)) \<Longrightarrow> only P (map_go f xs)"
  by (induction xs) (auto intro!: only_return only_then)

lemma safe_map [safe_intros]: "(\<And>x. x \<in> set xs \<Longrightarrow> safe (f x)) \<Longrightarrow> safe (map_go f xs)"
  by (induction xs) (auto intro!: safe_return safe_then)

lemma allows_map [allows_intros]: "(\<And>x. x \<in> set xs \<Longrightarrow> allows Q (f x)) \<Longrightarrow> allows Q (map_go f xs)"
  by (induction xs) (auto intro!: allows_return allows_then)

lemma map_go_Cons_Ok:
  "map_go f (x # xs) h = (Ok ys, t) \<longleftrightarrow>
     (\<exists>y s zs u. f x h = (Ok y, s) \<and> map_go f xs (h @ s) = (Ok zs, u) \<and> ys = y # zs \<and> t = s @ u)"
  by (auto simp: run_then split: prod.splits res.splits)

text \<open>A body that makes one call per element makes the calls of a successful loop.\<close>

lemma map_go_calls:
  assumes "map_go f xs h = (Ok ys, t)"
    and "\<And>x g y s. x \<in> set xs \<Longrightarrow> f x g = (Ok y, s) \<Longrightarrow> s = [c x]"
  shows "t = map c xs"
  using assms
proof (induction xs arbitrary: h ys t)
  case Nil
  then show ?case by simp
next
  case (Cons x xs)
  then obtain y s zs u where "f x h = (Ok y, s)" "map_go f xs (h @ s) = (Ok zs, u)" "t = s @ u"
    unfolding map_go_Cons_Ok by blast
  with Cons.IH [of "h @ s" zs u] Cons.prems(2) show ?case by fastforce
qed

text \<open>Every value that is returned is the value of the body for its element.\<close>

lemma map_go_Ok:
  assumes "map_go f xs h = (Ok ys, t)"
  shows "list_all2 (\<lambda>x y. \<exists>g s. f x g = (Ok y, s)) xs ys"
  using assms
proof (induction xs arbitrary: ys h t)
  case Nil
  then show ?case by simp
next
  case (Cons x xs)
  then show ?case by (auto simp: run_then split: prod.splits res.splits)
qed

lemma returns_map [returns_intros]:
  assumes "\<And>x. x \<in> set xs \<Longrightarrow> returns P (f x)"
  shows "returns (list_all P) (map_go f xs)"
  using assms by (induction xs) (auto simp: returns_def run_then split: prod.splits res.splits, (metis fst_conv)+)

section \<open>Several remote parties\<close>

text \<open>
  A program whose calls are of type \<open>'c\<close> as a part of a larger program with calls of type \<open>'e\<close>: its calls
  are injected, and of the history it sees what is projected back.
\<close>

definition embed :: "('c \<Rightarrow> 'e) \<Rightarrow> ('e \<Rightarrow> 'c option) \<Rightarrow> ('c, 'a) prog \<Rightarrow> ('e, 'a) prog" where
  "embed into proj m = (\<lambda>h. case m (List.map_filter proj h) of (r, t) \<Rightarrow> (r, map into t))"

lemma map_filter_append [simp]: "List.map_filter f (xs @ ys) = List.map_filter f xs @ List.map_filter f ys"
  by (simp add: List.map_filter_def)

lemma run_embed: "embed into proj m h = (case m (List.map_filter proj h) of (r, t) \<Rightarrow> (r, map into t))"
  by (simp add: embed_def)

lemma embed_basic [simp]:
  shows "embed into proj (return_go a) = return_go a" and "embed into proj (fail_go e) = fail_go e"
    and "embed into proj (pure_go r) = pure_go r" and "embed into proj (panic_go p) = panic_go p"
  by (simp_all add: embed_def fun_eq_iff)

lemma wp_embed: "wp (embed into proj m) h Q = wp m (List.map_filter proj h) (\<lambda>r t. Q r (map into t))"
  by (simp add: wp_def result_of_def calls_of_def run_embed split: prod.splits)

lemma only_embed: "only (\<lambda>c. P (into c)) m \<Longrightarrow> only P (embed into proj m)"
  by (simp add: only_wp wp_embed)

lemma safe_embed: "safe m \<Longrightarrow> safe (embed into proj m)"
  by (auto simp: safe_def run_embed split: prod.splits) (metis fst_conv)

lemma returns_embed: "returns P m \<Longrightarrow> returns P (embed into proj m)"
  by (auto simp: returns_def run_embed split: prod.splits) (metis fst_conv)

text \<open>Where a program sees its own calls again, a sequence of embedded programs is an embedded sequence.\<close>

locale embedding =
  fixes into :: "'c \<Rightarrow> 'e" and proj :: "'e \<Rightarrow> 'c option"
  assumes proj_into: "proj (into c) = Some c"
begin

lemma seen_own: "List.map_filter proj (map into t) = t"
  by (induction t) (simp_all add: List.map_filter_simps proj_into)

lemma embed_try:
  "embed into proj (try_go m f k) = try_go (embed into proj m) (\<lambda>e. embed into proj (f e)) (\<lambda>a. embed into proj (k a))"
  by (auto simp: run_embed fun_eq_iff run_try seen_own split: prod.splits res.splits)

lemma embed_then: "embed into proj (then_go m k) = then_go (embed into proj m) (\<lambda>a. embed into proj (k a))"
  by (simp add: then_go_def embed_try)

lemma each_call_embed:
  "each_call Q h (map into t) \<longleftrightarrow>
     each_call (\<lambda>g c. Q (h @ map into (drop (length (List.map_filter proj h)) g)) (into c)) (List.map_filter proj h) t"
proof -
  have "each_call Q (h @ map into u) (map into t) \<longleftrightarrow>
    each_call (\<lambda>g c. Q (h @ map into (drop (length (List.map_filter proj h)) g)) (into c)) (List.map_filter proj h @ u) t" for u
  proof (induction t arbitrary: u)
    case Nil
    show ?case by simp
  next
    case (Cons c t)
    from Cons [of "u @ [c]"] show ?case by simp
  qed
  from this [of "[]"] show ?thesis by simp
qed

end

text \<open>
  \<open>on_side s m\<close>: the program \<open>m\<close> talks to party \<open>s\<close>, which sees only the calls that were made to it.
\<close>

definition at_side :: "'s \<Rightarrow> 's \<times> 'c \<Rightarrow> 'c option" where
  "at_side s = (\<lambda>(u, c). if u = s then Some c else None)"

definition seen_by :: "'s \<Rightarrow> ('s \<times> 'c) list \<Rightarrow> 'c list" where
  "seen_by s h = List.map_filter (at_side s) h"

definition on_side :: "'s \<Rightarrow> ('c, 'a) prog \<Rightarrow> ('s \<times> 'c, 'a) prog" where
  "on_side s m = embed (Pair s) (at_side s) m"

interpretation side: embedding "Pair s" "at_side s"
  by unfold_locales (simp add: at_side_def)

lemma seen_by_simps [simp]:
  shows "seen_by s [] = []" and "seen_by s (h @ t) = seen_by s h @ seen_by s t"
    and "seen_by s ((u, c) # h) = (if u = s then c # seen_by s h else seen_by s h)"
    and "seen_by s (map (Pair u) cs) = (if u = s then cs else [])"
  by (induction cs) (auto simp: seen_by_def at_side_def List.map_filter_simps)

lemma run_on_side [go_run]: "on_side s m h = (case m (seen_by s h) of (r, t) \<Rightarrow> (r, map (Pair s) t))"
  by (simp add: on_side_def seen_by_def run_embed)

lemma wp_on_side: "wp (on_side s m) h Q = wp m (seen_by s h) (\<lambda>r t. Q r (map (Pair s) t))"
  by (simp add: on_side_def seen_by_def wp_embed)

lemma only_on_side [only_intros]: "only (\<lambda>c. P (s, c)) m \<Longrightarrow> only P (on_side s m)"
  unfolding on_side_def by (rule only_embed)

lemma safe_on_side [safe_intros]: "safe m \<Longrightarrow> safe (on_side s m)"
  unfolding on_side_def by (rule safe_embed)

lemma returns_on_side [returns_intros]: "returns P m \<Longrightarrow> returns P (on_side s m)"
  unfolding on_side_def by (rule returns_embed)

end
