(* ===== verification/Group_Service.thy ===== *)
theory Group_Service
  imports Controller_Service Go_Loops
begin

text \<open>
  \<open>service/listsnapshots.go\<close>, with \<open>ListSnapshots\<close> of \<open>service/controller.go\<close>, and
  \<open>service/volumegroupcontroller.go\<close>: the listing of snapshots over all InfiniBoxes of the cluster, and
  the group controller of CSI, which takes snapshots of the members of a consistency group.
\<close>

section \<open>ListSnapshots\<close>

record CsiListSnapshotsRequest =
  lsr_SnapshotId :: string
  lsr_SourceVolumeId :: string

definition UNKNOWN :: string where "UNKNOWN = ''unknown''"

definition NewClient :: "Env \<Rightarrow> gomap \<Rightarrow> Client res" where
  "NewClient E secrets = (case getAPIConfig E secrets of
     Ok creds \<Rightarrow> Ok (dial E creds) | Err e \<Rightarrow> Err e | Crash x \<Rightarrow> Crash x)"

text \<open>The parent is named by its number when it can be read.\<close>

definition parent_name :: "Client \<Rightarrow> Volume \<Rightarrow> string go" where
  "parent_name api snapshot =
     (if vol_DatasetType snapshot = ''VOLUME''
      then try_go (GetVolume_api api (vol_ParentID snapshot)) (\<lambda>_. return_go UNKNOWN)
             (\<lambda>_. return_go (Itoa (vol_ParentID snapshot)))
      else if vol_DatasetType snapshot = ''FILESYSTEM''
      then try_go (GetFileSystemByID_api api (vol_ParentID snapshot)) (\<lambda>_. return_go UNKNOWN)
             (\<lambda>_. return_go (Itoa (vol_ParentID snapshot)))
      else return_go UNKNOWN)"

definition snapshot_entry :: "Client \<Rightarrow> CsiListSnapshotsRequest \<Rightarrow> int \<Rightarrow> Volume \<Rightarrow> CsiSnapshot option go" where
  "snapshot_entry api req volumeID snapshot =
     then_go (parent_name api snapshot) (\<lambda>parentName.
     let entry = \<lparr>csn_SizeBytes = vol_Size snapshot, csn_SnapshotId = vol_Name snapshot, csn_SourceVolumeId = parentName,
                  csn_CreationTime = go_div (vol_CreatedAt snapshot) 1000, csn_ReadyToUse = True\<rparr> in
     if lsr_SourceVolumeId req \<noteq> ''''
     then or_status InvalidArgument ''ValidateVolumeID - error validating sourceVolumeId ''
            (pure_go (ValidateVolumeID (lsr_SourceVolumeId req))) (\<lambda>volumeInfo.
            return_go (if Itoa (vpc_VolumeID volumeInfo) = csn_SourceVolumeId entry
              then Some (entry\<lparr>csn_SourceVolumeId := lsr_SourceVolumeId req\<rparr>) else None))
     else if lsr_SnapshotId req \<noteq> ''''
     then return_go (if volumeID = vol_ID snapshot then Some (entry\<lparr>csn_SnapshotId := lsr_SnapshotId req\<rparr>) else None)
     else return_go (Some entry))"

definition snapshots_of_ibox :: "Env \<Rightarrow> CsiListSnapshotsRequest \<Rightarrow> gomap \<Rightarrow> CsiSnapshot list go" where
  "snapshots_of_ibox E req secret =
     or_status Unavailable ''NewClient - error: '' (pure_go (NewClient E secret)) (\<lambda>api.
     or_status Unavailable ''GetAllSnapshots - error: '' (GetAllSnapshots_api api) (\<lambda>snapshots.
     or_status InvalidArgument ''ValidateVolumeID - error: ''
       (if lsr_SnapshotId req \<noteq> ''''
        then then_go (pure_go (ValidateVolumeID (lsr_SnapshotId req))) (\<lambda>volumeInfo. return_go (vpc_VolumeID volumeInfo))
        else return_go 0) (\<lambda>volumeID.
     then_go (map_go (snapshot_entry api req volumeID) snapshots) (\<lambda>entries. return_go (List.map_filter id entries)))))"

definition ListSnapshotsImplementation :: "Env \<Rightarrow> CsiListSnapshotsRequest \<Rightarrow> string \<Rightarrow> CsiSnapshot list go" where
  "ListSnapshotsImplementation E req namespace =
     or_status Unavailable ''GetSecrets - error: '' (GetSecrets_kube (cluster E) namespace) (\<lambda>secrets.
     then_go (map_go (snapshots_of_ibox E req) secrets) (\<lambda>entries. return_go (concat entries)))"

definition ListSnapshots :: "Env \<Rightarrow> CsiListSnapshotsRequest \<Rightarrow> CsiSnapshot list go" where
  "ListSnapshots E req =
     or_status Unavailable ''BuildClient - error: '' (BuildClient_kube (cluster E)) (\<lambda>_.
     let namespace = getenv E EnvVarPodNamespace in
     if namespace = '''' then fail_go (Status_Error Unavailable ''env var POD_NAMESPACE was not set, this is a required env var'')
     else or_status Unavailable ''ListSnapshotsImpl - error: '' (ListSnapshotsImplementation E req namespace) return_go)"

section \<open>The group controller\<close>

record CsiCreateGroupSnapshotRequest =
  cgs_Name :: string
  cgs_SourceVolumeIds :: "string list"
  cgs_Secrets :: gomap
  cgs_Parameters :: gomap

record CsiGroupSnapshotRequest =
  gsr_GroupSnapshotId :: string
  gsr_SnapshotIds :: "string list"
  gsr_Secrets :: gomap

record CsiMemberSnapshot = CsiSnapshot +
  csn_GroupSnapshotId :: string

record CsiVolumeGroupSnapshot =
  vgs_GroupSnapshotId :: string
  vgs_Snapshots :: "CsiMemberSnapshot list"
  vgs_CreationTime :: int64
  vgs_ReadyToUse :: bool

text \<open>\<open>BuildCommonService\<close> with an empty configuration, then a client of the same credentials.\<close>

definition group_client :: "Env \<Rightarrow> gomap \<Rightarrow> (Client \<Rightarrow> 'a go) \<Rightarrow> 'a go" where
  "group_client E secrets k =
     or_status Internal ''failed to get API connection error '' (pure_go (BuildCommonService E [] secrets zero_VolProto)) (\<lambda>_.
     or_status Internal ''failed to get api client error '' (pure_go (NewClient E secrets)) k)"

text \<open>The volumes of the request are read first; the pool of the last one is the pool of the group.\<close>

definition source_volume :: "Client \<Rightarrow> string \<Rightarrow> (int \<times> Volume) go" where
  "source_volume api ident =
     (let volproto = Split ident ''$$'' in
      if length volproto \<noteq> 2 then fail_go (Errors_New ''volume Id and other details not found'')
      else case Atoi (volproto ! 0) of
        None \<Rightarrow> fail_go (Status_Error Internal (''failed to convert volume ID '' @ volproto ! 0 @ '' to int''))
      | Some volumeID \<Rightarrow> or_status Internal (''failed to get Volume with ID '' @ Itoa volumeID @ '' error '')
          (GetVolume_api api volumeID) (\<lambda>volume. return_go (volumeID, volume)))"

definition createCG :: "Client \<Rightarrow> string \<Rightarrow> string list \<Rightarrow> ConsistencyGroupInfo go" where
  "createCG api cgName sourceVolumeIds =
     then_go (map_go (source_volume api) sourceVolumeIds) (\<lambda>volumes.
     let poolID = (if volumes = [] then 0 else vol_PoolID (snd (last volumes))) in
     or_status Internal ''failed to create cg error ''
       (CreateConsistencyGroup_api api \<lparr>ccg_Name = cgName, ccg_PoolID = poolID\<rparr>) (\<lambda>newCG.
     then_go (map_go (\<lambda>volumeID. or_status Internal ''failed to add volume to cg error ''
         (AddMemberToSnapshotGroup_api api volumeID (cg_ID newCG)) return_go) (map fst volumes)) (\<lambda>_.
     return_go newCG)))"

text \<open>The last identifier that contains the number as text, or the empty text.\<close>

definition matching_id :: "string list \<Rightarrow> int \<Rightarrow> string" where
  "matching_id ids i = foldl (\<lambda>found x. if Contains x (Itoa i) then x else found) '''' ids"

text \<open>One member of a snapshot group in an answer; \<open>CreateVolumeGroupSnapshot\<close> looks for the family of the
  member in the source volumes, \<open>GetVolumeGroupSnapshot\<close> for the member in the snapshots of the request.\<close>

definition member_snapshot :: "grpc_code \<Rightarrow> Client \<Rightarrow> string list \<Rightarrow> (MemberInfo \<Rightarrow> int) \<Rightarrow> string \<Rightarrow> int64
    \<Rightarrow> MemberInfo \<Rightarrow> CsiMemberSnapshot go" where
  "member_snapshot code api ids key groupName creationTime member =
     or_status code ''failed to get snapshot volume  error '' (GetVolume_api api (mem_ID member)) (\<lambda>volume.
     let sourceVolumeId = matching_id ids (key member); parts = Split sourceVolumeId ''$$'' in
     if length parts \<noteq> 2 then fail_go (Status_Error code ''sourceVolumeId not parsing correctly'')
     else return_go \<lparr>csn_SizeBytes = mem_Size member, csn_SnapshotId = Itoa (vol_ID volume) @ ''$$'' @ parts ! 1,
       csn_SourceVolumeId = sourceVolumeId, csn_CreationTime = creationTime, csn_ReadyToUse = True,
       csn_GroupSnapshotId = groupName\<rparr>)"

definition PARAM_CGNAME :: string where "PARAM_CGNAME = ''infinidat.com/cgname''"
definition PARAM_VGSNAME :: string where "PARAM_VGSNAME = ''csi.storage.k8s.io/volumegroupsnapshot/name''"

definition CreateVolumeGroupSnapshot :: "Env \<Rightarrow> CsiCreateGroupSnapshotRequest \<Rightarrow> CsiVolumeGroupSnapshot go" where
  "CreateVolumeGroupSnapshot E req =
     group_client E (cgs_Secrets req) (\<lambda>api.
     let cgName = lookup (cgs_Parameters req) PARAM_CGNAME; vgsName = lookup (cgs_Parameters req) PARAM_VGSNAME in
     then_go (try_go (GetConsistencyGroupByName_api api cgName)
        (\<lambda>err. if errors_is err ErrNotFound
           then or_status Internal ''failed to createCG error '' (createCG api cgName (cgs_SourceVolumeIds req)) return_go
           else fail_go (Status_Error Internal (''error getting cg '' @ err_text err))) return_go) (\<lambda>newCG.
     then_go (try_go (GetConsistencyGroupByName_api api vgsName)
        (\<lambda>err. if errors_is err ErrNotFound then return_go ()
           else fail_go (Status_Error Internal (''error getting sg cg '' @ err_text err)))
        (\<lambda>_. fail_go (Status_Error InvalidArgument (''Snap Group already exists with that name '' @ vgsName)))) (\<lambda>_.
     or_status Internal (''failed to create snap group error '' @ vgsName @ '' error '')
       (CreateSnapshotGroup_api api \<lparr>csg_CGID = cg_ID newCG, csg_SnapName = vgsName, csg_SnapPrefix = vgsName,
          csg_SnapSuffix = ''''\<rparr>) (\<lambda>snapGroupCG.
     then_go (read_clock E) (\<lambda>creationTime.
     or_status Internal ''failed to get snapgroup CG members error '' (GetMembersByCGID_api api (cg_ID snapGroupCG)) (\<lambda>members.
     then_go (map_go (member_snapshot Internal api (cgs_SourceVolumeIds req) mem_FamilyID (cg_Name snapGroupCG) creationTime)
        members) (\<lambda>snapshots.
     return_go \<lparr>vgs_GroupSnapshotId = Itoa (cg_ID snapGroupCG), vgs_Snapshots = snapshots,
       vgs_CreationTime = creationTime, vgs_ReadyToUse = True\<rparr>)))))))"

definition group_id :: "string \<Rightarrow> (int \<Rightarrow> 'a go) \<Rightarrow> 'a go" where
  "group_id ident k = (case Atoi ident of
     None \<Rightarrow> fail_go (Status_Error InvalidArgument (''failed to convert group_snapshot_id '' @ ident @ '' to int''))
   | Some i \<Rightarrow> k i)"

definition DeleteVolumeGroupSnapshot :: "Env \<Rightarrow> CsiGroupSnapshotRequest \<Rightarrow> unit go" where
  "DeleteVolumeGroupSnapshot E req =
     group_client E (gsr_Secrets req) (\<lambda>api.
     group_id (gsr_GroupSnapshotId req) (\<lambda>snapshotGroupID.
     or_status Internal (''error deleting CG '' @ gsr_GroupSnapshotId req @ '' error '')
       (DeleteConsistencyGroup_api api snapshotGroupID) return_go))"

definition GetVolumeGroupSnapshot :: "Env \<Rightarrow> CsiGroupSnapshotRequest \<Rightarrow> CsiVolumeGroupSnapshot go" where
  "GetVolumeGroupSnapshot E req =
     group_client E (gsr_Secrets req) (\<lambda>api.
     group_id (gsr_GroupSnapshotId req) (\<lambda>snapshotGroupID.
     or_status NotFound (''error getting CG group_snapshot_id '' @ gsr_GroupSnapshotId req @ '' error '')
       (GetConsistencyGroup_api api snapshotGroupID) (\<lambda>consistencyGroup.
     then_go (read_clock E) (\<lambda>creationTime.
     or_status Internal ''failed to get snapgroup CG members error '' (GetMembersByCGID_api api snapshotGroupID) (\<lambda>members.
     then_go (map_go (member_snapshot InvalidArgument api (gsr_SnapshotIds req) mem_ID (cg_Name consistencyGroup) creationTime)
        members) (\<lambda>snapshots.
     return_go \<lparr>vgs_GroupSnapshotId = Itoa snapshotGroupID, vgs_Snapshots = snapshots,
       vgs_CreationTime = creationTime, vgs_ReadyToUse = True\<rparr>))))))"

end
