(* ===== verification/Addons_Service.thy ===== *)
theory Addons_Service
  imports Group_Service
begin

text \<open>
  \<open>service/csiaddons\<close>: the services of CSI-Addons. \<open>volumegroup.go\<close> keeps consistency groups of one InfiniBox,
  \<open>replication.go\<close> moves the replication of a volume between two InfiniBoxes, \<open>identity.go\<close> tells what the
  driver can do.

  The replication service talks to the InfiniBox of the request, to the InfiniBox behind a link of it, and to the
  cluster; a call carries the party it is made to, and each party sees the calls made to itself. Waiting
  (\<open>time.Sleep\<close>) is left out.
\<close>

section \<open>Identity\<close>

record AddonsConfig =
  ac_DriverName :: string
  ac_DriverVersion :: string
  ac_IsControllerServer :: bool
  ac_IsNodeServer :: bool

datatype addons_capability = CONTROLLER_SERVICE | VOLUME_REPLICATION | VOLUME_GROUP
  | DO_NOT_ALLOW_VG_TO_DELETE_VOLUMES | LIMIT_VOLUME_TO_ONE_VOLUME_GROUP | MODIFY_VOLUME_GROUP | GET_VOLUME_GROUP
  | NODE_SERVICE

definition GetCapabilities :: "AddonsConfig \<Rightarrow> addons_capability list" where
  "GetCapabilities config =
     (if ac_IsControllerServer config
      then [CONTROLLER_SERVICE, VOLUME_REPLICATION, VOLUME_GROUP, DO_NOT_ALLOW_VG_TO_DELETE_VOLUMES,
            LIMIT_VOLUME_TO_ONE_VOLUME_GROUP, MODIFY_VOLUME_GROUP, GET_VOLUME_GROUP]
      else []) @ (if ac_IsNodeServer config then [NODE_SERVICE] else [])"

section \<open>Volume groups\<close>

record VolumeGroupRequest =
  vgr_Name :: string
  vgr_VolumeGroupId :: string
  vgr_VolumeIds :: "string list"
  vgr_Secrets :: gomap
  vgr_Parameters :: gomap

text \<open>A volume group and its volumes, by id and capacity.\<close>

record VolumeGroup =
  vg_VolumeGroupId :: string
  vg_Volumes :: "(string \<times> int64) list"

definition addons_service :: "Env \<Rightarrow> gomap \<Rightarrow> (Client \<Rightarrow> ('c, 'a) prog) \<Rightarrow> ('c, 'a) prog" where
  "addons_service E secrets k =
     or_status Unauthenticated ''error building commonService - error: ''
       (pure_go (BuildCommonService E [] secrets zero_VolProto)) (\<lambda>cs. k (cs_IboxAPI cs))"

definition number_or :: "grpc_code \<Rightarrow> string \<Rightarrow> (int \<Rightarrow> 'a go) \<Rightarrow> 'a go" where
  "number_or code text k = (case Atoi text of
     None \<Rightarrow> fail_go (Status_Error code (''error converting to int: '' @ text)) | Some i \<Rightarrow> k i)"

definition add_volume :: "Client \<Rightarrow> ConsistencyGroupInfo \<Rightarrow> string \<Rightarrow> (string \<times> int64) go" where
  "add_volume api cgInfo v =
     number_or Unknown v (\<lambda>vID.
     or_status Unknown ''error getting volume - error: '' (GetVolume_api api vID) (\<lambda>volume.
     if vol_CGID volume > 0
     then fail_go (Status_Error InvalidArgument ''error adding volume to CG - volume already belongs to CG'')
     else or_status Unknown ''error adding volume to CG - error: ''
       (AddMemberToCG_api api (vol_ID volume) (cg_ID cgInfo) (vol_Name volume)) (\<lambda>_.
     return_go (v, vol_Size volume))))"

definition CreateVolumeGroup :: "Env \<Rightarrow> VolumeGroupRequest \<Rightarrow> VolumeGroup go" where
  "CreateVolumeGroup E req =
     addons_service E (vgr_Secrets req) (\<lambda>api.
     let poolName = lookup (vgr_Parameters req) StorageClassPoolName in
     if poolName = '''' then fail_go (Status_Error InvalidArgument ''error poolName is empty and required to create a CG'')
     else or_status Unknown ''error getting pool - error: '' (GetPoolByName_api api poolName) (\<lambda>pool.
     or_status Unknown ''error creating CG - error: ''
       (CreateConsistencyGroup_api api \<lparr>ccg_Name = vgr_Name req, ccg_PoolID = pool_ID pool\<rparr>) (\<lambda>cgInfo.
     then_go (map_go (add_volume api cgInfo) (vgr_VolumeIds req)) (\<lambda>csiVolumes.
     return_go \<lparr>vg_VolumeGroupId = Itoa (cg_ID cgInfo), vg_Volumes = csiVolumes\<rparr>))))"

text \<open>Any error of the query counts as a group that is gone.\<close>

definition DeleteVolumeGroup :: "Env \<Rightarrow> VolumeGroupRequest \<Rightarrow> unit go" where
  "DeleteVolumeGroup E req =
     addons_service E (vgr_Secrets req) (\<lambda>api.
     number_or InvalidArgument (vgr_VolumeGroupId req) (\<lambda>cgID.
     try_go (GetConsistencyGroup_api api cgID) (\<lambda>_. return_go ()) (\<lambda>cg.
     or_status InvalidArgument ''error deleting CG - error: '' (DeleteConsistencyGroup_api api (cg_ID cg)) return_go)))"

text \<open>The volumes of the request that are not members yet, in the order of the request; the first that is not a number
  ends the request.\<close>

fun volumes_to_add :: "MemberInfo list \<Rightarrow> string list \<Rightarrow> int list res" where
  "volumes_to_add members [] = Ok []"
| "volumes_to_add members (v # vs) =
     (if v \<in> set (map (\<lambda>m. Itoa (mem_ID m)) members) then volumes_to_add members vs
      else case Atoi v of
        None \<Rightarrow> Err (Errors_New (''error converting volumeID to int: '' @ v))
      | Some vID \<Rightarrow> (case volumes_to_add members vs of Ok ids \<Rightarrow> Ok (vID # ids) | r \<Rightarrow> r))"

definition volumes_to_remove :: "MemberInfo list \<Rightarrow> string list \<Rightarrow> int list" where
  "volumes_to_remove members ids = map mem_ID (filter (\<lambda>m. Itoa (mem_ID m) \<notin> set ids) members)"

text \<open>The bodies of the loops of \<open>ModifyVolumeGroupMembership\<close>.\<close>

definition remove_member :: "Client \<Rightarrow> ConsistencyGroupInfo \<Rightarrow> MemberInfo \<Rightarrow> unit go" where
  "remove_member api cg v = or_status Unknown ''error removing member - error: ''
     (RemoveMemberFromCG_api api (cg_ID cg) (mem_ID v)) return_go"

definition add_new_volume :: "Client \<Rightarrow> ConsistencyGroupInfo \<Rightarrow> int \<Rightarrow> unit go" where
  "add_new_volume api cg v =
     or_status Unknown ''error getting volume - error: '' (GetVolume_api api v) (\<lambda>volume.
     or_status Unknown ''error adding member to CG - error: ''
       (AddMemberToCG_api api (vol_ID volume) (cg_ID cg) (vol_Name volume)) return_go)"

definition remove_old_volume :: "Client \<Rightarrow> ConsistencyGroupInfo \<Rightarrow> int \<Rightarrow> unit go" where
  "remove_old_volume api cg v =
     or_status Unknown ''error getting volume - error: '' (GetVolume_api api v) (\<lambda>volume.
     or_status Unknown ''error removing member from CG - error: ''
       (RemoveMemberFromCG_api api (cg_ID cg) (vol_ID volume)) return_go)"

definition ModifyVolumeGroupMembership :: "Env \<Rightarrow> VolumeGroupRequest \<Rightarrow> VolumeGroup go" where
  "ModifyVolumeGroupMembership E req =
     addons_service E (vgr_Secrets req) (\<lambda>api.
     number_or InvalidArgument (vgr_VolumeGroupId req) (\<lambda>cgID.
     or_status InvalidArgument ''error getting CG volumeGroupID - error: '' (GetConsistencyGroup_api api cgID) (\<lambda>cg.
     or_status Unknown ''error getting CG members - error: '' (GetMembersByCGID_api api (cg_ID cg)) (\<lambda>currentMembers.
     if vgr_VolumeIds req = [] \<and> currentMembers \<noteq> []
     then then_go (map_go (remove_member api cg) currentMembers) (\<lambda>_.
            return_go \<lparr>vg_VolumeGroupId = vgr_VolumeGroupId req, vg_Volumes = []\<rparr>)
     else or_status Unknown [] (pure_go (volumes_to_add currentMembers (vgr_VolumeIds req))) (\<lambda>toAdd.
     then_go (map_go (add_new_volume api cg) toAdd) (\<lambda>_.
     then_go (map_go (remove_old_volume api cg) (volumes_to_remove currentMembers (vgr_VolumeIds req))) (\<lambda>_.
     or_status Unknown ''error getting CG members - error: '' (GetMembersByCGID_api api (cg_ID cg)) (\<lambda>members.
     return_go \<lparr>vg_VolumeGroupId = vgr_VolumeGroupId req,
       vg_Volumes = map (\<lambda>m. (Itoa (mem_ID m), mem_Size m)) members\<rparr>))))))))"

definition getCGMembers :: "Client \<Rightarrow> int \<Rightarrow> (string \<times> int64) list go" where
  "getCGMembers api cgID = then_go (GetMembersByCGID_api api cgID) (\<lambda>members.
     return_go (map (\<lambda>m. (Itoa (mem_ID m), 0)) members))"

definition ControllerGetVolumeGroup :: "Env \<Rightarrow> VolumeGroupRequest \<Rightarrow> VolumeGroup go" where
  "ControllerGetVolumeGroup E req =
     addons_service E (vgr_Secrets req) (\<lambda>api.
     number_or InvalidArgument (vgr_VolumeGroupId req) (\<lambda>cgID.
     or_status Unknown ''error getting CG - error: '' (GetConsistencyGroup_api api cgID) (\<lambda>consistencyGroup.
     then_go (if cg_MembersCount consistencyGroup > 0
        then or_status Unknown ''error members for CG - error: '' (getCGMembers api cgID) return_go
        else return_go []) (\<lambda>volumes.
     return_go \<lparr>vg_VolumeGroupId = Itoa (cg_ID consistencyGroup), vg_Volumes = volumes\<rparr>))))"

section \<open>Replication\<close>

datatype party = ThisIbox | OtherIbox | Cluster

type_synonym 'a go2 = "(party \<times> call, 'a) prog"

text \<open>The source of a request is a volume; a request for a volume group has none, and \<open>GetVolume\<close> of it is nil.\<close>

record ReplicationRequest =
  rr_Volume :: "string option"
  rr_Secrets :: gomap
  rr_Parameters :: gomap


definition replication_source :: "ReplicationRequest \<Rightarrow> (string \<Rightarrow> ('c, 'a) prog) \<Rightarrow> ('c, 'a) prog" where
  "replication_source req k = (case rr_Volume req of
     None \<Rightarrow> panic_go ''nil pointer dereference: GetVolume().VolumeId'' | Some volumeId \<Rightarrow> k volumeId)"

text \<open>The id of the volume and the service of its InfiniBox.\<close>

definition replication_service :: "Env \<Rightarrow> ReplicationRequest \<Rightarrow> (int \<Rightarrow> Client \<Rightarrow> ('c, 'a) prog) \<Rightarrow> ('c, 'a) prog" where
  "replication_service E req k =
     replication_source req (\<lambda>volumeId.
     or_status InvalidArgument ''invalid - volume ID error: '' (pure_go (ValidateVolumeID volumeId)) (\<lambda>volumeInfo.
     or_status Unauthenticated ''error building commonService - error: ''
       (pure_go (BuildCommonService E [] (rr_Secrets req) volumeInfo)) (\<lambda>cs.
     k (vpc_VolumeID volumeInfo) (cs_IboxAPI cs))))"

text \<open>The last link with the name counts.\<close>

definition validateLink :: "Client \<Rightarrow> string \<Rightarrow> Link go" where
  "validateLink api linkName =
     then_go (GetLinks_api api) (\<lambda>links.
     case find (\<lambda>link. link_RemoteSystemName link = linkName) (rev links) of
       None \<Rightarrow> fail_go (Errors_New (''could not find replication link '' @ linkName))
     | Some link \<Rightarrow>
         if link_ID link = 0 then fail_go (Errors_New (''link ID was 0 for replication link '' @ linkName))
         else if link_LinkState link \<noteq> ''UP''
         then fail_go (Errors_New (''replication link state was invalid for replication link '' @ linkName))
         else return_go link)"

definition async_replica :: "int \<Rightarrow> string \<Rightarrow> int \<Rightarrow> int \<Rightarrow> CreateReplicaRequest" where
  "async_replica localEntityID remoteEntityName linkID remotePoolID =
     \<lparr>crr_IsPreferred = None, crr_SyncInterval = 240000, crr_Description = ''description goes here'',
      crr_EntityType = ''VOLUME'', crr_RemoteEntityName = remoteEntityName, crr_LocalEntityID = localEntityID,
      crr_ReplicationType = ''ASYNC'', crr_BaseAction = ''NEW'', crr_LinkID = linkID, crr_RpoValue = 300000,
      crr_RemotePoolID = remotePoolID\<rparr>"

definition EnableVolumeReplication :: "Env \<Rightarrow> ReplicationRequest \<Rightarrow> unit go" where
  "EnableVolumeReplication E req =
     replication_source req (\<lambda>_.
     let linkRemoteSystemName = lookup (rr_Parameters req) IboxReplicaRemoteIboxLinkNameParameter;
         remotePoolName = lookup (rr_Parameters req) IboxReplicaCreatePVCPoolName in
     case find (\<lambda>p. lookup (rr_Parameters req) p = '''') [IboxReplicaRemoteIboxLinkNameParameter,
            IboxReplicaCreatePVCPoolName, IboxReplicaRemoteIboxCredNameParameter, IboxReplicaRemoteIboxCredNamespaceParameter] of
       Some p \<Rightarrow> fail_go (Status_Error InvalidArgument (''required parameter '' @ p @ '' missing''))
     | None \<Rightarrow>
     replication_service E req (\<lambda>volumeID api.
     or_status NotFound ''GetVolume - failed to find volume ID Error: '' (GetVolume_api api volumeID) (\<lambda>volume.
     or_status InvalidArgument ''GetPoolByName - failed to find pool name Error: '' (GetPoolByName_api api remotePoolName) (\<lambda>pool.
     or_status InvalidArgument ''validateLink - failed Error: '' (validateLink api linkRemoteSystemName) (\<lambda>link.
     or_status InvalidArgument ''GetReplicas - failed to get replicas Error: '' (GetReplicas_api api) (\<lambda>replicas.
     if list_ex (\<lambda>r. rep_LocalEntityID r = vol_ID volume) replicas
     then fail_go (Status_Error InvalidArgument ''volume already replicated'')
     else or_status Unknown ''replica creation failed'' (CreateReplica_api api
            (async_replica (vol_ID volume) (vol_Name volume) (link_ID link) (pool_ID pool))) (\<lambda>_.
     return_go ())))))))"

definition DisableVolumeReplication :: "Env \<Rightarrow> ReplicationRequest \<Rightarrow> unit go" where
  "DisableVolumeReplication E req =
     replication_service E req (\<lambda>volumeID api.
     or_status NotFound ''GetVolume - failed to find volume ID Error: '' (GetVolume_api api volumeID) (\<lambda>volume.
     or_status Unknown ''replica get failed'' (GetReplicaForLocalEntityName_api api (vol_Name volume)) (\<lambda>replica.
     or_status Unknown ''replica delete failed'' (DeleteReplica_api api (rep_ID replica)) return_go)))"

definition getSecretForLink :: "Env \<Rightarrow> string \<Rightarrow> gomap go" where
  "getSecretForLink E linkName =
     then_go (BuildClient_kube (cluster E)) (\<lambda>_.
     let namespace = (if getenv E EnvVarPodNamespace = '''' then ''infinidat-csi'' else getenv E EnvVarPodNamespace) in
     GetSecretContainsName_kube (cluster E) namespace linkName)"

definition PromoteVolume :: "Env \<Rightarrow> ReplicationRequest \<Rightarrow> unit go2" where
  "PromoteVolume E req =
     replication_service E req (\<lambda>volumeID api.
     or_status Unknown ''get all links failed'' (on_side ThisIbox (GetLinks_api api)) (\<lambda>allLinks.
     or_status NotFound ''GetVolume - failed to find volume ID Error: '' (on_side ThisIbox (GetVolume_api api volumeID)) (\<lambda>volume.
     try_go (on_side ThisIbox (GetReplicaForLocalEntityName_api api (vol_Name volume)))
       (\<lambda>err. if errors_is err ErrNotFound then return_go () else fail_go (Status_Error Unknown ''get replica failed''))
       (\<lambda>replica.
     if rep_Role replica = ''SOURCE'' then return_go ()
     else or_status NotFound ''GetLink - failed to find link ID Error: '' (on_side ThisIbox (GetLink_api api (rep_LinkID replica))) (\<lambda>remoteLink.
     or_status NotFound ''GetSecret - failed to find secret for remote system name Error: ''
       (on_side Cluster (getSecretForLink E (link_RemoteSystemName remoteLink))) (\<lambda>secretMap.
     addons_service E secretMap (\<lambda>source.
     or_status Unknown ''get source replica failed''
       (on_side OtherIbox (GetReplicaForLocalEntityName_api source (vol_Name volume))) (\<lambda>sourceReplica.
     or_status Unknown ''source replica delete failed'' (on_side OtherIbox (DeleteReplica_api source (rep_ID sourceReplica))) (\<lambda>_.
     let linkID = (case find (\<lambda>v. link_Name v = link_RemoteSystemName remoteLink) allLinks of None \<Rightarrow> 0 | Some v \<Rightarrow> link_ID v) in
     if linkID = 0 then fail_go (Status_Error Unknown ''link not found'')
     else or_status Unknown ''local replica creation failed'' (on_side ThisIbox (CreateReplica_api api
            (async_replica (vol_ID volume) (vol_Name volume) linkID (rep_RemotePoolID replica)))) (\<lambda>_.
     return_go ()))))))))))"

definition DemoteVolume :: "Env \<Rightarrow> ReplicationRequest \<Rightarrow> unit go2" where
  "DemoteVolume E req =
     replication_service E req (\<lambda>volumeID api.
     or_status NotFound ''GetVolume - failed to find volume ID Error: '' (on_side ThisIbox (GetVolume_api api volumeID)) (\<lambda>v.
     try_go (on_side ThisIbox (GetReplicaForLocalEntityName_api api (vol_Name v)))
       (\<lambda>err. if errors_is err ErrNotFound then return_go () else fail_go (Status_Error Unknown ''get replica failed''))
       (\<lambda>replica.
     if rep_Role replica = ''TARGET'' then return_go ()
     else or_status NotFound ''GetLink - failed to find link ID Error: '' (on_side ThisIbox (GetLink_api api (rep_LinkID replica))) (\<lambda>link.
     or_status NotFound ''GetSecret - failed to find secret for remote system name Error: ''
       (on_side Cluster (getSecretForLink E (link_RemoteSystemName link))) (\<lambda>secretMap.
     addons_service E secretMap (\<lambda>remote.
     or_status Unknown ''replica delete failed'' (on_side ThisIbox (DeleteReplica_api api (rep_ID replica))) (\<lambda>_.
     or_status NotFound ''GetVolume - failed to find volume ID (remote_entity_id) Error: ''
       (on_side OtherIbox (GetVolume_api remote (rep_RemoteEntityID replica))) (\<lambda>volumeRemote.
     or_status Unknown ''remote replica creation failed'' (on_side OtherIbox (CreateReplica_api remote
            (async_replica (vol_ID volumeRemote) (vol_Name volumeRemote) (link_RemoteLinkID link) (rep_LocalPoolID replica)))) (\<lambda>_.
     return_go ())))))))))"

definition ResyncVolume :: "ReplicationRequest \<Rightarrow> bool go" where
  "ResyncVolume req = return_go True"

datatype replication_status = HEALTHY | ERROR

record VolumeReplicationInfo =
  vri_LastSyncTime :: int64
  vri_LastSyncDuration :: int
  vri_Status :: replication_status
  vri_StatusMessage :: string

definition GetVolumeReplicationInfo :: "Env \<Rightarrow> ReplicationRequest \<Rightarrow> VolumeReplicationInfo go" where
  "GetVolumeReplicationInfo E req =
     replication_service E req (\<lambda>volumeID api.
     or_status NotFound ''GetVolume - failed to find volume ID Error: '' (GetVolume_api api volumeID) (\<lambda>volume.
     or_status Unknown ''replica get failed'' (GetReplicaForLocalEntityName_api api (vol_Name volume)) (\<lambda>replica.
     return_go \<lparr>vri_LastSyncTime = rep_LastSynchronized replica, vri_LastSyncDuration = rep_SyncDuration replica,
       vri_Status = (if rep_State replica = ''ACTIVE'' then HEALTHY else ERROR), vri_StatusMessage = rep_State replica\<rparr>)))"

end
