(* ===== verification/Cr_World.thy ===== *)
theory Cr_World
  imports Addons_Service
begin

text \<open>
  What the controllers of the custom resources (\<open>iboxreplica\<close>, \<open>iboxcg\<close>, \<open>iboxpromote\<close>) share: the resource
  with its specification and status, the Kubernetes objects they make, and the steps every controller takes.

  A controller talks to the InfiniBox of the resource, to the InfiniBox the replication goes to, to the cluster
  (secrets), and to the API server that keeps the resource. An \<open>event\<close> is a call to one of them. The answers
  of the API server are a parameter, the record \<open>CrWorld\<close>; in particular \<open>Update\<close> and \<open>Status().Update\<close> answer with the
  object the server now holds, which replaces the one in memory. A failed \<open>Get\<close> or update leaves the object in
  memory as it is.
\<close>

definition PVCAnnotationSecretName :: string where "PVCAnnotationSecretName = ''infinidat.com/secret_name''"
definition PVCAnnotationSecretNamespace :: string where "PVCAnnotationSecretNamespace = ''infinidat.com/secret_namespace''"
definition IboxreplicaReplicaTypeSYNC :: string where "IboxreplicaReplicaTypeSYNC = ''SYNC''"
definition IboxreplicaReplicaTypeASYNC :: string where "IboxreplicaReplicaTypeASYNC = ''ASYNC''"
definition IboxreplicaReplicaTypeACTIVE_ACTIVE :: string where "IboxreplicaReplicaTypeACTIVE_ACTIVE = ''ACTIVE_ACTIVE''"

section \<open>Resources and objects\<close>

record CrStatus =
  st_State :: string
  st_ID :: int

text \<open>\<open>cr_Deleted\<close>: the deletion time stamp is set. The specification differs from kind to kind.\<close>

record 'spec custom_resource =
  cr_Name :: string
  cr_Namespace :: string
  cr_ResourceVersion :: string
  cr_Annotations :: gomap
  cr_Finalizers :: "string list"
  cr_Deleted :: bool
  cr_Spec :: 'spec
  cr_Status :: CrStatus

text \<open>A PersistentVolume; \<open>CSI\<close>, \<open>VolumeMode\<close> and the references to secrets (name and namespace) are pointers.
  A capacity maps the name of a resource to the text of a quantity.\<close>

record CSISource =
  kcsi_Driver :: string
  kcsi_ControllerExpandSecretRef :: "(string \<times> string) option"
  kcsi_ControllerPublishSecretRef :: "(string \<times> string) option"
  kcsi_NodeExpandSecretRef :: "(string \<times> string) option"
  kcsi_NodePublishSecretRef :: "(string \<times> string) option"
  kcsi_NodeStageSecretRef :: "(string \<times> string) option"
  kcsi_VolumeAttributes :: gomap
  kcsi_VolumeHandle :: string

record KubePV =
  kpv_Name :: string
  kpv_AccessModes :: "string list"
  kpv_Capacity :: gomap
  kpv_MountOptions :: "string list"
  kpv_ReclaimPolicy :: string
  kpv_StorageClassName :: string
  kpv_VolumeMode :: "string option"
  kpv_CSI :: "CSISource option"

record KubePVC =
  kpvc_Name :: string
  kpvc_Namespace :: string
  kpvc_AccessModes :: "string list"
  kpvc_Requests :: gomap
  kpvc_StorageClassName :: string
  kpvc_VolumeMode :: "string option"
  kpvc_VolumeName :: string

record KubeSecret =
  sec_Name :: string
  sec_Namespace :: string
  sec_ResourceVersion :: string
  sec_Data :: gomap

text \<open>The status of a volume snapshot is a pointer, and so are the names in it.\<close>

record VolumeSnapshot =
  vs_Status :: "string option option"

text \<open>Which cluster a client reaches: the one the driver runs in, or the one a secret describes.\<close>

datatype cluster_ref = InCluster | FromSecret string string

section \<open>Events\<close>

datatype (plugins only: code size) 'spec event =
    To party call
  | Cr_Get string string
  | Cr_Update "'spec custom_resource"
  | Cr_StatusUpdate "'spec custom_resource"
  | Pv_Get string
  | Pv_Create cluster_ref KubePV
  | Pvc_Create cluster_ref KubePVC
  | Secret_Get cluster_ref string string
  | Secret_Create cluster_ref KubeSecret
  | Snapshot_Get string string
  | SnapshotContent_Get string

type_synonym ('spec, 'a) cr_go = "('spec event, 'a) prog"

text \<open>\<open>w_Get\<close> answers \<open>None\<close> where the server says that there is no such object; \<open>w_ClientConfig\<close> tells whether
  a kubeconfig gives a client, \<open>w_InClusterConfig\<close> whether the process runs in a cluster.\<close>

record 'spec CrWorld =
  w_Get :: "'spec event list \<Rightarrow> string \<Rightarrow> string \<Rightarrow> go_error + 'spec custom_resource option"
  w_Update :: "'spec event list \<Rightarrow> 'spec custom_resource \<Rightarrow> go_error + 'spec custom_resource"
  w_StatusUpdate :: "'spec event list \<Rightarrow> 'spec custom_resource \<Rightarrow> go_error + 'spec custom_resource"
  w_GetPV :: "'spec event list \<Rightarrow> string \<Rightarrow> go_error + KubePV"
  w_CreatePV :: "'spec event list \<Rightarrow> cluster_ref \<Rightarrow> KubePV \<Rightarrow> go_error + KubePV"
  w_CreatePVC :: "'spec event list \<Rightarrow> cluster_ref \<Rightarrow> KubePVC \<Rightarrow> go_error + KubePVC"
  w_GetSecret :: "'spec event list \<Rightarrow> cluster_ref \<Rightarrow> string \<Rightarrow> string \<Rightarrow> go_error + KubeSecret"
  w_CreateSecret :: "'spec event list \<Rightarrow> cluster_ref \<Rightarrow> KubeSecret \<Rightarrow> go_error + KubeSecret"
  w_GetSnapshot :: "'spec event list \<Rightarrow> string \<Rightarrow> string \<Rightarrow> go_error + VolumeSnapshot"
  w_GetSnapshotContent :: "'spec event list \<Rightarrow> string \<Rightarrow> go_error + VolumeSnapshot"
  w_ClientConfig :: "string \<Rightarrow> go_error + unit"
  w_InClusterConfig :: "go_error + unit"

text \<open>A program of one party as a part of a controller.\<close>

definition sent_to :: "party \<Rightarrow> 'spec event \<Rightarrow> call option" where
  "sent_to p e = (case e of To q c \<Rightarrow> (if q = p then Some c else None) | _ \<Rightarrow> None)"

definition on_party :: "party \<Rightarrow> 'a go \<Rightarrow> ('spec, 'a) cr_go" where
  "on_party p m = embed (To p) (sent_to p) m"

interpretation party: embedding "To p" "sent_to p"
  by unfold_locales (simp add: sent_to_def)

definition calls_to :: "party \<Rightarrow> 'spec event list \<Rightarrow> call list" where
  "calls_to p h = List.map_filter (sent_to p) h"

lemma calls_to_simps [simp]:
  shows "calls_to p [] = []" and "calls_to p (h @ t) = calls_to p h @ calls_to p t"
    and "calls_to p (e # h) = (case sent_to p e of None \<Rightarrow> calls_to p h | Some c \<Rightarrow> c # calls_to p h)"
  by (simp_all add: calls_to_def List.map_filter_simps split: option.splits)

lemma calls_to_party [simp]: "calls_to p (map (To q) cs) = (if q = p then cs else [])"
  by (induction cs) (auto simp: sent_to_def)

lemma sent_to_simps [simp]:
  shows "sent_to p (To q c) = (if q = p then Some c else None)"
    and "sent_to p (Cr_Get n ns) = None" and "sent_to p (Cr_Update cr) = None" and "sent_to p (Cr_StatusUpdate cr) = None"
    and "sent_to p (Pv_Get n) = None" and "sent_to p (Pv_Create r pv) = None" and "sent_to p (Pvc_Create r pvc) = None"
    and "sent_to p (Secret_Get r ns n) = None" and "sent_to p (Secret_Create r s) = None"
    and "sent_to p (Snapshot_Get ns n) = None" and "sent_to p (SnapshotContent_Get n) = None"
  by (simp_all add: sent_to_def)

lemma run_on_party [go_run]: "on_party p m h = (case m (calls_to p h) of (r, t) \<Rightarrow> (r, map (To p) t))"
  by (simp add: on_party_def calls_to_def run_embed)

lemma wp_on_party [wp_simps]: "wp (on_party p m) h Q = wp m (calls_to p h) (\<lambda>r t. Q r (map (To p) t))"
  by (simp add: on_party_def calls_to_def wp_embed)

lemma only_on_party [only_intros]: "only (\<lambda>c. P (To p c)) m \<Longrightarrow> only P (on_party p m)"
  unfolding on_party_def by (rule only_embed)

lemma safe_on_party [safe_intros]: "safe m \<Longrightarrow> safe (on_party p m)"
  unfolding on_party_def by (rule safe_embed)

lemma returns_on_party [returns_intros]: "returns P m \<Longrightarrow> returns P (on_party p m)"
  unfolding on_party_def by (rule returns_embed)

lemma only_case_sum [only_intros]:
  "(\<And>e. x = Inl e \<Longrightarrow> only P (f e)) \<Longrightarrow> (\<And>a. x = Inr a \<Longrightarrow> only P (k a))
   \<Longrightarrow> only P (case x of Inl e \<Rightarrow> f e | Inr a \<Rightarrow> k a)"
  by (cases x) auto

section \<open>The API server\<close>

definition Get_cr :: "'spec CrWorld \<Rightarrow> string \<Rightarrow> string \<Rightarrow> ('spec, 'spec custom_resource option) cr_go" where
  "Get_cr w name ns = invoke (Cr_Get name ns) (\<lambda>h. w_Get w h name ns)"

definition Update_cr :: "'spec CrWorld \<Rightarrow> 'spec custom_resource \<Rightarrow> ('spec, 'spec custom_resource) cr_go" where
  "Update_cr w cr = invoke (Cr_Update cr) (\<lambda>h. w_Update w h cr)"

definition StatusUpdate_cr :: "'spec CrWorld \<Rightarrow> 'spec custom_resource \<Rightarrow> ('spec, 'spec custom_resource) cr_go" where
  "StatusUpdate_cr w cr = invoke (Cr_StatusUpdate cr) (\<lambda>h. w_StatusUpdate w h cr)"

text \<open>\<^verbatim>\<open>err = r.Get(ctx, types.NamespacedName{Name: cr.Name, Namespace: cr.Namespace}, cr)\<close>\<close>

definition refetch :: "'spec CrWorld \<Rightarrow> 'spec custom_resource \<Rightarrow> ('spec, 'spec custom_resource) cr_go" where
  "refetch w cr = then_go (Get_cr w (cr_Name cr) (cr_Namespace cr)) (\<lambda>r. case r of
     None \<Rightarrow> fail_go (Errors_New (cr_Name cr @ '' not found'')) | Some cr' \<Rightarrow> return_go cr')"

text \<open>
  \<^verbatim>\<open>cr.Status = Status{State: text}; if e := r.Status().Update(ctx, cr); e != nil { log }\<close>: the id is reset; the
  answer of the server becomes the object in memory.
\<close>

definition set_state :: "'spec CrWorld \<Rightarrow> 'spec custom_resource \<Rightarrow> string \<Rightarrow> ('spec, 'spec custom_resource) cr_go" where
  "set_state w cr text =
     (let cr' = cr\<lparr>cr_Status := \<lparr>st_State = text, st_ID = 0\<rparr>\<rparr>
      in try_go (StatusUpdate_cr w cr') (\<lambda>_. return_go cr') return_go)"

definition fail_state :: "'spec CrWorld \<Rightarrow> 'spec custom_resource \<Rightarrow> go_error \<Rightarrow> ('spec, 'a) cr_go" where
  "fail_state w cr e = then_go (set_state w cr (err_text e)) (\<lambda>_. fail_go e)"

text \<open>The error of \<open>m\<close> goes into the status of the resource and is returned.\<close>

definition or_state :: "'spec CrWorld \<Rightarrow> 'spec custom_resource \<Rightarrow> ('spec, 'a) cr_go \<Rightarrow> ('a \<Rightarrow> ('spec, 'b) cr_go)
    \<Rightarrow> ('spec, 'b) cr_go" where
  "or_state w cr m k = try_go m (fail_state w cr) k"

lemmas api_server_defs = Get_cr_def Update_cr_def StatusUpdate_cr_def refetch_def set_state_def fail_state_def or_state_def Let_def

section \<open>Steps of every controller\<close>

text \<open>\<open>handleFinalizer\<close> works on a copy: the object in memory keeps its finalizers and its version.\<close>

definition handle_finalizer :: "string \<Rightarrow> 'spec CrWorld \<Rightarrow> 'spec custom_resource \<Rightarrow> ('spec, unit) cr_go" where
  "handle_finalizer name w obj =
     (if \<not> cr_Deleted obj
      then if name \<notin> set (cr_Finalizers obj)
           then then_go (Update_cr w (obj\<lparr>cr_Finalizers := cr_Finalizers obj @ [name]\<rparr>)) (\<lambda>_. return_go ())
           else return_go ()
      else if name \<in> set (cr_Finalizers obj)
           then then_go (Update_cr w (obj\<lparr>cr_Finalizers := removeAll name (cr_Finalizers obj)\<rparr>)) (\<lambda>_. return_go ())
           else return_go ())"

definition client_service :: "Env \<Rightarrow> 'spec custom_resource \<Rightarrow> ('spec, Client) cr_go" where
  "client_service E cr =
     (let secretName = lookup (cr_Annotations cr) PVCAnnotationSecretName;
          secretNamespace = lookup (cr_Annotations cr) PVCAnnotationSecretNamespace
      in if secretName = '''' \<or> secretNamespace = ''''
         then fail_go (Errors_New ''annotations for secret name and namespace are required'')
         else then_go (on_party Cluster (BuildClient_kube (cluster E))) (\<lambda>_.
              then_go (on_party Cluster (GetSecret_kube (cluster E) secretName secretNamespace)) (\<lambda>secret.
              pure_go (NewClient E secret))))"

text \<open>
  \<open>Reconcile\<close> of all three: a resource that is gone is no error; then the finalizer; a deleted resource, a new
  one (no id in its status) and a known one are three cases.
\<close>

definition reconcile :: "('spec custom_resource \<Rightarrow> ('spec, unit) cr_go) \<Rightarrow> ('spec custom_resource \<Rightarrow> ('spec, unit) cr_go) \<Rightarrow> ('spec custom_resource \<Rightarrow> ('spec, unit) cr_go)
    \<Rightarrow> ('spec custom_resource \<Rightarrow> ('spec, unit) cr_go) \<Rightarrow> 'spec CrWorld \<Rightarrow> string \<Rightarrow> string \<Rightarrow> ('spec, unit) cr_go" where
  "reconcile finalize removed fresh known w name ns =
     then_go (Get_cr w name ns) (\<lambda>r. case r of
       None \<Rightarrow> return_go ()
     | Some cr \<Rightarrow>
        then_go (finalize cr) (\<lambda>_.
        if cr_Deleted cr then removed cr
        else if st_ID (cr_Status cr) = 0 then fresh cr
        else known cr))"

end
