(* ===== verification/Create_Pvc.thy ===== *)
theory Create_Pvc
  imports Cr_World
begin

text \<open>
  \<open>createpvc/common.go\<close>: the PersistentVolume and the claim for the remote end of a replica, made after the local
  PersistentVolume, in this cluster or in the one that a kubeconfig secret describes.
\<close>

record EntityPair =
  ep_LocalPV :: KubePV
  ep_RemoteEntityID :: int
  ep_RemoteIPAddress :: string

text \<open>A missing field is logged with the error of the query before it, which is nil: it is no error.\<close>

definition GetIboxCredentials :: "Env \<Rightarrow> string \<Rightarrow> string \<Rightarrow> ('spec, gomap) cr_go" where
  "GetIboxCredentials E secretName secretNamespace =
     then_go (on_party Cluster (BuildClient_kube (cluster E))) (\<lambda>_.
     then_go (on_party Cluster (GetSecret_kube (cluster E) secretName secretNamespace)) (\<lambda>secret.
     if lookup secret CredentialUsername = '''' then return_go secret
     else if lookup secret CredentialPassword = '''' then return_go secret
     else if lookup secret CredentialHostname = '''' then return_go secret
     else return_go secret))"

definition GetLocalPV :: "Env \<Rightarrow> 'spec CrWorld \<Rightarrow> string \<Rightarrow> ('spec, KubePV) cr_go" where
  "GetLocalPV E w pvName =
     then_go (on_party Cluster (BuildClient_kube (cluster E))) (\<lambda>_.
     invoke (Pv_Get pvName) (\<lambda>h. w_GetPV w h pvName))"

text \<open>\<open>clientgo.BuildClientFromSecret\<close>, after \<open>BuildClient\<close>.\<close>

definition BuildClientFromSecret :: "Env \<Rightarrow> 'spec CrWorld \<Rightarrow> string \<Rightarrow> string \<Rightarrow> ('spec, cluster_ref) cr_go" where
  "BuildClientFromSecret E w secretName secretNamespace =
     (if secretName = '''' then fail_go (Errors_New ''secret name for building kubeclient is empty'')
      else if secretNamespace = '''' then fail_go (Errors_New ''secret namespace for building kubeclient is empty'')
      else then_go (on_party Cluster (GetSecret_kube (cluster E) secretName secretNamespace)) (\<lambda>secret.
      case w_ClientConfig w (lookup secret ''config'') of
        Inl e \<Rightarrow> fail_go e | Inr _ \<Rightarrow> return_go (FromSecret secretName secretNamespace)))"

definition remote_claim :: "KubePV \<Rightarrow> string \<Rightarrow> string \<Rightarrow> KubePVC" where
  "remote_claim remotePV namespace pvcNameToUse =
     \<lparr>kpvc_Name = pvcNameToUse, kpvc_Namespace = namespace, kpvc_AccessModes = kpv_AccessModes remotePV,
      kpvc_Requests = [(''storage'', lookup (kpv_Capacity remotePV) ''storage'')],
      kpvc_StorageClassName = kpv_StorageClassName remotePV, kpvc_VolumeMode = kpv_VolumeMode remotePV,
      kpvc_VolumeName = kpv_Name remotePV\<rparr>"

definition CreateRemotePVC :: "Env \<Rightarrow> 'spec CrWorld \<Rightarrow> KubePV \<Rightarrow> string \<Rightarrow> string \<Rightarrow> string \<Rightarrow> string \<Rightarrow> ('spec, unit) cr_go" where
  "CreateRemotePVC E w remotePV namespace pvcNameToUse altSecretName altSecretNamespace =
     (let remotePVC = remote_claim remotePV namespace pvcNameToUse in
      then_go (on_party Cluster (BuildClient_kube (cluster E))) (\<lambda>_.
      then_go (if altSecretName \<noteq> '''' then BuildClientFromSecret E w altSecretName altSecretNamespace else return_go InCluster) (\<lambda>cl.
      then_go (invoke (Pvc_Create cl remotePVC) (\<lambda>h. w_CreatePVC w h cl remotePVC)) (\<lambda>_.
      return_go ()))))"

definition GetCGMembers :: "Client \<Rightarrow> string \<Rightarrow> MemberInfo list go" where
  "GetCGMembers api cgName =
     then_go (GetConsistencyGroupByName_api api cgName) (\<lambda>cg. GetMembersByCGID_api api (cg_ID cg))"

text \<open>Reading an attribute of a volume whose \<open>Spec.CSI\<close> is nil panics.\<close>

definition csi_source :: "KubePV \<Rightarrow> (CSISource \<Rightarrow> ('c, 'a) prog) \<Rightarrow> ('c, 'a) prog" where
  "csi_source pv k = (case kpv_CSI pv of
     None \<Rightarrow> panic_go ''nil pointer dereference: Spec.CSI'' | Some csi \<Rightarrow> k csi)"

definition remote_pv_name :: "string \<Rightarrow> string \<Rightarrow> string \<Rightarrow> string" where
  "remote_pv_name localName altSecretName suffix =
     (if suffix \<noteq> '''' then localName @ suffix else if altSecretName \<noteq> '''' then localName else localName @ ''-remote'')"

definition copied_attributes :: "string list" where
  "copied_attributes = [StorageClassUNIXPermissions, StorageClassGID, StorageClassUID, StorageClassStorageProtocol,
     PVCAnnotationPoolName, PVCAnnotationNetworkSpace, PVCAnnotationIBOXSecret, PVCAnnotationVolumeMetadata,
     StorageClassNFSExportPermissions, StorageClassSnapDirVisible, ''storage.kubernetes.io/csiProvisionerIdentity'', ''volPathd'']"

definition remote_pv :: "KubePV \<Rightarrow> CSISource \<Rightarrow> string \<Rightarrow> int \<Rightarrow> string \<Rightarrow> string \<Rightarrow> string \<Rightarrow> string \<times> string \<Rightarrow> KubePV" where
  "remote_pv localPV csi name remoteVolumeID remoteIPAddress poolToUse networkSpaceToUse cred =
     (let attrs = kcsi_VolumeAttributes csi;
          base = map (\<lambda>k. (k, lookup attrs k)) copied_attributes
                   @ [(StorageClassNetworkSpace, networkSpaceToUse), (StorageClassPoolName, poolToUse)]
      in localPV\<lparr>kpv_Name := name, kpv_CSI := Some
           \<lparr>kcsi_Driver = kcsi_Driver csi, kcsi_ControllerExpandSecretRef = Some cred, kcsi_ControllerPublishSecretRef = Some cred,
            kcsi_NodeExpandSecretRef = Some cred, kcsi_NodePublishSecretRef = Some cred, kcsi_NodeStageSecretRef = Some cred,
            kcsi_VolumeAttributes = (if remoteIPAddress \<noteq> '''' then store base ''ipAddress'' remoteIPAddress else base),
            kcsi_VolumeHandle = Itoa remoteVolumeID @ ''$$'' @ lookup attrs StorageClassStorageProtocol\<rparr>\<rparr>)"

text \<open>The other cluster gets the credentials of the remote InfiniBox if they cannot be read there.\<close>

definition prepare_other_cluster :: "Env \<Rightarrow> 'spec CrWorld \<Rightarrow> string \<Rightarrow> string \<Rightarrow> string \<Rightarrow> string \<Rightarrow> ('spec, cluster_ref) cr_go" where
  "prepare_other_cluster E w credName credNamespace altSecretName altSecretNamespace =
     then_go (invoke (Secret_Get InCluster altSecretNamespace altSecretName)
       (\<lambda>h. w_GetSecret w h InCluster altSecretNamespace altSecretName)) (\<lambda>_.
     then_go (invoke (Secret_Get InCluster credNamespace credName) (\<lambda>h. w_GetSecret w h InCluster credNamespace credName)) (\<lambda>localSecret.
     then_go (BuildClientFromSecret E w altSecretName altSecretNamespace) (\<lambda>cl.
     try_go (invoke (Secret_Get cl credNamespace credName) (\<lambda>h. w_GetSecret w h cl credNamespace credName))
       (\<lambda>_. let s = localSecret\<lparr>sec_ResourceVersion := ''''\<rparr> in
            then_go (invoke (Secret_Create cl s) (\<lambda>h. w_CreateSecret w h cl s)) (\<lambda>_. return_go cl))
       (\<lambda>_. return_go cl))))"

definition CreateRemotePV :: "Env \<Rightarrow> 'spec CrWorld \<Rightarrow> Client \<Rightarrow> KubePV \<Rightarrow> int \<Rightarrow> string \<Rightarrow> string \<Rightarrow> string \<Rightarrow> string
    \<Rightarrow> string \<Rightarrow> string \<Rightarrow> string \<Rightarrow> string \<Rightarrow> ('spec, KubePV) cr_go" where
  "CreateRemotePV E w remote localPV remoteVolumeID remoteIPAddress remotePoolName remotePVCNameSuffix remoteNetworkSpace
       credName credNamespace altSecretName altSecretNamespace =
     then_go (if remotePoolName = '''' then csi_source localPV (\<lambda>csi. return_go (lookup (kcsi_VolumeAttributes csi) StorageClassPoolName))
              else return_go remotePoolName) (\<lambda>poolToUse.
     then_go (on_party OtherIbox (GetPoolByName_api remote poolToUse)) (\<lambda>_.
     csi_source localPV (\<lambda>csi.
     let networkSpaceToUse = (if remoteNetworkSpace \<noteq> '''' then remoteNetworkSpace
            else lookup (kcsi_VolumeAttributes csi) StorageClassNetworkSpace);
         remotePV = remote_pv localPV csi (remote_pv_name (kpv_Name localPV) altSecretName remotePVCNameSuffix)
            remoteVolumeID remoteIPAddress poolToUse networkSpaceToUse (credName, credNamespace)
     in then_go (on_party Cluster (BuildClient_kube (cluster E))) (\<lambda>_.
        then_go (if altSecretName \<noteq> '''' then prepare_other_cluster E w credName credNamespace altSecretName altSecretNamespace
                 else return_go InCluster) (\<lambda>cl.
        invoke (Pv_Create cl remotePV) (\<lambda>h. w_CreatePV w h cl remotePV))))))"

text \<open>A member of a consistency group is paired with the id of the local volume; a network space without portals gives
  an empty list and no error.\<close>

definition GetRemoteEntities :: "Env \<Rightarrow> 'spec CrWorld \<Rightarrow> Client \<Rightarrow> Client \<Rightarrow> string \<Rightarrow> string \<Rightarrow> string \<Rightarrow> string
    \<Rightarrow> ('spec, EntityPair list) cr_go" where
  "GetRemoteEntities E w local remote entityType localEntityName remoteNetworkSpace remoteEntityName =
     (if entityType = ReplicaEntityCG
      then then_go (on_party ThisIbox (GetCGMembers local localEntityName)) (\<lambda>cgMembers.
           map_go (\<lambda>m. then_go (GetLocalPV E w (mem_Name m)) (\<lambda>localPV.
             return_go \<lparr>ep_LocalPV = localPV, ep_RemoteEntityID = mem_ID m, ep_RemoteIPAddress = ''''\<rparr>)) cgMembers)
      else if entityType = ReplicaEntityFilesystem
      then then_go (GetLocalPV E w localEntityName) (\<lambda>localPV.
           then_go (if remoteNetworkSpace \<noteq> '''' then return_go remoteNetworkSpace
             else csi_source localPV (\<lambda>csi. return_go (lookup (kcsi_VolumeAttributes csi) StorageClassNetworkSpace))) (\<lambda>networkSpaceToUse.
           then_go (on_party OtherIbox (GetNetworkSpaceByName_api remote networkSpaceToUse)) (\<lambda>netSpace.
           case ns_Portals netSpace of
             [] \<Rightarrow> return_go []
           | portal # _ \<Rightarrow>
              then_go (on_party OtherIbox (GetFileSystemByName_api remote remoteEntityName)) (\<lambda>fileSystem.
              return_go [\<lparr>ep_LocalPV = localPV, ep_RemoteEntityID = fs_ID fileSystem, ep_RemoteIPAddress = portal_IPAddress portal\<rparr>]))))
      else if entityType = ReplicaEntityVolume
      then then_go (GetLocalPV E w localEntityName) (\<lambda>localPV.
           then_go (on_party OtherIbox (GetVolumeByName_api remote remoteEntityName)) (\<lambda>remoteVolume.
           return_go [\<lparr>ep_LocalPV = localPV, ep_RemoteEntityID = vol_ID remoteVolume, ep_RemoteIPAddress = ''''\<rparr>]))
      else fail_go (Errors_New (''error unknown entity type '' @ entityType)))"

end
