(* ===== verification/Replica_Controller.thy ===== *)
theory Replica_Controller
  imports Create_Pvc
begin

text \<open>
  \<open>iboxreplica/internal/controller\<close>: the controller that creates and deletes the replica a resource of kind
  \<open>Iboxreplica\<close> describes, and the remote volumes of it.
\<close>

definition IboxreplicaSyncIntervalDefault :: int where "IboxreplicaSyncIntervalDefault = 240000"
definition IboxreplicaBaseActionNew :: string where "IboxreplicaBaseActionNew = ''NEW''"
definition IboxreplicaRPOValueDefault :: int where "IboxreplicaRPOValueDefault = 300000"
definition IboxreplicaLinkStateUp :: string where "IboxreplicaLinkStateUp = ''UP''"
definition IboxreplicaLinkWitnessResiliencyMode :: string where "IboxreplicaLinkWitnessResiliencyMode = ''WITNESS''"

text \<open>\<open>IsPreferred\<close> and \<open>RemoteCreatePVC\<close> are pointers.\<close>

record IboxreplicaSpec =
  irs_IsPreferred :: "bool option"
  irs_SyncInterval :: int
  irs_Description :: string
  irs_EntityType :: string
  irs_LocalEntityName :: string
  irs_RemoteEntityName :: string
  irs_ReplicationType :: string
  irs_BaseAction :: string
  irs_LinkRemoteSystemName :: string
  irs_RpoValue :: int
  irs_RemotePoolID :: int
  irs_RemoteIboxCredentialName :: string
  irs_RemoteIboxCredentialNamespace :: string
  irs_RemoteCreatePVC :: "bool option"
  irs_RemotePVCNameSuffix :: string
  irs_RemotePVCName :: string
  irs_RemotePVCNamespace :: string
  irs_RemoteNetworkSpace :: string
  irs_RemotePoolName :: string
  irs_RemotePVCKubeconfigSecretName :: string
  irs_RemotePVCKubeconfigSecretNamespace :: string

type_synonym replica_cr = "IboxreplicaSpec custom_resource"
type_synonym replica_world = "IboxreplicaSpec CrWorld"
type_synonym 'a replica_go = "(IboxreplicaSpec, 'a) cr_go"

definition handleFinalizer_replica :: "replica_world \<Rightarrow> replica_cr \<Rightarrow> unit replica_go" where
  "handleFinalizer_replica w obj = handle_finalizer ''infinidat.com/iboxreplica'' w obj"

definition getClientService_replica :: "Env \<Rightarrow> replica_cr \<Rightarrow> Client replica_go" where
  "getClientService_replica E replica = client_service E replica"

section \<open>Looking things up\<close>

definition getLocalEntityID :: "Client \<Rightarrow> replica_world \<Rightarrow> replica_cr \<Rightarrow> int replica_go" where
  "getLocalEntityID api w replica =
     (let name = irs_LocalEntityName (cr_Spec replica); kind = irs_EntityType (cr_Spec replica) in
      if kind = ReplicaEntityCG
      then or_state w replica (on_party ThisIbox (GetConsistencyGroupByName_api api name)) (\<lambda>cg. return_go (cg_ID cg))
      else if kind = ReplicaEntityVolume
      then or_state w replica (on_party ThisIbox (GetVolumeByName_api api name)) (\<lambda>volume. return_go (vol_ID volume))
      else if kind = ReplicaEntityFilesystem
      then or_state w replica (on_party ThisIbox (GetFileSystemByName_api api name)) (\<lambda>fileSystem. return_go (fs_ID fileSystem))
      else fail_state w replica (Errors_New (''error getting local entity type, unknown entity type in the CR '' @ kind)))"

definition lookupTargetPoolID :: "Env \<Rightarrow> replica_cr \<Rightarrow> int replica_go" where
  "lookupTargetPoolID E replica =
     (let spec = cr_Spec replica in
      if irs_RemotePoolName spec = '''' then return_go (irs_RemotePoolID spec)
      else if irs_RemoteIboxCredentialName spec = ''''
      then fail_go (Errors_New ''RemotePoolName is specified, but RemoteIboxCredentialName is empty and is required'')
      else if irs_RemoteIboxCredentialNamespace spec = ''''
      then fail_go (Errors_New ''RemotePoolName is specified, but RemoteIboxCredentialNamespace is empty and is required'')
      else then_go (GetIboxCredentials E (irs_RemoteIboxCredentialName spec) (irs_RemoteIboxCredentialNamespace spec)) (\<lambda>cred.
           then_go (pure_go (NewClient E cred)) (\<lambda>remote.
           then_go (on_party OtherIbox (GetPoolByName_api remote (irs_RemotePoolName spec))) (\<lambda>remotePool.
           return_go (pool_ID remotePool)))))"

text \<open>The last link to the system counts. It has to be up and, whatever the type of the replica, have a witness.\<close>

definition link_of :: "Link list \<Rightarrow> string \<Rightarrow> Link res" where
  "link_of links name = (case find (\<lambda>link. link_RemoteSystemName link = name) (rev links) of
     None \<Rightarrow> Err (Errors_New (''could not find replication link '' @ name))
   | Some link \<Rightarrow>
      if link_ID link = 0 then Err (Errors_New (''link ID was 0 for replication link '' @ name))
      else if link_LinkState link \<noteq> IboxreplicaLinkStateUp
      then Err (Errors_New (''replication link state '' @ link_LinkState link @ '' was invalid for replication link '' @ name))
      else if link_ResiliencyMode link \<noteq> IboxreplicaLinkWitnessResiliencyMode
      then Err (Errors_New (''invalid replication link resiliency mode '' @ link_ResiliencyMode link @ '' for replication link '' @ name))
      else Ok link)"

definition validateLink_replica :: "Client \<Rightarrow> replica_world \<Rightarrow> replica_cr \<Rightarrow> Link replica_go" where
  "validateLink_replica api w replica =
     or_state w replica (on_party ThisIbox (GetLinks_api api)) (\<lambda>links.
     or_state w replica (pure_go (link_of links (irs_LinkRemoteSystemName (cr_Spec replica)))) return_go)"

section \<open>Creating and deleting\<close>

text \<open>The defaults of optional fields, or why the specification is refused. The error comes with the
  specification as far as it was filled in.\<close>

definition spec_defaults :: "IboxreplicaSpec \<Rightarrow> (IboxreplicaSpec \<times> go_error) + IboxreplicaSpec" where
  "spec_defaults s0 =
     (let kind = irs_ReplicationType s0 in
      if kind \<notin> {IboxreplicaReplicaTypeACTIVE_ACTIVE, IboxreplicaReplicaTypeASYNC, IboxreplicaReplicaTypeSYNC}
      then Inl (s0, Errors_New (''error invalid ReplicationType in CR '' @ kind))
      else
       let s1 = (if kind = IboxreplicaReplicaTypeSYNC then s0\<lparr>irs_IsPreferred := None\<rparr> else s0);
           s2 = (if irs_BaseAction s1 = '''' then s1\<lparr>irs_BaseAction := IboxreplicaBaseActionNew\<rparr> else s1)
       in if irs_BaseAction s2 \<noteq> IboxreplicaBaseActionNew
          then Inl (s2, Errors_New (''error invalid base action in CR '' @ irs_BaseAction s2))
          else if kind = IboxreplicaReplicaTypeASYNC
          then Inr (s2\<lparr>irs_RpoValue := (if irs_RpoValue s2 = 0 then IboxreplicaRPOValueDefault else irs_RpoValue s2),
                       irs_SyncInterval := (if irs_SyncInterval s2 = 0 then IboxreplicaSyncIntervalDefault else irs_SyncInterval s2)\<rparr>)
          else Inr s2)"

definition requested_replica :: "IboxreplicaSpec \<Rightarrow> int \<Rightarrow> Link \<Rightarrow> CreateReplicaRequest" where
  "requested_replica spec localEntityID link =
     \<lparr>crr_IsPreferred = irs_IsPreferred spec, crr_SyncInterval = irs_SyncInterval spec, crr_Description = irs_Description spec,
      crr_EntityType = irs_EntityType spec, crr_RemoteEntityName = irs_RemoteEntityName spec, crr_LocalEntityID = localEntityID,
      crr_ReplicationType = irs_ReplicationType spec, crr_BaseAction = irs_BaseAction spec, crr_LinkID = link_ID link,
      crr_RpoValue = irs_RpoValue spec, crr_RemotePoolID = irs_RemotePoolID spec\<rparr>"

definition with_pool :: "int \<Rightarrow> replica_cr \<Rightarrow> replica_cr" where
  "with_pool poolID cr = cr\<lparr>cr_Spec := (cr_Spec cr)\<lparr>irs_RemotePoolID := poolID\<rparr>\<rparr>"

text \<open>From the listing of the replicas on.\<close>

definition create_unless_replicated :: "Client \<Rightarrow> replica_world \<Rightarrow> int \<Rightarrow> Link \<Rightarrow> replica_cr \<Rightarrow> replica_cr replica_go" where
  "create_unless_replicated api w localEntityID link replica =
     or_state w replica (on_party ThisIbox (GetReplicas_api api)) (\<lambda>replicas.
     if list_ex (\<lambda>r. rep_LocalEntityID r = localEntityID) replicas then return_go replica
     else or_state w replica (on_party ThisIbox (CreateReplica_api api (requested_replica (cr_Spec replica) localEntityID link))) (\<lambda>response.
          or_state w replica (refetch w replica) (\<lambda>stored.
          StatusUpdate_cr w (stored\<lparr>cr_Status := \<lparr>st_State = ''created'', st_ID = rep_ID response\<rparr>\<rparr>))))"

text \<open>The error of \<open>lookupTargetPoolID\<close> goes into the status, and creation goes on. The object after creation is
  returned: \<open>Reconcile\<close> reads its specification again.\<close>

definition createReplica :: "Env \<Rightarrow> replica_world \<Rightarrow> replica_cr \<Rightarrow> replica_cr replica_go" where
  "createReplica E w cr =
     (case spec_defaults (cr_Spec cr) of
        Inl (spec, err) \<Rightarrow> fail_state w (cr\<lparr>cr_Spec := spec\<rparr>) err
      | Inr spec \<Rightarrow>
         let replica = cr\<lparr>cr_Spec := spec\<rparr> in
         or_state w replica (getClientService_replica E replica) (\<lambda>api.
         then_go (getLocalEntityID api w replica) (\<lambda>localEntityID.
         then_go (validateLink_replica api w replica) (\<lambda>link.
         try_go (lookupTargetPoolID E replica)
           (\<lambda>err. then_go (set_state w (with_pool 0 replica) (err_text err)) (create_unless_replicated api w localEntityID link))
           (\<lambda>poolID. create_unless_replicated api w localEntityID link (with_pool poolID replica))))))"

definition deleteReplica :: "Env \<Rightarrow> replica_cr \<Rightarrow> unit replica_go" where
  "deleteReplica E replica =
     then_go (getClientService_replica E replica) (\<lambda>api.
     on_party ThisIbox (DeleteReplica_api api (st_ID (cr_Status replica))))"

definition updateIboxreplicaState :: "Env \<Rightarrow> replica_world \<Rightarrow> replica_cr \<Rightarrow> unit replica_go" where
  "updateIboxreplicaState E w replica =
     then_go (getClientService_replica E replica) (\<lambda>api.
     then_go (on_party ThisIbox (GetReplica_api api (st_ID (cr_Status replica)))) (\<lambda>rep.
     then_go (refetch w replica) (\<lambda>stored.
     then_go (StatusUpdate_cr w (stored\<lparr>cr_Status := (cr_Status stored)\<lparr>st_State := rep_State rep\<rparr>\<rparr>)) (\<lambda>_.
     return_go ()))))"

section \<open>Remote claims\<close>

text \<open>Three ways to name a claim, each overriding the one before.\<close>

definition pvc_name_to_use :: "IboxreplicaSpec \<Rightarrow> nat \<Rightarrow> string \<Rightarrow> string \<Rightarrow> string" where
  "pvc_name_to_use spec entities remotePVName localPVCName =
     (let by_claim = (if localPVCName = '''' then remotePVName
            else if irs_RemotePVCNameSuffix spec \<noteq> '''' then localPVCName @ irs_RemotePVCNameSuffix spec
            else if irs_RemotePVCKubeconfigSecretName spec \<noteq> '''' then localPVCName
            else localPVCName @ ''-remote'')
      in if entities = 1 \<and> irs_RemotePVCName spec \<noteq> '''' then irs_RemotePVCName spec else by_claim)"

definition create_pair :: "Env \<Rightarrow> replica_world \<Rightarrow> Client \<Rightarrow> IboxreplicaSpec \<Rightarrow> nat \<Rightarrow> EntityPair \<Rightarrow> unit replica_go" where
  "create_pair E w remote spec entities pair =
     then_go (CreateRemotePV E w remote (ep_LocalPV pair) (ep_RemoteEntityID pair) (ep_RemoteIPAddress pair) (irs_RemotePoolName spec)
       (irs_RemotePVCNameSuffix spec) (irs_RemoteNetworkSpace spec) (irs_RemoteIboxCredentialName spec)
       (irs_RemoteIboxCredentialNamespace spec) (irs_RemotePVCKubeconfigSecretName spec) (irs_RemotePVCKubeconfigSecretNamespace spec)) (\<lambda>remotePV.
     csi_source (ep_LocalPV pair) (\<lambda>csi.
     CreateRemotePVC E w remotePV (irs_RemotePVCNamespace spec)
       (pvc_name_to_use spec entities (kpv_Name remotePV) (lookup (kcsi_VolumeAttributes csi) ''csi.storage.k8s.io/pvc/name''))
       (irs_RemotePVCKubeconfigSecretName spec) (irs_RemotePVCKubeconfigSecretNamespace spec)))"

definition createPVC_replica :: "Env \<Rightarrow> replica_world \<Rightarrow> replica_cr \<Rightarrow> unit replica_go" where
  "createPVC_replica E w replica =
     (let spec = cr_Spec replica in
      or_state w replica (getClientService_replica E replica) (\<lambda>api.
      then_go (GetIboxCredentials E (irs_RemoteIboxCredentialName spec) (irs_RemoteIboxCredentialNamespace spec)) (\<lambda>cred.
      then_go (pure_go (NewClient E cred)) (\<lambda>remote.
      then_go (getLocalEntityID api w replica) (\<lambda>_.
      then_go (GetRemoteEntities E w api remote (irs_EntityType spec) (irs_LocalEntityName spec) (irs_RemoteNetworkSpace spec)
        (irs_RemoteEntityName spec)) (\<lambda>remoteEntities.
      then_go (map_go (create_pair E w remote spec (length remoteEntities)) remoteEntities) (\<lambda>_.
      return_go ())))))))"

section \<open>Reconcile\<close>

definition replica_is_new :: "Env \<Rightarrow> replica_world \<Rightarrow> replica_cr \<Rightarrow> unit replica_go" where
  "replica_is_new E w cr =
     then_go (createReplica E w cr) (\<lambda>replica.
     if irs_RemoteCreatePVC (cr_Spec replica) = Some True
     then try_go (createPVC_replica E w replica) (\<lambda>_. return_go ()) return_go
     else return_go ())"

definition Reconcile_replica :: "Env \<Rightarrow> replica_world \<Rightarrow> string \<Rightarrow> string \<Rightarrow> unit replica_go" where
  "Reconcile_replica E w name namespace =
     reconcile (handleFinalizer_replica w) (deleteReplica E) (replica_is_new E w) (updateIboxreplicaState E w) w name namespace"

end
