(* ===== verification/Cg_Controller.thy ===== *)
theory Cg_Controller
  imports Create_Pvc
begin

text \<open>
  \<open>iboxcg/internal/controller\<close>: the controller that adds a volume to a consistency group or removes it, as a
  resource of kind \<open>Iboxcg\<close> says. A replicated group is suspended meanwhile.
\<close>

definition IboxcgBaseActionAdd :: string where "IboxcgBaseActionAdd = ''ADD''"
definition IboxcgBaseActionRemove :: string where "IboxcgBaseActionRemove = ''REMOVE''"

record IboxcgSpec =
  ics_Description :: string
  ics_LocalCGName :: string
  ics_LocalVolumeName :: string
  ics_BaseAction :: string
  ics_RemoteIboxCredentialName :: string
  ics_RemoteIboxCredentialNamespace :: string
  ics_RemoteCreatePVC :: "bool option"
  ics_RemotePVCNameSuffix :: string
  ics_RemotePVCName :: string
  ics_RemotePVCNamespace :: string
  ics_RemoteNetworkSpace :: string
  ics_RemotePoolName :: string
  ics_RemotePVCKubeconfigSecretName :: string
  ics_RemotePVCKubeconfigSecretNamespace :: string

type_synonym cg_cr = "IboxcgSpec custom_resource"
type_synonym cg_world = "IboxcgSpec CrWorld"
type_synonym 'a cg_go = "(IboxcgSpec, 'a) cr_go"

definition handleFinalizer_cg :: "cg_world \<Rightarrow> cg_cr \<Rightarrow> unit cg_go" where
  "handleFinalizer_cg w obj = handle_finalizer ''infinidat.com/iboxcg'' w obj"

definition getClientService_cg :: "Env \<Rightarrow> cg_cr \<Rightarrow> Client cg_go" where
  "getClientService_cg E cg = client_service E cg"

section \<open>Remote claims\<close>

text \<open>The remote volume has the name the replica knows it by; the local name where the group has no replica or
  the replica does not list the volume.\<close>

definition remote_volume_name :: "Replica \<Rightarrow> string \<Rightarrow> string" where
  "remote_volume_name replica localName = (case find (\<lambda>(local, remote). local = localName) (rep_EntityPairs replica) of
     None \<Rightarrow> localName | Some (_, remote) \<Rightarrow> remote)"

definition getRemoteEntities :: "Env \<Rightarrow> cg_world \<Rightarrow> Client \<Rightarrow> Client \<Rightarrow> IboxcgSpec \<Rightarrow> bool \<Rightarrow> EntityPair cg_go" where
  "getRemoteEntities E w local remote spec replicaFound =
     then_go (GetLocalPV E w (ics_LocalVolumeName spec)) (\<lambda>localPV.
     then_go (if replicaFound
              then then_go (on_party ThisIbox (GetReplicaForCG_api local (ics_LocalCGName spec))) (\<lambda>replica.
                   return_go (remote_volume_name replica (ics_LocalVolumeName spec)))
              else return_go (ics_LocalVolumeName spec)) (\<lambda>remoteVolumeName.
     then_go (on_party OtherIbox (GetVolumeByName_api remote remoteVolumeName)) (\<lambda>remoteVolume.
     return_go \<lparr>ep_LocalPV = localPV, ep_RemoteEntityID = vol_ID remoteVolume, ep_RemoteIPAddress = ''''\<rparr>)))"

definition pvc_name_cg :: "IboxcgSpec \<Rightarrow> string \<Rightarrow> string \<Rightarrow> string" where
  "pvc_name_cg spec remotePVName localPVCName =
     (if ics_RemotePVCName spec \<noteq> '''' then ics_RemotePVCName spec
      else if localPVCName = '''' then remotePVName
      else if ics_RemotePVCNameSuffix spec \<noteq> '''' then localPVCName @ ics_RemotePVCNameSuffix spec
      else localPVCName @ ''-remote'')"

text \<open>The caller only logs the error of \<open>createPVC\<close>; what it keeps is the object in memory.\<close>

definition kept :: "cg_cr \<Rightarrow> 'a cg_go \<Rightarrow> ('a \<Rightarrow> cg_cr cg_go) \<Rightarrow> cg_cr cg_go" where
  "kept cr m k = try_go m (\<lambda>_. return_go cr) k"

definition createPVC_cg :: "Env \<Rightarrow> cg_world \<Rightarrow> cg_cr \<Rightarrow> bool \<Rightarrow> cg_cr cg_go" where
  "createPVC_cg E w cr replicaFound =
     (let spec = cr_Spec cr in
      try_go (getClientService_cg E cr) (\<lambda>err. set_state w cr (err_text err)) (\<lambda>api.
      kept cr (GetIboxCredentials E (ics_RemoteIboxCredentialName spec) (ics_RemoteIboxCredentialNamespace spec)) (\<lambda>cred.
      kept cr (pure_go (NewClient E cred)) (\<lambda>remote.
      try_go (on_party ThisIbox (GetVolumeByName_api api (ics_LocalVolumeName spec))) (\<lambda>err. set_state w cr (err_text err)) (\<lambda>_.
      kept cr (getRemoteEntities E w api remote spec replicaFound) (\<lambda>pair.
      kept cr (CreateRemotePV E w remote (ep_LocalPV pair) (ep_RemoteEntityID pair) (ep_RemoteIPAddress pair) (ics_RemotePoolName spec)
        (ics_RemotePVCNameSuffix spec) (ics_RemoteNetworkSpace spec) (ics_RemoteIboxCredentialName spec)
        (ics_RemoteIboxCredentialNamespace spec) (ics_RemotePVCKubeconfigSecretName spec) (ics_RemotePVCKubeconfigSecretNamespace spec)) (\<lambda>remotePV.
      csi_source (ep_LocalPV pair) (\<lambda>csi.
      kept cr (CreateRemotePVC E w remotePV (ics_RemotePVCNamespace spec)
        (pvc_name_cg spec (kpv_Name remotePV) (lookup (kcsi_VolumeAttributes csi) ''csi.storage.k8s.io/pvc/name''))
        (ics_RemotePVCKubeconfigSecretName spec) (ics_RemotePVCKubeconfigSecretNamespace spec)) (\<lambda>_.
      return_go cr)))))))))"

section \<open>Adding and removing a member\<close>

text \<open>The replica of the group; none is no error.\<close>

definition find_replica :: "Client \<Rightarrow> string \<Rightarrow> Replica option go" where
  "find_replica api cgName = try_go (GetReplicaForCG_api api cgName)
     (\<lambda>err. if errors_is err ErrNotFound then return_go None else fail_go err) (\<lambda>replica. return_go (Some replica))"

text \<open>One second between the queries, which is not modelled. The log statement of the error branch reads
  \<open>replica.ID\<close>, and the replica is nil there.\<close>

fun wait_suspended :: "nat \<Rightarrow> Client \<Rightarrow> string \<Rightarrow> unit go" where
  "wait_suspended 0 api cgName = return_go ()"
| "wait_suspended (Suc tries) api cgName =
     try_go (GetReplicaForCG_api api cgName)
       (\<lambda>err. panic_go ''nil pointer dereference: replica.ID'')
       (\<lambda>replica. if rep_State replica = ''SUSPENDED'' then return_go () else wait_suspended tries api cgName)"

definition suspend_replica :: "Client \<Rightarrow> string \<Rightarrow> Replica option \<Rightarrow> MemberInfo list \<Rightarrow> unit go" where
  "suspend_replica api cgName found cgMembers = (case found of
     None \<Rightarrow> return_go ()
   | Some replica \<Rightarrow>
      if cgMembers = [] then return_go ()
      else then_go (SuspendReplica_api api (rep_ID replica)) (\<lambda>_. wait_suspended 20 api cgName))"

definition resume_replica :: "Client \<Rightarrow> Replica \<Rightarrow> unit go" where
  "resume_replica api replica = try_go (ResumeReplica_api api (rep_ID replica)) (\<lambda>_. return_go ()) return_go"

text \<open>What happens on the InfiniBox of the resource, when the volume is not yet a member.\<close>

definition add_to_group :: "Client \<Rightarrow> Volume \<Rightarrow> ConsistencyGroupInfo \<Rightarrow> MemberInfo list \<Rightarrow> bool go" where
  "add_to_group api localVolume localCG cgMembers =
     then_go (find_replica api (cg_Name localCG)) (\<lambda>found.
     then_go (suspend_replica api (cg_Name localCG) found cgMembers) (\<lambda>_.
     then_go (AddMemberToCG_api api (vol_ID localVolume) (cg_ID localCG) (vol_Name localVolume)) (\<lambda>_.
     then_go (case found of None \<Rightarrow> return_go () | Some replica \<Rightarrow>
                if cgMembers = [] then return_go () else resume_replica api replica) (\<lambda>_.
     return_go (found \<noteq> None)))))"

definition handleAddMember :: "Env \<Rightarrow> cg_world \<Rightarrow> cg_cr \<Rightarrow> Volume \<Rightarrow> ConsistencyGroupInfo \<Rightarrow> Client \<Rightarrow> MemberInfo list
    \<Rightarrow> cg_cr cg_go" where
  "handleAddMember E w cr localVolume localCG api cgMembers =
     (if list_ex (\<lambda>m. mem_Name m = ics_LocalVolumeName (cr_Spec cr)) cgMembers then return_go cr
      else then_go (on_party ThisIbox (add_to_group api localVolume localCG cgMembers)) (\<lambda>replicaFound.
      case ics_RemoteCreatePVC (cr_Spec cr) of
        None \<Rightarrow> return_go cr
      | Some create \<Rightarrow> if create then createPVC_cg E w cr replicaFound else return_go cr))"

text \<open>An error of the removal is logged, and the group resumed.\<close>

definition handleRemoveMember :: "IboxcgSpec \<Rightarrow> Volume \<Rightarrow> ConsistencyGroupInfo \<Rightarrow> Client \<Rightarrow> MemberInfo list \<Rightarrow> unit go" where
  "handleRemoveMember spec localVolume localCG api cgMembers =
     (if \<not> list_ex (\<lambda>m. mem_Name m = ics_LocalVolumeName spec) cgMembers then return_go ()
      else then_go (find_replica api (cg_Name localCG)) (\<lambda>found.
      then_go (suspend_replica api (cg_Name localCG) found cgMembers) (\<lambda>_.
      then_go (try_go (RemoveMemberFromCG_api api (cg_ID localCG) (vol_ID localVolume)) (\<lambda>_. return_go ()) return_go) (\<lambda>_.
      case found of None \<Rightarrow> return_go () | Some replica \<Rightarrow> resume_replica api replica))))"

section \<open>Reconcile\<close>

text \<open>The action on the members; the object in memory after it.\<close>

definition change_members :: "Env \<Rightarrow> cg_world \<Rightarrow> cg_cr \<Rightarrow> Volume \<Rightarrow> ConsistencyGroupInfo \<Rightarrow> Client \<Rightarrow> MemberInfo list \<Rightarrow> cg_cr cg_go" where
  "change_members E w cr localVolume localCG api cgMembers =
     (let action = ics_BaseAction (cr_Spec cr) in
      if action = IboxcgBaseActionAdd
      then or_state w cr (handleAddMember E w cr localVolume localCG api cgMembers) return_go
      else if action = IboxcgBaseActionRemove
      then or_state w cr (on_party ThisIbox (handleRemoveMember (cr_Spec cr) localVolume localCG api cgMembers)) (\<lambda>_. return_go cr)
      else fail_state w cr (Errors_New (''error invalid base action in CR '' @ action)))"

definition with_default_action :: "cg_cr \<Rightarrow> cg_cr" where
  "with_default_action cr = (if ics_BaseAction (cr_Spec cr) = ''''
     then cr\<lparr>cr_Spec := (cr_Spec cr)\<lparr>ics_BaseAction := IboxcgBaseActionAdd\<rparr>\<rparr> else cr)"

definition handleNewCR :: "Env \<Rightarrow> cg_world \<Rightarrow> cg_cr \<Rightarrow> unit cg_go" where
  "handleNewCR E w cr0 =
     or_state w cr0 (refetch w cr0) (\<lambda>cr.
     if st_State (cr_Status cr) = ''completed'' then return_go ()
     else or_state w cr (getClientService_cg E cr) (\<lambda>api.
     or_state w cr (on_party ThisIbox (GetVolumeByName_api api (ics_LocalVolumeName (cr_Spec cr)))) (\<lambda>localVolume.
     or_state w cr (on_party ThisIbox (GetConsistencyGroupByName_api api (ics_LocalCGName (cr_Spec cr)))) (\<lambda>localCG.
     then_go (on_party ThisIbox (GetMembersByCGID_api api (cg_ID localCG))) (\<lambda>cgMembers.
     then_go (change_members E w (with_default_action cr) localVolume localCG api cgMembers) (\<lambda>cr'.
     or_state w cr' (refetch w cr') (\<lambda>stored.
     then_go (StatusUpdate_cr w (stored\<lparr>cr_Status := \<lparr>st_State = ''created'', st_ID = 13\<rparr>\<rparr>)) (\<lambda>_.
     return_go ()))))))))"

definition updateIboxcgState :: "cg_world \<Rightarrow> cg_cr \<Rightarrow> unit cg_go" where
  "updateIboxcgState w cg =
     then_go (refetch w cg) (\<lambda>stored.
     then_go (StatusUpdate_cr w (stored\<lparr>cr_Status := (cr_Status stored)\<lparr>st_State := ''completed''\<rparr>\<rparr>)) (\<lambda>_.
     return_go ()))"

text \<open>A deleted resource has no effect on the group.\<close>

definition Reconcile_cg :: "Env \<Rightarrow> cg_world \<Rightarrow> string \<Rightarrow> string \<Rightarrow> unit cg_go" where
  "Reconcile_cg E w name namespace =
     reconcile (handleFinalizer_cg w) (\<lambda>_. return_go ()) (handleNewCR E w) (updateIboxcgState w) w name namespace"

end
