(* ===== verification/Promote_Controller.thy ===== *)
theory Promote_Controller
  imports Create_Pvc
begin

text \<open>
  \<open>iboxpromote/internal/controller\<close>: the controller that promotes a snapshot to a volume of its own, as a resource of kind
  \<open>Iboxpromote\<close> says.
\<close>

definition IboxpromoteBaseActionNew :: string where "IboxpromoteBaseActionNew = ''NEW''"

record IboxpromoteSpec =
  ips_Description :: string
  ips_EntityType :: string
  ips_EntityName :: string
  ips_EntityNamespace :: string
  ips_BaseAction :: string

type_synonym promote_cr = "IboxpromoteSpec custom_resource"
type_synonym promote_world = "IboxpromoteSpec CrWorld"
type_synonym 'a promote_go = "(IboxpromoteSpec, 'a) cr_go"

definition handleFinalizer_promote :: "promote_world \<Rightarrow> promote_cr \<Rightarrow> unit promote_go" where
  "handleFinalizer_promote w obj = handle_finalizer ''infinidat.com/iboxpromote'' w obj"

definition getClientService_promote :: "Env \<Rightarrow> promote_cr \<Rightarrow> Client promote_go" where
  "getClientService_promote E promote = client_service E promote"

text \<open>The number in front of the \<open>$$\<close> of a snapshot handle.\<close>

definition handle_volume_id :: "string \<Rightarrow> int res" where
  "handle_volume_id handle = (case Split handle ''$$'' of
     [volumeIDString, _] \<Rightarrow> (case Atoi volumeIDString of
        None \<Rightarrow> Err (Errors_New (''error volumeID incorrect integer conversion '' @ volumeIDString)) | Some i \<Rightarrow> Ok i)
   | _ \<Rightarrow> Err (Errors_New ''error snapshot Handle is not formatted correctly''))"

text \<open>The status of the snapshot, and that of its content, are pointers that are read without a check.\<close>

definition lookupEntityByVolumeSnapshotName :: "promote_world \<Rightarrow> promote_cr \<Rightarrow> Client \<Rightarrow> Volume promote_go" where
  "lookupEntityByVolumeSnapshotName w promote api =
     (case w_InClusterConfig w of
        Inl e \<Rightarrow> fail_go (Errors_New (''unable to load in-cluster config: '' @ err_text e))
      | Inr _ \<Rightarrow>
         let ns = ips_EntityNamespace (cr_Spec promote); name = ips_EntityName (cr_Spec promote) in
         then_go (invoke (Snapshot_Get ns name) (\<lambda>h. w_GetSnapshot w h ns name)) (\<lambda>volumeSnapshot.
         case vs_Status volumeSnapshot of
           None \<Rightarrow> panic_go ''nil pointer dereference: volumeSnapshot.Status''
         | Some None \<Rightarrow> fail_go (Errors_New ''error volumeSnapshotContentName is nil'')
         | Some (Some vscName) \<Rightarrow>
            then_go (invoke (SnapshotContent_Get vscName) (\<lambda>h. w_GetSnapshotContent w h vscName)) (\<lambda>content.
            case vs_Status content of
              None \<Rightarrow> panic_go ''nil pointer dereference: volumeSnapshotContent.Status''
            | Some None \<Rightarrow> fail_go (Errors_New ''error volumeSnapshotContentName snapshotHandle is nil'')
            | Some (Some snapshotHandle) \<Rightarrow>
               then_go (pure_go (handle_volume_id snapshotHandle)) (\<lambda>volumeID.
               on_party ThisIbox (GetVolume_api api volumeID)))))"

definition promoted_volume :: "promote_world \<Rightarrow> promote_cr \<Rightarrow> Client \<Rightarrow> Volume promote_go" where
  "promoted_volume w promote api =
     (let kind = ips_EntityType (cr_Spec promote) in
      if kind = ''KUBE_SNAPSHOT'' then or_state w promote (lookupEntityByVolumeSnapshotName w promote api) return_go
      else if kind = ''SNAPSHOT''
      then or_state w promote (on_party ThisIbox (GetVolumeByName_api api (ips_EntityName (cr_Spec promote)))) return_go
      else fail_state w promote (Errors_New (''error getting entity type, unknown entity type in the CR '' @ kind)))"

text \<open>From the type of the volume on.\<close>

definition promote_unless_master :: "promote_world \<Rightarrow> promote_cr \<Rightarrow> Client \<Rightarrow> Volume \<Rightarrow> unit promote_go" where
  "promote_unless_master w promote api volume =
     (if vol_Type volume = ''MASTER'' then return_go ()
      else or_state w promote (on_party ThisIbox (PromoteSnapshot_api api (vol_ID volume))) (\<lambda>response.
      or_state w promote (refetch w promote) (\<lambda>stored.
      then_go (StatusUpdate_cr w (stored\<lparr>cr_Status := \<lparr>st_State = ''created'', st_ID = vol_ID response\<rparr>\<rparr>)) (\<lambda>_.
      return_go ()))))"

definition createPromote :: "Env \<Rightarrow> promote_world \<Rightarrow> promote_cr \<Rightarrow> unit promote_go" where
  "createPromote E w cr =
     (let promote = (if ips_BaseAction (cr_Spec cr) = ''''
            then cr\<lparr>cr_Spec := (cr_Spec cr)\<lparr>ips_BaseAction := IboxpromoteBaseActionNew\<rparr>\<rparr> else cr) in
      if ips_BaseAction (cr_Spec promote) \<noteq> IboxpromoteBaseActionNew
      then fail_state w promote (Errors_New (''error invalid base action in CR '' @ ips_BaseAction (cr_Spec promote)))
      else or_state w promote (getClientService_promote E promote) (\<lambda>api.
      then_go (promoted_volume w promote api) (promote_unless_master w promote api)))"

definition updateIboxpromoteState :: "promote_world \<Rightarrow> promote_cr \<Rightarrow> unit promote_go" where
  "updateIboxpromoteState w promote =
     then_go (refetch w promote) (\<lambda>stored.
     then_go (StatusUpdate_cr w (stored\<lparr>cr_Status := (cr_Status stored)\<lparr>st_State := ''completed''\<rparr>\<rparr>)) (\<lambda>_.
     return_go ()))"

definition Reconcile_promote :: "Env \<Rightarrow> promote_world \<Rightarrow> string \<Rightarrow> string \<Rightarrow> unit promote_go" where
  "Reconcile_promote E w name namespace =
     reconcile (handleFinalizer_promote w) (\<lambda>_. return_go ()) (createPromote E w) (updateIboxpromoteState w) w name namespace"

end
