(* ===== verification/Nfs_Props.thy ===== *)
theory Nfs_Props
  imports Nfs_Storage
begin

text \<open>What the NFS operations guarantee.\<close>

section \<open>Deleting file systems\<close>

text \<open>When a file system may be deleted: its children were listed before and there were none, and
  its metadata was removed just before.\<close>

definition childless :: "Client \<Rightarrow> call list \<Rightarrow> int \<Rightarrow> bool" where
  "childless c h i \<longleftrightarrow> (\<exists>h0 h1. h = h0 @ C_GetFileSystemsByParentID i # h1 \<and> r_GetFileSystemsByParentID c h0 i = Inr [])"

lemma childless_append: "childless c h i \<Longrightarrow> childless c (h @ t) i"
  by (force simp: childless_def)

lemma childless_now: "r_GetFileSystemsByParentID c h i = Inr [] \<Longrightarrow> childless c (h @ C_GetFileSystemsByParentID i # t) i"
  by (auto simp: childless_def)

lemma childless_run: "GetFileSystemsByParentID_api c i h = (Ok [], t) \<Longrightarrow> childless c (h @ t) i"
  by (auto simp: run_defs childless_def split: sum.splits)

definition may_delete_fs :: "Client \<Rightarrow> call list \<Rightarrow> call \<Rightarrow> bool" where

  "may_delete_fs c h x = (case x of
     C_DeleteFileSystem i \<Rightarrow> childless c h i \<and> (\<exists>h0. h = h0 @ [C_DeleteMetadata i]) | _ \<Rightarrow> True)"

lemma may_delete_fs_simps [simp]:
  "may_delete_fs c h (C_GetExportsByFileSystemID i)" "may_delete_fs c h (C_DeleteExport i)"
  "may_delete_fs c h (C_DeleteMetadata i)" "may_delete_fs c h (C_GetMetadata i)"
  "may_delete_fs c h (C_GetFileSystemsByParentID i)" "may_delete_fs c h (C_GetFileSystemByID i)"
  "may_delete_fs c h (C_PutMetadata i m)"
  by (simp_all add: may_delete_fs_def)

lemma wp_delete_exports:
  "wp (delete_exports c exports) h (\<lambda>r t. \<forall>x \<in> set t. \<exists>i. x = C_DeleteExport i)"
  unfolding delete_exports_def by (rule wp_only) (intro only_intros; auto)

lemma each_call_exports:
  "\<forall>x \<in> set t. \<exists>i. x = C_DeleteExport i \<Longrightarrow> each_call (may_delete_fs c) h t"
  by (induction t arbitrary: h) auto

lemma delete_metadata_and_fs_allowed:
  "childless c h i \<Longrightarrow> wp (delete_metadata_and_fs c i) h (\<lambda>r t. each_call (may_delete_fs c) h t)"
  by (auto simp: delete_metadata_and_fs_def wp_simps may_delete_fs_def intro: childless_append)

lemma delete_exports_allowed: "wp (delete_exports c exports) h (\<lambda>r t. each_call (may_delete_fs c) h t)"
  by (rule wp_mono [OF wp_delete_exports]) (rule each_call_exports)

lemma DeleteFileSystemComplete_allowed:
  assumes "childless c h i"
  shows "wp (DeleteFileSystemComplete c i) h (\<lambda>r t. each_call (may_delete_fs c) h t)"
  unfolding DeleteFileSystemComplete_def
  by (intro wp_each_then delete_exports_allowed delete_metadata_and_fs_allowed childless_append assms)
    (simp add: wp_simps)

lemma DeleteParentFileSystem_allowed:
  "wp (DeleteParentFileSystem depth c i) h (\<lambda>r t. each_call (may_delete_fs c) h t)"
proof (induction depth arbitrary: i h)
  case 0
  show ?case by (simp add: wp_def calls_of_def)
next
  case (Suc depth)
  have rec: "wp (if fs_ParentID fsys \<noteq> 0 then DeleteParentFileSystem depth c (fs_ParentID fsys) else return_go ()) g
      (\<lambda>r t. each_call (may_delete_fs c) g t)" for fsys g
    by (simp add: wp_simps Suc.IH)
  have delete: "wp (then_go (GetFileSystemByID_api c i) (\<lambda>fsys. then_go (DeleteFileSystemComplete c i)
       (\<lambda>_. if fs_ParentID fsys \<noteq> 0 then DeleteParentFileSystem depth c (fs_ParentID fsys) else return_go ()))) g
      (\<lambda>r t. each_call (may_delete_fs c) g t)" if "childless c g i" for g
    by (intro wp_each_then DeleteFileSystemComplete_allowed childless_append that rec) (simp add: wp_simps)
  show ?case
    unfolding DeleteParentFileSystem.simps Let_def
  proof (rule wp_each_then [OF _ wp_each_then [OF _ wp_each_if]])
    fix metas :: "GetMetadataResult list" and t childs t'
    assume "GetFileSystemsByParentID_api c i (h @ t) = (Ok childs, t')" "childs = [] \<and> list_ex (\<lambda>m. md_Key m = TOBEDELETED) metas"
    then show "wp (then_go (GetFileSystemByID_api c i) (\<lambda>fsys. then_go (DeleteFileSystemComplete c i)
       (\<lambda>_. if fs_ParentID fsys \<noteq> 0 then DeleteParentFileSystem depth c (fs_ParentID fsys) else return_go ())))
       ((h @ t) @ t') (\<lambda>r s. each_call (may_delete_fs c) ((h @ t) @ t') s)"
      by (intro delete childless_run) simp_all
  qed (simp_all add: wp_simps)
qed

lemma DeleteNFSVolume_allowed:
  "wp (DeleteNFSVolume E nfs) h (\<lambda>r t. each_call (may_delete_fs (nfs_ibox nfs)) h t)"
  unfolding DeleteNFSVolume_def or_impl_def
proof (intro wp_each_try wp_each_if DeleteFileSystemComplete_allowed DeleteParentFileSystem_allowed)
  fix fsys t childs t'
  assume "GetFileSystemsByParentID_api (nfs_ibox nfs) (nfs_UniqueID nfs) (h @ t) = (Ok childs, t')" "\<not> childs \<noteq> []"
  then show "childless (nfs_ibox nfs) ((h @ t) @ t') (nfs_UniqueID nfs)" by (intro childless_run) simp
qed (simp_all add: wp_simps)

lemma delete_or_gone_allowed:
  "wp (delete_or_gone E nfs) h (\<lambda>r t. each_call (may_delete_fs (nfs_ibox nfs)) h t)"
  unfolding delete_or_gone_def
  by (rule wp_each_try [OF DeleteNFSVolume_allowed]) (simp_all add: wp_simps)

text \<open>C26: A file system is deleted by \<open>DeleteVolume\<close> (nfs), the volume itself or an ancestor, only
  when the InfiniBox has answered before, in the same operation, that it has no child, and right
  after its metadata was removed.\<close>

theorem nfs_delete_safe:
  "each_call (may_delete_fs (nfs_ibox nfs)) h (calls_of (DeleteVolume_nfs E nfs h))"
  using delete_or_gone_allowed [of E "nfs\<lparr>nfs_UniqueID := vpc_VolumeID (cs_VolProto (nfs_CS nfs))\<rparr>" h]
  by (simp add: DeleteVolume_nfs_def wp_def)

text \<open>The stack is deep enough when it is deeper than the chain of parents.\<close>

definition ranked_filesystems :: "Client \<Rightarrow> (int \<Rightarrow> nat) \<Rightarrow> bool" where
  "ranked_filesystems c rank \<longleftrightarrow> (\<forall>h i fsys. r_GetFileSystemByID c h i = Inr fsys \<longrightarrow> fs_ParentID fsys \<noteq> 0
     \<longrightarrow> rank (fs_ParentID fsys) < rank i)"

lemma DeleteFileSystemComplete_safe [safe_intros]: "safe (DeleteFileSystemComplete c i)"
  unfolding DeleteFileSystemComplete_def delete_exports_def delete_metadata_and_fs_def
  by (intro safe_intros)

lemma GetFileSystemByID_answer:
  "GetFileSystemByID_api c i h = (Ok fsys, t) \<Longrightarrow> r_GetFileSystemByID c h i = Inr fsys"
  by (auto simp: run_defs split: sum.splits)

lemma DeleteParentFileSystem_safe:
  assumes "ranked_filesystems c rank" and "rank i < depth"
  shows "safe (DeleteParentFileSystem depth c i)"
  using assms(2)
proof (induction depth arbitrary: i)
  case 0
  then show ?case by simp
next
  case (Suc depth)
  have "safe (DeleteParentFileSystem depth c (fs_ParentID fsys))"
    if "GetFileSystemByID_api c i h = (Ok fsys, t)" "fs_ParentID fsys \<noteq> 0" for fsys h t
    using Suc assms(1) that by (fastforce simp: ranked_filesystems_def dest: GetFileSystemByID_answer)
  then show ?case
    unfolding DeleteParentFileSystem.simps Let_def by (intro safe_intros) auto
qed

text \<open>\<open>DeleteVolume\<close> (nfs) returns a value or an error, never a panic or a stack overflow, when the
  parents of file systems form chains shorter than the stack.\<close>

theorem nfs_delete_total:
  assumes "ranked_filesystems (nfs_ibox nfs) rank" and "\<And>i. rank i < stack_depth E"
  shows "result_of (DeleteVolume_nfs E nfs h) \<noteq> Crash x"
proof -
  have parent: "safe (DeleteParentFileSystem (stack_depth E) (nfs_ibox nfs) i)" for i
    using assms by (rule DeleteParentFileSystem_safe)
  have "safe (DeleteNFSVolume E (nfs\<lparr>nfs_UniqueID := u\<rparr>))" for u
    unfolding DeleteNFSVolume_def by (intro safe_intros) (simp add: parent)
  then show ?thesis
    unfolding DeleteVolume_nfs_def delete_or_gone_def by (intro safe_result safe_intros)
qed

theorem nfs_delete_total_witness:
  "result_of (DeleteVolume_nfs stocked_env (NewNFSstorage 1073741824 (sample_cs stocked_ibox)) []) \<noteq> Crash OutOfFuel"
  by (rule nfs_delete_total [of _ "\<lambda>_. 0"])
    (simp_all add: ranked_filesystems_def NewNFSstorage_def sample_cs_def stocked_defs zero_FileSystem_def)

section \<open>CreateVolume\<close>

text \<open>The file systems that the InfiniBox created for the calls \<open>t\<close>, made after \<open>h\<close>.\<close>

fun created_fs :: "Client \<Rightarrow> call list \<Rightarrow> call list \<Rightarrow> int list" where
  "created_fs c h [] = []"
| "created_fs c h (x # t) = (case x of
     C_CreateFileSystem q \<Rightarrow> (case r_CreateFileSystem c h q of Inr fsys \<Rightarrow> [fs_ID fsys] | Inl e \<Rightarrow> [])
   | C_CreateFileSystemSnapshot q \<Rightarrow>
       (case r_CreateFileSystemSnapshot c h q of Inr resp \<Rightarrow> [fsr_SnapshotID resp] | Inl e \<Rightarrow> [])
   | _ \<Rightarrow> []) @ created_fs c (h @ [x]) t"

lemma created_fs_append [simp]:
  "created_fs c h (s @ t) = created_fs c h s @ created_fs c (h @ s) t"
  by (induction s arbitrary: h) auto

definition creates_fs :: "call \<Rightarrow> bool" where
  "creates_fs x \<longleftrightarrow> (\<exists>q. x = C_CreateFileSystem q) \<or> (\<exists>q. x = C_CreateFileSystemSnapshot q)"

lemma created_fs_none: "\<forall>x \<in> set t. \<not> creates_fs x \<Longrightarrow> created_fs c h t = []"
  by (induction t arbitrary: h) (auto simp: creates_fs_def split: call.splits)

text \<open>What a creation did with the new file systems: on an error all are deleted again, on success
  none, and the answer names the new file system.\<close>

definition no_leak :: "Client \<Rightarrow> call list \<Rightarrow> CsiVolume res \<Rightarrow> call list \<Rightarrow> bool" where
  "no_leak c h r t \<longleftrightarrow> (\<forall>x. r \<noteq> Crash x) \<and> (\<forall>i \<in> set (created_fs c h t).
     (\<forall>e. r = Err e \<longrightarrow> i = 0 \<or> C_DeleteFileSystem i \<in> set t) \<and>
     (\<forall>v. r = Ok v \<longrightarrow> C_DeleteFileSystem i \<notin> set t \<and> csi_VolumeId v = Itoa i))"

lemma getPermissionMaps_no_crash [simp]: "getPermissionMaps E p \<noteq> Crash x"
  by (simp add: getPermissionMaps_def split: option.splits)

lemma CreateExportPathAndAddMetadata_spec:
  "wp (CreateExportPathAndAddMetadata E nfs) h (\<lambda>r t. (\<forall>x. r \<noteq> Crash x) \<and> (\<forall>x \<in> set t. \<not> creates_fs x) \<and>
     (\<forall>e. r = Err e \<longrightarrow> nfs_FileSystemID nfs = 0 \<or> C_DeleteFileSystem (nfs_FileSystemID nfs) \<in> set t) \<and>
     (\<forall>n. r = Ok n \<longrightarrow> (\<forall>i. C_DeleteFileSystem i \<notin> set t) \<and> nfs_FileSystemID n = nfs_FileSystemID nfs))"
  by (auto simp: CreateExportPathAndAddMetadata_def createExportPath_def revert_export_def
    revert_filesystem_def GetCreatedBy_def getClusterVersion_def wp_simps creates_fs_def split: res.splits)

lemma provtype_of_no_crash [simp]: "provtype_of ps \<noteq> Crash x"
  by (simp add: provtype_of_def Let_def)

lemma DetermineSSDValue_no_crash [simp]: "DetermineSSDValue s pool \<noteq> Crash x"
  by (simp add: DetermineSSDValue_def split: option.splits)

lemma ValidateVolumeID_no_crash [simp]: "ValidateVolumeID s \<noteq> Crash x"
  by (auto simp: ValidateVolumeID_def Let_def split: option.splits if_splits)

definition leak_free :: "Client \<Rightarrow> CsiVolume go \<Rightarrow> bool" where
  "leak_free c m \<longleftrightarrow> (\<forall>h. wp m h (no_leak c h))"

lemma CreateNFSVolume_no_leak: "leak_free (nfs_ibox nfs) (CreateNFSVolume E nfs req)"
  unfolding leak_free_def CreateNFSVolume_def CreateFileSystem_nfs_def Let_def
  by (auto simp: wp_simps no_leak_def created_fs_none getNfsCsiResponse_def
      intro!: wp_mono [OF CreateExportPathAndAddMetadata_spec] split: res.splits)

lemma createVolumeFromPVCSource_no_leak:
  "leak_free (nfs_ibox nfs) (createVolumeFromPVCSource E nfs req sz pool source)"
  unfolding leak_free_def createVolumeFromPVCSource_def
  by (auto simp: wp_simps no_leak_def created_fs_none getNfsCsiResponse_def
      intro!: wp_mono [OF CreateExportPathAndAddMetadata_spec] split: res.splits)

lemma no_leak_prefix:
  assumes "no_leak c (h @ s) r t" and "\<forall>x \<in> set s. \<not> mutating x"
  shows "no_leak c h r (s @ t)"
proof -
  have "\<forall>x \<in> set s. \<not> creates_fs x" "\<And>i. C_DeleteFileSystem i \<notin> set s"
    using assms(2) by (auto simp: creates_fs_def)
  with assms(1) show ?thesis by (auto simp: no_leak_def created_fs_none)
qed

lemma leak_free_basic:
  shows leak_free_return: "leak_free c (return_go v)"
    and leak_free_fail: "leak_free c (fail_go e)"
  by (simp_all add: leak_free_def wp_simps no_leak_def)

lemma leak_free_try:
  assumes "only (\<lambda>x. \<not> mutating x) m" and "safe m" and "\<And>e. leak_free c (on_err e)"
    and "\<And>a. leak_free c (k a)"
  shows "leak_free c (try_go m on_err k)"
  unfolding leak_free_def
proof (intro allI)
  fix h
  have read: "wp m h (\<lambda>r t. (\<forall>x \<in> set t. \<not> mutating x) \<and> (\<forall>x. r \<noteq> Crash x))"
    using assms(1,2) by (simp add: wp_def only_def safe_result)
  have rest: "wp n (h @ t) (\<lambda>r t'. no_leak c h r (t @ t'))" if "leak_free c n" "\<forall>x \<in> set t. \<not> mutating x" for n t
    using that by (auto simp: leak_free_def wp_def intro: no_leak_prefix)
  show "wp (try_go m on_err k) h (no_leak c h)"
    by (rule wp_try_rule [OF read]) (use assms(3,4) rest in auto)
qed

lemma leak_free_then:
  "only (\<lambda>x. \<not> mutating x) m \<Longrightarrow> safe m \<Longrightarrow> (\<And>a. leak_free c (k a)) \<Longrightarrow> leak_free c (then_go m k)"
  by (simp add: then_go_def leak_free_try leak_free_fail)

lemma leak_free_or_impl: "leak_free c m \<Longrightarrow> leak_free c (or_impl m return_go)"
  unfolding leak_free_def wp_or_impl wp_return
  by (intro allI, rule wp_mono, erule spec) (auto simp: no_leak_def split: res.splits)

lemma leak_free_if:
  "(b \<Longrightarrow> leak_free c m) \<Longrightarrow> (\<not> b \<Longrightarrow> leak_free c n) \<Longrightarrow> leak_free c (if b then m else n)"
  by simp

lemmas leak_free_intros = leak_free_basic leak_free_then leak_free_try

lemma GetNetworkSpaceIP_reads: "only (\<lambda>x. \<not> mutating x) (GetNetworkSpaceIP E cs n)" "safe (GetNetworkSpaceIP E cs n)"
  unfolding only_wp safe_def by (auto simp: GetNetworkSpaceIP_def wp_simps run_defs wp_def calls_of_def split: go_splits)

text \<open>C25: \<open>CreateVolume\<close> (nfs) leaks no file system and does not panic: when it returns an error, every
  file system or clone that it created was deleted again, and when it succeeds, the one it created
  is kept and is the one the answer names.\<close>

theorem nfs_create_no_leak: "wp (CreateVolume_nfs E nfs req) h (no_leak (nfs_ibox nfs) h)"
proof -
  let ?c = "nfs_ibox nfs"
  have create: "leak_free ?c (or_impl (CreateNFSVolume E nfs1 req) return_go)" if "nfs_CS nfs1 = nfs_CS nfs" for nfs1
    using CreateNFSVolume_no_leak [of nfs1] that by (simp add: leak_free_or_impl)
  have clone: "leak_free ?c (or_impl (createVolumeFromPVCSource E nfs1 req sz pool source) return_go)"
    if "nfs_CS nfs1 = nfs_CS nfs" for nfs1 sz pool source
    using createVolumeFromPVCSource_no_leak [of nfs1] that by (simp add: leak_free_or_impl)
  have existing: "leak_free ?c (existing_filesystem nfs1 req fsys)" if "nfs_CS nfs1 = nfs_CS nfs" for nfs1 fsys
    unfolding existing_filesystem_def or_impl_def Let_def
    by (intro leak_free_try leak_free_if leak_free_basic only_intros safe_intros) simp_all
  have "leak_free ?c (CreateVolume_nfs E nfs req)"
    unfolding CreateVolume_nfs_def Let_def impl_of_def
    by (intro leak_free_then leak_free_try leak_free_if leak_free_basic GetNetworkSpaceIP_reads existing
        only_intros safe_intros) (auto simp: create clone split: option.splits VolumeContentSource.splits)
  then show ?thesis by (simp add: leak_free_def)
qed

text \<open>When a file system with the name of the request exists, \<open>CreateVolume\<close> (nfs) changes nothing:
  it answers with that file system when its size is the requested one, and with \<open>AlreadyExists\<close>
  otherwise.\<close>

theorem nfs_create_idempotent:
  assumes "\<not> wants_block req" and "r_GetNetworkSpaceByName (nfs_ibox nfs) (h @ [C_GetSystem])
      (TrimBlank (lookup (req_Parameters req) StorageClassNetworkSpace)) = Inr ns" and "ns_Portals ns \<noteq> []"
    and "r_GetFileSystemByName (nfs_ibox nfs) (h @ [C_GetSystem,
      C_GetNetworkSpaceByName (TrimBlank (lookup (req_Parameters req) StorageClassNetworkSpace))])
      (req_Name req) = Inr fsys"
    and "\<And>g. r_GetExportsByFileSystemID (nfs_ibox nfs) g (fs_ID fsys) = Inr exports"
  shows "wp (CreateVolume_nfs E nfs req) h (\<lambda>r t. (\<forall>c \<in> set t. \<not> mutating c) \<and>
    (if fs_Size fsys = nfs_Capacity nfs
     then \<exists>v. r = Ok v \<and> csi_VolumeId v = Itoa (fs_ID fsys) \<and> csi_CapacityBytes v = fs_Size fsys
     else \<exists>msg. r = Err (ImplementationError AlreadyExists msg)))"
  using assms
  by (auto simp: CreateVolume_nfs_def Let_def wp_simps GetNetworkSpaceIP_def existing_filesystem_def
      getNfsCsiResponse_def split: list.splits)

theorem nfs_create_idempotent_witness:
  "list_all (\<lambda>c. \<not> mutating c) (calls_of (CreateVolume_nfs stocked_env (NewNFSstorage 1073741824 (sample_cs
     (stocked_ibox\<lparr>r_GetFileSystemByName := (\<lambda>h _. Inr sample_fs)\<rparr>))) (sample_create\<lparr>req_VolumeCapabilities := None\<rparr>) []))"
  using nfs_create_idempotent [of "sample_create\<lparr>req_VolumeCapabilities := None\<rparr>" "NewNFSstorage 1073741824 (sample_cs
      (stocked_ibox\<lparr>r_GetFileSystemByName := (\<lambda>h _. Inr sample_fs)\<rparr>))" "[]" sample_space sample_fs "[]" stocked_env]
  by (simp add: wants_block_def NewNFSstorage_def sample_cs_def stocked_defs wp_def list_all_iff)

section \<open>Export rules\<close>

definition sends_rules :: "call \<Rightarrow> bool" where
  "sends_rules x = (case x of C_UpdateExportPermissions export q \<Rightarrow> epr_Permissions q \<noteq> [] | _ \<Rightarrow> True)"

lemma DeleteNodeFromExport_sends: "only sends_rules (DeleteNodeFromExport c export ip)"
  unfolding DeleteNodeFromExport_def Let_def by (intro only_intros) (simp add: sends_rules_def)

lemma delete_rules_sends: "only sends_rules (delete_rules c ip steps i export)"
  by (induction steps arbitrary: i export) (auto intro!: only_intros DeleteNodeFromExport_sends)

text \<open>Removing a node from the rules of an export never sends an empty rule list (which would
  leave the export without access rules): the last rule is replaced by the default one.\<close>

theorem export_rules_never_empty: "only sends_rules (DeleteExportRule c fileSystemID ipAddress)"
  unfolding DeleteExportRule_def by (intro only_intros delete_rules_sends) (simp add: sends_rules_def)



text \<open>Publishing an NFS volume adds one rule for the node behind the existing rules of the export,
  unless a rule already covers the node's address or is the wildcard: then nothing is sent.\<close>

theorem AddNodeInExport_calls:
  assumes "r_GetExportByID c h exportID = Inr export"
  shows "calls_of (AddNodeInExport E c exportID access noRootSquash ip h) =
    C_GetExportByID exportID #
    (if \<exists>p \<in> set (exp_Permissions export). compareClientIP E (perm_Client p) ip \<or> perm_Client p = ''*''
     then [] else [C_UpdateExportPermissions export \<lparr>epr_Permissions = exp_Permissions export @
       [\<lparr>perm_Access = access, perm_NoRootSquash = noRootSquash, perm_Client = ip\<rparr>]\<rparr>])"
proof -
  have "list_ex (\<lambda>p. compareClientIP E (perm_Client p) ip \<or> \<not> compareClientIP E (perm_Client p) ip \<and> perm_Client p = ''*'') (exp_Permissions export)
    \<longleftrightarrow> (\<exists>p \<in> set (exp_Permissions export). compareClientIP E (perm_Client p) ip \<or> perm_Client p = ''*'')"
    by (auto simp: list_ex_iff)
  then show ?thesis
    using assms by (auto simp: AddNodeInExport_def Let_def run_defs calls_of_def split: sum.splits)
qed

theorem AddNodeInExport_calls_witness:
  "calls_of (AddNodeInExport stocked_env stocked_ibox 4 ''RW'' True ''10.0.0.9'' []) =
    [C_GetExportByID 4, C_UpdateExportPermissions sample_export
       \<lparr>epr_Permissions = [\<lparr>perm_Access = ''RW'', perm_NoRootSquash = True, perm_Client = ''10.0.0.9''\<rparr>]\<rparr>]"
  using AddNodeInExport_calls [of stocked_ibox "[]" 4 sample_export stocked_env "''RW''" True "''10.0.0.9''"]
  by (simp add: stocked_defs)

lemma delete_rules_absent:
  "\<forall>p \<in> set (exp_Permissions export). perm_Client p \<noteq> ip \<Longrightarrow> delete_rules c ip steps i export = return_go ()"
  by (induction steps arbitrary: i) auto

lemma for_go_nothing: "(\<And>x. x \<in> set xs \<Longrightarrow> body x = return_go None) \<Longrightarrow> for_go xs body = return_go None"
  by (induction xs) (auto simp: fun_eq_iff run_then)

text \<open>C30: The rule of a node is not removed when the volume is unpublished: the code compares the
  clients of the rules, which are addresses without a dollar sign, with the whole node id
  \<open>name$$address\<close>. No rule is changed.\<close>

theorem nfs_unpublish_keeps_rules:
  assumes "r_GetExportsByFileSystemID (nfs_ibox nfs) h (vpc_VolumeID (cs_VolProto (nfs_CS nfs))) = Inr exports"
    and "\<forall>export \<in> set exports. \<forall>p \<in> set (exp_Permissions export). CHR ''$'' \<notin> set (perm_Client p)"
    and "vpc_NodeID (cs_VolProto (nfs_CS nfs)) = name @ ''$$'' @ address"
  shows "ControllerUnpublishVolume_nfs nfs h =
    (Ok (), [C_GetExportsByFileSystemID (vpc_VolumeID (cs_VolProto (nfs_CS nfs)))])"
proof -
  have "delete_rules (nfs_ibox nfs) (name @ ''$$'' @ address) (length (exp_Permissions export)) 0 export = return_go ()"
    if "export \<in> set exports" for export
    using assms(2) that by (intro delete_rules_absent) fastforce
  then have "for_go exports (\<lambda>export. then_go (delete_rules (nfs_ibox nfs) (name @ ''$$'' @ address)
      (length (exp_Permissions export)) 0 export) (\<lambda>_. return_go (None :: unit option))) = return_go None"
    by (intro for_go_nothing) (simp add: fun_eq_iff run_then)
  with assms(1,3) show ?thesis
    by (simp add: ControllerUnpublishVolume_nfs_def DeleteExportRule_def run_defs)
qed

theorem nfs_unpublish_keeps_rules_witness:
  "\<exists>t. ControllerUnpublishVolume_nfs (NewNFSstorage 0 ((sample_cs (stocked_ibox\<lparr>r_GetExportsByFileSystemID := (\<lambda>h _.
      Inr [sample_export\<lparr>exp_Permissions := [\<lparr>perm_Access = ''RW'', perm_NoRootSquash = True, perm_Client = ''10.0.0.9''\<rparr>]\<rparr>])\<rparr>))
      \<lparr>cs_VolProto := zero_VolProto\<lparr>vpc_NodeID := ''node1$$10.0.0.9''\<rparr>\<rparr>)) [] = (Ok (), t)"
  using nfs_unpublish_keeps_rules [of "NewNFSstorage 0 ((sample_cs (stocked_ibox\<lparr>r_GetExportsByFileSystemID := (\<lambda>h _.
      Inr [sample_export\<lparr>exp_Permissions := [\<lparr>perm_Access = ''RW'', perm_NoRootSquash = True, perm_Client = ''10.0.0.9''\<rparr>]\<rparr>])\<rparr>))
      \<lparr>cs_VolProto := zero_VolProto\<lparr>vpc_NodeID := ''node1$$10.0.0.9''\<rparr>\<rparr>)" "[]" _ "''node1''" "''10.0.0.9''"]
  by (simp add: NewNFSstorage_def sample_cs_def zero_VolProto_def)

text \<open>Deleting an NFS volume that still has children (snapshots or clones) writes empty metadata to
  it: the mark \<open>host.k8s.to_be_deleted\<close>, which the deletion of the last child looks for, is not set.\<close>

theorem nfs_delete_with_children_unmarked:
  assumes "r_GetFileSystemByID (nfs_ibox nfs) h i = Inr fsys" and "fs_LockState fsys \<noteq> LockedState"
    and "r_GetFileSystemsByParentID (nfs_ibox nfs) (h @ [C_GetFileSystemByID i]) i = Inr (child # children)"
    and "vpc_VolumeID (cs_VolProto (nfs_CS nfs)) = i"
  shows "calls_of (DeleteVolume_nfs E nfs h) =
    [C_GetFileSystemByID i, C_GetFileSystemsByParentID i, C_PutMetadata i []]"
  using assms by (auto simp: DeleteVolume_nfs_def delete_or_gone_def DeleteNFSVolume_def run_defs calls_of_def
      split: sum.splits)

theorem nfs_delete_with_children_unmarked_witness:
  "calls_of (DeleteVolume_nfs stocked_env (NewNFSstorage 0 (sample_cs
      (stocked_ibox\<lparr>r_GetFileSystemsByParentID := (\<lambda>h _. Inr [sample_fs])\<rparr>))) []) =
    [C_GetFileSystemByID 7, C_GetFileSystemsByParentID 7, C_PutMetadata 7 []]"
  using nfs_delete_with_children_unmarked [of "NewNFSstorage 0 (sample_cs
      (stocked_ibox\<lparr>r_GetFileSystemsByParentID := (\<lambda>h _. Inr [sample_fs])\<rparr>))" "[]" 7 "sample_fs\<lparr>fs_ID := 7\<rparr>"
      sample_fs "[]" stocked_env]
  by (simp add: NewNFSstorage_def sample_cs_def stocked_defs zero_FileSystem_def zero_VolProto_def LockedState_def)

end
