(* ===== verification/Treeq_Props.thy ===== *)
theory Treeq_Props
  imports Treeq_Storage
begin

text \<open>What the treeq operations guarantee.\<close>

section \<open>Deletion\<close>

text \<open>When a treeq may be deleted: it was read just before and holds no data. When its file system may
  be deleted: its treeqs were listed, there was one, and it has just been deleted.\<close>

definition sole_treeq_deleted :: "Client \<Rightarrow> call list \<Rightarrow> int \<Rightarrow> bool" where
  "sole_treeq_deleted c h f \<longleftrightarrow> (\<exists>h0 h1 tq t. h = h0 @ C_GetTreeqsByFileSystem f # h1 \<and>
     r_GetTreeqsByFileSystem c h0 f = Inr [tq] \<and> C_DeleteTreeq f t \<in> set h1)"

definition may_delete_treeq :: "Client \<Rightarrow> call list \<Rightarrow> call \<Rightarrow> bool" where
  "may_delete_treeq c h x = (case x of
     C_DeleteTreeq f t \<Rightarrow> (\<exists>h0 tq n. h = h0 @ [C_GetTreeq f t, C_GetTreeqsByFileSystem f, C_PutMetadata f [(TreeqCount, JInt n)]] \<and>
        r_GetTreeq c h0 f t = Inr tq \<and> tq_UsedCapacity tq \<le> 0)
   | C_DeleteFileSystem f \<Rightarrow> sole_treeq_deleted c h f
   | _ \<Rightarrow> True)"

lemma sole_append: "sole_treeq_deleted c h f \<Longrightarrow> sole_treeq_deleted c (h @ s) f"
  by (force simp: sole_treeq_deleted_def)

lemma may_delete_treeq_simps [simp]:
  "may_delete_treeq c h (C_GetTreeq f t)" "may_delete_treeq c h (C_GetTreeqsByFileSystem f)"
  "may_delete_treeq c h (C_PutMetadata f m)" "may_delete_treeq c h (C_GetExportsByFileSystemID f)"
  "may_delete_treeq c h (C_DeleteExport f)" "may_delete_treeq c h (C_DeleteMetadata f)"
  by (simp_all add: may_delete_treeq_def)

definition removes_fs :: "int \<Rightarrow> call \<Rightarrow> bool" where
  "removes_fs f x = (case x of C_DeleteFileSystem g \<Rightarrow> g = f | C_DeleteTreeq g t \<Rightarrow> False | _ \<Rightarrow> True)"

lemma DeleteFileSystemComplete_only: "only (removes_fs f) (DeleteFileSystemComplete c f)"
  unfolding DeleteFileSystemComplete_def delete_exports_def delete_metadata_and_fs_def
  by (intro only_intros) (simp_all add: removes_fs_def)

lemma removes_fs_allowed: "removes_fs f x \<Longrightarrow> sole_treeq_deleted c h f \<Longrightarrow> may_delete_treeq c h x"
  by (simp add: removes_fs_def may_delete_treeq_def split: call.splits)

lemma each_call_sole:
  "\<forall>x \<in> set t. removes_fs f x \<Longrightarrow> sole_treeq_deleted c h f \<Longrightarrow> each_call (may_delete_treeq c) h t"
  by (induction t arbitrary: h) (auto intro: removes_fs_allowed sole_append)

lemma DeleteFileSystemComplete_sole:
  "sole_treeq_deleted c h f \<Longrightarrow> wp (DeleteFileSystemComplete c f) h (\<lambda>r t. each_call (may_delete_treeq c) h t)"
  by (rule wp_mono [OF wp_only [OF DeleteFileSystemComplete_only]]) (rule each_call_sole)

lemma DeleteTreeqVolume_allowed:
  "wp (DeleteTreeqVolume ts f t) h (\<lambda>r s. each_call (may_delete_treeq (ts_ibox ts)) h s)"
proof -
  have sole: "sole_treeq_deleted c (h @ [x, C_GetTreeqsByFileSystem f, y, C_DeleteTreeq f t]) f"
    if "r_GetTreeqsByFileSystem c (h @ [x]) f = Inr treeqs" "length treeqs = Suc 0" for c x y treeqs
    unfolding sole_treeq_deleted_def
    by (rule exI [of _ "h @ [x]"], rule exI [of _ "[y, C_DeleteTreeq f t]"])
      (use that in \<open>auto simp: length_Suc_conv\<close>)
  show ?thesis
    unfolding DeleteTreeqVolume_def UpdateTreeqCnt_def Let_def
    by (auto simp: wp_simps may_delete_treeq_def [of _ _ "C_DeleteTreeq _ _"]
        intro!: DeleteFileSystemComplete_sole sole)
qed

text \<open>C31: \<open>DeleteVolume\<close> (treeq) deletes a treeq only right after reading that it holds no data, and the
  file system around it only when that treeq was the only one listed and has been deleted.\<close>

theorem treeq_delete_safe:
  "each_call (may_delete_treeq (ts_ibox (tqs_TreeqService treeq))) h (calls_of (DeleteVolume_treeq treeq h))"
proof -
  have "wp (DeleteVolume_treeq treeq) h (\<lambda>r s. each_call (may_delete_treeq (ts_ibox (tqs_TreeqService treeq))) h s)"
    unfolding DeleteVolume_treeq_def Let_def
    by (rule wp_each_try [OF DeleteTreeqVolume_allowed]) (simp_all add: wp_simps)
  then show ?thesis by (simp add: wp_def)
qed

section \<open>Placing a new treeq\<close>

lemma getExportPath_keeps:
  "wp (getExportPath ts f) h (\<lambda>r t. (\<forall>ts'. r = Ok ts' \<longrightarrow> ts_TreeqCnt ts' = ts_TreeqCnt ts \<and> ts_CS ts' = ts_CS ts \<and>
     nfs_Capacity (ts_NFSstorage ts') = nfs_Capacity (ts_NFSstorage ts)) \<and> (\<forall>x. r \<noteq> Crash x) \<and> t = [C_GetExportsByFileSystemID f])"
  by (auto simp: getExportPath_def wp_simps split: list.splits)

text \<open>A file system that a search at \<open>h\<close> may choose: it has room for the bytes and for one more
  treeq.\<close>

definition has_room :: "TreeqService \<Rightarrow> int64 \<Rightarrow> int \<Rightarrow> FileSystem \<Rightarrow> call list \<Rightarrow> bool" where
  "has_room ts maxFileSystemSize maxTreeqPerFS fsys g \<longleftrightarrow>
     wrap64 (fs_Size fsys + nfs_Capacity (ts_NFSstorage ts)) < maxFileSystemSize \<and>
     (\<exists>treeqs. r_GetTreeqsByFileSystem (ts_ibox ts) g (fs_ID fsys) = Inr treeqs \<and>
        int (length treeqs) < maxTreeqPerFS)"

text \<open>C32: The file system a new treeq is placed in is one of the listed ones, has room for the requested
  bytes below the maximal size and holds fewer treeqs than the limit; and every file system before
  it in the list was full in one of the two ways.\<close>

theorem pick_filesystem_room:
  assumes "pick_filesystem ts maxFileSystemSize maxTreeqPerFS fss h = (Ok (Inr fsys, ts'), t)"
  shows "\<exists>before after pre post. fss = before @ fsys # after \<and>
    t = pre @ C_GetTreeqsByFileSystem (fs_ID fsys) # post \<and>
    has_room ts maxFileSystemSize maxTreeqPerFS fsys (h @ pre) \<and>
    (\<forall>f \<in> set before. \<exists>g. \<not> has_room ts maxFileSystemSize maxTreeqPerFS f g)"
  using assms
proof (induction fss arbitrary: h t)
  case Nil
  then show ?case by simp
next
  case (Cons f rest)
  let ?room = "has_room ts maxFileSystemSize maxTreeqPerFS" and ?l = "C_GetTreeqsByFileSystem (fs_ID f)"
  consider (big) "pick_filesystem ts maxFileSystemSize maxTreeqPerFS rest h = (Ok (Inr fsys, ts'), t)" "\<not> ?room f h"
    | (full) s where "pick_filesystem ts maxFileSystemSize maxTreeqPerFS rest (h @ [?l]) = (Ok (Inr fsys, ts'), s)"
        "t = ?l # s" "\<not> ?room f h"
    | (here) s where "fsys = f" "t = ?l # s" "?room f h"
    using Cons.prems
    by (auto simp: has_room_def run_defs getExportPath_def Let_def split: if_splits sum.splits list.splits prod.splits)
  then show ?case
  proof cases
    case big
    then show ?thesis using Cons.IH [OF big(1)] by (metis append_Cons set_ConsD)
  next
    case full
    from Cons.IH [OF full(1)] obtain before after pre post where
      "rest = before @ fsys # after" "s = pre @ C_GetTreeqsByFileSystem (fs_ID fsys) # post"
      "?room fsys (h @ [?l] @ pre)" "\<forall>f \<in> set before. \<exists>g. \<not> ?room f g" by auto
    with full show ?thesis
      by (intro exI [of _ "f # before"] exI [of _ after] exI [of _ "?l # pre"] exI [of _ post]) auto
  next
    case here
    then show ?thesis by (intro exI [of _ "[]"] exI [of _ rest] exI [of _ s]) auto
  qed
qed

theorem pick_filesystem_room_witness:
  "has_room (tqs_TreeqService (NewTreeqstorage 1073741824 (sample_cs stocked_ibox))) TIB 100 sample_fs []"
proof -
  let ?ts = "tqs_TreeqService (NewTreeqstorage 1073741824 (sample_cs stocked_ibox))"
  have "\<exists>ts t. pick_filesystem ?ts TIB 100 [sample_fs] [] = (Ok (Inr sample_fs, ts), t)"
    by (simp add: NewTreeqstorage_def NewNFSstorage_def sample_cs_def getExportPath_def run_defs Let_def
        stocked_defs zero_FileSystem_def TIB_def GIB_def wrap64_def)
  then obtain ts t where "pick_filesystem ?ts TIB 100 [sample_fs] [] = (Ok (Inr sample_fs, ts), t)" by blast
  from pick_filesystem_room [OF this] show ?thesis
    by (auto simp: has_room_def NewTreeqstorage_def sample_cs_def stocked_ibox_def)
qed

section \<open>Expansion\<close>

text \<open>The calls an expansion of the treeq \<open>t\<close> of the file system \<open>f\<close> may make.\<close>

definition expands :: "int \<Rightarrow> int \<Rightarrow> int64 \<Rightarrow> string \<Rightarrow> Client \<Rightarrow> call list \<Rightarrow> call \<Rightarrow> bool" where
  "expands f t capacity limit c h x = (case x of
     C_UpdateFileSystem g fsys \<Rightarrow> g = f \<and> (\<exists>h0 old tq treeqs.
        h = h0 @ [C_GetFileSystemByID f, C_GetTreeq f t, C_GetTreeqsByFileSystem f] \<and>
        r_GetFileSystemByID c h0 f = Inr old \<and> r_GetTreeq c (h0 @ [C_GetFileSystemByID f]) f t = Inr tq \<and>
        r_GetTreeqsByFileSystem c (h0 @ [C_GetFileSystemByID f, C_GetTreeq f t]) f = Inr treeqs \<and>
        fs_Size fsys = wrap64 (sum_capacity treeqs + (capacity - tq_HardCapacity tq)) \<and>
        fs_Size old < fs_Size fsys \<and>
        (limit = '''' \<or> (\<exists>m. convertToByte limit = Ok m \<and> fs_Size fsys \<le> m)))
   | C_UpdateTreeq g u body \<Rightarrow> g = f \<and> u = t \<and> utq_HardCapacity body = capacity
   | _ \<Rightarrow> \<not> mutating x)"

lemma UpdateTreeqVolume_allowed:
  "wp (UpdateTreeqVolume ts f t capacity limit) h (\<lambda>r s. each_call (expands f t capacity limit (ts_ibox ts)) h s)"
  unfolding UpdateTreeqVolume_def Let_def
  by (auto simp: wp_simps expands_def wrap64_grow wrap64_add_right split: res.splits)

text \<open>Expanding a treeq resizes its file system to the sum of the treeqs' capacities after the
  expansion (in 64-bit arithmetic), only upwards, and not beyond the maximal size when one is given; the
  treeq gets the requested capacity, at least one GiB. Nothing else is changed.\<close>

theorem treeq_expand_calls:
  "each_call (expands (vpc_VolumeID (cs_VolProto (nfs_CS (tqs_NFSstorage treeq)))) (vpc_TreeqID (cs_VolProto (nfs_CS (tqs_NFSstorage treeq))))
      (max GIB (case exr_RequiredBytes req of None \<Rightarrow> 0 | Some b \<Rightarrow> b))
      (lookup (nfs_StorageClassParameters (tqs_NFSstorage treeq)) StorageClassMaxFilesystemSize)
      (ts_ibox (tqs_TreeqService treeq))) h (calls_of (ControllerExpandVolume_treeq treeq req h))"
    (is "each_call ?Q h _")
proof -
  have "wp (ControllerExpandVolume_treeq treeq req) h (\<lambda>r s. each_call ?Q h s)"
    unfolding ControllerExpandVolume_treeq_def Let_def max_def
    by (intro wp_each_or_impl) (use UpdateTreeqVolume_allowed in \<open>auto simp: wp_simps not_less le_less\<close>)
  then show ?thesis by (simp add: wp_def)
qed

section \<open>Volume ids\<close>

section \<open>Volume ids\<close>

lemma treeq_answer_id_text:
  "csi_VolumeId (treeq_answer treeq req (treeq_context f t ip path)) = Itoa f @ ''#'' @ Itoa t"
  by (simp add: treeq_answer_def Let_def treeq_context_def StorageClassGID_def StorageClassUID_def
      StorageClassStorageProtocol_def StorageClassNFSExportPermissions_def) (simp add: lookup_def)

section \<open>Failures\<close>

text \<open>When the treeq count cannot be recorded after a treeq was created in an existing file system, the
  operation fails and leaves the treeq behind: the rollback looks at the file system id of the
  service, which is only set for a new file system.\<close>

theorem treeq_create_leaks:
  assumes "nfs_FileSystemID (ts_NFSstorage ts) = 0" and "ts_TreeqCnt ts \<ge> 0"
    and "\<And>g q. r_CreateTreeq (ts_ibox ts) g f q = Inr tq"
    and "\<And>g m. r_PutMetadata (ts_ibox ts) g f m = Inl e"
  shows "\<exists>msg q n. create_treeq_in ts (Some fsys) f h =
    (Err (Errors_New msg), [C_CreateTreeq f q, C_PutMetadata f [(TreeqCount, JInt n)]])"
  using assms by (simp add: create_treeq_in_def Let_def UpdateTreeqCnt_def run_defs)

definition unlucky_service :: TreeqService where
  "unlucky_service = tqs_TreeqService (NewTreeqstorage 1073741824 (sample_cs (stocked_ibox\<lparr>
     r_CreateTreeq := (\<lambda>h _ _. Inr sample_treeq), r_PutMetadata := (\<lambda>h _ _. Inl ErrNotFound),
     r_GetFileSystemsByPool := (\<lambda>h _ _. Inr [sample_fs]), r_GetTreeqByName := (\<lambda>h _ _. Inr sample_treeq),
     r_GetNetworkSpaceByName := (\<lambda>h _. Inl ErrNotFound)\<rparr>)))"

theorem treeq_create_leaks_witness:
  "\<exists>msg q n. create_treeq_in unlucky_service (Some sample_fs) 9 [] =
    (Err (Errors_New msg), [C_CreateTreeq 9 q, C_PutMetadata 9 [(TreeqCount, JInt n)]])"
  by (rule treeq_create_leaks)
    (simp_all add: unlucky_service_def NewTreeqstorage_def NewNFSstorage_def sample_cs_def)

text \<open>A treeq of the requested name that exists is not found when the network space cannot be read after
  the treeq was: no error is reported and the answer is the same as for a treeq that does not exist, so
  the caller goes on to create it.\<close>

theorem treeq_existing_missed:
  assumes "r_GetPoolByName (ts_ibox ts) h pool = Inr p"
    and "\<And>g. r_GetFileSystemsByPool (ts_ibox ts) g (pool_ID p) prefix = Inr [fsys]"
    and "\<And>g. r_GetTreeqByName (ts_ibox ts) g (fs_ID fsys) name = Inr tq"
    and "\<And>g. r_GetExportsByFileSystemID (ts_ibox ts) g (tq_FilesystemID tq) = Inr []"
    and "\<And>g. r_GetNetworkSpaceByName (ts_ibox ts) g space = Inl e"
  shows "\<exists>t. IsTreeqAlreadyExist E ts pool space name prefix h = (Ok ([], ts\<lparr>ts_PoolID := pool_ID p\<rparr>), t)"
  using assms by (simp add: IsTreeqAlreadyExist_def Let_def checkTreeqName_def getExportPath_def
      GetNetworkSpaceIP_def run_defs)

theorem treeq_existing_missed_witness:
  "\<exists>t. IsTreeqAlreadyExist stocked_env unlucky_service ''pool'' ''nas'' ''pvc-1'' ''csit_'' [] =
    (Ok ([], unlucky_service\<lparr>ts_PoolID := 3\<rparr>), t)"
  using treeq_existing_missed [of unlucky_service "[]" "''pool''" sample_pool "''csit_''" sample_fs "''pvc-1''" sample_treeq "''nas''"
      ErrNotFound stocked_env]
  by (simp add: unlucky_service_def NewTreeqstorage_def sample_cs_def stocked_defs)

text \<open>A maximal file system size that names its unit in capitals, as the code means to allow, is always
  refused; so is every text without a unit in small letters.\<close>

theorem convertToByte_capitals:
  assumes "\<not> Contains sizeText ''gib''" and "\<not> Contains sizeText ''tib''"
  shows "\<exists>e. convertToByte sizeText = Err e"
proof -
  have none: "Atoi sizeText = None" if "Contains sizeText u" "CHR ''I'' \<in> set u" for u
    using that by (intro Atoi_letter [of "CHR ''I''"]) (auto simp: Contains_iff digit_val_def)
  have "Split sizeText ''gib'' = [sizeText]" "Split sizeText ''tib'' = [sizeText]"
    using assms by (simp_all add: Split_without)
  then show ?thesis
    using assms none by (auto simp: convertToByte_def parse_unit_def)
qed

theorem convertToByte_capitals_witness: "\<exists>e. convertToByte ''30TIB'' = Err e"
  by (rule convertToByte_capitals) code_simp+

end
