(* ===== verification/Controller_Props.thy ===== *)
theory Controller_Props
  imports Controller_Service Nfs_Props Treeq_Props
begin

text \<open>
  What the controller service guarantees: the checks in front of a creation, the ids it hands out, and the
  laws of the block protocols stated for every block controller.
\<close>

section \<open>Every block controller\<close>

fun block_of :: "StorageController \<Rightarrow> Storage option" where
  "block_of (FCstorage st) = Some st"
| "block_of (ISCSIstorage st) = Some st"
| "block_of (NVMEstorage st) = Some st"
| "block_of _ = None"


definition sample_storage :: "Client \<Rightarrow> Storage" where
  "sample_storage c = \<lparr>st_Capacity = 1073741824, st_CS = sample_cs c\<rparr>"




text \<open>C6: Every block protocol maps a volume to a host only when the InfiniBox has just listed the
  LUNs of that host, the volume is not among them, the limit \<open>max_vols_per_host\<close>, when set, is
  not reached, and the volume is the one that the volume id of the request names.\<close>

theorem block_publish_limit:
  assumes "block_of sc = Some st"
    and "C_MapVolumeToHost hostID volumeID lun \<in> set (calls_of (sc_ControllerPublishVolume E sc req h))"
  shows "\<exists>g luns. r_GetAllLunByHost (ibox st) g hostID = (luns, None) \<and>
    (\<forall>l \<in> set luns. lun_VolumeID l \<noteq> volumeID) \<and>
    room_left (pub_context req StorageClassMaxVolsPerHost) (length luns) \<and>
    (\<exists>c. ValidateVolumeID (pub_VolumeId req) = Ok c \<and> vpc_VolumeID c = volumeID)"
  using assms fc_publish.maps_within_limit iscsi_publish.maps_within_limit nvme_publish.maps_within_limit
  by (cases sc) auto

lemma sample_publish_maps:
  "C_MapVolumeToHost 5 7 (-1) \<in> set (calls_of (sc_ControllerPublishVolume stocked_env
     (FCstorage (sample_storage stocked_ibox)) sample_publish []))"
  by code_simp

theorem block_publish_limit_witness:
  "\<exists>g luns. r_GetAllLunByHost stocked_ibox g 5 = (luns, None) \<and>
     room_left (pub_context sample_publish StorageClassMaxVolsPerHost) (length luns)"
  using block_publish_limit [OF _ sample_publish_maps, of "sample_storage stocked_ibox"]
  by (auto simp: sample_storage_def sample_cs_def)

text \<open>Publishing a block volume changes nothing on the InfiniBox but the mapping itself and, for a host
  that does not exist, the new host and the mark that the driver created it.\<close>

theorem block_publish_changes:
  assumes "block_of sc = Some st" and "c \<in> set (calls_of (sc_ControllerPublishVolume E sc req h))" and "mutating c"
  shows "(\<exists>i v l. c = C_MapVolumeToHost i v l) \<or> (\<exists>n. c = C_CreateHost n) \<or>
    (\<exists>i. c = C_PutMetadata i [(CSICreatedHost, JBool True)])"
  using assms fc_publish.only_maps_and_creates iscsi_publish.only_maps_and_creates
    nvme_publish.only_maps_and_creates
  by (cases sc) auto

theorem block_publish_changes_witness:
  "\<exists>i v l. C_MapVolumeToHost 5 7 (-1) = C_MapVolumeToHost i v l"
  using block_publish_changes [OF _ sample_publish_maps, of "sample_storage stocked_ibox"] by simp

section \<open>What a creation checks first\<close>

abbreviation reads :: "'a go \<Rightarrow> bool" where
  "reads m \<equiv> only (\<lambda>c. \<not> mutating c) m"

lemma GetProtocolSecret_reads [only_intros]: "reads (GetProtocolSecret E)"
  unfolding GetProtocolSecret_def Let_def by (intro only_intros) simp_all

lemma probe_reads [only_intros]: "reads (probe E pod ns command enabled)"
  unfolding probe_def by (intro only_intros) simp_all

lemma DetermineProtocol_reads [only_intros]: "reads (DetermineProtocol E)"
  unfolding DetermineProtocol_def Let_def by (intro only_intros) simp_all

lemma determineStorageProtocol_reads [only_intros]: "reads (determineStorageProtocol E ps)"
  unfolding determineStorageProtocol_def Let_def by (intro only_intros)

lemma handlePVCAnnotations_reads [only_intros]: "reads (handlePVCAnnotations E req ps)"
  unfolding handlePVCAnnotations_def Let_def by (intro only_intros) simp_all

lemma validateStorageClassSecretParameters_reads [only_intros]: "reads (validateStorageClassSecretParameters E ps)"
  unfolding validateStorageClassSecretParameters_def Let_def by (intro only_intros) simp_all

lemma validateCommonStorageClassParameters_reads [only_intros]:
  "reads (validateCommonStorageClassParameters cs ps protocol)"
  unfolding validateCommonStorageClassParameters_def ValidateProtocolToNetworkSpace_def Let_def
  by (intro only_intros) simp_all



definition acceptable :: "CsiCreateVolumeRequest \<Rightarrow> bool" where
  "acceptable req \<longleftrightarrow> req_Name req \<noteq> '''' \<and> req_Parameters req \<noteq> [] \<and>
     validateCapabilities (req_VolumeCapabilities req) = Ok () \<and>
     validateSecret '''' (req_Secrets req) = Ok () \<and> req_RequiredBytes req \<noteq> None"

lemma refused_create_reads:
  assumes "\<not> acceptable req"
  shows "reads (CreateVolume E s req)"
  unfolding CreateVolume_def Let_def or_status_pure
  by (intro only_intros) (use assms in \<open>auto simp: acceptable_def determineCapacity_def\<close>)

text \<open>C1: \<open>CreateVolume\<close> of the controller changes nothing on the InfiniBox, and creates nothing in
  the cluster, unless the request has a name and parameters, its capabilities are valid, its
  secrets are complete, and its size is given.\<close>

theorem create_checks_first:
  assumes "list_ex mutating (calls_of (CreateVolume E s req h))"
  shows "acceptable req"
  using assms refused_create_reads by (fastforce simp: list_ex_iff dest: onlyD)

definition sample_driver :: Driver where
  "sample_driver = \<lparr>drv_nodeID = ''node1'', drv_version = ''1''\<rparr>"

theorem create_checks_first_witness:
  "list_ex mutating (calls_of (CreateVolume stocked_env sample_driver sample_create [])) \<and> acceptable sample_create"
proof -
  have run: "list_ex mutating (calls_of (CreateVolume stocked_env sample_driver sample_create []))" by code_simp
  with create_checks_first [OF run] show ?thesis by simp
qed

section \<open>The ids of new volumes\<close>

definition plain_id :: "CsiVolume \<Rightarrow> bool" where
  "plain_id v \<longleftrightarrow> (\<exists>i. csi_VolumeId v = Itoa i)"

definition treeq_id :: "CsiVolume \<Rightarrow> bool" where
  "treeq_id v \<longleftrightarrow> (\<exists>f t. csi_VolumeId v = Itoa f @ ''#'' @ Itoa t)"

lemma plain_id_with_parameters [simp]: "plain_id (with_parameters ps v) = plain_id v"
  by (simp add: plain_id_def with_parameters_def)

lemma GetCSIResponse_plain: "GetCSIResponse E cs vol req h = (Ok v, t) \<Longrightarrow> plain_id v"
  by (auto simp: plain_id_def dest: GetCSIResponse_Ok_id)

lemma clone_plain: "returns plain_id (CreateVolumeFromVolumeContent E cs req name sz pool)"
  unfolding CreateVolumeFromVolumeContent_def clone_finish_def
  by (intro returns_intros) (simp add: GetCSIResponse_plain)

lemma create_block_plain:
  assumes "\<And>vol. returns plain_id (finish vol)"
  shows "returns plain_id (create_block E st lookup_error msg finish req)"
  unfolding create_block_def existing_volume_def create_new_def
  by (intro returns_intros assms clone_plain) (simp add: GetCSIResponse_plain)

lemma finish_plain:
  shows finish_fc_plain: "returns plain_id (finish_fc E st req vol)"
    and finish_iscsi_plain: "returns plain_id (finish_iscsi E st req vol)"
    and finish_nvme_plain: "returns plain_id (finish_nvme E st req vol)"
  unfolding finish_fc_def finish_iscsi_def finish_nvme_def
  by (intro returns_intros; auto simp: plain_id_def with_parameters_def dest: GetCSIResponse_Ok_id)+

lemma CreateVolume_nfs_plain: "returns plain_id (CreateVolume_nfs E nfs req)"
proof -
  have answer: "plain_id (getNfsCsiResponse n req)" for n
    by (auto simp: plain_id_def getNfsCsiResponse_def)
  have new: "returns plain_id (CreateNFSVolume E n req)" for n
    unfolding CreateNFSVolume_def by (intro returns_intros answer)
  have clone: "returns plain_id (createVolumeFromPVCSource E n req sz pool source)" for n sz pool source
    unfolding createVolumeFromPVCSource_def by (intro returns_intros answer)
  have old: "returns plain_id (existing_filesystem n req fsys)" for n fsys
    unfolding existing_filesystem_def Let_def by (intro returns_intros answer)
  show ?thesis
    unfolding CreateVolume_nfs_def Let_def
    by (intro returns_intros old) (auto intro!: returns_intros dest: returnsD [OF new] returnsD [OF clone]
        split: VolumeContentSource.splits)

qed

definition made_context :: "gomap \<Rightarrow> bool" where
  "made_context ctx \<longleftrightarrow> (\<exists>f t ip path. ctx = treeq_context f t ip path)"

lemma made_context [simp]: "made_context (treeq_context f t ip path)"
  by (auto simp: made_context_def)

lemma treeq_answer_id: "made_context ctx \<Longrightarrow> treeq_id (treeq_answer treeq req ctx)"
  unfolding made_context_def treeq_id_def using treeq_answer_id_text by blast

lemma create_treeq_in_context: "returns made_context (create_treeq_in ts filesys f)"
  unfolding create_treeq_in_def Let_def by (intro returns_intros) simp_all

lemma CreateTreeqVolume_context: "returns made_context (CreateTreeqVolume E ts ps capacity name)"
proof -
  have "returns made_context (case found of
        Inr fsys \<Rightarrow> create_treeq_in ts (Some fsys) (fs_ID fsys)
      | Inl err \<Rightarrow> if errors_is err ErrNotFound
          then then_go (create_filesystem_for_treeq E ts err)
                 (\<lambda>ts1. create_treeq_in ts1 None (nfs_FileSystemID (ts_NFSstorage ts1)))
          else fail_go err)" for found ts
    by (cases found) (auto intro!: returns_intros create_treeq_in_context)
  then show ?thesis
    unfolding CreateTreeqVolume_def Let_def by (intro returns_intros)
qed

lemma IsTreeqAlreadyExist_context:
  "returns (\<lambda>(ctx, ts). ctx = [] \<or> made_context ctx) (IsTreeqAlreadyExist E ts pool space name prefix)"
  unfolding IsTreeqAlreadyExist_def Let_def by (intro returns_intros) simp_all

lemma CreateVolume_treeq_id: "returns treeq_id (CreateVolume_treeq E treeq req)"
proof -
  have "made_context ctx"
    if "IsTreeqAlreadyExist E ts pool space name prefix h = (Ok (found, ts'), t)"
      "(if found = [] then CreateTreeqVolume E ts' ps capacity name else return_go found) h' = (Ok ctx, t')"
    for ts pool space name prefix h found ts' t ps capacity h' t' ctx
    using that returnsD [OF IsTreeqAlreadyExist_context that(1)] returnsD [OF CreateTreeqVolume_context, of E ts' ps capacity name h' ctx t']
    by (auto split: if_splits)
  then show ?thesis
    unfolding CreateVolume_treeq_def Let_def
    by (intro returns_intros treeq_answer_id) blast
qed

lemma sc_CreateVolume_id:
  "returns (if (\<exists>tq. sc = TreeqController tq) then treeq_id else plain_id) (sc_CreateVolume E sc req)"
  by (cases sc) (simp_all add: CreateVolume_fc_def CreateVolume_iscsi_def CreateVolume_nvme_def
      create_block_plain finish_plain CreateVolume_nfs_plain CreateVolume_treeq_id)

text \<open>A controller made for a protocol stays one when the StorageClass is validated.\<close>

definition for_protocol :: "StorageController \<Rightarrow> string \<Rightarrow> bool" where
  "for_protocol sc p \<longleftrightarrow> (case sc of FCstorage _ \<Rightarrow> p = ProtocolFC | ISCSIstorage _ \<Rightarrow> p = ProtocolISCSI
     | NVMEstorage _ \<Rightarrow> p = ProtocolNVME | NFScontroller _ \<Rightarrow> p = ProtocolNFS | TreeqController _ \<Rightarrow> p = ProtocolTreeq)"

lemma NewStorageController_protocol:
  assumes "NewStorageController E config secrets vp capacity = Ok (sc, cs)"
  shows "for_protocol sc (vpc_StorageType vp)"
  using assms
  by (auto simp: NewStorageController_def NewStorageNode_def BuildCommonService_def for_protocol_def Let_def
      split: res.splits if_splits)

lemma sc_ValidateStorageClass_protocol:
  "sc_ValidateStorageClass E sc ps = Ok sc' \<Longrightarrow> for_protocol sc p \<Longrightarrow> for_protocol sc' p"
  by (cases sc) (auto simp: for_protocol_def split: res.splits)

definition parses_back :: "string \<Rightarrow> bool" where
  "parses_back i \<longleftrightarrow>
     (\<exists>p n. p \<in> {ProtocolFC, ProtocolISCSI, ProtocolNVME, ProtocolNFS} \<and> i = Itoa n @ ''$$'' @ p \<and>
        (is_int64 n \<longrightarrow> ValidateVolumeID i = Ok (zero_VolProto\<lparr>vpc_StorageType := p, vpc_VolumeID := n\<rparr>))) \<or>
     (\<exists>f t. i = (Itoa f @ ''#'' @ Itoa t) @ ''$$'' @ ProtocolTreeq \<and>
        (is_int64 f \<longrightarrow> is_int64 t \<longrightarrow> ValidateVolumeID i =
           Ok (zero_VolProto\<lparr>vpc_StorageType := ProtocolTreeq, vpc_VolumeID := f, vpc_TreeqID := t\<rparr>)))"

lemma new_id_parses:
  assumes "for_protocol sc p" and "sc_CreateVolume E sc req h = (Ok v, t)"
  shows "parses_back (csi_VolumeId v @ ''$$'' @ p)"
proof (cases "\<exists>tq. sc = TreeqController tq")
  case True
  with returnsD [OF sc_CreateVolume_id assms(2)] have "treeq_id v" by auto
  then obtain f u where "csi_VolumeId v = Itoa f @ ''#'' @ Itoa u" unfolding treeq_id_def by blast
  moreover have "p = ProtocolTreeq" using assms(1) True by (auto simp: for_protocol_def)
  ultimately show ?thesis
    unfolding parses_back_def using ValidateVolumeID_treeq [of f u]
    by (intro disjI2 exI [of _ f] exI [of _ u] conjI) simp_all

next
  case False
  with returnsD [OF sc_CreateVolume_id assms(2)] obtain n where n: "csi_VolumeId v = Itoa n"
    by (auto simp: plain_id_def)
  have p: "p \<in> {ProtocolFC, ProtocolISCSI, ProtocolNVME, ProtocolNFS}"
    using assms(1) False by (auto simp: for_protocol_def split: StorageController.splits)
  then have "is_int64 n \<Longrightarrow> ValidateVolumeID (Itoa n @ ''$$'' @ p) = Ok (zero_VolProto\<lparr>vpc_StorageType := p, vpc_VolumeID := n\<rparr>)"
    by (intro ValidateVolumeID_plain) (auto simp: protocol_defs)
  with n p show ?thesis unfolding parses_back_def by auto
qed

text \<open>C2: Every id that \<open>CreateVolume\<close> hands out is read back by \<open>ValidateVolumeID\<close>, in the operations
  that get it later, as the protocol and the number (for a treeq: the two numbers) it was made of.\<close>

theorem create_id_parses:
  assumes "CreateVolume E s req h = (Ok v, t)"
  shows "parses_back (csi_VolumeId v)"
proof -
  have "returns (\<lambda>v. parses_back (csi_VolumeId v)) (CreateVolume E s req)"
    unfolding CreateVolume_def Let_def or_status_pure
    by (intro returns_intros) (auto dest!: NewStorageController_protocol
        dest: sc_ValidateStorageClass_protocol intro: new_id_parses [simplified])
  with assms show ?thesis by (rule returnsD [rotated])
qed

theorem create_id_parses_witness:
  "parses_back ''7$$fc''"
proof -
  have "case fst (CreateVolume stocked_env sample_driver sample_create []) of
      Ok v \<Rightarrow> csi_VolumeId v = ''7$$fc'' | _ \<Rightarrow> False"
    by code_simp
  then obtain v t where run: "CreateVolume stocked_env sample_driver sample_create [] = (Ok v, t)" and "csi_VolumeId v = ''7$$fc''"
    by (cases "CreateVolume stocked_env sample_driver sample_create []") (auto split: res.splits)
  with create_id_parses [OF run] show ?thesis by simp
qed

section \<open>Checks of a request\<close>

definition supported :: "VolumeCapability \<Rightarrow> bool" where
  "supported cap \<longleftrightarrow> (case cap_AccessMode cap of None \<Rightarrow> False | Some mode \<Rightarrow>
     (case cap_AccessType cap of NoAccessType \<Rightarrow> True | BlockAccess \<Rightarrow> mode \<in> set supported_modes
      | MountAccess fs flags \<Rightarrow> mode \<in> set supported_modes \<and> fs \<in> set supported_fstypes))"

lemma check_capability_Ok: "check_capability cap = Ok () \<longleftrightarrow> supported cap"
  by (simp add: check_capability_def supported_def split: option.splits AccessType.splits)

lemma check_capabilities_Ok: "check_capabilities caps = Ok () \<longleftrightarrow> (\<forall>cap \<in> set caps. supported cap)"
  by (induction caps) (auto simp: check_capability_Ok [symmetric] split: res.splits)

text \<open>The capabilities of a request are accepted exactly when there is at least one, each names a supported
  access mode and file system, and block and file access are not mixed.\<close>

theorem validateCapabilities_iff:
  "validateCapabilities caps = Ok () \<longleftrightarrow> (\<exists>cs. caps = Some cs \<and> cs \<noteq> [] \<and> list_all supported cs \<and>
     \<not> (list_ex is_block cs \<and> list_ex is_mount cs))"
  by (auto simp: validateCapabilities_def list_all_iff check_capabilities_Ok [symmetric] split: option.splits res.splits)

lemma find_first:
  "find P xs = Some x \<longleftrightarrow> (\<exists>pre post. xs = pre @ x # post \<and> P x \<and> (\<forall>y \<in> set pre. \<not> P y))"
proof (induction xs)
  case (Cons a xs)
  show ?case
  proof (cases "P a")
    case True
    then show ?thesis by (auto simp: Cons_eq_append_conv)
  next
    case False
    have "(\<exists>pre post. a # xs = pre @ x # post \<and> P x \<and> (\<forall>y \<in> set pre. \<not> P y)) \<longleftrightarrow>
        (\<exists>pre post. xs = pre @ x # post \<and> P x \<and> (\<forall>y \<in> set pre. \<not> P y))" (is "?l = ?r")
    proof
      assume ?l
      then show ?r using False by (auto simp: Cons_eq_append_conv)
    next
      assume ?r
      then obtain pre post where "xs = pre @ x # post" "P x" "\<forall>y \<in> set pre. \<not> P y" by blast
      then show ?l using False by (intro exI [of _ "a # pre"] exI [of _ post]) simp
    qed
    with False Cons show ?thesis by simp
  qed
qed simp

text \<open>The protocol chosen for \<open>auto\<close> is iSCSI or NVMe exactly when the preferred order names it, the probe
  found it enabled, and none of the protocols before it in the order is enabled; in all other cases it
  is Fibre Channel.\<close>

theorem choose_protocol_first:
  "(choose_protocol order enabled = p \<and> p \<noteq> ProtocolFC) \<longleftrightarrow>
     p \<in> {ProtocolISCSI, ProtocolNVME} \<and> (\<exists>pre post. order = pre @ p # post \<and> enabled p \<and>
       list_all (\<lambda>q. \<not> (q \<in> {ProtocolFC, ProtocolISCSI, ProtocolNVME} \<and> enabled q)) pre)"
proof -
  have "(choose_protocol order enabled = p \<and> p \<noteq> ProtocolFC) \<longleftrightarrow>
      (find (\<lambda>p. p \<in> {ProtocolFC, ProtocolISCSI, ProtocolNVME} \<and> enabled p) order = Some p \<and> p \<noteq> ProtocolFC)"
    by (auto simp: choose_protocol_def split: option.splits)
  also have "\<dots> \<longleftrightarrow> p \<in> {ProtocolISCSI, ProtocolNVME} \<and> (\<exists>pre post. order = pre @ p # post \<and> enabled p \<and>
       list_all (\<lambda>q. \<not> (q \<in> {ProtocolFC, ProtocolISCSI, ProtocolNVME} \<and> enabled q)) pre)"
    unfolding find_first list_all_iff by (auto simp: protocol_defs)
  finally show ?thesis .
qed

section \<open>Unpublishing and expanding\<close>

text \<open>A request to unpublish a volume from all nodes, which names no node, is never carried out: it
  ends with an error and changes nothing.\<close>

theorem unpublish_without_node:
  assumes "unpub_NodeId req = ''''"
  shows "wp (ControllerUnpublishVolume E req) h (\<lambda>r t. (\<exists>e. r = Err e) \<and> (\<forall>c \<in> set t. \<not> mutating c))"
  using assms
  by (auto simp: ControllerUnpublishVolume_def Let_def getNodeProtocol_def DetermineHostName_def wp_simps split: res.splits)

theorem unpublish_without_node_witness:
  "\<exists>e. result_of (ControllerUnpublishVolume stocked_env
     \<lparr>unpub_VolumeId = ''7$$fc'', unpub_NodeId = '''', unpub_Secrets = sample_secrets\<rparr> []) = Err e"
  using unpublish_without_node [of "\<lparr>unpub_VolumeId = ''7$$fc'', unpub_NodeId = '''', unpub_Secrets = sample_secrets\<rparr>"
      stocked_env "[]"]
  by (simp add: wp_def)

lemma expand_answer:
  assumes "NewStorageController E config secrets vp capacity = Ok (sc, cs)"
  shows "returns (\<lambda>r. ers_CapacityBytes r = (if vpc_StorageType vp = ProtocolTreeq
      then max GIB (case exr_RequiredBytes req of None \<Rightarrow> 0 | Some b \<Rightarrow> b) else capacity))
    (sc_ControllerExpandVolume sc req)"
proof -
  have "for_protocol sc (vpc_StorageType vp)" using assms by (rule NewStorageController_protocol)
  then show ?thesis
    using assms
    by (auto simp: NewStorageController_def NewStorageNode_def NewNFSstorage_def for_protocol_def Let_def protocol_defs
        ControllerExpandVolume_fc_def ControllerExpandVolume_iscsi_def ControllerExpandVolume_nvme_def expand_block_def
        ControllerExpandVolume_nfs_def ControllerExpandVolume_treeq_def max_def
        intro!: returns_intros split: res.splits if_splits)
qed

text \<open>When an expansion succeeds, the answer's capacity is at least the requested one (for requests
  below \<open>2^63\<close> minus one GiB), and for every protocol but treeq it is a whole number of G or Gi.\<close>

theorem expand_capacity_enough:
  assumes "ControllerExpandVolume E s req h = (Ok r, t)" and "exr_RequiredBytes req = Some b"
    and "b < 2 ^ 63 - BytesInOneGibibyte"
  shows "b \<le> ers_CapacityBytes r \<and>
    (whole_capacity (ers_CapacityBytes r) \<or> (\<exists>vp. ValidateVolumeID (exr_VolumeId req) = Ok vp \<and> vpc_StorageType vp = ProtocolTreeq))"
proof -
  have "expand_capacity b \<ge> b \<and> whole_capacity (expand_capacity b)"
    using assms(3) RoundUp_ge [of "max GIB b"] whole_RoundUp [of "max GIB b"]
    by (auto simp: expand_capacity_def max_def GIB_def BytesInOneGibibyte_def split: if_splits)
  then have "returns (\<lambda>r. b \<le> ers_CapacityBytes r \<and> (whole_capacity (ers_CapacityBytes r) \<or>
      (\<exists>vp. ValidateVolumeID (exr_VolumeId req) = Ok vp \<and> vpc_StorageType vp = ProtocolTreeq)))
    (ControllerExpandVolume E s req)"
    unfolding ControllerExpandVolume_def Let_def or_status_pure
    by (intro returns_intros) (auto simp: assms(2) dest!: returnsD [OF expand_answer] split: if_splits)
  with assms(1) show ?thesis by (rule returnsD [rotated])
qed

theorem expand_capacity_enough_witness:
  "\<exists>r t. ControllerExpandVolume stocked_env sample_driver \<lparr>exr_VolumeId = ''7$$fc'', exr_RequiredBytes = Some 1500000001,
      exr_Capability = None, exr_Secrets = sample_secrets\<rparr> [] = (Ok r, t) \<and> 1500000001 \<le> ers_CapacityBytes r"
proof -
  let ?req = "\<lparr>exr_VolumeId = ''7$$fc'', exr_RequiredBytes = Some 1500000001,
      exr_Capability = None, exr_Secrets = sample_secrets\<rparr>"
  have "case fst (ControllerExpandVolume stocked_env sample_driver \<lparr>exr_VolumeId = ''7$$fc'', exr_RequiredBytes = Some 1500000001,
      exr_Capability = None, exr_Secrets = sample_secrets\<rparr> []) of Ok v \<Rightarrow> True | _ \<Rightarrow> False"
    by code_simp
  then obtain r t where run: "ControllerExpandVolume stocked_env sample_driver ?req [] = (Ok r, t)"
    by (cases "ControllerExpandVolume stocked_env sample_driver ?req []") (auto split: res.splits)
  with expand_capacity_enough [OF run, of 1500000001] show ?thesis by (simp add: BytesInOneGibibyte_def)
qed

section \<open>Publishing\<close>

lemma lookup_publish_answer:
  "lookup (publish_answer lun host ports @ extra) LunPublishContext = Itoa lun"
  "lookup (publish_answer lun host ports @ extra) HostIDPublishContext = Itoa (host_ID host)"
  "lookup (publish_answer lun host ports @ extra) HostPortsPublishContext = ports"
  by (simp_all add: publish_answer_def lookup_def LunPublishContext_def HostIDPublishContext_def HostPortsPublishContext_def)

definition usable_context :: "gomap \<Rightarrow> bool" where
  "usable_context ctx \<longleftrightarrow> (\<exists>lun hostID ports. lookup ctx LunPublishContext = Itoa lun \<and>
     (is_int64 hostID \<and> 1 \<le> hostID \<longrightarrow> ValidatePublishContext ctx = Ok (hostID, ports)) \<and>
     lookup ctx HostIDPublishContext = Itoa hostID)"

lemma usable_publish_answer: "usable_context (publish_answer lun host ports @ extra)"
  unfolding usable_context_def
  by (intro exI [of _ lun] exI [of _ "host_ID host"] exI [of _ ports])
    (simp add: ValidatePublishContext_def Let_def lookup_publish_answer)

lemma publish_on_host_usable: "returns usable_context (publish_on_host st req code volumeID host ports extra)"
  unfolding publish_on_host_def
  by (intro returns_intros usable_publish_answer) (metis append_Nil2 usable_publish_answer)

lemma returns_or_impl_NotFound [returns_intros]:
  "(\<And>a h t. m h = (Ok a, t) \<Longrightarrow> returns P (k a)) \<Longrightarrow> returns P (or_impl_NotFound m k)"
  by (simp add: or_impl_NotFound_def returns_try returns_basic)

lemma publish_usable:
  shows publish_fc_usable: "returns usable_context (ControllerPublishVolume_fc E st req)"
    and publish_iscsi_usable: "returns usable_context (ControllerPublishVolume_iscsi E st req)"
    and publish_nvme_usable: "returns usable_context (ControllerPublishVolume_nvme E st req)"
  unfolding ControllerPublishVolume_fc_def ControllerPublishVolume_iscsi_def ControllerPublishVolume_nvme_def
  by (intro returns_intros publish_on_host_usable)+



lemma wp_or_impl_NotFound [wp_simps]:
  "wp (or_impl_NotFound m k) h Q = wp m h (\<lambda>r t. case r of
      Ok a \<Rightarrow> wp (k a) (h @ t) (\<lambda>r' t'. Q r' (t @ t'))
    | Err e \<Rightarrow> Q (Err (ImplementationError NotFound (err_text e))) t
    | Crash x \<Rightarrow> Q (Crash x) t)"
  by (simp add: or_impl_NotFound_def wp_try wp_fail cong: res.case_cong)

text \<open>A volume that the InfiniBox reports as write protected is not mapped to any host for a request with a
  writing access mode.\<close>

theorem publish_write_protected:
  assumes "block_of sc = Some st" and "pub_mode req \<in> set write_modes"
    and "\<And>g i vol. r_GetVolume (ibox st) g i = Inr vol \<Longrightarrow> vol_WriteProtected vol"
  shows "C_MapVolumeToHost hostID volumeID lun \<notin> set (calls_of (sc_ControllerPublishVolume E sc req h))"
proof -
  have refused: "r_GetVolume (ibox st) g i = Inr vol \<Longrightarrow> \<exists>e. IsValidAccessMode vol req = Err e" for i g vol
    using assms(2,3) by (simp add: IsValidAccessMode_def Let_def)
  have "wp (sc_ControllerPublishVolume E sc req) h (\<lambda>r t. C_MapVolumeToHost hostID volumeID lun \<notin> set t)"
    using assms(1)
    by (cases sc) (auto simp: ControllerPublishVolume_fc_def ControllerPublishVolume_iscsi_def
        ControllerPublishVolume_nvme_def ValidateHost_def Let_def wp_simps split: res.splits dest!: refused)
  then show ?thesis by (simp add: wp_def)
qed

theorem publish_write_protected_witness:
  "C_MapVolumeToHost 5 7 (-1) \<notin> set (calls_of (sc_ControllerPublishVolume stocked_env (FCstorage (sample_storage
     (stocked_ibox\<lparr>r_GetVolume := (\<lambda>h i. Inr (sample_volume\<lparr>vol_WriteProtected := True\<rparr>))\<rparr>))) sample_publish []))"
  by (rule publish_write_protected)
    (auto simp: sample_storage_def sample_cs_def sample_publish_def pub_mode_def mode_of_def write_modes_def)

section \<open>Snapshots\<close>

text \<open>When a volume or snapshot of the requested name exists, creating a block snapshot changes nothing:
  the answer is that snapshot when it belongs to the requested source, and \<open>AlreadyExists\<close> otherwise.\<close>

theorem snapshot_idempotent:
  assumes "r_GetVolumeByName (cs_IboxAPI cs) h (csr_Name req) = Inr vol"
  shows "wp (CommonCreateSnapshot E req cs) h (\<lambda>r t. t = [C_GetVolumeByName (csr_Name req)] \<and>
    (if vol_ParentID vol = vpc_VolumeID (cs_VolProto cs)
     then \<exists>snap. r = Ok snap \<and> csn_SnapshotId snap = Itoa (vol_ID vol) @ ''$$'' @ vpc_StorageType (cs_VolProto cs) \<and>
        csn_SizeBytes snap = vol_Size vol \<and> csn_SourceVolumeId snap = csr_SourceVolumeId req
     else \<exists>msg. r = Err (Status_Error AlreadyExists msg)))"
  using assms by (auto simp: CommonCreateSnapshot_def snapshot_answer_def wp_simps)

definition sample_snapshot :: CsiCreateSnapshotRequest where
  "sample_snapshot = \<lparr>csr_Name = ''snap-1'', csr_SourceVolumeId = ''7$$fc'', csr_Parameters = [], csr_Secrets = sample_secrets\<rparr>"

theorem snapshot_idempotent_witness:
  "calls_of (CommonCreateSnapshot stocked_env sample_snapshot (sample_cs (stocked_ibox\<lparr>r_GetVolumeByName :=
     (\<lambda>h _. Inr (sample_volume\<lparr>vol_ParentID := 7\<rparr>))\<rparr>)) []) = [C_GetVolumeByName ''snap-1'']"
  using snapshot_idempotent [of "sample_cs (stocked_ibox\<lparr>r_GetVolumeByName :=
     (\<lambda>h _. Inr (sample_volume\<lparr>vol_ParentID := 7\<rparr>))\<rparr>)" "[]" sample_snapshot "sample_volume\<lparr>vol_ParentID := 7\<rparr>" stocked_env]
  by (simp add: sample_cs_def wp_def sample_snapshot_def)

definition snapshot_call :: "CsiCreateSnapshotRequest \<Rightarrow> Commonservice \<Rightarrow> call list \<Rightarrow> call \<Rightarrow> bool" where

  "snapshot_call req cs h x = (case x of
     C_CreateSnapshotVolume q \<Rightarrow> csv_ParentID q = vpc_VolumeID (cs_VolProto cs) \<and> csv_SnapshotName q = csr_Name req \<and>
        csv_WriteProtected q \<and>
        (if lookup (csr_Parameters req) LockExpiresAtParameter = '''' then csv_LockExpiresAt q = 0
         else \<exists>h0 ntp rest. h = h0 @ [C_GetNtpStatus] \<and> r_GetNtpStatus (cs_IboxAPI cs) h0 = Inr (ntp # rest) \<and>
           ValidateSnapshotLockingParameter (ntp_LastProbeTimestamp ntp) (lookup (csr_Parameters req) LockExpiresAtParameter)
             = Ok (csv_LockExpiresAt q))
   | _ \<Rightarrow> \<not> mutating x)"

text \<open>Creating a block snapshot changes nothing but creating the one snapshot of the requested name and
  source; it is write protected, and its lock is the one that \<open>lock_expires_at\<close> asks for, computed
  from the clock that the InfiniBox has just reported, or none.\<close>

theorem snapshot_calls:
  "each_call (snapshot_call req cs) h (calls_of (CommonCreateSnapshot E req cs h))"
proof -
  have "wp (CommonCreateSnapshot E req cs) h (\<lambda>r t. each_call (snapshot_call req cs) h t)"
    by (auto simp: CommonCreateSnapshot_def snapshot_create_def snapshot_lock_def snapshot_answer_def Let_def wp_simps
        snapshot_call_def split: res.splits)
  then show ?thesis by (simp add: wp_def)
qed



section \<open>Replicas\<close>

text \<open>When a replica may be made: after the link to the remote system was found.\<close>

definition linked :: "gomap \<Rightarrow> Client \<Rightarrow> call list \<Rightarrow> bool" where
  "linked params c h \<longleftrightarrow> (\<exists>h0 h1 links. h = h0 @ C_GetLinks # h1 \<and> r_GetLinks c h0 = Inr links \<and>
     lookup params IboxReplicaRemoteIboxLinkNameParameter \<in> link_RemoteSystemName ` set links)"

definition replica_call :: "gomap \<Rightarrow> Client \<Rightarrow> call list \<Rightarrow> call \<Rightarrow> bool" where
  "replica_call params c h x \<longleftrightarrow> \<not> mutating x \<or>
     linked params c h \<and> ((\<exists>q. x = K_CreateIboxreplica q) \<or> (\<exists>q. x = K_CreateIboxcg q))"

lemma linked_append: "linked params c h \<Longrightarrow> linked params c (h @ t)"
  by (force simp: linked_def)

lemma verifyLinkExists_linked:
  "verifyLinkExists cs (lookup params IboxReplicaRemoteIboxLinkNameParameter) h = (Ok u, t)
   \<Longrightarrow> linked params (cs_IboxAPI cs) (h @ t)"
  unfolding linked_def
  by (rule exI [of _ h], rule exI [of _ "[]"]) (force simp: verifyLinkExists_def run_defs list_ex_iff split: sum.splits if_splits)

lemma each_call_linked:
  "\<forall>x \<in> set t. \<not> mutating x \<or> (\<exists>q. x = K_CreateIboxreplica q) \<or> (\<exists>q. x = K_CreateIboxcg q) \<Longrightarrow>
   linked params c h \<Longrightarrow> each_call (replica_call params c) h t"
  by (induction t arbitrary: h) (auto simp: replica_call_def linked_append)

lemma wait_for_cg_calls [only_intros]: "P (C_GetConsistencyGroupByName name) \<Longrightarrow> only P (wait_for_cg n c name)"
  by (induction n) (simp_all add: only_return only_try only_GetConsistencyGroupByName_api)

lemma wp_each_case_option:
  "(x = None \<Longrightarrow> wp m h (\<lambda>r t. each_call Q h t)) \<Longrightarrow> (\<And>a. x = Some a \<Longrightarrow> wp (k a) h (\<lambda>r t. each_call Q h t))
   \<Longrightarrow> wp (case x of None \<Rightarrow> m | Some a \<Rightarrow> k a) h (\<lambda>r t. each_call Q h t)"
  by (cases x) auto

text \<open>A replica, or the addition to a consistency group, is created only after the InfiniBox has listed the link
  to the remote system that the StorageClass names; nothing else is changed.\<close>

theorem replica_needs_link:
  "each_call (replica_call params (cs_IboxAPI cs)) h (calls_of (handleSCReplica E cs volName protocol params h))"
proof -
  let ?c = "cs_IboxAPI cs" and ?ok = "\<lambda>x. \<not> mutating x \<or> (\<exists>q. x = K_CreateIboxreplica q) \<or> (\<exists>q. x = K_CreateIboxcg q)"
  have link: "wp (verifyLinkExists cs name) g (\<lambda>r t. each_call (replica_call params ?c) g t)" for name g
    by (auto simp: verifyLinkExists_def wp_simps replica_call_def)
  have rest: "wp m g (\<lambda>r t. each_call (replica_call params ?c) g t)" if "only ?ok m" "linked params ?c g" for m :: "unit go" and g
    by (rule wp_mono [OF wp_only [OF that(1)]]) (rule each_call_linked [OF _ that(2)])
  have tail: "wp (then_go (verifyLinkExists cs (lookup params IboxReplicaRemoteIboxLinkNameParameter)) k) h
      (\<lambda>r t. each_call (replica_call params ?c) h t)" if "\<And>u. only ?ok (k u)" for k :: "unit \<Rightarrow> unit go"
    by (rule wp_each_then [OF link rest [OF that]]) (rule verifyLinkExists_linked)
  have "wp (handleSCReplica E cs volName protocol params) h (\<lambda>r t. each_call (replica_call params ?c) h t)"
    unfolding handleSCReplica_def verifyCGExists_def Let_def
    by (intro wp_each_if wp_each_case_option tail only_intros) (simp_all add: wp_return wp_fail)
  then show ?thesis by (simp add: wp_def)
qed

end
