(* ===== verification/Group_Props.thy ===== *)
theory Group_Props
  imports Group_Service Controller_Props
begin

text \<open>
  What the listing of snapshots and the group controller guarantee, and where they fall short.
\<close>

section \<open>Consistency groups for snapshots\<close>

definition source_number :: "string \<Rightarrow> int \<Rightarrow> bool" where
  "source_number ident i \<longleftrightarrow> (\<exists>number proto. Split ident ''$$'' = [number, proto] \<and> Atoi number = Some i)"

lemma source_volume_Ok:
  assumes "source_volume api ident h = (Ok (i, vol), t)"
  shows "source_number ident i \<and> t = [C_GetVolume i] \<and> r_GetVolume api h i = Inr vol"
proof -
  have two: "\<exists>a b. xs = [a, b]" if "length xs = 2" for xs :: "string list"
    using that by (auto simp: numeral_2_eq_2 length_Suc_conv)
  show ?thesis
    using assms two [of "Split ident ''$$''"]
    by (auto simp: source_volume_def source_number_def or_status_def GetVolume_api_def Let_def go_run split: go_splits)
qed

lemma source_volumes_Ok:
  assumes "map_go (source_volume api) ids h = (Ok vols, t)"
  shows "list_all2 source_number ids (map fst vols) \<and> t = map (\<lambda>v. C_GetVolume (fst v)) vols"
  using assms
proof (induction ids arbitrary: h vols t)
  case Nil
  then show ?case by simp
next
  case (Cons ident ids)
  then obtain y s zs u where "source_volume api ident h = (Ok y, s)"
    "map_go (source_volume api) ids (h @ s) = (Ok zs, u)" "vols = y # zs" "t = s @ u"
    unfolding map_go_Cons_Ok by blast
  with Cons.IH [of "h @ s" zs u] source_volume_Ok [of api ident h "fst y" "snd y" s] show ?case by simp
qed

lemma add_members_Ok:
  "map_go (\<lambda>i. or_status c s (AddMemberToSnapshotGroup_api api i g) return_go) ns h = (Ok us, t)
   \<Longrightarrow> t = map (\<lambda>i. C_AddMemberToSnapshotGroup i g) ns"
  by (erule map_go_calls) (auto simp: or_status_def AddMemberToSnapshotGroup_api_def go_run split: go_splits)

text \<open>A new consistency group gets exactly the volumes of the request, in their order: all of them are read
  before the group is created, and every one is added.\<close>

theorem createCG_members:
  assumes "createCG api name ids h = (Ok cg, t)"
  shows "\<exists>is pool. list_all2 source_number ids is \<and>
    t = map C_GetVolume is @ C_CreateConsistencyGroup \<lparr>ccg_Name = name, ccg_PoolID = pool\<rparr> #
        map (\<lambda>i. C_AddMemberToSnapshotGroup i (cg_ID cg)) is"
proof -
  obtain vols s where vols: "map_go (source_volume api) ids h = (Ok vols, s)"
    using assms by (auto simp: createCG_def run_then split: go_splits)
  let ?pool = "if vols = [] then 0 else vol_PoolID (snd (last vols))"
  let ?add = "\<lambda>g. map_go (\<lambda>i. or_status Internal ''failed to add volume to cg error '' (AddMemberToSnapshotGroup_api api i g) return_go)
    (map fst vols)"
  let ?create = "C_CreateConsistencyGroup \<lparr>ccg_Name = name, ccg_PoolID = ?pool\<rparr>"
  obtain us s1 where "?add (cg_ID cg) (h @ s @ [?create]) = (Ok us, s1)" and t: "t = s @ ?create # s1"
    using assms vols by (auto simp: createCG_def Let_def run_then or_status_def run_try CreateConsistencyGroup_api_def run_invoke
        simp del: map_go.simps split: prod.splits res.splits sum.splits)
  then have "s1 = map (\<lambda>i. C_AddMemberToSnapshotGroup i (cg_ID cg)) (map fst vols)" by (blast dest: add_members_Ok)
  with source_volumes_Ok [OF vols] show ?thesis
    by (intro exI [of _ "map fst vols"] exI [of _ ?pool]) (simp add: comp_def t)
qed

theorem createCG_members_witness:
  "\<exists>is pool. list_all2 source_number [''7$$fc'', ''8$$fc''] is \<and>
    calls_of (createCG (stocked_ibox\<lparr>r_CreateConsistencyGroup := (\<lambda>h q. Inr \<lparr>cg_ID = 5, cg_Name = ccg_Name q, cg_PoolID = 0, cg_MembersCount = 0\<rparr>),
       r_AddMemberToSnapshotGroup := (\<lambda>h i g. Inr ())\<rparr>) ''group'' [''7$$fc'', ''8$$fc''] []) =
      map C_GetVolume is @ C_CreateConsistencyGroup \<lparr>ccg_Name = ''group'', ccg_PoolID = pool\<rparr> #
        map (\<lambda>i. C_AddMemberToSnapshotGroup i (cg_ID \<lparr>cg_ID = 5, cg_Name = ''group'', cg_PoolID = 0, cg_MembersCount = 0\<rparr>)) is"
  (is "\<exists>is pool. _ \<and> calls_of (createCG ?api _ _ _) = _")
proof -
  have "fst (createCG ?api ''group'' [''7$$fc'', ''8$$fc''] []) = Ok \<lparr>cg_ID = 5, cg_Name = ''group'', cg_PoolID = 0, cg_MembersCount = 0\<rparr>"
    by code_simp
  then show ?thesis
    unfolding calls_of_def by (intro createCG_members) (simp add: prod_eq_iff)
qed

section \<open>Snapshot groups\<close>

lemmas group_defs = CreateVolumeGroupSnapshot_def DeleteVolumeGroupSnapshot_def GetVolumeGroupSnapshot_def
  group_client_def group_id_def createCG_def source_volume_def member_snapshot_def

text \<open>What a request for a group snapshot may change: it creates the consistency group of the request, adds
  volumes of the request to a group, and creates a snapshot group with the name of the request. It
  deletes and renames nothing.\<close>

fun group_change :: "CsiCreateGroupSnapshotRequest \<Rightarrow> call \<Rightarrow> bool" where
  "group_change req (C_CreateConsistencyGroup q) = (ccg_Name q = lookup (cgs_Parameters req) PARAM_CGNAME)"
| "group_change req (C_AddMemberToSnapshotGroup i g) = True"
| "group_change req (C_CreateSnapshotGroup q) = (csg_SnapName q = lookup (cgs_Parameters req) PARAM_VGSNAME \<and>
     csg_SnapPrefix q = csg_SnapName q)"
| "group_change req c = (\<not> mutating c)"

theorem group_snapshot_changes:
  "list_all (group_change req) (calls_of (CreateVolumeGroupSnapshot E req h))"
proof -
  have "only (group_change req) (CreateVolumeGroupSnapshot E req)"
    unfolding group_defs Let_def by (intro only_intros) simp_all
  then show ?thesis by (simp add: only_def list_all_iff)
qed

text \<open>When a snapshot group may be created.\<close>

definition name_was_free :: "Client \<Rightarrow> call list \<Rightarrow> call \<Rightarrow> bool" where
  "name_was_free api g c = (case c of
     C_CreateSnapshotGroup q \<Rightarrow> (\<exists>g0 e. g = g0 @ [C_GetConsistencyGroupByName (csg_SnapName q)] \<and>
        r_GetConsistencyGroupByName api g0 (csg_SnapName q) = Inl e \<and> errors_is e ErrNotFound)
   | _ \<Rightarrow> True)"

lemma wp_each_only: "only P m \<Longrightarrow> (\<And>g c. P c \<Longrightarrow> Q g c) \<Longrightarrow> wp m h (\<lambda>r t. each_call Q h t)"
  by (auto simp: wp_def only_def intro!: each_call_all)

lemma createCG_no_snapshot: "only (\<lambda>c. \<forall>q. c \<noteq> C_CreateSnapshotGroup q) (createCG api name ids)"
  unfolding createCG_def source_volume_def Let_def by (intro only_intros) simp_all

lemma members_no_snapshot:
  "only (\<lambda>c. \<forall>q. c \<noteq> C_CreateSnapshotGroup q) (member_snapshot code api ids key n t member)"
  unfolding member_snapshot_def Let_def by (intro only_intros) simp_all

lemma name_was_free_other: "\<forall>q. c \<noteq> C_CreateSnapshotGroup q \<Longrightarrow> name_was_free api g c"
  by (auto simp: name_was_free_def split: call.splits)

definition group_tail :: "Env \<Rightarrow> CsiCreateGroupSnapshotRequest \<Rightarrow> Client \<Rightarrow> ConsistencyGroupInfo \<Rightarrow> CsiVolumeGroupSnapshot go" where
  "group_tail E req api snapGroupCG =
     then_go (read_clock E) (\<lambda>creationTime.
     or_status Internal ''failed to get snapgroup CG members error '' (GetMembersByCGID_api api (cg_ID snapGroupCG)) (\<lambda>members.
     then_go (map_go (member_snapshot Internal api (cgs_SourceVolumeIds req) mem_FamilyID (cg_Name snapGroupCG) creationTime)
        members) (\<lambda>snapshots.
     return_go \<lparr>vgs_GroupSnapshotId = Itoa (cg_ID snapGroupCG), vgs_Snapshots = snapshots,
       vgs_CreationTime = creationTime, vgs_ReadyToUse = True\<rparr>)))"

lemma group_tail_each: "wp (group_tail E req api cg) h (\<lambda>r t. each_call (name_was_free api) h t)"
  unfolding group_tail_def
  by (rule wp_each_only [where P = "\<lambda>c. \<forall>q. c \<noteq> C_CreateSnapshotGroup q"])
    (intro only_intros members_no_snapshot name_was_free_other; simp)+

lemma group_tail_run: "group_tail E req api cg h = (r, t) \<Longrightarrow> each_call (name_was_free api) h t"
  using group_tail_each [of E req api cg h] by (simp add: wp_def result_of_def calls_of_def)

lemma group_create_each:
  "wp (then_go (try_go (GetConsistencyGroupByName_api api vgsName)
        (\<lambda>err. if errors_is err ErrNotFound then return_go () else fail_go (f err)) (\<lambda>_. fail_go e)) (\<lambda>_.
      or_status Internal s (CreateSnapshotGroup_api api \<lparr>csg_CGID = i, csg_SnapName = vgsName, csg_SnapPrefix = p, csg_SnapSuffix = z\<rparr>)
        (group_tail E req api))) h (\<lambda>r t. each_call (name_was_free api) h t)"
  by (auto simp: wp_def result_of_def calls_of_def go_run or_status_def CreateSnapshotGroup_api_def
      GetConsistencyGroupByName_api_def name_was_free_def [of _ _ "C_CreateSnapshotGroup _"]
      name_was_free_def [of _ _ "C_GetConsistencyGroupByName _"] split: go_splits dest!: group_tail_run)

text \<open>A snapshot group is created only right after the InfiniBox said that no group has its name.\<close>

theorem group_snapshot_fresh:
  assumes "NewClient E (cgs_Secrets req) = Ok api"
  shows "each_call (name_was_free api) h (calls_of (CreateVolumeGroupSnapshot E req h))"
proof -
  have first: "wp (try_go (GetConsistencyGroupByName_api api n)
      (\<lambda>err. if errors_is err ErrNotFound then or_status Internal s (createCG api n ids) return_go else fail_go (f err))
      return_go) g (\<lambda>r t. each_call (name_was_free api) g t)" for n s ids f g
    by (rule wp_each_only [where P = "\<lambda>c. \<forall>q. c \<noteq> C_CreateSnapshotGroup q"])
      (intro only_intros createCG_no_snapshot name_was_free_other; simp)+
  have "wp (CreateVolumeGroupSnapshot E req) h (\<lambda>r t. each_call (name_was_free api) h t)"
    unfolding CreateVolumeGroupSnapshot_def group_client_def or_status_pure assms res.case Let_def group_tail_def [symmetric]
    by (cases "BuildCommonService E [] (cgs_Secrets req) zero_VolProto"; simp only: res.case)
      (intro wp_each_then first group_create_each, simp_all add: wp_simps)
  then show ?thesis by (simp add: wp_def)
qed

text \<open>The InfiniBox of the examples knows volumes 7, 12 and 123, one consistency group, and a snapshot group with one
  member.\<close>

definition group_info :: "int \<Rightarrow> string \<Rightarrow> ConsistencyGroupInfo" where
  "group_info i n = \<lparr>cg_ID = i, cg_Name = n, cg_PoolID = 0, cg_MembersCount = 0\<rparr>"

definition group_ibox :: Client where
  "group_ibox = stocked_ibox\<lparr>
     r_GetConsistencyGroupByName := (\<lambda>h n. if n = ''group'' then Inr (group_info 5 n) else Inl ErrNotFound),
     r_CreateSnapshotGroup := (\<lambda>h q. Inr (group_info 6 (csg_SnapName q))),
     r_GetMembersByCGID := (\<lambda>h i. Inr [\<lparr>mem_ID = 7, mem_Name = ''m'', mem_Size = 1, mem_FamilyID = 12, mem_CGName = ''g''\<rparr>])\<rparr>"

definition group_env :: Env where
  "group_env = stocked_env\<lparr>dial := (\<lambda>_. group_ibox)\<rparr>"

definition group_request :: CsiCreateGroupSnapshotRequest where
  "group_request = \<lparr>cgs_Name = ''r'', cgs_SourceVolumeIds = [''12$$fc'', ''123$$fc''], cgs_Secrets = req_Secrets sample_create,
     cgs_Parameters = [(PARAM_CGNAME, ''group''), (PARAM_VGSNAME, ''snap'')]\<rparr>"

lemma group_env_connects:
  shows "\<exists>cs. BuildCommonService group_env [] (req_Secrets sample_create) zero_VolProto = Ok cs"
    and "NewClient group_env (req_Secrets sample_create) = Ok group_ibox"
proof -
  have "case BuildCommonService group_env [] (req_Secrets sample_create) zero_VolProto of Ok _ \<Rightarrow> True | _ \<Rightarrow> False"
    by code_simp
  then show "\<exists>cs. BuildCommonService group_env [] (req_Secrets sample_create) zero_VolProto = Ok cs"
    by (simp split: res.splits)
  have "\<exists>creds. getAPIConfig group_env (req_Secrets sample_create) = Ok creds"
    by (rule exI) code_simp
  then show "NewClient group_env (req_Secrets sample_create) = Ok group_ibox"
    by (auto simp: NewClient_def group_env_def)
qed

theorem group_snapshot_fresh_witness:
  "each_call (name_was_free group_ibox) [] (calls_of (CreateVolumeGroupSnapshot group_env group_request [])) \<and>
   C_CreateSnapshotGroup \<lparr>csg_CGID = 5, csg_SnapName = ''snap'', csg_SnapPrefix = ''snap'', csg_SnapSuffix = ''''\<rparr> \<in>
     set (calls_of (CreateVolumeGroupSnapshot group_env group_request []))"
  by (intro conjI group_snapshot_fresh; (simp add: group_request_def group_env_connects; fail)?) code_simp

text \<open>The source volume of a snapshot is looked up by the text of its number: for the snapshot of volume 12, a request
  for volumes 12 and 123 is answered with volume 123 as the source.\<close>

theorem group_snapshot_wrong_source:
  "map_res (\<lambda>answer. map csn_SourceVolumeId (vgs_Snapshots answer))
     (result_of (CreateVolumeGroupSnapshot group_env group_request [])) = Ok [''123$$fc'']"
  by code_simp

text \<open>A group snapshot that is gone cannot be deleted again: the answer is \<open>Internal\<close>, not success.\<close>

theorem group_delete_not_idempotent:
  assumes "BuildCommonService E [] (gsr_Secrets req) zero_VolProto = Ok cs" and "NewClient E (gsr_Secrets req) = Ok api"
    and "Atoi (gsr_GroupSnapshotId req) = Some i" and "r_DeleteConsistencyGroup api h i = Inl e"
  shows "\<exists>s. DeleteVolumeGroupSnapshot E req h = (Err (Status_Error Internal s), [C_DeleteConsistencyGroup i])"
  using assms by (simp add: group_defs or_status_pure or_status_def ibox_api_defs go_run)

theorem group_delete_not_idempotent_witness:
  "\<exists>s. DeleteVolumeGroupSnapshot group_env \<lparr>gsr_GroupSnapshotId = ''6'', gsr_SnapshotIds = [], gsr_Secrets = req_Secrets sample_create\<rparr> [] =
     (Err (Status_Error Internal s), [C_DeleteConsistencyGroup 6])"
proof -
  obtain cs where "BuildCommonService group_env [] (req_Secrets sample_create) zero_VolProto = Ok cs"
    using group_env_connects(1) by blast
  moreover have "Atoi ''6'' = Some 6" "r_DeleteConsistencyGroup group_ibox [] 6 = Inl ErrNotFound" by code_simp+
  ultimately show ?thesis
    by (intro group_delete_not_idempotent [where api = group_ibox and e = ErrNotFound and i = 6 and cs = cs])
      (simp_all add: group_env_connects(2))
qed

section \<open>The members of an answer\<close>

lemma matching_id_in: "matching_id ids i \<in> set ids \<or> matching_id ids i = ''''"
  unfolding matching_id_def
  by (induction ids rule: rev_induct) auto

definition member_of :: "string list \<Rightarrow> CsiMemberSnapshot \<Rightarrow> bool" where
  "member_of ids s \<longleftrightarrow> csn_SourceVolumeId s \<in> set ids \<and> csn_ReadyToUse s \<and>
     (\<exists>i number proto. csn_SnapshotId s = Itoa i @ ''$$'' @ proto \<and> Split (csn_SourceVolumeId s) ''$$'' = [number, proto])"

lemma member_snapshot_returns: "returns (member_of ids) (member_snapshot code api ids key n t member)"
proof -
  let ?source = "matching_id ids (key member)"
  have "?source \<in> set ids" if "length (Split ?source ''$$'') = 2"
    using matching_id_in [of ids "key member"] that by (auto simp: Split_no_sep)
  moreover have "\<exists>a. Split ?source ''$$'' = [a, Split ?source ''$$'' ! 1]" if "length (Split ?source ''$$'') = 2"
    using that by (auto simp: numeral_2_eq_2 length_Suc_conv)
  ultimately show ?thesis
    unfolding member_snapshot_def Let_def
    by (auto intro!: returns_intros simp: member_of_def)
qed



section \<open>Listing snapshots\<close>

definition listed_for :: "CsiListSnapshotsRequest \<Rightarrow> CsiSnapshot \<Rightarrow> bool" where
  "listed_for req e \<longleftrightarrow> (lsr_SourceVolumeId req \<noteq> '''' \<longrightarrow> csn_SourceVolumeId e = lsr_SourceVolumeId req) \<and>
     (lsr_SourceVolumeId req = '''' \<and> lsr_SnapshotId req \<noteq> '''' \<longrightarrow> csn_SnapshotId e = lsr_SnapshotId req)"

lemma list_all_map_filter: "list_all (\<lambda>x. \<forall>y. x = Some y \<longrightarrow> P y) xs \<Longrightarrow> list_all P (List.map_filter id xs)"
  by (induction xs) (auto simp: List.map_filter_def)

lemma snapshot_entry_returns:
  "returns (\<lambda>x. \<forall>e. x = Some e \<longrightarrow> listed_for req e) (snapshot_entry api req volumeID snapshot)"
  unfolding snapshot_entry_def Let_def by (intro returns_intros) (auto simp: listed_for_def)

lemma snapshots_of_ibox_returns: "returns (list_all (listed_for req)) (snapshots_of_ibox E req secret)"
  unfolding snapshots_of_ibox_def
  by (intro returns_intros list_all_map_filter) (rule returnsD [OF returns_map [OF snapshot_entry_returns]])

text \<open>A listing for a source volume, or for one snapshot, has only entries of that volume, or of that snapshot, with the
  id of the request.\<close>

theorem list_snapshots_filtered:
  assumes "ListSnapshots E req h = (Ok entries, t)"
  shows "list_all (listed_for req) entries"
proof -
  have "returns (list_all (listed_for req)) (ListSnapshotsImplementation E req n)" for n
    unfolding ListSnapshotsImplementation_def
    by (intro returns_intros) (auto simp: list_all_iff dest!: returnsD [OF returns_map [OF snapshots_of_ibox_returns]])
  then have "returns (list_all (listed_for req)) (ListSnapshots E req)"
    unfolding ListSnapshots_def Let_def by (intro returns_intros) (blast dest: returnsD)
  then show ?thesis using assms by (rule returnsD)
qed

text \<open>The listing of all InfiniBoxes only reads.\<close>

theorem list_snapshots_reads: "list_all (\<lambda>c. \<not> mutating c) (calls_of (ListSnapshots E req h))"
proof -
  have "reads (ListSnapshots E req)"
    unfolding ListSnapshots_def ListSnapshotsImplementation_def snapshots_of_ibox_def snapshot_entry_def parent_name_def Let_def
    by (intro only_intros) simp_all
  then show ?thesis by (simp add: only_def list_all_iff)
qed

end
