(* ===== verification/Ibox_Http.thy ===== *)
theory Ibox_Http
  imports Ibox_Client
begin

text \<open>
  The package \<open>iboxapi\<close>: the REST client behind the interface \<open>iboxapi.Client\<close>. A method builds one
  HTTP request, or one per page of a listing, sends it with the credentials of the client, decodes
  the JSON body and turns an error code of the InfiniBox into an error of Go.

  \<open>net/http\<close> is the record \<open>Http\<close>: whether a URL is accepted by \<open>NewRequest\<close>, and the answer of the
  server, which may depend on all requests sent before: no answer (\<open>Do\<close> fails), or a body that is
  read completely or in part. \<open>encoding/json\<close> is the record \<open>Json\<close>: for every type of answer, what
  \<open>Unmarshal\<close> makes of a body. Nothing is assumed of either. The value given to \<open>Marshal\<close> stands in
  the request as it is (\<open>payload\<close>); these values have no part that cannot be marshalled. A query is
  a map, the order of its entries has no meaning. Errors of the library carry a text and never one of the
  sentinels of \<open>iboxapi\<close>. A page counter does not reach \<open>2^63\<close>.
\<close>

section \<open>Requests and answers\<close>

datatype http_method = GET | POST | PUT | DELETE

record ActiveActiveInfo =
  aa_BaseAction :: string
  aa_RemoteEntityName :: string

record ReplicationPairInfo =
  rpi_LocalEntityID :: int
  rpi_RemoteEntityName :: string
  rpi_LocalBaseAction :: string
  rpi_RemoteBaseAction :: string

record AddMemberToCGRequest =
  amr_DatasetID :: int
  amr_AAInfo :: ActiveActiveInfo
  amr_PairInfo :: ReplicationPairInfo
  amr_ReplicationPairsInfo :: string

record AddHostSecurityRequest =
  ahs_SecurityMethod :: string
  ahs_SecurityCHAPInboundUsername :: string
  ahs_SecurityCHAPInboundSecret :: string
  ahs_SecurityCHAPOutboundUsername :: string
  ahs_SecurityCHAPOutboundSecret :: string

text \<open>The values the methods marshal; \<open>P_Text\<close> is a JSON string, \<open>P_Nothing\<close> a request without a body.\<close>

datatype (plugins only: code size) payload = P_Nothing | P_Text string
  | P_CreateVolume CreateVolumeRequest | P_Volume Volume | P_CreateSnapshot CreateSnapshotVolumeRequest
  | P_HostName string | P_AddPort string string | P_HostSecurity AddHostSecurityRequest | P_MapVolume int
  | P_CreateFileSystem CreateFileSystemRequest | P_FileSystem FileSystem | P_FileSystemSnapshot FileSystemSnapshot
  | P_CreateTreeq CreateTreeqRequest | P_UpdateTreeq UpdateTreeqRequest
  | P_CreateExport CreateExportRequest | P_ExportPermissions "Permissions list"
  | P_Metadata jsonmap | P_CreateCG CreateConsistencyGroupRequest | P_SnapshotGroup CreateSnapshotGroupRequest
  | P_Dataset int | P_AddMember AddMemberToCGRequest | P_CreateReplica CreateReplicaRequest | P_Event EventRequest

text \<open>\<open>SetAuthHeader\<close>: user and password are sent with every request, as \<open>user:password\<close> in base 64.\<close>

record http_request =
  hr_Method :: http_method
  hr_URL :: string
  hr_Query :: gomap
  hr_BasicAuth :: string
  hr_Body :: payload

type_synonym 'a http = "(http_request, 'a) prog"

record Metadata =
  meta_Ready :: bool
  meta_NumberOfObjects :: int
  meta_PageSize :: int
  meta_PagesTotal :: int
  meta_Page :: int

text \<open>The code and the message of \<open>iboxapi.Error\<close>; a body without an error has the empty code.\<close>

record Error =
  err_Code :: string
  err_Message :: string

record 'a response =
  resp_Metadata :: Metadata
  resp_Result :: 'a
  resp_Error :: Error

record Http =
  http_NewRequest :: "string \<Rightarrow> string option"
  http_Do :: "http_request list \<Rightarrow> http_request \<Rightarrow> string + (string \<times> string option)"

type_synonym 'a decoder = "string \<Rightarrow> 'a response option"

record Json =
  json_unit :: "unit decoder"
  json_int :: "int decoder"
  json_features :: "FeatureResult list decoder"
  json_pool :: "PoolResult decoder"
  json_pools :: "PoolResult list decoder"
  json_volume :: "Volume decoder"
  json_volumes :: "Volume list decoder"
  json_snapshot :: "Snapshot decoder"
  json_spaces :: "NetworkSpace list decoder"
  json_host :: "Host decoder"
  json_hosts :: "Host list decoder"
  json_ports :: "HostPort list decoder"
  json_lun :: "LunInfo decoder"
  json_luns :: "LunInfo list decoder"
  json_fcnodes :: "FCNode list decoder"
  json_fs :: "FileSystem decoder"
  json_fss :: "FileSystem list decoder"
  json_fssnapshot :: "FileSystemSnapshotResponse decoder"
  json_treeq :: "Treeq decoder"
  json_treeqs :: "Treeq list decoder"
  json_export :: "Export decoder"
  json_exports :: "Export list decoder"
  json_metadata :: "GetMetadataResult list decoder"
  json_cg :: "ConsistencyGroupInfo decoder"
  json_cgs :: "ConsistencyGroupInfo list decoder"
  json_members :: "MemberInfo list decoder"
  json_link :: "Link decoder"
  json_links :: "Link list decoder"
  json_replica :: "Replica decoder"
  json_replicas :: "Replica list decoder"
  json_ntp :: "NtpStatus list decoder"

record IboxClient =
  ic_Creds :: Credentials
  ic_HTTP :: Http
  ic_JSON :: Json

section \<open>Sending a request (iboxapi.go)\<close>

definition basic_auth :: "Credentials \<Rightarrow> string" where
  "basic_auth creds = cred_Username creds @ '':'' @ cred_Password creds"

definition SetAuthHeader :: "http_request \<Rightarrow> Credentials \<Rightarrow> http_request" where
  "SetAuthHeader req creds = req\<lparr>hr_BasicAuth := basic_auth creds\<rparr>"

definition wrapped :: "string \<Rightarrow> string \<Rightarrow> go_error" where
  "wrapped what text = Errorf (what @ '' - error: '') (Errors_New text)"

text \<open>\<open>NewRequest\<close>, the query, the header and \<open>Do\<close>; the body comes with the error of \<open>ReadAll\<close>, if any.\<close>

definition send :: "IboxClient \<Rightarrow> http_method \<Rightarrow> string \<Rightarrow> gomap \<Rightarrow> payload \<Rightarrow> (string \<times> string option) http" where
  "send client method url parameters v =
     (case http_NewRequest (ic_HTTP client) url of
        Some e \<Rightarrow> fail_go (wrapped ''newRequest'' e)
      | None \<Rightarrow>
         (let req = SetAuthHeader \<lparr>hr_Method = method, hr_URL = url, hr_Query = parameters, hr_BasicAuth = '''', hr_Body = v\<rparr>
                      (ic_Creds client)
          in invoke req (\<lambda>h. case http_Do (ic_HTTP client) h req of
               Inl e \<Rightarrow> Inl (wrapped ''do'' e) | Inr answer \<Rightarrow> Inr answer)))"

definition read_all :: "string \<times> string option \<Rightarrow> string http" where
  "read_all answer = (case snd answer of
     Some e \<Rightarrow> fail_go (wrapped ''readAll'' e) | None \<Rightarrow> return_go (fst answer))"

definition commonGetLogic :: "IboxClient \<Rightarrow> string \<Rightarrow> gomap \<Rightarrow> string http" where
  "commonGetLogic client url parameters = then_go (send client GET url parameters P_Nothing) read_all"

text \<open>An error of \<open>ReadAll\<close> is ignored: the part that was read counts as the body.\<close>

definition commonPostLogic :: "IboxClient \<Rightarrow> string \<Rightarrow> gomap \<Rightarrow> payload \<Rightarrow> string http" where
  "commonPostLogic client url parameters v =
     then_go (send client POST url parameters v) (\<lambda>answer. return_go (fst answer))"

text \<open>\<open>PUT\<close> and \<open>DELETE\<close> have no common function; the methods repeat this text.\<close>

definition send_and_read :: "IboxClient \<Rightarrow> http_method \<Rightarrow> string \<Rightarrow> gomap \<Rightarrow> payload \<Rightarrow> string http" where
  "send_and_read client method url parameters v = then_go (send client method url parameters v) read_all"

section \<open>Reading an answer\<close>

definition unmarshal :: "'a decoder \<Rightarrow> string \<Rightarrow> 'a response http" where
  "unmarshal decode body = (case decode body of
     None \<Rightarrow> fail_go (wrapped ''unmarshal'' body) | Some r \<Rightarrow> return_go r)"

definition error_code :: "'a response \<Rightarrow> string" where
  "error_code r = err_Code (resp_Error r)"

definition api_error :: "string \<Rightarrow> 'a response \<Rightarrow> go_error" where
  "api_error url r = Errors_New (''ibox API - error: {'' @ error_code r @ '' '' @ err_Message (resp_Error r) @
     ''} url: '' @ url)"

definition not_found :: "string \<Rightarrow> go_error" where
  "not_found code = Errorf (''errorCode: '' @ code @ '' - error: '') ErrNotFound"

text \<open>The result, unless there is an error code; the codes \<open>gone\<close> become \<open>ErrNotFound\<close>.\<close>

definition checked :: "string list \<Rightarrow> string \<Rightarrow> 'a response \<Rightarrow> 'a http" where
  "checked gone url r =
     (if error_code r = '''' then return_go (resp_Result r)
      else if error_code r \<in> set gone then fail_go (not_found (error_code r))
      else fail_go (api_error url r))"

definition api_url :: "IboxClient \<Rightarrow> string \<Rightarrow> string" where
  "api_url client path = cred_URL (ic_Creds client) @ path"

definition in_step :: "string \<Rightarrow> 'a http \<Rightarrow> 'a http" where
  "in_step what m = try_go m (\<lambda>e. fail_go (Errorf (what @ '' - error: '') e)) return_go"

definition get_json :: "IboxClient \<Rightarrow> string \<Rightarrow> gomap \<Rightarrow> (Json \<Rightarrow> 'a decoder) \<Rightarrow> 'a response http" where
  "get_json client path parameters decode =
     then_go (in_step ''commonGetLogic'' (commonGetLogic client (api_url client path) parameters))
       (unmarshal (decode (ic_JSON client)))"

definition post_json :: "IboxClient \<Rightarrow> string \<Rightarrow> gomap \<Rightarrow> payload \<Rightarrow> (Json \<Rightarrow> 'a decoder) \<Rightarrow> 'a response http" where
  "post_json client path parameters v decode =
     then_go (in_step ''commonPostLogic'' (commonPostLogic client (api_url client path) parameters v))
       (unmarshal (decode (ic_JSON client)))"

definition send_json :: "IboxClient \<Rightarrow> http_method \<Rightarrow> string \<Rightarrow> gomap \<Rightarrow> payload \<Rightarrow> (Json \<Rightarrow> 'a decoder) \<Rightarrow> 'a response http" where
  "send_json client method path parameters v decode =
     then_go (send_and_read client method (api_url client path) parameters v)
       (unmarshal (decode (ic_JSON client)))"

definition PARAMETER_APPROVED :: string where "PARAMETER_APPROVED = ''approved''"
definition PARAMETER_VALUE_TRUE :: string where "PARAMETER_VALUE_TRUE = ''true''"
definition PARAMETER_VALUE_FALSE :: string where "PARAMETER_VALUE_FALSE = ''false''"
definition PARAMETER_PAGE_SIZE :: string where "PARAMETER_PAGE_SIZE = ''page_size''"
definition PARAMETER_PAGE :: string where "PARAMETER_PAGE = ''page''"
definition IBOXDefaultQueryPageSize :: int where "IBOXDefaultQueryPageSize = 1000"

definition approved :: gomap where
  "approved = [(PARAMETER_APPROVED, PARAMETER_VALUE_TRUE)]"

definition page_query :: "int \<Rightarrow> gomap" where
  "page_query page = [(PARAMETER_PAGE_SIZE, Itoa IBOXDefaultQueryPageSize), (PARAMETER_PAGE, Itoa page)]"

section \<open>Listings\<close>

text \<open>
  \<^verbatim>\<open>totalPages := 1; for page := 1; page <= totalPages; page++\<close>: the number of pages is taken from the
  first page. An error ends the loop; the entries read so far are returned with it.
\<close>

function read_pages :: "(int \<Rightarrow> 'a list response http) \<Rightarrow> int \<Rightarrow> int \<Rightarrow> 'a list \<Rightarrow> ('a list \<times> go_error option) http" where
  "read_pages query page totalPages results =
     (if page > totalPages then return_go (results, None)
      else try_go (query page) (\<lambda>err. return_go (results, Some err))
        (\<lambda>r. read_pages query (page + 1) (if page = 1 then meta_PagesTotal (resp_Metadata r) else totalPages)
               (results @ resp_Result r)))"
  by pat_completeness auto

termination
  by (relation "measures [\<lambda>(q, page, total, acc). if page \<le> 1 then 1 else 0, \<lambda>(q, page, total, acc). nat (total + 1 - page)]") auto

declare read_pages.simps [simp del]

text \<open>One page of a listing, refused when it carries an error code.\<close>

definition page_of :: "IboxClient \<Rightarrow> string \<Rightarrow> gomap \<Rightarrow> (Json \<Rightarrow> 'a list decoder) \<Rightarrow> int \<Rightarrow> 'a list response http" where
  "page_of client path parameters decode page =
     then_go (get_json client path (parameters @ page_query page) decode)
       (\<lambda>r. then_go (checked [] (api_url client path) r) (\<lambda>_. return_go r))"

definition list_with_error :: "IboxClient \<Rightarrow> string \<Rightarrow> gomap \<Rightarrow> (Json \<Rightarrow> 'a list decoder) \<Rightarrow> ('a list \<times> go_error option) http" where
  "list_with_error client path parameters decode = read_pages (page_of client path parameters decode) 1 1 []"

definition list_all_pages :: "IboxClient \<Rightarrow> string \<Rightarrow> gomap \<Rightarrow> (Json \<Rightarrow> 'a list decoder) \<Rightarrow> 'a list http" where
  "list_all_pages client path parameters decode =
     then_go (list_with_error client path parameters decode)
       (\<lambda>(results, err). case err of None \<Rightarrow> return_go results | Some e \<Rightarrow> fail_go e)"

text \<open>
  \<open>GetVolumeByName\<close> and \<open>GetNetworkSpaceByName\<close> keep the first entry of every page they read, so the
  entry of the last page; a page without entries is \<open>ErrNotFound\<close>.
\<close>

function first_of_pages :: "go_error \<Rightarrow> (int \<Rightarrow> 'a list response http) \<Rightarrow> int \<Rightarrow> int \<Rightarrow> 'a option \<Rightarrow> 'a http" where
  "first_of_pages missing query page totalPages found =
     (if page > totalPages
      then (case found of Some x \<Rightarrow> return_go x | None \<Rightarrow> panic_go ''nil pointer dereference'')
      else then_go (query page) (\<lambda>r. case resp_Result r of
          [] \<Rightarrow> fail_go missing
        | x # _ \<Rightarrow> first_of_pages missing query (page + 1)
            (if page = 1 then meta_PagesTotal (resp_Metadata r) else totalPages) (Some x)))"
  by pat_completeness auto

termination
  by (relation "measures [\<lambda>(m, q, page, total, f). if page \<le> 1 then 1 else 0, \<lambda>(m, q, page, total, f). nat (total + 1 - page)]") auto

declare first_of_pages.simps [simp del]

text \<open>\<open>GetLunByHostVolume\<close> stops at the first page that has an entry.\<close>

function some_page :: "(int \<Rightarrow> 'a list response http) \<Rightarrow> int \<Rightarrow> int \<Rightarrow> 'a http" where
  "some_page query page totalPages =
     (if page > totalPages then fail_go ErrNotFound
      else then_go (query page) (\<lambda>r. case resp_Result r of
          x # _ \<Rightarrow> return_go x
        | [] \<Rightarrow> some_page query (page + 1) (if page = 1 then meta_PagesTotal (resp_Metadata r) else totalPages)))"
  by pat_completeness auto

termination
  by (relation "measures [\<lambda>(q, page, total). if page \<le> 1 then 1 else 0, \<lambda>(q, page, total). nat (total + 1 - page)]") auto

declare some_page.simps [simp del]

text \<open>Queries by name that read one page.\<close>

definition first_result :: "'a list response \<Rightarrow> 'a http" where
  "first_result r = (case resp_Result r of [] \<Rightarrow> fail_go ErrNotFound | x # _ \<Rightarrow> return_go x)"

end
