(* ===== verification/Ibox_Methods.thy ===== *)
theory Ibox_Methods
  imports Ibox_Http
begin

text \<open>
  The methods of \<open>iboxapi.IboxClient\<close>, file by file: the path, the query and the body of the request, and
  how the answer is read. A doubled slash in a path is the code's.
\<close>

section \<open>features.go, pool.go, config.go\<close>

definition GetFeatures_http :: "IboxClient \<Rightarrow> (FeatureResult list) http" where
  "GetFeatures_http client =
     then_go (get_json client ''api/rest/_features'' [] json_features) (\<lambda>r.
     then_go (checked [] (api_url client ''api/rest/_features'') r) (\<lambda>result.
     if result = [] then fail_go ErrNotFound else return_go result))"

definition GetPoolByName_http :: "IboxClient \<Rightarrow> string \<Rightarrow> PoolResult http" where
  "GetPoolByName_http client name =
     then_go (get_json client ''api/rest/pools'' (page_query 1 @ [(''name'', name)]) json_pools) (\<lambda>r.
     then_go (checked [] (api_url client ''api/rest/pools'') r) (\<lambda>_. first_result r))"

definition GetPoolByID_http :: "IboxClient \<Rightarrow> int \<Rightarrow> PoolResult http" where
  "GetPoolByID_http client poolID =
     then_go (get_json client (''api/rest/pools/'' @ Itoa poolID) [] json_pool) (checked [''POOL_NOT_FOUND''] (api_url client (''api/rest/pools/'' @ Itoa poolID)))"

text \<open>The error of the answer is not looked at: an absent limit is 0.\<close>

definition GetMaxFileSystems_http :: "IboxClient \<Rightarrow> int http" where
  "GetMaxFileSystems_http client =
     then_go (get_json client ''api/rest/config/limits'' [(''fields'', ''nas.max_filesystems_in_system'')] json_int)
     (\<lambda>r. return_go (resp_Result r))"

definition GetMaxTreeqPerFs_http :: "IboxClient \<Rightarrow> int http" where
  "GetMaxTreeqPerFs_http client =
     then_go (get_json client ''api/rest/config/limits'' [(''fields'', ''nas.treeq_max_count_per_filesystem'')] json_int)
     (\<lambda>r. return_go (resp_Result r))"

section \<open>volumes.go\<close>

definition GetLunsByVolume_http :: "IboxClient \<Rightarrow> int \<Rightarrow> (LunInfo list) http" where
  "GetLunsByVolume_http client volumeID =
     list_all_pages client (''api/rest/volumes/'' @ Itoa volumeID @ ''/luns'') [] json_luns"

definition CreateVolume_http :: "IboxClient \<Rightarrow> CreateVolumeRequest \<Rightarrow> Volume http" where
  "CreateVolume_http client req =
     then_go (post_json client ''api/rest/volumes'' [] (P_CreateVolume req) json_volume) (checked [] (api_url client ''api/rest/volumes''))"

definition DeleteVolume_http :: "IboxClient \<Rightarrow> int \<Rightarrow> unit http" where
  "DeleteVolume_http client volumeID =
     then_go (send_json client DELETE (''api/rest/volumes/'' @ Itoa volumeID) approved P_Nothing json_unit) (checked [''VOLUME_NOT_FOUND''] (api_url client (''api/rest/volumes/'' @ Itoa volumeID)))"

definition GetVolumeByName_http :: "IboxClient \<Rightarrow> string \<Rightarrow> Volume http" where
  "GetVolumeByName_http client volumeName =
     first_of_pages (not_found ''no results'')
     (page_of client ''api/rest/volumes'' [(''name'', volumeName)] json_volumes) 1 1 None"

definition GetVolume_http :: "IboxClient \<Rightarrow> int \<Rightarrow> Volume http" where
  "GetVolume_http client volumeID =
     then_go (get_json client (''api/rest/volumes/'' @ Itoa volumeID) [] json_volume) (checked [''VOLUME_NOT_FOUND''] (api_url client (''api/rest/volumes/'' @ Itoa volumeID)))"

definition UpdateVolume_http :: "IboxClient \<Rightarrow> int \<Rightarrow> Volume \<Rightarrow> Volume http" where
  "UpdateVolume_http client volumeID volume =
     then_go (send_json client PUT (''api/rest/volumes//'' @ Itoa volumeID) [] (P_Volume volume) json_volume) (checked [''VOLUME_NOT_FOUND''] (api_url client (''api/rest/volumes//'' @ Itoa volumeID)))"

definition CreateSnapshotVolume_http :: "IboxClient \<Rightarrow> CreateSnapshotVolumeRequest \<Rightarrow> Snapshot http" where
  "CreateSnapshotVolume_http client req =
     then_go (post_json client ''api/rest/volumes'' (if csv_LockExpiresAt req > 0 then approved else [])
       (P_CreateSnapshot req) json_snapshot) (checked [] (api_url client ''api/rest/volumes''))"

definition GetVolumesByParentID_http :: "IboxClient \<Rightarrow> int \<Rightarrow> (Volume list \<times> go_error option) http" where
  "GetVolumesByParentID_http client parentID =
     list_with_error client ''api/rest/volumes'' [(''parent_id'', Itoa parentID)] json_volumes"

definition PromoteSnapshot_http :: "IboxClient \<Rightarrow> int \<Rightarrow> Volume http" where
  "PromoteSnapshot_http client snapshotID =
     then_go (post_json client (''api/rest/volumes/'' @ Itoa snapshotID @ ''/promote'') approved (P_Text '''') json_volume) (checked [] (api_url client (''api/rest/volumes/'' @ Itoa snapshotID @ ''/promote'')))"

section \<open>networkspaces.go, components.go\<close>

definition GetNetworkSpaceByName_http :: "IboxClient \<Rightarrow> string \<Rightarrow> NetworkSpace http" where
  "GetNetworkSpaceByName_http client netspaceName =
     first_of_pages ErrNotFound
     (page_of client ''api/rest/network/spaces'' [(''name'', netspaceName)] json_spaces) 1 1 None"

definition GetFCPorts_http :: "IboxClient \<Rightarrow> (FCNode list) http" where
  "GetFCPorts_http client =
     then_go (get_json client ''api/rest/components/nodes'' [(''fields'', ''fc_ports'')] json_fcnodes)
     (checked [] (api_url client ''api/rest/components/nodes''))"

section \<open>host.go\<close>

definition GetAllHosts_http :: "IboxClient \<Rightarrow> (Host list) http" where
  "GetAllHosts_http client =
     list_all_pages client ''api/rest/hosts'' [] json_hosts"

text \<open>An answer without hosts is \<open>ErrNotFound\<close> even when it carries an error code.\<close>

definition GetHostByName_http :: "IboxClient \<Rightarrow> string \<Rightarrow> Host http" where
  "GetHostByName_http client hostName =
     then_go (get_json client ''api/rest/hosts'' [(''name'', hostName)] json_hosts) (\<lambda>r.
     then_go (first_result r) (\<lambda>host. then_go (checked [] (api_url client ''api/rest/hosts'') r) (\<lambda>_. return_go host)))"

definition CreateHost_http :: "IboxClient \<Rightarrow> string \<Rightarrow> Host http" where
  "CreateHost_http client hostName =
     then_go (post_json client ''api/rest/hosts'' [] (P_HostName hostName) json_host) (checked [] (api_url client ''api/rest/hosts''))"

definition DeleteHost_http :: "IboxClient \<Rightarrow> int \<Rightarrow> unit http" where
  "DeleteHost_http client hostID =
     then_go (send_json client DELETE (''api/rest/hosts//'' @ Itoa hostID) [] P_Nothing json_unit) (checked [''HOST_NOT_FOUND''] (api_url client (''api/rest/hosts//'' @ Itoa hostID)))"

definition AddHostSecurity_http :: "IboxClient \<Rightarrow> gomap \<Rightarrow> int \<Rightarrow> unit http" where
  "AddHostSecurity_http client chapCreds hostID =
     then_go (send_json client PUT (''api/rest/hosts//'' @ Itoa hostID) approved (P_HostSecurity
       \<lparr>ahs_SecurityMethod = lookup chapCreds ''security_method'',
        ahs_SecurityCHAPInboundUsername = lookup chapCreds ''security_chap_inbound_username'',
        ahs_SecurityCHAPInboundSecret = lookup chapCreds ''security_chap_inbound_secret'',
        ahs_SecurityCHAPOutboundUsername = lookup chapCreds ''security_chap_outbound_username'',
        ahs_SecurityCHAPOutboundSecret = lookup chapCreds ''security_chap_outbound_secret''\<rparr>) json_unit) (checked [] (api_url client (''api/rest/hosts//'' @ Itoa hostID)))"

definition AddHostPort_http :: "IboxClient \<Rightarrow> string \<Rightarrow> string \<Rightarrow> int \<Rightarrow> unit http" where
  "AddHostPort_http client portType portAddress hostID =
     then_go (post_json client (''api/rest/hosts/'' @ Itoa hostID @ ''/ports'') approved (P_AddPort portType portAddress) json_unit) (checked [] (api_url client (''api/rest/hosts/'' @ Itoa hostID @ ''/ports'')))"

definition GetHostPort_http :: "IboxClient \<Rightarrow> int \<Rightarrow> string \<Rightarrow> HostPort http" where
  "GetHostPort_http client hostID portAddress =
     then_go (get_json client (''api/rest/hosts/'' @ Itoa hostID @ ''/ports'') [] json_ports) (\<lambda>r.
     case find (\<lambda>port. hp_PortAddress port = portAddress) (rev (resp_Result r)) of
       None \<Rightarrow> fail_go ErrNotFound
     | Some hostPort \<Rightarrow> then_go (checked [] (api_url client (''api/rest/hosts/'' @ Itoa hostID @ ''/ports'')) r)
         (\<lambda>_. return_go hostPort))"

text \<open>The requested LUN is not part of the request.\<close>

definition MapVolumeToHost_http :: "IboxClient \<Rightarrow> int \<Rightarrow> int \<Rightarrow> int \<Rightarrow> LunInfo http" where
  "MapVolumeToHost_http client hostID volumeID lun =
     then_go (post_json client (''api/rest/hosts/'' @ Itoa hostID @ ''/luns'') approved (P_MapVolume volumeID) json_lun) (\<lambda>r.
     if error_code r = ''MAPPING_ALREADY_EXISTS'' then fail_go ErrMappingExists
     else checked [] (api_url client (''api/rest/hosts/'' @ Itoa hostID @ ''/luns'')) r)"

definition GetAllLunByHost_http :: "IboxClient \<Rightarrow> int \<Rightarrow> (LunInfo list \<times> go_error option) http" where
  "GetAllLunByHost_http client hostID =
     list_with_error client (''api/rest/hosts//'' @ Itoa hostID @ ''/luns'') [] json_luns"

definition GetLunByHostVolume_http :: "IboxClient \<Rightarrow> int \<Rightarrow> int \<Rightarrow> LunInfo http" where
  "GetLunByHostVolume_http client hostID volumeID =
     some_page (page_of client (''api/rest/hosts//'' @ Itoa hostID @ ''/luns'')
     [(''volume_id'', Itoa volumeID)] json_luns) 1 1"

definition UnMapVolumeFromHost_http :: "IboxClient \<Rightarrow> int \<Rightarrow> int \<Rightarrow> unit http" where
  "UnMapVolumeFromHost_http client hostID volumeID =
     then_go (send_json client DELETE (''api/rest/hosts//'' @ Itoa hostID @ ''/luns/volume_id/'' @ Itoa volumeID) approved P_Nothing json_unit) (checked [] (api_url client (''api/rest/hosts//'' @ Itoa hostID @ ''/luns/volume_id/'' @ Itoa volumeID)))"

section \<open>consistencygroup.go\<close>

definition CreateConsistencyGroup_http :: "IboxClient \<Rightarrow> CreateConsistencyGroupRequest \<Rightarrow> ConsistencyGroupInfo http" where
  "CreateConsistencyGroup_http client req =
     then_go (post_json client ''api/rest/cgs'' [(''replicate_to_async_target'', PARAMETER_VALUE_FALSE)] (P_CreateCG req) json_cg) (checked [] (api_url client ''api/rest/cgs''))"

definition AddMemberToSnapshotGroup_http :: "IboxClient \<Rightarrow> int \<Rightarrow> int \<Rightarrow> unit http" where
  "AddMemberToSnapshotGroup_http client volumeID cgID =
     then_go (post_json client (''api/rest/cgs/'' @ Itoa cgID @ ''/members'') approved (P_Dataset volumeID) json_unit) (checked [] (api_url client (''api/rest/cgs/'' @ Itoa cgID @ ''/members'')))"

definition GetMembersByCGID_http :: "IboxClient \<Rightarrow> int \<Rightarrow> (MemberInfo list) http" where
  "GetMembersByCGID_http client cgID =
     list_all_pages client (''api/rest/cgs/'' @ Itoa cgID @ ''/members'') [] json_members"

definition CreateSnapshotGroup_http :: "IboxClient \<Rightarrow> CreateSnapshotGroupRequest \<Rightarrow> ConsistencyGroupInfo http" where
  "CreateSnapshotGroup_http client req =
     then_go (post_json client ''api/rest/cgs'' [] (P_SnapshotGroup req) json_cg) (checked [] (api_url client ''api/rest/cgs''))"

text \<open>An error code is not looked at.\<close>

definition GetConsistencyGroupByName_http :: "IboxClient \<Rightarrow> string \<Rightarrow> ConsistencyGroupInfo http" where
  "GetConsistencyGroupByName_http client name =
     then_go (get_json client ''api/rest/cgs'' ((''name'', name) # page_query 1) json_cgs) first_result"

definition DeleteConsistencyGroup_http :: "IboxClient \<Rightarrow> int \<Rightarrow> unit http" where
  "DeleteConsistencyGroup_http client cgID =
     then_go (send_json client DELETE (''api/rest/cgs/'' @ Itoa cgID) (approved @ [(''delete_members'', PARAMETER_VALUE_TRUE)]) P_Nothing json_unit) (checked [''CG_NOT_FOUND''] (api_url client (''api/rest/cgs/'' @ Itoa cgID)))"

definition GetConsistencyGroup_http :: "IboxClient \<Rightarrow> int \<Rightarrow> ConsistencyGroupInfo http" where
  "GetConsistencyGroup_http client cgID =
     then_go (get_json client (''api/rest/cgs/'' @ Itoa cgID) [] json_cg) (checked [''CG_NOT_FOUND''] (api_url client (''api/rest/cgs/'' @ Itoa cgID)))"

definition AddMemberToCG_http :: "IboxClient \<Rightarrow> int \<Rightarrow> int \<Rightarrow> string \<Rightarrow> unit http" where
  "AddMemberToCG_http client volumeID cgID volumeName =
     then_go (post_json client (''api/rest/cgs/'' @ Itoa cgID @ ''/members'') approved (P_AddMember
       \<lparr>amr_DatasetID = volumeID,
        amr_AAInfo = \<lparr>aa_BaseAction = ''NEW'', aa_RemoteEntityName = volumeName\<rparr>,
        amr_PairInfo = \<lparr>rpi_LocalEntityID = volumeID, rpi_RemoteEntityName = volumeName,
          rpi_LocalBaseAction = ''NO_BASE_DATA'', rpi_RemoteBaseAction = ''CREATE''\<rparr>,
        amr_ReplicationPairsInfo = ''''\<rparr>) json_unit) (checked [] (api_url client (''api/rest/cgs/'' @ Itoa cgID @ ''/members'')))"

definition RemoveMemberFromCG_http :: "IboxClient \<Rightarrow> int \<Rightarrow> int \<Rightarrow> unit http" where
  "RemoveMemberFromCG_http client cgID memberID =
     then_go (send_json client DELETE (''api/rest/cgs/'' @ Itoa cgID @ ''/members/'' @ Itoa memberID) approved P_Nothing json_unit) (checked [''CG_DATASET_NOT_FOUND''] (api_url client (''api/rest/cgs/'' @ Itoa cgID @ ''/members/'' @ Itoa memberID)))"

section \<open>filesystems.go\<close>

definition GetFileSystemsByPool_http :: "IboxClient \<Rightarrow> int \<Rightarrow> string \<Rightarrow> (FileSystem list) http" where
  "GetFileSystemsByPool_http client poolID fsPrefix =
     list_all_pages client ''api/rest/filesystems''
     [(''pool_id'', Itoa poolID), (''name'', ''like:'' @ fsPrefix)] json_fss"

definition GetFileSystemByID_http :: "IboxClient \<Rightarrow> int \<Rightarrow> FileSystem http" where
  "GetFileSystemByID_http client fsID =
     then_go (get_json client (''api/rest/filesystems/'' @ Itoa fsID) [] json_fs) (checked [''FILESYSTEM_NOT_FOUND''] (api_url client (''api/rest/filesystems/'' @ Itoa fsID)))"

definition CreateFileSystem_http :: "IboxClient \<Rightarrow> CreateFileSystemRequest \<Rightarrow> FileSystem http" where
  "CreateFileSystem_http client req =
     then_go (post_json client ''api/rest/filesystems'' [] (P_CreateFileSystem req) json_fs) (checked [] (api_url client ''api/rest/filesystems''))"

text \<open>As for \<open>GetHostByName\<close>, an answer without file systems is \<open>ErrNotFound\<close> in any case.\<close>

definition GetFileSystemByName_http :: "IboxClient \<Rightarrow> string \<Rightarrow> FileSystem http" where
  "GetFileSystemByName_http client name =
     then_go (get_json client ''api/rest/filesystems'' ((''name'', name) # page_query 1) json_fss) (\<lambda>r.
     then_go (first_result r) (\<lambda>fs. then_go (checked [] (api_url client ''api/rest/filesystems'') r) (\<lambda>_. return_go fs)))"

definition GetFileSystemsByParentID_http :: "IboxClient \<Rightarrow> int \<Rightarrow> (FileSystem list) http" where
  "GetFileSystemsByParentID_http client parentID =
     list_all_pages client ''api/rest/filesystems'' [(''parent_id'', Itoa parentID)] json_fss"

definition DeleteFileSystem_http :: "IboxClient \<Rightarrow> int \<Rightarrow> unit http" where
  "DeleteFileSystem_http client fsID =
     then_go (send_json client DELETE (''api/rest/filesystems/'' @ Itoa fsID) approved P_Nothing json_unit) (checked [] (api_url client (''api/rest/filesystems/'' @ Itoa fsID)))"

definition UpdateFileSystem_http :: "IboxClient \<Rightarrow> int \<Rightarrow> FileSystem \<Rightarrow> FileSystem http" where
  "UpdateFileSystem_http client fsID fs =
     then_go (send_json client PUT (''api/rest/filesystems//'' @ Itoa fsID) [] (P_FileSystem fs) json_fs) (checked [''FILESYSTEM_NOT_FOUND''] (api_url client (''api/rest/filesystems//'' @ Itoa fsID)))"

definition CreateFileSystemSnapshot_http :: "IboxClient \<Rightarrow> FileSystemSnapshot \<Rightarrow> FileSystemSnapshotResponse http" where
  "CreateFileSystemSnapshot_http client snapshot =
     then_go (post_json client ''api/rest/filesystems'' approved (P_FileSystemSnapshot snapshot) json_fssnapshot) (checked [] (api_url client ''api/rest/filesystems''))"

section \<open>treeq.go\<close>

definition GetTreeqByName_http :: "IboxClient \<Rightarrow> int \<Rightarrow> string \<Rightarrow> Treeq http" where
  "GetTreeqByName_http client fsID name =
     then_go (get_json client (''api/rest/filesystems/'' @ Itoa fsID @ ''/treeqs'') [(''name'', name)] json_treeqs) (\<lambda>r.
     then_go (checked [''FILESYSTEM_NOT_FOUND''] (api_url client (''api/rest/filesystems/'' @ Itoa fsID @ ''/treeqs'')) r)
       (\<lambda>_. first_result r))"

definition GetTreeq_http :: "IboxClient \<Rightarrow> int \<Rightarrow> int \<Rightarrow> Treeq http" where
  "GetTreeq_http client fsID treeqID =
     then_go (get_json client (''api/rest/filesystems/'' @ Itoa fsID @ ''/treeqs/'' @ Itoa treeqID) [] json_treeq) (checked [''TREEQ_ID_DOES_NOT_EXIST''] (api_url client (''api/rest/filesystems/'' @ Itoa fsID @ ''/treeqs/'' @ Itoa treeqID)))"

text \<open>The path says \<open>treeq\<close> where the other methods say \<open>treeqs\<close>.\<close>

definition DeleteTreeq_http :: "IboxClient \<Rightarrow> int \<Rightarrow> int \<Rightarrow> Treeq http" where
  "DeleteTreeq_http client fsID treeqID =
     then_go (send_json client DELETE (''api/rest/filesystems/'' @ Itoa fsID @ ''/treeq/'' @ Itoa treeqID) [] P_Nothing json_treeq) (checked [''TREEQ_ID_DOES_NOT_EXIST''] (api_url client (''api/rest/filesystems/'' @ Itoa fsID @ ''/treeq/'' @ Itoa treeqID)))"

definition CreateTreeq_http :: "IboxClient \<Rightarrow> int \<Rightarrow> CreateTreeqRequest \<Rightarrow> Treeq http" where
  "CreateTreeq_http client fsID treeqRequest =
     then_go (post_json client (''api/rest/filesystems/'' @ Itoa fsID @ ''/treeqs'') [] (P_CreateTreeq treeqRequest) json_treeq) (checked [] (api_url client (''api/rest/filesystems/'' @ Itoa fsID @ ''/treeqs'')))"

definition UpdateTreeq_http :: "IboxClient \<Rightarrow> int \<Rightarrow> int \<Rightarrow> UpdateTreeqRequest \<Rightarrow> Treeq http" where
  "UpdateTreeq_http client fsID treeqID updateRequest =
     then_go (send_json client PUT (''api/rest/filesystems/'' @ Itoa fsID @ ''/treeqs/'' @ Itoa treeqID) [] (P_UpdateTreeq updateRequest) json_treeq) (checked [''FILESYSTEM_NOT_FOUND'', ''TREEQ_ID_DOES_NOT_EXIST''] (api_url client (''api/rest/filesystems/'' @ Itoa fsID @ ''/treeqs/'' @ Itoa treeqID)))"

definition GetTreeqsByFileSystem_http :: "IboxClient \<Rightarrow> int \<Rightarrow> (Treeq list) http" where
  "GetTreeqsByFileSystem_http client fsID =
     list_all_pages client (''api/rest/filesystems/'' @ Itoa fsID @ ''/treeqs'') [] json_treeqs"

section \<open>exports.go\<close>

definition GetExportByID_http :: "IboxClient \<Rightarrow> int \<Rightarrow> Export http" where
  "GetExportByID_http client exportID =
     then_go (get_json client (''api/rest/exports/'' @ Itoa exportID) [] json_export) (checked [''EXPORT_NOT_FOUND''] (api_url client (''api/rest/exports/'' @ Itoa exportID)))"

definition GetExportsByFileSystemID_http :: "IboxClient \<Rightarrow> int \<Rightarrow> (Export list) http" where
  "GetExportsByFileSystemID_http client fsID =
     list_all_pages client ''api/rest/exports'' [(''filesystem_id'', Itoa fsID)] json_exports"

definition DeleteExport_http :: "IboxClient \<Rightarrow> int \<Rightarrow> unit http" where
  "DeleteExport_http client exportID =
     then_go (send_json client DELETE (''api/rest/exports/'' @ Itoa exportID) approved P_Nothing json_unit) (checked [''EXPORT_NOT_FOUND''] (api_url client (''api/rest/exports/'' @ Itoa exportID)))"

definition CreateExport_http :: "IboxClient \<Rightarrow> CreateExportRequest \<Rightarrow> Export http" where
  "CreateExport_http client req =
     then_go (post_json client ''api/rest/exports'' [] (P_CreateExport req) json_export) (checked [] (api_url client ''api/rest/exports''))"

definition UpdateExportPermissions_http :: "IboxClient \<Rightarrow> Export \<Rightarrow> ExportPathRef \<Rightarrow> Export http" where
  "UpdateExportPermissions_http client ex exportPath =
     then_go (send_json client PUT (''api/rest/exports/'' @ Itoa (exp_ID ex)) approved (P_ExportPermissions (epr_Permissions exportPath)) json_export) (checked [] (api_url client (''api/rest/exports/'' @ Itoa (exp_ID ex))))"

section \<open>metadata.go\<close>

definition PutMetadata_http :: "IboxClient \<Rightarrow> int \<Rightarrow> jsonmap \<Rightarrow> unit http" where
  "PutMetadata_http client objectID metadata =
     then_go (send_json client PUT (''api/rest/metadata//'' @ Itoa objectID) [] (P_Metadata metadata) json_unit) (checked [] (api_url client (''api/rest/metadata//'' @ Itoa objectID)))"

definition GetMetadata_http :: "IboxClient \<Rightarrow> int \<Rightarrow> (GetMetadataResult list) http" where
  "GetMetadata_http client objectID =
     list_all_pages client (''api/rest/metadata/'' @ Itoa objectID) [] json_metadata"

definition DeleteMetadata_http :: "IboxClient \<Rightarrow> int \<Rightarrow> unit http" where
  "DeleteMetadata_http client objectID =
     then_go (send_json client DELETE (''api/rest/metadata/'' @ Itoa objectID) approved P_Nothing json_unit) (checked [] (api_url client (''api/rest/metadata/'' @ Itoa objectID)))"

section \<open>links.go, replicas.go\<close>

definition GetLinks_http :: "IboxClient \<Rightarrow> (Link list) http" where
  "GetLinks_http client =
     list_all_pages client ''api/rest/links'' [] json_links"

definition GetLink_http :: "IboxClient \<Rightarrow> int \<Rightarrow> Link http" where
  "GetLink_http client linkID =
     then_go (get_json client (''api/rest/links/'' @ Itoa linkID) [] json_link) (checked [''LINK_NOT_FOUND''] (api_url client (''api/rest/links/'' @ Itoa linkID)))"

definition CreateReplica_http :: "IboxClient \<Rightarrow> CreateReplicaRequest \<Rightarrow> Replica http" where
  "CreateReplica_http client req =
     then_go (post_json client ''api/rest/replicas'' approved (P_CreateReplica req) json_replica) (checked [] (api_url client ''api/rest/replicas''))"

definition GetReplicas_http :: "IboxClient \<Rightarrow> (Replica list) http" where
  "GetReplicas_http client =
     list_all_pages client ''api/rest/replicas'' [] json_replicas"

definition DeleteReplica_http :: "IboxClient \<Rightarrow> int \<Rightarrow> unit http" where
  "DeleteReplica_http client replicaID =
     then_go (send_json client DELETE (''api/rest/replicas/'' @ Itoa replicaID) approved P_Nothing json_unit) (checked [''REPLICA_NOT_FOUND''] (api_url client (''api/rest/replicas/'' @ Itoa replicaID)))"

definition GetReplica_http :: "IboxClient \<Rightarrow> int \<Rightarrow> Replica http" where
  "GetReplica_http client replicaID =
     then_go (get_json client (''api/rest/replicas/'' @ Itoa replicaID) [] json_replica) (checked [''REPLICA_NOT_FOUND''] (api_url client (''api/rest/replicas/'' @ Itoa replicaID)))"

definition ResumeReplica_http :: "IboxClient \<Rightarrow> int \<Rightarrow> unit http" where
  "ResumeReplica_http client replicaID =
     then_go (post_json client (''api/rest/replicas/'' @ Itoa replicaID @ ''/resume'') approved (P_Text '''') json_unit) (checked [] (api_url client (''api/rest/replicas/'' @ Itoa replicaID @ ''/resume'')))"

definition SuspendReplica_http :: "IboxClient \<Rightarrow> int \<Rightarrow> unit http" where
  "SuspendReplica_http client replicaID =
     then_go (post_json client (''api/rest/replicas/'' @ Itoa replicaID @ ''/suspend'') approved (P_Text '''') json_unit) (checked [] (api_url client (''api/rest/replicas/'' @ Itoa replicaID @ ''/suspend'')))"

definition GetReplicaForCG_http :: "IboxClient \<Rightarrow> string \<Rightarrow> Replica http" where
  "GetReplicaForCG_http client cgName =
     then_go (get_json client ''api/rest/replicas'' (page_query 1 @ [(''local_cg_name'', cgName)]) json_replicas) (\<lambda>r.
     then_go (checked [] (api_url client ''api/rest/replicas'') r) (\<lambda>_. first_result r))"

definition GetReplicaForLocalEntityName_http :: "IboxClient \<Rightarrow> string \<Rightarrow> Replica http" where
  "GetReplicaForLocalEntityName_http client localEntityName =
     then_go (get_json client ''api/rest/replicas'' (page_query 1 @ [(''local_entity_name'', localEntityName)]) json_replicas) (\<lambda>r.
     then_go (checked [] (api_url client ''api/rest/replicas'') r) (\<lambda>_. first_result r))"

section \<open>system.go, datasets.go, event.go\<close>

text \<open>Only the serial number of the answer is used.\<close>

definition GetSystem_http :: "IboxClient \<Rightarrow> int http" where
  "GetSystem_http client =
     then_go (get_json client ''api/rest/system'' [] json_int) (checked [] (api_url client ''api/rest/system''))"

definition GetNtpStatus_http :: "IboxClient \<Rightarrow> (NtpStatus list) http" where
  "GetNtpStatus_http client =
     list_all_pages client ''api/rest/system/ntp_status'' [] json_ntp"

definition GetAllSnapshots_http :: "IboxClient \<Rightarrow> (Volume list) http" where
  "GetAllSnapshots_http client =
     list_all_pages client ''api/rest/datasets'' [(''type'', ''SNAPSHOT'')] json_volumes"

definition CreateEvent_http :: "IboxClient \<Rightarrow> EventRequest \<Rightarrow> unit http" where
  "CreateEvent_http client eventRequest =
     then_go (post_json client ''api/rest/events'' [] (P_Event eventRequest) json_unit) (checked [] (api_url client ''api/rest/events''))"

lemmas http_method_defs =
  GetFeatures_http_def
  GetPoolByName_http_def
  GetPoolByID_http_def
  GetMaxFileSystems_http_def
  GetMaxTreeqPerFs_http_def
  GetLunsByVolume_http_def
  CreateVolume_http_def
  DeleteVolume_http_def
  GetVolumeByName_http_def
  GetVolume_http_def
  UpdateVolume_http_def
  CreateSnapshotVolume_http_def
  GetVolumesByParentID_http_def
  PromoteSnapshot_http_def
  GetNetworkSpaceByName_http_def
  GetFCPorts_http_def
  GetAllHosts_http_def
  GetHostByName_http_def
  CreateHost_http_def
  DeleteHost_http_def
  AddHostSecurity_http_def
  AddHostPort_http_def
  GetHostPort_http_def
  MapVolumeToHost_http_def
  GetAllLunByHost_http_def
  GetLunByHostVolume_http_def
  UnMapVolumeFromHost_http_def
  CreateConsistencyGroup_http_def
  AddMemberToSnapshotGroup_http_def
  GetMembersByCGID_http_def
  CreateSnapshotGroup_http_def
  GetConsistencyGroupByName_http_def
  DeleteConsistencyGroup_http_def
  GetConsistencyGroup_http_def
  AddMemberToCG_http_def
  RemoveMemberFromCG_http_def
  GetFileSystemsByPool_http_def
  GetFileSystemByID_http_def
  CreateFileSystem_http_def
  GetFileSystemByName_http_def
  GetFileSystemsByParentID_http_def
  DeleteFileSystem_http_def
  UpdateFileSystem_http_def
  CreateFileSystemSnapshot_http_def
  GetTreeqByName_http_def
  GetTreeq_http_def
  DeleteTreeq_http_def
  CreateTreeq_http_def
  UpdateTreeq_http_def
  GetTreeqsByFileSystem_http_def
  GetExportByID_http_def
  GetExportsByFileSystemID_http_def
  DeleteExport_http_def
  CreateExport_http_def
  UpdateExportPermissions_http_def
  PutMetadata_http_def
  GetMetadata_http_def
  DeleteMetadata_http_def
  GetLinks_http_def
  GetLink_http_def
  CreateReplica_http_def
  GetReplicas_http_def
  DeleteReplica_http_def
  GetReplica_http_def
  ResumeReplica_http_def
  SuspendReplica_http_def
  GetReplicaForCG_http_def
  GetReplicaForLocalEntityName_http_def
  GetSystem_http_def
  GetNtpStatus_http_def
  GetAllSnapshots_http_def
  CreateEvent_http_def

section \<open>The client as the rest of the driver sees it\<close>

text \<open>
  Every method of the interface, by its call; the calls of Kubernetes send nothing to the InfiniBox.
  \<open>discard\<close> keeps the requests and drops the result.
\<close>

definition discard :: "'a http \<Rightarrow> unit http" where
  "discard m = then_go m (\<lambda>_. return_go ())"

fun perform :: "IboxClient \<Rightarrow> call \<Rightarrow> unit http" where
  "perform client C_GetFeatures = discard (GetFeatures_http client)"
| "perform client (C_GetPoolByName x) = discard (GetPoolByName_http client x)"
| "perform client (C_GetPoolByID x) = discard (GetPoolByID_http client x)"
| "perform client C_GetMaxFileSystems = discard (GetMaxFileSystems_http client)"
| "perform client C_GetMaxTreeqPerFs = discard (GetMaxTreeqPerFs_http client)"
| "perform client (C_GetLunsByVolume x) = discard (GetLunsByVolume_http client x)"
| "perform client (C_CreateVolume x) = discard (CreateVolume_http client x)"
| "perform client (C_DeleteVolume x) = discard (DeleteVolume_http client x)"
| "perform client (C_GetVolumeByName x) = discard (GetVolumeByName_http client x)"
| "perform client (C_GetVolume x) = discard (GetVolume_http client x)"
| "perform client (C_UpdateVolume x y) = discard (UpdateVolume_http client x y)"
| "perform client (C_CreateSnapshotVolume x) = discard (CreateSnapshotVolume_http client x)"
| "perform client (C_GetVolumesByParentID x) = discard (GetVolumesByParentID_http client x)"
| "perform client (C_PromoteSnapshot x) = discard (PromoteSnapshot_http client x)"
| "perform client (C_GetNetworkSpaceByName x) = discard (GetNetworkSpaceByName_http client x)"
| "perform client C_GetFCPorts = discard (GetFCPorts_http client)"
| "perform client C_GetAllHosts = discard (GetAllHosts_http client)"
| "perform client (C_GetHostByName x) = discard (GetHostByName_http client x)"
| "perform client (C_CreateHost x) = discard (CreateHost_http client x)"
| "perform client (C_DeleteHost x) = discard (DeleteHost_http client x)"
| "perform client (C_AddHostSecurity x y) = discard (AddHostSecurity_http client x y)"
| "perform client (C_AddHostPort x y z) = discard (AddHostPort_http client x y z)"
| "perform client (C_GetHostPort x y) = discard (GetHostPort_http client x y)"
| "perform client (C_MapVolumeToHost x y z) = discard (MapVolumeToHost_http client x y z)"
| "perform client (C_GetAllLunByHost x) = discard (GetAllLunByHost_http client x)"
| "perform client (C_GetLunByHostVolume x y) = discard (GetLunByHostVolume_http client x y)"
| "perform client (C_UnMapVolumeFromHost x y) = discard (UnMapVolumeFromHost_http client x y)"
| "perform client (C_CreateConsistencyGroup x) = discard (CreateConsistencyGroup_http client x)"
| "perform client (C_AddMemberToSnapshotGroup x y) = discard (AddMemberToSnapshotGroup_http client x y)"
| "perform client (C_GetMembersByCGID x) = discard (GetMembersByCGID_http client x)"
| "perform client (C_CreateSnapshotGroup x) = discard (CreateSnapshotGroup_http client x)"
| "perform client (C_GetConsistencyGroupByName x) = discard (GetConsistencyGroupByName_http client x)"
| "perform client (C_DeleteConsistencyGroup x) = discard (DeleteConsistencyGroup_http client x)"
| "perform client (C_GetConsistencyGroup x) = discard (GetConsistencyGroup_http client x)"
| "perform client (C_AddMemberToCG x y z) = discard (AddMemberToCG_http client x y z)"
| "perform client (C_RemoveMemberFromCG x y) = discard (RemoveMemberFromCG_http client x y)"
| "perform client (C_GetFileSystemsByPool x y) = discard (GetFileSystemsByPool_http client x y)"
| "perform client (C_GetFileSystemByID x) = discard (GetFileSystemByID_http client x)"
| "perform client (C_CreateFileSystem x) = discard (CreateFileSystem_http client x)"
| "perform client (C_GetFileSystemByName x) = discard (GetFileSystemByName_http client x)"
| "perform client (C_GetFileSystemsByParentID x) = discard (GetFileSystemsByParentID_http client x)"
| "perform client (C_DeleteFileSystem x) = discard (DeleteFileSystem_http client x)"
| "perform client (C_UpdateFileSystem x y) = discard (UpdateFileSystem_http client x y)"
| "perform client (C_CreateFileSystemSnapshot x) = discard (CreateFileSystemSnapshot_http client x)"
| "perform client (C_GetTreeqByName x y) = discard (GetTreeqByName_http client x y)"
| "perform client (C_GetTreeq x y) = discard (GetTreeq_http client x y)"
| "perform client (C_DeleteTreeq x y) = discard (DeleteTreeq_http client x y)"
| "perform client (C_CreateTreeq x y) = discard (CreateTreeq_http client x y)"
| "perform client (C_UpdateTreeq x y z) = discard (UpdateTreeq_http client x y z)"
| "perform client (C_GetTreeqsByFileSystem x) = discard (GetTreeqsByFileSystem_http client x)"
| "perform client (C_GetExportByID x) = discard (GetExportByID_http client x)"
| "perform client (C_GetExportsByFileSystemID x) = discard (GetExportsByFileSystemID_http client x)"
| "perform client (C_DeleteExport x) = discard (DeleteExport_http client x)"
| "perform client (C_CreateExport x) = discard (CreateExport_http client x)"
| "perform client (C_UpdateExportPermissions x y) = discard (UpdateExportPermissions_http client x y)"
| "perform client (C_PutMetadata x y) = discard (PutMetadata_http client x y)"
| "perform client (C_GetMetadata x) = discard (GetMetadata_http client x)"
| "perform client (C_DeleteMetadata x) = discard (DeleteMetadata_http client x)"
| "perform client C_GetLinks = discard (GetLinks_http client)"
| "perform client (C_GetLink x) = discard (GetLink_http client x)"
| "perform client (C_CreateReplica x) = discard (CreateReplica_http client x)"
| "perform client C_GetReplicas = discard (GetReplicas_http client)"
| "perform client (C_DeleteReplica x) = discard (DeleteReplica_http client x)"
| "perform client (C_GetReplica x) = discard (GetReplica_http client x)"
| "perform client (C_ResumeReplica x) = discard (ResumeReplica_http client x)"
| "perform client (C_SuspendReplica x) = discard (SuspendReplica_http client x)"
| "perform client (C_GetReplicaForCG x) = discard (GetReplicaForCG_http client x)"
| "perform client (C_GetReplicaForLocalEntityName x) = discard (GetReplicaForLocalEntityName_http client x)"
| "perform client C_GetSystem = discard (GetSystem_http client)"
| "perform client C_GetNtpStatus = discard (GetNtpStatus_http client)"
| "perform client C_GetAllSnapshots = discard (GetAllSnapshots_http client)"
| "perform client (C_CreateEvent x) = discard (CreateEvent_http client x)"
| "perform client _ = return_go ()"

text \<open>The requests a sequence of calls has sent, and the answer of a method after them.\<close>

definition requests_of :: "IboxClient \<Rightarrow> call list \<Rightarrow> http_request list" where
  "requests_of client h = foldl (\<lambda>sent c. sent @ calls_of (perform client c sent)) [] h"

definition answer :: "'a http \<Rightarrow> http_request list \<Rightarrow> go_error + 'a" where
  "answer m sent = (case result_of (m sent) of Ok a \<Rightarrow> Inr a | Err e \<Rightarrow> Inl e | Crash x \<Rightarrow> Inl (Errors_New ''crash''))"

definition listing :: "('a list \<times> go_error option) http \<Rightarrow> http_request list \<Rightarrow> 'a list \<times> go_error option" where
  "listing m sent = (case result_of (m sent) of Ok a \<Rightarrow> a | Err e \<Rightarrow> ([], Some e) | Crash x \<Rightarrow> ([], Some (Errors_New ''crash'')))"

definition NewIboxClient :: "IboxClient \<Rightarrow> Client" where
  "NewIboxClient client = \<lparr>r_GetFeatures = (\<lambda>h. answer (GetFeatures_http client) (requests_of client h)),
     r_GetPoolByName = (\<lambda>h x. answer (GetPoolByName_http client x) (requests_of client h)),
     r_GetPoolByID = (\<lambda>h x. answer (GetPoolByID_http client x) (requests_of client h)),
     r_DeleteVolume = (\<lambda>h x. answer (DeleteVolume_http client x) (requests_of client h)),
     r_GetVolumeByName = (\<lambda>h x. answer (GetVolumeByName_http client x) (requests_of client h)),
     r_GetVolume = (\<lambda>h x. answer (GetVolume_http client x) (requests_of client h)),
     r_UpdateVolume = (\<lambda>h x y. answer (UpdateVolume_http client x y) (requests_of client h)),
     r_CreateSnapshotVolume = (\<lambda>h x. answer (CreateSnapshotVolume_http client x) (requests_of client h)),
     r_PromoteSnapshot = (\<lambda>h x. answer (PromoteSnapshot_http client x) (requests_of client h)),
     r_GetVolumesByParentID = (\<lambda>h x. listing (GetVolumesByParentID_http client x) (requests_of client h)),
     r_GetNetworkSpaceByName = (\<lambda>h x. answer (GetNetworkSpaceByName_http client x) (requests_of client h)),
     r_GetHostByName = (\<lambda>h x. answer (GetHostByName_http client x) (requests_of client h)),
     r_CreateHost = (\<lambda>h x. answer (CreateHost_http client x) (requests_of client h)),
     r_DeleteHost = (\<lambda>h x. answer (DeleteHost_http client x) (requests_of client h)),
     r_AddHostPort = (\<lambda>h x y z. answer (AddHostPort_http client x y z) (requests_of client h)),
     r_MapVolumeToHost = (\<lambda>h x y z. answer (MapVolumeToHost_http client x y z) (requests_of client h)),
     r_GetAllLunByHost = (\<lambda>h x. listing (GetAllLunByHost_http client x) (requests_of client h)),
     r_GetLunByHostVolume = (\<lambda>h x y. answer (GetLunByHostVolume_http client x y) (requests_of client h)),
     r_UnMapVolumeFromHost = (\<lambda>h x y. answer (UnMapVolumeFromHost_http client x y) (requests_of client h)),
     r_CreateVolume = (\<lambda>h x. answer (CreateVolume_http client x) (requests_of client h)),
     r_GetMaxTreeqPerFs = (\<lambda>h. answer (GetMaxTreeqPerFs_http client) (requests_of client h)),
     r_GetConsistencyGroupByName = (\<lambda>h x. answer (GetConsistencyGroupByName_http client x) (requests_of client h)),
     r_GetFileSystemByName = (\<lambda>h x. answer (GetFileSystemByName_http client x) (requests_of client h)),
     r_GetFileSystemsByPool = (\<lambda>h x y. answer (GetFileSystemsByPool_http client x y) (requests_of client h)),
     r_GetFileSystemsByParentID = (\<lambda>h x. answer (GetFileSystemsByParentID_http client x) (requests_of client h)),
     r_GetFileSystemByID = (\<lambda>h x. answer (GetFileSystemByID_http client x) (requests_of client h)),
     r_CreateFileSystem = (\<lambda>h x. answer (CreateFileSystem_http client x) (requests_of client h)),
     r_DeleteFileSystem = (\<lambda>h x. answer (DeleteFileSystem_http client x) (requests_of client h)),
     r_UpdateFileSystem = (\<lambda>h x y. answer (UpdateFileSystem_http client x y) (requests_of client h)),
     r_CreateFileSystemSnapshot = (\<lambda>h x. answer (CreateFileSystemSnapshot_http client x) (requests_of client h)),
     r_GetTreeqsByFileSystem = (\<lambda>h x. answer (GetTreeqsByFileSystem_http client x) (requests_of client h)),
     r_UpdateTreeq = (\<lambda>h x y z. answer (UpdateTreeq_http client x y z) (requests_of client h)),
     r_CreateTreeq = (\<lambda>h x y. answer (CreateTreeq_http client x y) (requests_of client h)),
     r_DeleteTreeq = (\<lambda>h x y. answer (DeleteTreeq_http client x y) (requests_of client h)),
     r_GetTreeq = (\<lambda>h x y. answer (GetTreeq_http client x y) (requests_of client h)),
     r_GetTreeqByName = (\<lambda>h x y. answer (GetTreeqByName_http client x y) (requests_of client h)),
     r_GetExportsByFileSystemID = (\<lambda>h x. answer (GetExportsByFileSystemID_http client x) (requests_of client h)),
     r_GetExportByID = (\<lambda>h x. answer (GetExportByID_http client x) (requests_of client h)),
     r_DeleteExport = (\<lambda>h x. answer (DeleteExport_http client x) (requests_of client h)),
     r_CreateExport = (\<lambda>h x. answer (CreateExport_http client x) (requests_of client h)),
     r_UpdateExportPermissions = (\<lambda>h x y. answer (UpdateExportPermissions_http client x y) (requests_of client h)),
     r_PutMetadata = (\<lambda>h x y. answer (PutMetadata_http client x y) (requests_of client h)),
     r_GetMetadata = (\<lambda>h x. answer (GetMetadata_http client x) (requests_of client h)),
     r_DeleteMetadata = (\<lambda>h x. answer (DeleteMetadata_http client x) (requests_of client h)),
     r_GetLinks = (\<lambda>h. answer (GetLinks_http client) (requests_of client h)),
     r_GetSystem = (\<lambda>h. answer (GetSystem_http client) (requests_of client h)),
     r_GetNtpStatus = (\<lambda>h. answer (GetNtpStatus_http client) (requests_of client h)),
     r_GetAllSnapshots = (\<lambda>h. answer (GetAllSnapshots_http client) (requests_of client h)),
     r_GetAllHosts = (\<lambda>h. answer (GetAllHosts_http client) (requests_of client h)),
     r_AddHostSecurity = (\<lambda>h x y. answer (AddHostSecurity_http client x y) (requests_of client h)),
     r_GetHostPort = (\<lambda>h x y. answer (GetHostPort_http client x y) (requests_of client h)),
     r_GetLunsByVolume = (\<lambda>h x. answer (GetLunsByVolume_http client x) (requests_of client h)),
     r_GetMaxFileSystems = (\<lambda>h. answer (GetMaxFileSystems_http client) (requests_of client h)),
     r_GetFCPorts = (\<lambda>h. answer (GetFCPorts_http client) (requests_of client h)),
     r_GetConsistencyGroup = (\<lambda>h x. answer (GetConsistencyGroup_http client x) (requests_of client h)),
     r_DeleteConsistencyGroup = (\<lambda>h x. answer (DeleteConsistencyGroup_http client x) (requests_of client h)),
     r_CreateSnapshotGroup = (\<lambda>h x. answer (CreateSnapshotGroup_http client x) (requests_of client h)),
     r_GetMembersByCGID = (\<lambda>h x. answer (GetMembersByCGID_http client x) (requests_of client h)),
     r_AddMemberToCG = (\<lambda>h x y z. answer (AddMemberToCG_http client x y z) (requests_of client h)),
     r_RemoveMemberFromCG = (\<lambda>h x y. answer (RemoveMemberFromCG_http client x y) (requests_of client h)),
     r_AddMemberToSnapshotGroup = (\<lambda>h x y. answer (AddMemberToSnapshotGroup_http client x y) (requests_of client h)),
     r_CreateConsistencyGroup = (\<lambda>h x. answer (CreateConsistencyGroup_http client x) (requests_of client h)),
     r_GetLink = (\<lambda>h x. answer (GetLink_http client x) (requests_of client h)),
     r_CreateReplica = (\<lambda>h x. answer (CreateReplica_http client x) (requests_of client h)),
     r_GetReplicas = (\<lambda>h. answer (GetReplicas_http client) (requests_of client h)),
     r_DeleteReplica = (\<lambda>h x. answer (DeleteReplica_http client x) (requests_of client h)),
     r_GetReplica = (\<lambda>h x. answer (GetReplica_http client x) (requests_of client h)),
     r_GetReplicaForCG = (\<lambda>h x. answer (GetReplicaForCG_http client x) (requests_of client h)),
     r_GetReplicaForLocalEntityName = (\<lambda>h x. answer (GetReplicaForLocalEntityName_http client x) (requests_of client h)),
     r_ResumeReplica = (\<lambda>h x. answer (ResumeReplica_http client x) (requests_of client h)),
     r_SuspendReplica = (\<lambda>h x. answer (SuspendReplica_http client x) (requests_of client h)),
     r_CreateEvent = (\<lambda>h x. answer (CreateEvent_http client x) (requests_of client h))\<rparr>"

end
