(* ===== verification/Ibox_Http_Props.thy ===== *)
theory Ibox_Http_Props
  imports Ibox_Methods Sample_World
begin

text \<open>
  What the methods of the REST client do on the wire: no method panics, whatever the server sends;
  reading methods send \<open>GET\<close> requests only; every request goes to the configured InfiniBox with its
  credentials; a listing is complete when the server serves its pages; which answers become
  \<open>ErrNotFound\<close>; and how the requests of a run follow from the calls of the run.
\<close>

section \<open>Requests of one method\<close>

definition request :: "IboxClient \<Rightarrow> http_method \<Rightarrow> string \<Rightarrow> gomap \<Rightarrow> payload \<Rightarrow> http_request" where
  "request client method path parameters v =
     \<lparr>hr_Method = method, hr_URL = api_url client path, hr_Query = parameters,
      hr_BasicAuth = basic_auth (ic_Creds client), hr_Body = v\<rparr>"

named_theorems http_only \<open>the requests a method sends\<close>
named_theorems http_safe \<open>the steps of a method do not panic\<close>

lemma only_send:
  "P (request client method path ps v) \<Longrightarrow> only P (send client method (api_url client path) ps v)"
  by (auto simp: send_def request_def SetAuthHeader_def Let_def intro!: only_intros)

lemma only_read_all [http_only]: "only P (read_all a)"
  by (auto simp: read_all_def intro!: only_intros)

lemma only_unmarshal [http_only]: "only P (unmarshal d b)"
  by (auto simp: unmarshal_def intro!: only_intros)

lemma only_checked [http_only]: "only P (checked gone url r)"
  by (auto simp: checked_def intro!: only_intros)

lemma only_first_result [http_only]: "only P (first_result r)"
  by (auto simp: first_result_def intro!: only_intros split: list.splits)

lemma only_in_step: "only P m \<Longrightarrow> only P (in_step what m)"
  by (auto simp: in_step_def intro!: only_intros)

lemma only_get_json [http_only]:
  "P (request client GET path ps P_Nothing) \<Longrightarrow> only P (get_json client path ps d)"
  unfolding get_json_def commonGetLogic_def
  by (intro only_intros only_in_step only_send only_read_all only_unmarshal)

lemma only_post_json [http_only]:
  "P (request client POST path ps v) \<Longrightarrow> only P (post_json client path ps v d)"
  unfolding post_json_def commonPostLogic_def
  by (intro only_intros only_in_step only_send only_unmarshal)

lemma only_send_json [http_only]:
  "P (request client method path ps v) \<Longrightarrow> only P (send_json client method path ps v d)"
  unfolding send_json_def send_and_read_def
  by (intro only_intros only_send only_read_all only_unmarshal)

lemma only_page_of:
  "P (request client GET path (ps @ page_query page) P_Nothing) \<Longrightarrow> only P (page_of client path ps d page)"
  unfolding page_of_def by (intro only_intros http_only)

lemma only_read_pages:
  "(\<And>p. only P (query p)) \<Longrightarrow> only P (read_pages query page n acc)"
proof (induction query page n acc rule: read_pages.induct)
  case (1 query page n acc)
  then show ?case
    by (subst read_pages.simps) (intro only_intros; simp)
qed

lemma only_first_of_pages:
  "(\<And>p. only P (query p)) \<Longrightarrow> only P (first_of_pages missing query page n found)"
proof (induction missing query page n found rule: first_of_pages.induct)
  case (1 missing query page n found)
  then show ?case
    by (subst first_of_pages.simps) (intro only_intros; simp)
qed

lemma only_some_page:
  "(\<And>p. only P (query p)) \<Longrightarrow> only P (some_page query page n)"
proof (induction query page n rule: some_page.induct)
  case (1 query page n)
  then show ?case
    by (subst some_page.simps) (intro only_intros; simp)
qed

lemma only_listing [http_only]:
  assumes "\<And>page. P (request client GET path (ps @ page_query page) P_Nothing)"
  shows "only P (list_with_error client path ps d)"
    and "only P (list_all_pages client path ps d)"
    and "only P (first_of_pages missing (page_of client path ps d) 1 1 None)"
    and "only P (some_page (page_of client path ps d) 1 1)"
  unfolding list_all_pages_def list_with_error_def
  by (intro only_intros only_read_pages only_first_of_pages only_some_page only_page_of assms)+

lemma only_discard: "only P m \<Longrightarrow> only P (discard m)"
  unfolding discard_def by (intro only_intros)

lemmas http_calls = only_discard http_only only_intros

section \<open>No method panics\<close>

lemma safe_send [http_safe]: "safe (send client method url ps v)"
  by (auto simp: send_def Let_def intro!: safe_intros split: option.splits)

lemma safe_read_all [http_safe]: "safe (read_all a)"
  by (auto simp: read_all_def intro!: safe_intros)

lemma safe_unmarshal [http_safe]: "safe (unmarshal d b)"
  by (auto simp: unmarshal_def intro!: safe_intros)

lemma safe_checked [http_safe]: "safe (checked gone url r)"
  by (auto simp: checked_def intro!: safe_intros)

lemma safe_first_result [http_safe]: "safe (first_result r)"
  by (auto simp: first_result_def intro!: safe_intros)

lemma safe_in_step: "safe m \<Longrightarrow> safe (in_step what m)"
  by (auto simp: in_step_def intro!: safe_intros)

lemma safe_json [http_safe]:
  shows "safe (get_json client path ps d)"
    and "safe (post_json client path ps v d)"
    and "safe (send_json client method path ps v d)"
  unfolding get_json_def post_json_def send_json_def commonGetLogic_def commonPostLogic_def send_and_read_def
  by (intro safe_in_step safe_intros http_safe)+

lemma safe_page_of: "safe (page_of client path ps d page)"
  unfolding page_of_def by (intro safe_intros http_safe)

lemma safe_read_pages: "(\<And>p. safe (query p)) \<Longrightarrow> safe (read_pages query page n acc)"
proof (induction query page n acc rule: read_pages.induct)
  case (1 query page n acc)
  then show ?case
    by (subst read_pages.simps) (intro safe_intros; simp)
qed

lemma safe_first_of_pages:
  "(\<And>p. safe (query p)) \<Longrightarrow> page \<le> n \<or> found \<noteq> None \<Longrightarrow> safe (first_of_pages missing query page n found)"
proof (induction missing query page n found rule: first_of_pages.induct)
  case (1 missing query page n found)
  then show ?case
    by (subst first_of_pages.simps) (intro safe_intros; simp)
qed

lemma safe_some_page: "(\<And>p. safe (query p)) \<Longrightarrow> safe (some_page query page n)"
proof (induction query page n rule: some_page.induct)
  case (1 query page n)
  then show ?case
    by (subst some_page.simps) (intro safe_intros; simp)
qed

lemma safe_listing [http_safe]:
  shows "safe (list_with_error client path ps d)"
    and "safe (list_all_pages client path ps d)"
    and "safe (first_of_pages missing (page_of client path ps d) 1 1 None)"
    and "safe (some_page (page_of client path ps d) 1 1)"
  unfolding list_all_pages_def list_with_error_def
  by (intro safe_intros safe_read_pages safe_first_of_pages safe_some_page safe_page_of; simp)+

lemma safe_discard: "safe m \<Longrightarrow> safe (discard m)"
  unfolding discard_def by (intro safe_intros)

text \<open>C16: Whatever the server answers, a method of the client returns a value or an error.\<close>

theorem http_never_panics: "result_of (perform client x sent) \<noteq> Crash z"
proof -
  have "safe (perform client x)"
    by (cases x; simp only: perform.simps http_method_defs; intro safe_discard safe_intros http_safe)
  then show ?thesis by (rule safe_result)
qed

section \<open>What goes over the wire\<close>

text \<open>A call that does not change anything is carried out with \<open>GET\<close> requests without a body.\<close>

lemma reading_calls_get:
  "\<not> mutating x \<Longrightarrow> only (\<lambda>r. hr_Method r = GET \<and> hr_Body r = P_Nothing) (perform client x)"
  by (cases x; simp only: perform.simps http_method_defs mutating.simps not_True_eq_False;
      intro http_calls; simp add: request_def)

text \<open>Every request goes to the configured InfiniBox and carries the credentials of the client.\<close>

definition authentic :: "Credentials \<Rightarrow> http_request \<Rightarrow> bool" where
  "authentic creds r \<longleftrightarrow> (\<exists>path. hr_URL r = cred_URL creds @ path) \<and>
     hr_BasicAuth r = cred_Username creds @ '':'' @ cred_Password creds"

lemma request_authentic [simp]: "authentic (ic_Creds client) (request client method path ps v)"
  by (auto simp: authentic_def request_def api_url_def basic_auth_def)

theorem http_authentic: "list_all (authentic (ic_Creds client)) (calls_of (perform client x sent))"
proof -
  have "only (authentic (ic_Creds client)) (perform client x)"
    by (cases x; simp only: perform.simps http_method_defs; intro http_calls; simp)
  then show ?thesis by (simp add: only_def list_all_iff)
qed

section \<open>The requests of a run\<close>

lemma requests_of_snoc: "requests_of client (h @ [x]) = requests_of client h @ calls_of (perform client x (requests_of client h))"
  by (simp add: requests_of_def)

text \<open>Every request that was sent was sent by one of the calls.\<close>

lemma requests_of_call:
  assumes "r \<in> set (requests_of client h)"
  shows "\<exists>x sent. x \<in> set h \<and> r \<in> set (calls_of (perform client x sent))"
  using assms
proof (induction h rule: rev_induct)
  case Nil
  then show ?case by (simp add: requests_of_def)
next
  case (snoc x h)
  then show ?case by (auto simp: requests_of_snoc)
qed

lemma requests_of_only:
  assumes "\<And>x. x \<in> set h \<Longrightarrow> only P (perform client x)"
  shows "\<forall>r \<in> set (requests_of client h). P r"
  using assms requests_of_call by (fastforce dest: onlyD)

lemma requests_of_prefix: "\<exists>s. requests_of client (h @ t) = requests_of client h @ s"
proof (induction t rule: rev_induct)
  case Nil
  show ?case by simp
next
  case (snoc x t)
  then obtain s where s: "requests_of client (h @ t) = requests_of client h @ s" by blast
  have "requests_of client (h @ t @ [x]) = requests_of client h @ s @ calls_of (perform client x (requests_of client (h @ t)))"
    using requests_of_snoc [of client "h @ t" x] s by simp
  then show ?case by blast
qed

text \<open>A \<open>DELETE\<close> of a volume is sent for the call \<open>DeleteVolume\<close> of that volume and for nothing else.\<close>

definition deletes_volume :: "IboxClient \<Rightarrow> int \<Rightarrow> http_request \<Rightarrow> bool" where
  "deletes_volume client i r \<longleftrightarrow> hr_Method r = DELETE \<and> hr_URL r = api_url client (''api/rest/volumes/'' @ Itoa i)"

lemma deletes_volume_request:
  "deletes_volume client i (request client method path ps v) \<longleftrightarrow>
     method = DELETE \<and> path = ''api/rest/volumes/'' @ Itoa i"
  by (auto simp: deletes_volume_def request_def api_url_def)

lemma nat_text_inject: "nat_text m = nat_text n \<longleftrightarrow> m = n"
  by (metis parse_nat_text option.inject)

lemma Itoa_eq_iff [simp]: "Itoa i = Itoa j \<longleftrightarrow> i = j"
proof -
  have "CHR ''-'' # s \<noteq> nat_text n" for s n
    using hd_nat_text [of n] by (metis list.sel(1) not_digit_signs(1))
  then show ?thesis
    by (auto simp: Itoa_def nat_text_inject dest: sym)
qed

lemma delete_request_call:
  assumes "x \<noteq> C_DeleteVolume i"
  shows "only (\<lambda>r. \<not> deletes_volume client i r) (perform client x)"
  using assms
  by (cases x; simp only: perform.simps http_method_defs; intro http_calls;
      simp add: deletes_volume_request)

text \<open>So a volume whose deletion was requested is one whose deletion was called.\<close>

lemma delete_requested:
  assumes "r \<in> set (requests_of client h)" and "deletes_volume client i r"
  shows "C_DeleteVolume i \<in> set h"
proof (rule ccontr)
  assume "C_DeleteVolume i \<notin> set h"
  then have "\<forall>r \<in> set (requests_of client h). \<not> deletes_volume client i r"
    by (intro requests_of_only delete_request_call) auto
  with assms show False by blast
qed

section \<open>Listings\<close>

text \<open>
  The server serves the listing: to the request of page \<open>p\<close>, whatever was sent before, it gives a body
  with the entries \<open>f p\<close> and no error, and page 1 carries the number \<open>n\<close> of pages.
\<close>

definition serves :: "IboxClient \<Rightarrow> string \<Rightarrow> gomap \<Rightarrow> (Json \<Rightarrow> 'a list decoder) \<Rightarrow> int \<Rightarrow> (int \<Rightarrow> 'a list) \<Rightarrow> bool" where
  "serves client path ps decode n f \<longleftrightarrow>
     http_NewRequest (ic_HTTP client) (api_url client path) = None \<and>
     (\<forall>p sent. 1 \<le> p \<and> p \<le> max 1 n \<longrightarrow>
       (\<exists>body r. http_Do (ic_HTTP client) sent (request client GET path (ps @ page_query p) P_Nothing) = Inr (body, None) \<and>
          decode (ic_JSON client) body = Some r \<and> error_code r = '''' \<and> resp_Result r = f p \<and>
          (p = 1 \<longrightarrow> meta_PagesTotal (resp_Metadata r) = n)))"

lemma page_of_served:
  assumes "serves client path ps decode n f" and "1 \<le> p" "p \<le> max 1 n"
  shows "\<exists>r. page_of client path ps decode p sent = (Ok r, [request client GET path (ps @ page_query p) P_Nothing]) \<and>
    resp_Result r = f p \<and> (p = 1 \<longrightarrow> meta_PagesTotal (resp_Metadata r) = n)"
proof -
  obtain body r where
    "http_Do (ic_HTTP client) sent (request client GET path (ps @ page_query p) P_Nothing) = Inr (body, None)"
    "decode (ic_JSON client) body = Some r" "error_code r = ''''" "resp_Result r = f p"
    "p = 1 \<longrightarrow> meta_PagesTotal (resp_Metadata r) = n"
    using assms unfolding serves_def by blast
  moreover have "http_NewRequest (ic_HTTP client) (api_url client path) = None"
    using assms(1) by (simp add: serves_def)
  ultimately show ?thesis
    by (simp add: page_of_def get_json_def commonGetLogic_def in_step_def send_def read_all_def unmarshal_def
        checked_def SetAuthHeader_def request_def Let_def go_run)
qed

text \<open>From page 2 on the number of pages is fixed.\<close>

lemma read_pages_rest:
  assumes "serves client path ps decode n f" and "1 < p"
  shows "read_pages (page_of client path ps decode) p n acc sent =
    (Ok (acc @ concat (map f [p..n]), None), map (\<lambda>q. request client GET path (ps @ page_query q) P_Nothing) [p..n])"
  using assms(2)
proof (induction "nat (n + 1 - p)" arbitrary: p acc sent)
  case 0
  then show ?case by (subst read_pages.simps) simp
next
  case (Suc k)
  then have "p \<le> n" by linarith
  then obtain r where r: "page_of client path ps decode p sent = (Ok r, [request client GET path (ps @ page_query p) P_Nothing])"
    "resp_Result r = f p"
    using page_of_served [OF assms(1), of p sent] Suc.prems by auto
  have "read_pages (page_of client path ps decode) (p + 1) n (acc @ f p) (sent @ [request client GET path (ps @ page_query p) P_Nothing]) =
    (Ok ((acc @ f p) @ concat (map f [p + 1..n]), None), map (\<lambda>q. request client GET path (ps @ page_query q) P_Nothing) [p + 1..n])"
    using Suc.hyps(2) Suc.prems by (intro Suc.hyps(1)) linarith+
  then show ?case
    using \<open>p \<le> n\<close> Suc.prems r by (subst read_pages.simps) (simp add: go_run upto_rec1 [of p])
qed

text \<open>C14: A listing is complete: when the server serves its pages, the client returns the entries of all of them
  in order, with one request per page (and one for an empty listing), and no error.\<close>

theorem listing_complete:
  assumes "serves client path ps decode n f"
  shows "list_all_pages client path ps decode sent =
    (Ok (concat (map f [1..max 1 n])), map (\<lambda>p. request client GET path (ps @ page_query p) P_Nothing) [1..max 1 n])"
proof -
  obtain r where r: "page_of client path ps decode 1 sent = (Ok r, [request client GET path (ps @ page_query 1) P_Nothing])"
    "resp_Result r = f 1" "meta_PagesTotal (resp_Metadata r) = n"
    using page_of_served [OF assms, of 1 sent] by auto
  have "[1..max 1 n] = 1 # [2..n]" by (auto simp: upto_rec1 [of 1] max_def)
  then show ?thesis
    using r by (simp add: list_all_pages_def list_with_error_def read_pages.simps [of _ 1] go_run
        read_pages_rest [OF assms, of 2])
qed

text \<open>An InfiniBox for examples: every body is the page number that was asked for; two pages of volumes.\<close>

definition no_json :: Json where
  "no_json = \<lparr>json_unit = (\<lambda>_. None), json_int = (\<lambda>_. None), json_features = (\<lambda>_. None), json_pool = (\<lambda>_. None),
     json_pools = (\<lambda>_. None), json_volume = (\<lambda>_. None), json_volumes = (\<lambda>_. None), json_snapshot = (\<lambda>_. None),
     json_spaces = (\<lambda>_. None), json_host = (\<lambda>_. None), json_hosts = (\<lambda>_. None), json_ports = (\<lambda>_. None),
     json_lun = (\<lambda>_. None), json_luns = (\<lambda>_. None), json_fcnodes = (\<lambda>_. None), json_fs = (\<lambda>_. None),
     json_fss = (\<lambda>_. None), json_fssnapshot = (\<lambda>_. None), json_treeq = (\<lambda>_. None), json_treeqs = (\<lambda>_. None),
     json_export = (\<lambda>_. None), json_exports = (\<lambda>_. None), json_metadata = (\<lambda>_. None), json_cg = (\<lambda>_. None),
     json_cgs = (\<lambda>_. None), json_members = (\<lambda>_. None), json_link = (\<lambda>_. None), json_links = (\<lambda>_. None),
     json_replica = (\<lambda>_. None), json_replicas = (\<lambda>_. None), json_ntp = (\<lambda>_. None)\<rparr>"

definition plain_response :: "int \<Rightarrow> string \<Rightarrow> 'a \<Rightarrow> 'a response" where
  "plain_response pages code result =
     \<lparr>resp_Metadata = \<lparr>meta_Ready = True, meta_NumberOfObjects = 2, meta_PageSize = 1, meta_PagesTotal = pages, meta_Page = 1\<rparr>,
      resp_Result = result, resp_Error = \<lparr>err_Code = code, err_Message = ''''\<rparr>\<rparr>"

definition sample_http :: Http where
  "sample_http = \<lparr>http_NewRequest = (\<lambda>_. None), http_Do = (\<lambda>sent req. Inr (lookup (hr_Query req) PARAMETER_PAGE, None))\<rparr>"

definition sample_json :: Json where
  "sample_json = no_json
     \<lparr>json_volumes := (\<lambda>body. Some (plain_response 2 '''' [sample_volume\<lparr>vol_Name := body\<rparr>])),
      json_hosts := (\<lambda>body. Some (plain_response 0 ''UNKNOWN_ERROR'' []))\<rparr>"

definition sample_client :: IboxClient where
  "sample_client = \<lparr>ic_Creds = \<lparr>cred_Username = ''u'', cred_Password = ''p'', cred_URL = ''https://ibox/''\<rparr>,
     ic_HTTP = sample_http, ic_JSON = sample_json\<rparr>"

theorem listing_complete_witness:
  "serves sample_client ''api/rest/datasets'' [] json_volumes 2 (\<lambda>p. [sample_volume\<lparr>vol_Name := Itoa p\<rparr>]) \<and>
   result_of (list_all_pages sample_client ''api/rest/datasets'' [] json_volumes []) =
     Ok [sample_volume\<lparr>vol_Name := ''1''\<rparr>, sample_volume\<lparr>vol_Name := ''2''\<rparr>]"
proof -
  have served: "serves sample_client ''api/rest/datasets'' [] json_volumes 2 (\<lambda>p. [sample_volume\<lparr>vol_Name := Itoa p\<rparr>])"
    by (simp add: serves_def sample_client_def sample_http_def sample_json_def request_def page_query_def
        plain_response_def error_code_def lookup_def PARAMETER_PAGE_SIZE_def PARAMETER_PAGE_def)
  have "[1..max 1 (2::int)] = [1, 2]" "Itoa 1 = ''1''" "Itoa 2 = ''2''" by code_simp+
  with listing_complete [OF served, of "[]"] served show ?thesis by (simp add: result_of_def)
qed

section \<open>What becomes \<open>ErrNotFound\<close>\<close>

text \<open>The exchange of one request: what was answered, when the answer could be read.\<close>

lemma send_json_Ok:
  "send_json client method path ps v decode sent = (Ok r, t) \<longleftrightarrow>
     http_NewRequest (ic_HTTP client) (api_url client path) = None \<and> t = [request client method path ps v] \<and>
     (\<exists>body. http_Do (ic_HTTP client) sent (request client method path ps v) = Inr (body, None) \<and>
        decode (ic_JSON client) body = Some r)"
  by (auto simp: send_json_def send_and_read_def send_def read_all_def unmarshal_def SetAuthHeader_def request_def
      Let_def go_run split: go_splits)

lemma get_json_Ok:
  "get_json client path ps decode sent = (Ok r, t) \<longleftrightarrow>
     http_NewRequest (ic_HTTP client) (api_url client path) = None \<and> t = [request client GET path ps P_Nothing] \<and>
     (\<exists>body. http_Do (ic_HTTP client) sent (request client GET path ps P_Nothing) = Inr (body, None) \<and>
        decode (ic_JSON client) body = Some r)"
  by (auto simp: get_json_def commonGetLogic_def in_step_def send_def read_all_def unmarshal_def SetAuthHeader_def request_def
      Let_def go_run split: go_splits)

lemma exchange_not_found:
  shows send_json_not_found: "send_json client method path ps v decode sent = (Err e, t) \<Longrightarrow> \<not> errors_is e ErrNotFound"
    and get_json_not_found: "get_json client path ps decode sent = (Err e, t) \<Longrightarrow> \<not> errors_is e ErrNotFound"
  by (auto simp: send_json_def send_and_read_def get_json_def commonGetLogic_def in_step_def send_def read_all_def
      unmarshal_def wrapped_def Let_def go_run split: go_splits)

lemma checked_not_found:
  "checked gone url r sent = (Err e, t) \<Longrightarrow> errors_is e ErrNotFound \<Longrightarrow> error_code r \<in> set gone \<and> error_code r \<noteq> ''''"
  by (auto simp: checked_def api_error_def split: if_splits)

text \<open>The server has answered the request with the error code, in a body that was read completely.\<close>

definition reported :: "IboxClient \<Rightarrow> http_request list \<Rightarrow> http_request \<Rightarrow> (Json \<Rightarrow> 'a decoder) \<Rightarrow> string \<Rightarrow> bool" where
  "reported client sent req decode code \<longleftrightarrow>
     (\<exists>body r. http_Do (ic_HTTP client) sent req = Inr (body, None) \<and> decode (ic_JSON client) body = Some r \<and>
        error_code r = code)"

lemma checked_result:
  "checked gone url r sent =
     (if error_code r = '''' then Ok (resp_Result r)
      else if error_code r \<in> set gone then Err (not_found (error_code r)) else Err (api_error url r), [])"
  by (simp add: checked_def)

lemma errors_is_api [simp]:
  shows "errors_is (not_found code) ErrNotFound" and "\<not> errors_is (api_error url r) ErrNotFound"
  by (simp_all add: not_found_def api_error_def)

text \<open>The two shapes of a method that names the codes of an absent object.\<close>

lemma answered_not_found:
  assumes "\<And>r t. m sent = (Ok r, t) \<longleftrightarrow> ready \<and> t = [req] \<and>
      (\<exists>body. http_Do (ic_HTTP client) sent req = Inr (body, None) \<and> decode (ic_JSON client) body = Some r)"
    and "\<And>e t. m sent = (Err e, t) \<Longrightarrow> \<not> errors_is e ErrNotFound"
    and "safe m"
  shows "(\<exists>e. answer (then_go m (checked gone url)) sent = Inl e \<and> errors_is e ErrNotFound) \<longleftrightarrow>
    ready \<and> (\<exists>code \<in> set gone. code \<noteq> '''' \<and> reported client sent req decode code)"
proof (cases "m sent")
  case (Pair res t)
  show ?thesis
  proof (cases res)
    case (Ok r)
    with Pair assms(1) [of r t] obtain body where "ready"
      "http_Do (ic_HTTP client) sent req = Inr (body, None)" "decode (ic_JSON client) body = Some r" by auto
    with Pair Ok show ?thesis
      by (auto simp: answer_def result_of_def run_then checked_result reported_def)
  next
    case (Err e)
    with Pair assms(1) have "\<not> (ready \<and> reported client sent req decode code)" for code
      by (auto simp: reported_def)
    with Pair Err assms(2) show ?thesis
      by (auto simp: answer_def result_of_def run_then)
  next
    case (Crash x)
    with Pair assms(3) show ?thesis by (auto dest: safeD)
  qed
qed

lemma get_not_found:
  "(\<exists>e. answer (then_go (get_json client path ps decode) (checked gone url)) sent = Inl e \<and> errors_is e ErrNotFound) \<longleftrightarrow>
    http_NewRequest (ic_HTTP client) (api_url client path) = None \<and>
    (\<exists>code \<in> set gone. code \<noteq> '''' \<and> reported client sent (request client GET path ps P_Nothing) decode code)"
  by (rule answered_not_found) (simp_all add: get_json_Ok get_json_not_found safe_json)

lemma send_not_found:
  "(\<exists>e. answer (then_go (send_json client method path ps v decode) (checked gone url)) sent = Inl e \<and> errors_is e ErrNotFound) \<longleftrightarrow>
    http_NewRequest (ic_HTTP client) (api_url client path) = None \<and>
    (\<exists>code \<in> set gone. code \<noteq> '''' \<and> reported client sent (request client method path ps v) decode code)"
  by (rule answered_not_found) (simp_all add: send_json_Ok send_json_not_found safe_json)

text \<open>A volume counts as gone only when the InfiniBox says so: \<open>GetVolume\<close> gives \<open>ErrNotFound\<close> exactly when the server
  answered with the code \<open>VOLUME_NOT_FOUND\<close>. A failed connection, a broken body or any other error code is
  another error.\<close>

theorem GetVolume_not_found:
  "(\<exists>e. r_GetVolume (NewIboxClient client) h i = Inl e \<and> errors_is e ErrNotFound) \<longleftrightarrow>
   http_NewRequest (ic_HTTP client) (api_url client (''api/rest/volumes/'' @ Itoa i)) = None \<and>
   reported client (requests_of client h) (request client GET (''api/rest/volumes/'' @ Itoa i) [] P_Nothing) json_volume
     ''VOLUME_NOT_FOUND''"
  unfolding NewIboxClient_def GetVolume_http_def Client.simps get_not_found by simp

text \<open>An answer of the host query without hosts counts as absent whatever its error code is.\<close>

theorem GetHostByName_any_error:
  assumes "http_NewRequest (ic_HTTP client) (api_url client ''api/rest/hosts'') = None"
    and "http_Do (ic_HTTP client) (requests_of client h)
      (request client GET ''api/rest/hosts'' [(''name'', name)] P_Nothing) = Inr (body, None)"
    and "json_hosts (ic_JSON client) body = Some r" and "resp_Result r = []"
  shows "r_GetHostByName (NewIboxClient client) h name = Inl ErrNotFound"
proof -
  have "get_json client ''api/rest/hosts'' [(''name'', name)] json_hosts (requests_of client h) =
    (Ok r, [request client GET ''api/rest/hosts'' [(''name'', name)] P_Nothing])"
    using assms get_json_Ok by blast
  with assms(4) show ?thesis
    by (simp add: NewIboxClient_def GetHostByName_http_def answer_def result_of_def run_then first_result_def)
qed

theorem GetHostByName_any_error_witness:
  "r_GetHostByName (NewIboxClient sample_client) [] ''node'' = Inl ErrNotFound"
  by (rule GetHostByName_any_error [where body = "''''" and r = "plain_response 0 ''UNKNOWN_ERROR'' []"])
    (simp_all add: sample_client_def sample_http_def sample_json_def request_def plain_response_def lookup_def PARAMETER_PAGE_def)

text \<open>What a successful \<open>GetVolume\<close> answers is what the server sent for that id, without an error code.\<close>

lemma GetVolume_answered:
  assumes "r_GetVolume (NewIboxClient client) h i = Inr vol"
  obtains body r where
    "http_Do (ic_HTTP client) (requests_of client h) (request client GET (''api/rest/volumes/'' @ Itoa i) [] P_Nothing) = Inr (body, None)"
    "json_volume (ic_JSON client) body = Some r" "error_code r = ''''" "resp_Result r = vol"
proof -
  let ?get = "get_json client (''api/rest/volumes/'' @ Itoa i) [] json_volume"
  obtain r t where g: "?get (requests_of client h) = (Ok r, t)" "error_code r = ''''" "resp_Result r = vol"
    using assms by (auto simp: NewIboxClient_def GetVolume_http_def answer_def result_of_def run_then checked_result
        simp del: append_Cons split: res.splits prod.splits if_splits)
  from g(1) show ?thesis
    using g(2,3) that get_json_Ok [of client "''api/rest/volumes/'' @ Itoa i"] by blast
qed

end
