(* ===== verification/Wire_Props.thy ===== *)
theory Wire_Props
  imports Controller_Props Ibox_Http_Props
begin

text \<open>
  The driver on top of its REST client: what the requests of the controller guarantee about the HTTP
  requests an InfiniBox receives. The client of the service is \<open>NewIboxClient client\<close>; the server behind
  it is arbitrary.
\<close>

section \<open>Refused requests\<close>

text \<open>While a \<open>CreateVolume\<close> request that is not acceptable (no name, no parameters, invalid capabilities, incomplete secrets or no size) is
  served, the InfiniBox receives \<open>GET\<close> requests without a body and nothing else.\<close>

theorem refused_create_only_reads:
  assumes "\<not> acceptable req"
  shows "list_all (\<lambda>r. hr_Method r = GET \<and> hr_Body r = P_Nothing)
    (requests_of client (calls_of (CreateVolume E s req [])))"
proof -
  have "\<not> mutating x" if "x \<in> set (calls_of (CreateVolume E s req []))" for x
    using that refused_create_reads [OF assms] by (blast dest: onlyD)
  then show ?thesis
    unfolding list_all_iff by (intro requests_of_only reading_calls_get)
qed

theorem refused_create_only_reads_witness:
  "list_all (\<lambda>r. hr_Method r = GET \<and> hr_Body r = P_Nothing)
    (requests_of sample_client (calls_of (CreateVolume stocked_env sample_driver (sample_create\<lparr>req_Name := ''''\<rparr>) [])))"
  by (rule refused_create_only_reads) (simp add: acceptable_def)

section \<open>Deleting a volume\<close>

lemma GetVolume_sends:
  assumes "r_GetVolume (NewIboxClient client) h i = Inr vol"
  shows "requests_of client (h @ [C_GetVolume i]) =
    requests_of client h @ [request client GET (''api/rest/volumes/'' @ Itoa i) [] P_Nothing]"
proof -
  have "http_NewRequest (ic_HTTP client) (api_url client (''api/rest/volumes/'' @ Itoa i)) = None"
    using assms by (auto simp: NewIboxClient_def GetVolume_http_def answer_def result_of_def run_then get_json_Ok
        simp del: append_Cons split: res.splits prod.splits)
  moreover obtain body r where
    "http_Do (ic_HTTP client) (requests_of client h) (request client GET (''api/rest/volumes/'' @ Itoa i) [] P_Nothing) = Inr (body, None)"
    "json_volume (ic_JSON client) body = Some r"
    using GetVolume_answered [OF assms] by metis
  ultimately have "get_json client (''api/rest/volumes/'' @ Itoa i) [] json_volume (requests_of client h) =
    (Ok r, [request client GET (''api/rest/volumes/'' @ Itoa i) [] P_Nothing])"
    using get_json_Ok by blast
  then show ?thesis
    by (simp add: requests_of_snoc GetVolume_http_def discard_def calls_of_def run_then checked_result del: append_Cons)
qed

text \<open>C8: When the InfiniBox receives a \<open>DELETE\<close> for a volume, an earlier request of the same deletion was a \<open>GET\<close> that it
  answered with that volume, in a state that is not locked.\<close>

theorem deleted_volume_was_unlocked:
  assumes "r \<in> set (requests_of client (calls_of (DeleteVolume_common depth cs volumeID [])))"
    and "deletes_volume client v r" and "cs_IboxAPI cs = NewIboxClient client"
  shows "\<exists>sent i body resp rest.
    requests_of client (calls_of (DeleteVolume_common depth cs volumeID [])) =
      sent @ request client GET (''api/rest/volumes/'' @ Itoa i) [] P_Nothing # rest \<and> r \<in> set rest \<and>
    http_Do (ic_HTTP client) sent (request client GET (''api/rest/volumes/'' @ Itoa i) [] P_Nothing) = Inr (body, None) \<and>
    json_volume (ic_JSON client) body = Some resp \<and> vol_ID (resp_Result resp) = v \<and>
    vol_LockState (resp_Result resp) \<noteq> LockedState"
proof -
  let ?t = "calls_of (DeleteVolume_common depth cs volumeID [])"
  obtain pre post where t: "?t = pre @ C_DeleteVolume v # post" and first: "C_DeleteVolume v \<notin> set pre"
    using delete_requested [OF assms(1,2)] by (auto dest: split_list_first)
  have "may_delete (NewIboxClient client) volumeID [] pre (C_DeleteVolume v)"
    using block_delete_each [of cs volumeID "[]" depth] t assms(3) by simp
  then obtain h0 i vol u where pre: "pre = (h0 @ [C_GetVolume i]) @ u"
    and vol: "r_GetVolume (NewIboxClient client) h0 i = Inr vol" "vol_ID vol = v" "vol_LockState vol \<noteq> LockedState"
    by (auto simp: may_delete_def)
  let ?get = "request client GET (''api/rest/volumes/'' @ Itoa i) [] P_Nothing"
  obtain rest where rest: "requests_of client ?t = (requests_of client h0 @ [?get]) @ rest"
    using requests_of_prefix [of client "h0 @ [C_GetVolume i]" "u @ C_DeleteVolume v # post"] GetVolume_sends [OF vol(1)]
    unfolding t pre by auto
  have "r \<notin> set (requests_of client (h0 @ [C_GetVolume i]))"
    using delete_requested [of r client _ v] assms(2) first pre by fastforce
  then have "r \<in> set rest"
    using assms(1) GetVolume_sends [OF vol(1)] unfolding rest by auto
  then show ?thesis
    using GetVolume_answered [OF vol(1)] vol(2,3) rest by (metis append.assoc append_Cons append_Nil)
qed

text \<open>An InfiniBox that holds volume 7, not locked and without children, and accepts everything.\<close>

definition plain_client :: IboxClient where
  "plain_client = sample_client\<lparr>ic_JSON := no_json
     \<lparr>json_volume := (\<lambda>_. Some (plain_response 1 '''' (sample_volume\<lparr>vol_ID := 7\<rparr>))),
      json_volumes := (\<lambda>_. Some (plain_response 1 '''' [])), json_unit := (\<lambda>_. Some (plain_response 1 '''' ()))\<rparr>\<rparr>"

theorem deleted_volume_was_unlocked_witness:
  "\<exists>sent i body resp rest.
    requests_of plain_client (calls_of (DeleteVolume_common 1 (sample_cs (NewIboxClient plain_client)) 7 [])) =
      sent @ request plain_client GET (''api/rest/volumes/'' @ Itoa i) [] P_Nothing # rest \<and>
    request plain_client DELETE ''api/rest/volumes/7'' approved P_Nothing \<in> set rest \<and>
    http_Do (ic_HTTP plain_client) sent (request plain_client GET (''api/rest/volumes/'' @ Itoa i) [] P_Nothing) = Inr (body, None) \<and>
    json_volume (ic_JSON plain_client) body = Some resp \<and> vol_ID (resp_Result resp) = 7 \<and>
    vol_LockState (resp_Result resp) \<noteq> LockedState"
proof (rule deleted_volume_was_unlocked)
  show "request plain_client DELETE ''api/rest/volumes/7'' approved P_Nothing \<in>
    set (requests_of plain_client (calls_of (DeleteVolume_common 1 (sample_cs (NewIboxClient plain_client)) 7 [])))"
    by code_simp
  show "deletes_volume plain_client 7 (request plain_client DELETE ''api/rest/volumes/7'' approved P_Nothing)"
    by code_simp
qed (simp add: sample_cs_def)

end
