(* ===== verification/Addons_Props.thy ===== *)
theory Addons_Props
  imports Addons_Service Group_Props Wire_Props
begin

text \<open>
  Volume groups and replication of CSI-Addons: a successful change of the members of a group leaves exactly the
  volumes of the request; the order in which replication is moved from one InfiniBox to the other; and
  where the services do not do what their comments say.
\<close>

section \<open>Members of a volume group\<close>

text \<open>What the calls do to the members of the consistency group \<open>g\<close>, on the InfiniBox.\<close>

fun member_step :: "int \<Rightarrow> int set \<Rightarrow> call \<Rightarrow> int set" where
  "member_step g S (C_AddMemberToCG i g' name) = (if g' = g then insert i S else S)"
| "member_step g S (C_RemoveMemberFromCG g' i) = (if g' = g then S - {i} else S)"
| "member_step g S c = S"

definition members_after :: "int \<Rightarrow> int set \<Rightarrow> call list \<Rightarrow> int set" where
  "members_after g S t = foldl (member_step g) S t"

lemma members_after_simps [simp]:
  shows "members_after g S [] = S" and "members_after g S (c # t) = members_after g (member_step g S c) t"
    and "members_after g S (s @ u) = members_after g (members_after g S s) u"
  by (simp_all add: members_after_def)

text \<open>An InfiniBox that answers a query for a volume with that volume.\<close>

definition honest_volumes :: "Client \<Rightarrow> bool" where
  "honest_volumes api \<longleftrightarrow> (\<forall>h i vol. r_GetVolume api h i = Inr vol \<longrightarrow> vol_ID vol = i)"

lemma map_go_members:
  assumes "map_go f xs h = (Ok ys, t)"
    and "\<And>x g' y s T. x \<in> set xs \<Longrightarrow> f x g' = (Ok y, s) \<Longrightarrow> members_after g T s = step T x"
  shows "members_after g S t = foldl step S xs"
  using assms
proof (induction xs arbitrary: h ys t S)
  case Nil
  then show ?case by simp
next
  case (Cons x xs)
  then obtain y s zs u where run: "f x h = (Ok y, s)" "map_go f xs (h @ s) = (Ok zs, u)" "t = s @ u"
    unfolding map_go_Cons_Ok by blast
  then have "members_after g S t = members_after g (step S x) u"
    using Cons.prems(2) [of x h y s S] by simp
  with Cons.IH [OF run(2), of "step S x"] Cons.prems(2) show ?case by simp
qed

lemma foldl_insert: "foldl (\<lambda>S x. insert x S) S xs = S \<union> set xs"
  by (induction xs arbitrary: S) auto

lemma foldl_remove: "foldl (\<lambda>S x. S - {x}) S xs = S - set xs"
  by (induction xs arbitrary: S) auto

lemma run_or_status [go_run]:
  "or_status c s m k h = (case m h of
      (Ok a, t) \<Rightarrow> (case k a (h @ t) of (r, t') \<Rightarrow> (r, t @ t'))
    | (Err e, t) \<Rightarrow> (Err (Status_Error c (s @ err_text e)), t)
    | (Crash x, t) \<Rightarrow> (Crash x, t))"
  by (simp add: or_status_def run_try split: prod.splits res.splits)

lemma add_loop:
  assumes "honest_volumes api" and "map_go (add_new_volume api cg) xs h = (Ok ys, t)"
  shows "members_after (cg_ID cg) S t = S \<union> set xs"
  unfolding foldl_insert [symmetric]
  by (rule map_go_members [OF assms(2)])
    (use assms(1) in \<open>auto simp: honest_volumes_def add_new_volume_def ibox_api_defs go_run split: go_splits\<close>)

lemma remove_loop:
  assumes "honest_volumes api" and "map_go (remove_old_volume api cg) xs h = (Ok ys, t)"
  shows "members_after (cg_ID cg) S t = S - set xs"
  unfolding foldl_remove [symmetric]
  by (rule map_go_members [OF assms(2)])
    (use assms(1) in \<open>auto simp: honest_volumes_def remove_old_volume_def ibox_api_defs go_run split: go_splits\<close>)

lemma remove_all_loop:
  assumes "map_go (remove_member api cg) ms h = (Ok ys, t)"
  shows "members_after (cg_ID cg) S t = S - mem_ID ` set ms"
proof -
  have "members_after (cg_ID cg) S t = foldl (\<lambda>S m. S - {mem_ID m}) S ms"
    by (rule map_go_members [OF assms]) (auto simp: remove_member_def ibox_api_defs go_run split: go_splits)
  also have "\<dots> = S - mem_ID ` set ms" by (induction ms arbitrary: S) auto
  finally show ?thesis .
qed

text \<open>The two lists the code computes, for requests that write numbers the way the driver does.\<close>

lemma volumes_to_add_set:
  assumes "volumes_to_add ms (map Itoa is) = Ok add" and "list_all is_int64 is"
  shows "set add = set is - mem_ID ` set ms"
  using assms
  by (induction "is" arbitrary: add) (auto split: if_splits res.splits option.splits)

lemma volumes_to_remove_set: "set (volumes_to_remove ms (map Itoa is)) = mem_ID ` set ms - set is"
  by (auto simp: volumes_to_remove_def)

text \<open>C13: After a successful \<open>ModifyVolumeGroupMembership\<close> the group holds exactly the volumes of the request: from the members the
  InfiniBox listed, the calls of the run lead to them.\<close>

theorem modify_group_exact:
  assumes run: "ModifyVolumeGroupMembership E req h = (Ok vg, t)"
    and service: "BuildCommonService E [] (vgr_Secrets req) zero_VolProto = Ok cs" "cs_IboxAPI cs = api"
    and honest: "honest_volumes api"
    and ids: "vgr_VolumeIds req = map Itoa is" "list_all is_int64 is"
    and group: "Atoi (vgr_VolumeGroupId req) = Some i" "r_GetConsistencyGroup api h i = Inr cg"
    and members: "r_GetMembersByCGID api (h @ [C_GetConsistencyGroup i]) (cg_ID cg) = Inr ms"
  shows "members_after (cg_ID cg) (mem_ID ` set ms) t = set is"
proof -
  let ?h = "h @ [C_GetConsistencyGroup i, C_GetMembersByCGID (cg_ID cg)]"
  let ?rem = "volumes_to_remove ms (map Itoa is)"
  note facts = run service group members ids(1)
  note defs = ModifyVolumeGroupMembership_def addons_service_def or_status_pure number_or_def GetConsistencyGroup_api_def
    GetMembersByCGID_api_def
  show ?thesis
  proof (cases "is = [] \<and> ms \<noteq> []")
    case True
    then obtain u ys where "map_go (remove_member api cg) ms ?h = (Ok ys, u)"
      "t = [C_GetConsistencyGroup i, C_GetMembersByCGID (cg_ID cg)] @ u"
      using facts by (auto simp: defs go_run split: go_splits)
    with True remove_all_loop [of api cg ms ?h ys u] show ?thesis by simp
  next
    case False
    then obtain xs us vs s u where add: "volumes_to_add ms (map Itoa is) = Ok xs"
      and loops: "map_go (add_new_volume api cg) xs ?h = (Ok us, s)" "map_go (remove_old_volume api cg) ?rem (?h @ s) = (Ok vs, u)"
      and t: "t = [C_GetConsistencyGroup i, C_GetMembersByCGID (cg_ID cg)] @ s @ u @ [C_GetMembersByCGID (cg_ID cg)]"
      using facts by (auto simp: defs go_run split: go_splits)
    have "members_after (cg_ID cg) (mem_ID ` set ms) t = (mem_ID ` set ms \<union> set xs) - set ?rem"
      unfolding t using add_loop [OF honest loops(1)] remove_loop [OF honest loops(2)] by simp
    then show ?thesis using volumes_to_add_set [OF add ids(2)] volumes_to_remove_set [of ms "is"] by auto
  qed
qed

definition addons_ibox :: Client where
  "addons_ibox = group_ibox\<lparr>r_GetConsistencyGroup := (\<lambda>h i. Inr (group_info i ''group'')),
     r_AddMemberToCG := (\<lambda>h i g n. Inr ()), r_RemoveMemberFromCG := (\<lambda>h g i. Inr ()),
     r_CreateConsistencyGroup := (\<lambda>h q. Inr (group_info 5 (ccg_Name q))), r_DeleteConsistencyGroup := (\<lambda>h i. Inr ())\<rparr>"

definition addons_env :: Env where
  "addons_env = stocked_env\<lparr>dial := (\<lambda>_. addons_ibox)\<rparr>"

definition modify_request :: VolumeGroupRequest where
  "modify_request = \<lparr>vgr_Name = ''g'', vgr_VolumeGroupId = ''5'', vgr_VolumeIds = [''8'', ''9''],
     vgr_Secrets = req_Secrets sample_create, vgr_Parameters = [(StorageClassPoolName, ''pool'')]\<rparr>"

lemma addons_env_connects:
  "\<exists>cs. BuildCommonService addons_env [] (req_Secrets sample_create) zero_VolProto = Ok cs \<and> cs_IboxAPI cs = addons_ibox"
proof -
  have "case BuildCommonService addons_env [] (req_Secrets sample_create) zero_VolProto of Ok _ \<Rightarrow> True | _ \<Rightarrow> False"
    by code_simp
  then obtain cs where cs: "BuildCommonService addons_env [] (req_Secrets sample_create) zero_VolProto = Ok cs"
    by (auto split: res.splits)
  then have "cs_IboxAPI cs = addons_ibox"
    by (auto simp: BuildCommonService_def addons_env_def Let_def split: if_splits res.splits)
  with cs show ?thesis by blast
qed

theorem modify_group_exact_witness:
  "members_after 5 {7} (calls_of (ModifyVolumeGroupMembership addons_env modify_request [])) = {8, 9}"
proof -
  let ?ms = "[\<lparr>mem_ID = 7, mem_Name = ''m'', mem_Size = 1, mem_FamilyID = 12, mem_CGName = ''g''\<rparr>]"
  have "case result_of (ModifyVolumeGroupMembership addons_env modify_request []) of Ok _ \<Rightarrow> True | _ \<Rightarrow> False"
    by code_simp
  then obtain vg where run: "ModifyVolumeGroupMembership addons_env modify_request [] =
      (Ok vg, calls_of (ModifyVolumeGroupMembership addons_env modify_request []))"
    by (auto simp: result_of_def calls_of_def prod_eq_iff split: res.splits)
  obtain cs where cs: "BuildCommonService addons_env [] (vgr_Secrets modify_request) zero_VolProto = Ok cs" "cs_IboxAPI cs = addons_ibox"
    using addons_env_connects by (auto simp: modify_request_def)
  have "members_after (cg_ID (group_info 5 ''group'')) (mem_ID ` set ?ms)
      (calls_of (ModifyVolumeGroupMembership addons_env modify_request [])) = set [8, 9]"
  proof (rule modify_group_exact [OF run cs])
    show "honest_volumes addons_ibox"
      by (simp add: honest_volumes_def addons_ibox_def group_ibox_def stocked_ibox_def empty_ibox_def)
    show "vgr_VolumeIds modify_request = map Itoa [8, 9]" by code_simp
    show "list_all is_int64 [8, 9]" by code_simp
    show "Atoi (vgr_VolumeGroupId modify_request) = Some 5" by code_simp
  qed (simp_all add: addons_ibox_def group_ibox_def group_info_def)
  then show ?thesis by (simp add: group_info_def)
qed

section \<open>Ids of volumes in groups\<close>

lemma digits_val_digits: "digits_val b n s = Some v \<Longrightarrow> c \<in> set s \<Longrightarrow> digit_val b c \<noteq> None"
  by (induction b n s rule: digits_val.induct) (auto split: option.splits)

lemma Atoi_dollar: "CHR ''$'' \<in> set (tl s) \<Longrightarrow> Atoi s = None"
proof -
  assume *: "CHR ''$'' \<in> set (tl s)"
  then have "CHR ''$'' \<in> set s" by (cases s) auto
  moreover have "digit_val 10 (CHR ''$'') = None" by (simp add: digit_val_def)
  ultimately show ?thesis
    using * by (auto simp: Atoi_def Let_def parse_nat_def dest!: digits_val_digits split: option.splits if_splits)
qed

lemma Atoi_volume_id: "Atoi (Itoa i @ ''$$'' @ p) = None"
  by (rule Atoi_dollar) (cases "Itoa i"; simp)

lemma add_volume_csi_id: "add_volume api cg (Itoa i @ ''$$'' @ p) h \<noteq> (Ok x, t)"
  by (simp add: add_volume_def number_or_def Atoi_volume_id del: append_Cons)

text \<open>A group cannot be created with a volume of this driver: the ids the controller hands out end in the protocol, and
  \<open>CreateVolumeGroup\<close> reads them as numbers. The request fails, and its new consistency group stays behind.\<close>

theorem create_group_refuses_csi_ids:
  assumes "vgr_VolumeIds req = (Itoa i @ ''$$'' @ p) # ids"
  shows "\<not> (\<exists>vg. result_of (CreateVolumeGroup E req h) = Ok vg)"
proof -
  have "map_go (add_volume api cg) (vgr_VolumeIds req) g \<noteq> (Ok x, t)" for api cg g x t
    unfolding assms map_go_Cons_Ok using add_volume_csi_id by blast
  then show ?thesis
    by (auto simp: CreateVolumeGroup_def addons_service_def or_status_pure Let_def result_of_def go_run split: go_splits)
qed

theorem create_group_refuses_csi_ids_witness:
  "\<not> (\<exists>vg. result_of (CreateVolumeGroup addons_env (modify_request\<lparr>vgr_VolumeIds := [''7$$fc'']\<rparr>) []) = Ok vg) \<and>
   C_CreateConsistencyGroup \<lparr>ccg_Name = ''g'', ccg_PoolID = pool_ID sample_pool\<rparr> \<in>
     set (calls_of (CreateVolumeGroup addons_env (modify_request\<lparr>vgr_VolumeIds := [''7$$fc'']\<rparr>) []))"
proof (rule conjI)
  have "''7$$fc'' = Itoa 7 @ ''$$'' @ ''fc''" by code_simp
  then show "\<not> (\<exists>vg. result_of (CreateVolumeGroup addons_env (modify_request\<lparr>vgr_VolumeIds := [''7$$fc'']\<rparr>) []) = Ok vg)"
    by (intro create_group_refuses_csi_ids [where i = 7 and p = "''fc''" and ids = "[]"]) simp
qed code_simp

section \<open>Deleting a volume group\<close>

text \<open>The service declares that a volume group does not delete its volumes, and its comment promises an error for a group
  that is not empty. What it sends is a \<open>DELETE\<close> of the group with its members, whatever members there are.\<close>

theorem delete_group_deletes_members:
  assumes "BuildCommonService E [] (vgr_Secrets req) zero_VolProto = Ok cs" "cs_IboxAPI cs = NewIboxClient client"
    and "Atoi (vgr_VolumeGroupId req) = Some i" and "r_GetConsistencyGroup (NewIboxClient client) [] i = Inr cg"
    and "http_NewRequest (ic_HTTP client) (api_url client (''api/rest/cgs/'' @ Itoa (cg_ID cg))) = None"
  shows "\<exists>r \<in> set (requests_of client (calls_of (DeleteVolumeGroup E req []))).
    hr_Method r = DELETE \<and> hr_URL r = api_url client (''api/rest/cgs/'' @ Itoa (cg_ID cg)) \<and>
    lookup (hr_Query r) ''delete_members'' = ''true''"
proof -
  let ?sent = "requests_of client [C_GetConsistencyGroup i]"
  have calls: "calls_of (DeleteVolumeGroup E req []) = [C_GetConsistencyGroup i, C_DeleteConsistencyGroup (cg_ID cg)]"
    using assms by (auto simp: DeleteVolumeGroup_def addons_service_def or_status_pure number_or_def calls_of_def
        GetConsistencyGroup_api_def DeleteConsistencyGroup_api_def go_run split: go_splits)
  have "calls_of (perform client (C_DeleteConsistencyGroup (cg_ID cg)) ?sent) =
    [request client DELETE (''api/rest/cgs/'' @ Itoa (cg_ID cg)) (approved @ [(''delete_members'', PARAMETER_VALUE_TRUE)]) P_Nothing]"
    using assms(5) by (auto simp: DeleteConsistencyGroup_http_def discard_def calls_of_def run_then send_json_def send_and_read_def
        send_def read_all_def unmarshal_def checked_result SetAuthHeader_def request_def Let_def run_invoke
        simp del: append_Cons split: go_splits)
  then show ?thesis
    using requests_of_snoc [of client "[C_GetConsistencyGroup i]" "C_DeleteConsistencyGroup (cg_ID cg)"]
    by (simp add: calls request_def lookup_def approved_def PARAMETER_APPROVED_def PARAMETER_VALUE_TRUE_def)
qed

text \<open>An InfiniBox with consistency group 5, which has members.\<close>

definition cg_client :: IboxClient where
  "cg_client = sample_client\<lparr>ic_JSON := no_json\<lparr>json_cg := (\<lambda>_. Some (plain_response 1 ''''
     ((group_info 5 ''group'')\<lparr>cg_MembersCount := 2\<rparr>)))\<rparr>\<rparr>"

definition cg_env :: Env where
  "cg_env = stocked_env\<lparr>dial := (\<lambda>_. NewIboxClient cg_client)\<rparr>"

theorem delete_group_deletes_members_witness:
  "\<exists>r \<in> set (requests_of cg_client (calls_of (DeleteVolumeGroup cg_env modify_request []))).
    hr_Method r = DELETE \<and> hr_URL r = api_url cg_client (''api/rest/cgs/'' @ Itoa (cg_ID ((group_info 5 ''group'')\<lparr>cg_MembersCount := 2\<rparr>))) \<and>
    lookup (hr_Query r) ''delete_members'' = ''true''"
proof -
  have "case BuildCommonService cg_env [] (vgr_Secrets modify_request) zero_VolProto of Ok _ \<Rightarrow> True | _ \<Rightarrow> False"
    by code_simp
  then obtain cs where cs: "BuildCommonService cg_env [] (vgr_Secrets modify_request) zero_VolProto = Ok cs"
    by (auto split: res.splits)
  show ?thesis
  proof (rule delete_group_deletes_members [OF cs])
    show "cs_IboxAPI cs = NewIboxClient cg_client"
      using cs by (auto simp: BuildCommonService_def cg_env_def Let_def split: if_splits res.splits)
    show "Atoi (vgr_VolumeGroupId modify_request) = Some 5" by code_simp
    show "r_GetConsistencyGroup (NewIboxClient cg_client) [] 5 = Inr ((group_info 5 ''group'')\<lparr>cg_MembersCount := 2\<rparr>)"
      by code_simp
  qed (simp add: cg_client_def sample_client_def sample_http_def)
qed

section \<open>Replication\<close>

lemmas replication_defs = replication_service_def replication_source_def addons_service_def getSecretForLink_def

text \<open>When a call of a promotion or demotion may be made: a replica is only ever deleted on \<open>src\<close>; a new one is only
  created on \<open>dst\<close>, after the old one was deleted.\<close>

definition handover :: "party \<Rightarrow> party \<Rightarrow> (party \<times> call) list \<Rightarrow> party \<times> call \<Rightarrow> bool" where
  "handover src dst g c = (mutating (snd c) \<longrightarrow>
     (\<exists>i. c = (src, C_DeleteReplica i)) \<or>
     (\<exists>q i. c = (dst, C_CreateReplica q) \<and> (src, C_DeleteReplica i) \<in> set g \<and>
        crr_EntityType q = ''VOLUME'' \<and> crr_ReplicationType q = ''ASYNC''))"


text \<open>\<open>DemoteVolume\<close> deletes the replica on this InfiniBox and only then creates one on the other InfiniBox.\<close>

theorem demote_order:
  "each_call (handover ThisIbox OtherIbox) [] (calls_of (DemoteVolume E req []))"
proof -
  have "wp (DemoteVolume E req) [] (\<lambda>r t. each_call (handover ThisIbox OtherIbox) [] t)"
    by (auto simp: DemoteVolume_def replication_defs wp_simps wp_on_side handover_def async_replica_def Let_def
        split: res.splits option.splits if_splits)
  then show ?thesis by (simp add: wp_def)
qed

text \<open>When a replica may be created by \<open>EnableVolumeReplication\<close>: the volume was in none of the replicas that were just
  listed, and the link was listed as up right before.\<close>

definition may_replicate :: "Client \<Rightarrow> call list \<Rightarrow> call \<Rightarrow> bool" where
  "may_replicate api g c = (mutating c \<longrightarrow>
     (\<exists>q g0 links link replicas. c = C_CreateReplica q \<and> g = g0 @ [C_GetLinks, C_GetReplicas] \<and>
        r_GetLinks api g0 = Inr links \<and> link \<in> set links \<and> link_ID link = crr_LinkID q \<and> link_LinkState link = ''UP'' \<and>
        r_GetReplicas api (g0 @ [C_GetLinks]) = Inr replicas \<and>
        (\<forall>r \<in> set replicas. rep_LocalEntityID r \<noteq> crr_LocalEntityID q)))"

text \<open>\<open>EnableVolumeReplication\<close> creates a replica only under these conditions, and changes nothing else.\<close>

theorem enable_replication_checks:
  assumes "BuildCommonService E [] (rr_Secrets req) vinfo = Ok cs" and "rr_Volume req = Some v" and "ValidateVolumeID v = Ok vinfo"
  shows "each_call (may_replicate (cs_IboxAPI cs)) [] (calls_of (EnableVolumeReplication E req []))"
proof -
  have found: "link \<in> set links" if "find P (rev links) = Some link" for P links and link :: Link
    using that by (metis find_Some_iff nth_mem set_rev)
  have "wp (EnableVolumeReplication E req) [] (\<lambda>r t. each_call (may_replicate (cs_IboxAPI cs)) [] t)"
    using assms found
    by (auto simp: EnableVolumeReplication_def replication_defs validateLink_def wp_simps async_replica_def Let_def list_ex_iff
        may_replicate_def [of _ _ "C_CreateReplica _"] may_replicate_def [of _ _ "C_GetVolume _"] may_replicate_def [of _ _ "C_GetPoolByName _"]
        may_replicate_def [of _ _ C_GetLinks] may_replicate_def [of _ _ C_GetReplicas]
        split: res.splits option.splits if_splits)
  then show ?thesis by (simp add: wp_def)
qed

text \<open>A request whose source is a volume group, not a volume, makes the service panic.\<close>

theorem replication_group_panics:
  assumes "rr_Volume req = None"
  shows "\<exists>s. result_of (EnableVolumeReplication E req h) = Crash (GoPanic s) \<and>
    result_of (PromoteVolume E req h') = Crash (GoPanic s) \<and> result_of (DemoteVolume E req h') = Crash (GoPanic s)"
  using assms by (simp add: EnableVolumeReplication_def PromoteVolume_def DemoteVolume_def replication_defs result_of_def)

text \<open>Two InfiniBoxes that replicate volume 7; the link is known to this one as \<open>link-to-b\<close>, and to its remote system name \<open>b\<close>
  there is a secret.\<close>

definition replica_ibox :: Client where
  "replica_ibox = addons_ibox\<lparr>
     r_GetLinks := (\<lambda>h. Inr [\<lparr>link_ID = 4, link_Name = ''link-to-b'', link_RemoteLinkID = 5, link_RemoteSystemName = ''b'',
        link_LinkState = ''UP'', link_ResiliencyMode = ''''\<rparr>]),
     r_GetLink := (\<lambda>h i. Inr \<lparr>link_ID = i, link_Name = ''link-to-b'', link_RemoteLinkID = 5, link_RemoteSystemName = ''b'',
        link_LinkState = ''UP'', link_ResiliencyMode = ''''\<rparr>),
     r_GetReplicas := (\<lambda>h. Inr []), r_DeleteReplica := (\<lambda>h i. Inr ()),
     r_GetReplicaForLocalEntityName := (\<lambda>h n. Inr \<lparr>rep_ID = 3, rep_Role = ''TARGET'', rep_State = ''ACTIVE'', rep_LinkID = 4,
        rep_LocalEntityID = 7, rep_RemoteEntityID = 8, rep_LocalPoolID = 1, rep_RemotePoolID = 2, rep_LastSynchronized = 0,
        rep_SyncDuration = 0, rep_EntityPairs = []\<rparr>)\<rparr>"

definition replica_env :: Env where
  "replica_env = stocked_env\<lparr>dial := (\<lambda>_. replica_ibox),
     cluster := (cluster stocked_env)\<lparr>kr_GetSecretContainsName := (\<lambda>h ns n. Inr (req_Secrets sample_create))\<rparr>\<rparr>"

definition replica_request :: ReplicationRequest where
  "replica_request = \<lparr>rr_Volume = Some ''7$$fc'', rr_Secrets = req_Secrets sample_create,
     rr_Parameters = [(IboxReplicaRemoteIboxLinkNameParameter, ''b''), (IboxReplicaCreatePVCPoolName, ''pool''),
       (IboxReplicaRemoteIboxCredNameParameter, ''s''), (IboxReplicaRemoteIboxCredNamespaceParameter, ''ns'')]\<rparr>"

text \<open>A promotion can leave the volume without any replica: the link is looked up by its own name only after the replica on the
  other InfiniBox is deleted, and a link that is not named after its remote system ends the request there.\<close>

theorem promote_can_lose_replication:
  "filter (\<lambda>c. mutating (snd c)) (calls_of (PromoteVolume replica_env replica_request [])) = [(OtherIbox, C_DeleteReplica 3)] \<and>
   result_of (PromoteVolume replica_env replica_request []) = Err (Status_Error Unknown ''link not found'')"
  by code_simp

theorem enable_replication_checks_witness:
  "each_call (may_replicate replica_ibox) [] (calls_of (EnableVolumeReplication replica_env replica_request [])) \<and>
   C_CreateReplica (async_replica 7 (vol_Name sample_volume) 4 (pool_ID sample_pool)) \<in>
     set (calls_of (EnableVolumeReplication replica_env replica_request []))"
proof (rule conjI)
  let ?v = "zero_VolProto\<lparr>vpc_StorageType := ''fc'', vpc_VolumeID := 7\<rparr>"
  have "case BuildCommonService replica_env [] (rr_Secrets replica_request) ?v of Ok _ \<Rightarrow> True | _ \<Rightarrow> False"
    by code_simp
  then obtain cs where cs: "BuildCommonService replica_env [] (rr_Secrets replica_request) ?v = Ok cs"
    by (auto split: res.splits)
  then have "cs_IboxAPI cs = replica_ibox"
    by (auto simp: BuildCommonService_def replica_env_def Let_def split: if_splits res.splits)
  moreover have "ValidateVolumeID ''7$$fc'' = Ok ?v" by code_simp
  ultimately show "each_call (may_replicate replica_ibox) [] (calls_of (EnableVolumeReplication replica_env replica_request []))"
    using enable_replication_checks [OF cs, of "''7$$fc''"] by (simp add: replica_request_def)
qed code_simp

theorem replication_group_panics_witness:
  "\<exists>s. result_of (EnableVolumeReplication replica_env (replica_request\<lparr>rr_Volume := None\<rparr>) []) = Crash (GoPanic s) \<and>
    result_of (PromoteVolume replica_env (replica_request\<lparr>rr_Volume := None\<rparr>) []) = Crash (GoPanic s) \<and>
    result_of (DemoteVolume replica_env (replica_request\<lparr>rr_Volume := None\<rparr>) []) = Crash (GoPanic s)"
  by (rule replication_group_panics) simp

end
