(* ===== verification/Cr_Props.thy ===== *)
theory Cr_Props
  imports Replica_Controller Cg_Controller Promote_Controller Addons_Props
begin

text \<open>
  What the controllers of the custom resources may change, and when.
\<close>

section \<open>Events that change an InfiniBox\<close>

definition ibox_change :: "'spec event \<Rightarrow> bool" where
  "ibox_change e = (case e of To p c \<Rightarrow> p \<noteq> Cluster \<and> mutating c | _ \<Rightarrow> False)"

lemma ibox_change_simps [simp]:
  shows "ibox_change (To p c) \<longleftrightarrow> p \<noteq> Cluster \<and> mutating c"
    and "\<not> ibox_change (Cr_Get n ns)" and "\<not> ibox_change (Cr_Update cr)" and "\<not> ibox_change (Cr_StatusUpdate cr)"
    and "\<not> ibox_change (Pv_Get n)" and "\<not> ibox_change (Pv_Create r pv)" and "\<not> ibox_change (Pvc_Create r pvc)"
    and "\<not> ibox_change (Secret_Get r ns n)" and "\<not> ibox_change (Secret_Create r s)"
    and "\<not> ibox_change (Snapshot_Get ns n)" and "\<not> ibox_change (SnapshotContent_Get n)"
  by (simp_all add: ibox_change_def)

abbreviation quiet :: "('spec, 'a) cr_go \<Rightarrow> bool" where
  "quiet m \<equiv> only (\<lambda>e. \<not> ibox_change e) m"

lemma quiet_server [only_intros]:
  shows quiet_refetch: "quiet (refetch w cr)" and quiet_set_state: "quiet (set_state w cr s)"
    and quiet_status: "quiet (StatusUpdate_cr w cr)" and quiet_get: "quiet (Get_cr w n ns)"
    and quiet_fail_state: "quiet (fail_state w cr e)" and quiet_finalizer: "quiet (handle_finalizer s w cr)"
    and quiet_service: "quiet (client_service E cr)"
  unfolding api_server_defs handle_finalizer_def client_service_def
  by (intro only_intros; simp)+

lemma quiet_or_state [only_intros]: "quiet m \<Longrightarrow> (\<And>a. quiet (k a)) \<Longrightarrow> quiet (or_state w cr m k)"
  unfolding or_state_def by (intro only_intros)

lemma quiet_csi_source [only_intros]: "(\<And>csi. only P (k csi)) \<Longrightarrow> only P (csi_source pv k)"
  unfolding csi_source_def by (intro only_intros)

lemma quiet_pvc [only_intros]:
  shows quiet_GetIboxCredentials: "quiet (GetIboxCredentials E n ns)" and quiet_GetLocalPV: "quiet (GetLocalPV E w n)"
    and quiet_BuildClientFromSecret: "quiet (BuildClientFromSecret E w n ns)"
  unfolding GetIboxCredentials_def GetLocalPV_def BuildClientFromSecret_def
  by (intro only_intros; simp)+

lemma quiet_remote [only_intros]:
  shows quiet_CreateRemotePVC: "quiet (CreateRemotePVC E w pv ns n a b)"
    and quiet_CreateRemotePV: "quiet (CreateRemotePV E w remote pv i ip pool sfx sp cn cns a b)"
    and quiet_GetRemoteEntities: "quiet (GetRemoteEntities E w local remote kind ln sp rn)"
  unfolding CreateRemotePVC_def CreateRemotePV_def GetRemoteEntities_def prepare_other_cluster_def Let_def GetCGMembers_def
  by (intro only_intros; simp)+

section \<open>The three reconcilers\<close>

text \<open>
  The contract between \<open>reconcile\<close> and its parts: the finalizer and the update of a known resource leave the
  InfiniBox alone, and removing a resource changes only what \<open>may_remove\<close> says.
\<close>

locale reconciler =
  fixes finalize removed fresh known :: "'spec custom_resource \<Rightarrow> ('spec, unit) cr_go"
    and may_remove :: "'spec custom_resource \<Rightarrow> 'spec event \<Rightarrow> bool"
  assumes finalize_quiet: "quiet (finalize cr)"
    and removed_only: "only (\<lambda>e. ibox_change e \<longrightarrow> may_remove cr e) (removed cr)"
    and known_quiet: "quiet (known cr)"
begin

lemma gone_resource:
  "w_Get w h name ns = Inr None \<Longrightarrow> reconcile finalize removed fresh known w name ns h = (Ok (), [Cr_Get name ns])"
  by (simp add: reconcile_def Get_cr_def go_run)

text \<open>What one run may change depends on the resource as it was read first.\<close>

lemma found_resource:
  assumes "w_Get w h name ns = Inr (Some cr)" and "each_call Q (h @ [Cr_Get name ns]) (calls_of (finalize cr (h @ [Cr_Get name ns])))"
    and "Q h (Cr_Get name ns)"
    and "\<And>g. cr_Deleted cr \<Longrightarrow> each_call Q g (calls_of (removed cr g))"
    and "\<And>g. \<not> cr_Deleted cr \<Longrightarrow> st_ID (cr_Status cr) = 0 \<Longrightarrow> each_call Q g (calls_of (fresh cr g))"
    and "\<And>g. \<not> cr_Deleted cr \<Longrightarrow> st_ID (cr_Status cr) \<noteq> 0 \<Longrightarrow> each_call Q g (calls_of (known cr g))"
  shows "each_call Q h (calls_of (reconcile finalize removed fresh known w name ns h))"
  using assms by (auto simp: reconcile_def Get_cr_def go_run calls_of_def split: prod.splits res.splits) (metis snd_conv)+

lemma quiet_each: "quiet m \<Longrightarrow> (\<And>g e. \<not> ibox_change e \<Longrightarrow> Q g e) \<Longrightarrow> each_call Q h (calls_of (m h))"
  by (rule each_call_all) (auto simp: only_def)

text \<open>A known resource is not acted upon again.\<close>

lemma known_resource:
  assumes "w_Get w h name ns = Inr (Some cr)" and "\<not> cr_Deleted cr" and "st_ID (cr_Status cr) \<noteq> 0"
  shows "\<forall>e \<in> set (calls_of (reconcile finalize removed fresh known w name ns h)). \<not> ibox_change e"
proof -
  have "each_call (\<lambda>g e. \<not> ibox_change e) h (calls_of (reconcile finalize removed fresh known w name ns h))"
    by (rule found_resource [OF assms(1)]) (use assms(2,3) in \<open>auto intro!: quiet_each finalize_quiet known_quiet\<close>)
  then show ?thesis by (auto dest!: split_list)
qed

text \<open>A deleted resource: only what may be removed.\<close>

lemma deleted_resource:
  assumes "w_Get w h name ns = Inr (Some cr)" and "cr_Deleted cr"
  shows "\<forall>e \<in> set (calls_of (reconcile finalize removed fresh known w name ns h)). ibox_change e \<longrightarrow> may_remove cr e"
proof -
  have "each_call (\<lambda>g e. ibox_change e \<longrightarrow> may_remove cr e) h (calls_of (reconcile finalize removed fresh known w name ns h))"
  proof (rule found_resource [OF assms(1)])
    show "each_call (\<lambda>g e. ibox_change e \<longrightarrow> may_remove cr e) g (calls_of (removed cr g))" for g
      by (rule each_call_all) (use removed_only [of cr] in \<open>auto simp: only_def\<close>)
  qed (use assms(2) in \<open>auto intro!: quiet_each finalize_quiet\<close>)
  then show ?thesis by (auto dest!: split_list)
qed

end

definition removes_replica :: "'spec custom_resource \<Rightarrow> 'spec event \<Rightarrow> bool" where
  "removes_replica cr e \<longleftrightarrow> e = To ThisIbox (C_DeleteReplica (st_ID (cr_Status cr)))"

lemma quiet_updates [only_intros]:
  shows quiet_finalizer_replica: "quiet (handleFinalizer_replica rw rc)" and quiet_finalizer_cg: "quiet (handleFinalizer_cg cw cc)"
    and quiet_finalizer_promote: "quiet (handleFinalizer_promote pw pc)"
    and quiet_service_replica: "quiet (getClientService_replica E rc)" and quiet_service_cg: "quiet (getClientService_cg E cc)"
    and quiet_service_promote: "quiet (getClientService_promote E pc)"
    and quiet_update_cg: "quiet (updateIboxcgState cw cc)" and quiet_update_promote: "quiet (updateIboxpromoteState pw pc)"
  unfolding handleFinalizer_replica_def handleFinalizer_cg_def handleFinalizer_promote_def getClientService_replica_def
    getClientService_cg_def getClientService_promote_def updateIboxcgState_def updateIboxpromoteState_def
  by (intro only_intros; simp)+

lemma quiet_update_replica [only_intros]: "quiet (updateIboxreplicaState E w cr)"
  unfolding updateIboxreplicaState_def by (intro only_intros) simp

lemma deleteReplica_only: "only (\<lambda>e. ibox_change e \<longrightarrow> removes_replica cr e) (deleteReplica E cr)"
  unfolding deleteReplica_def removes_replica_def
  by (intro only_then only_on_party only_DeleteReplica_api only_mono [OF quiet_service_replica]) simp_all

interpretation replica_reconciler: reconciler "handleFinalizer_replica w" "deleteReplica E" "replica_is_new E w"
    "updateIboxreplicaState E w" removes_replica for E w
  by unfold_locales (intro only_intros deleteReplica_only)+

interpretation cg_reconciler: reconciler "handleFinalizer_cg w" "\<lambda>_. return_go ()" "handleNewCR E w" "updateIboxcgState w"
    "\<lambda>cr e. False" for E w
  by unfold_locales (intro only_intros)+

interpretation promote_reconciler: reconciler "handleFinalizer_promote w" "\<lambda>_. return_go ()" "createPromote E w"
    "updateIboxpromoteState w" "\<lambda>cr e. False" for E w
  by unfold_locales (intro only_intros)+

section \<open>The replica controller\<close>

text \<open>
  When a run for the resource \<open>cr\<close> may change the InfiniBox at history \<open>g\<close>: it deletes the replica the status names,
  for a resource that is deleted; or it creates one, for a resource without an id, over a link that was listed as up and with
  a witness, and right after a listing without a replica of that entity.
\<close>

definition link_listed :: "Client \<Rightarrow> int \<Rightarrow> 'spec event list \<Rightarrow> bool" where
  "link_listed api i g \<longleftrightarrow> (\<exists>g0 g1 links link. g = g0 @ To ThisIbox C_GetLinks # g1 \<and> r_GetLinks api (calls_to ThisIbox g0) = Inr links \<and>
     link \<in> set links \<and> link_ID link = i \<and> link_LinkState link = IboxreplicaLinkStateUp \<and>
     link_ResiliencyMode link = IboxreplicaLinkWitnessResiliencyMode)"

definition unreplicated :: "Client \<Rightarrow> int \<Rightarrow> 'spec event list \<Rightarrow> bool" where
  "unreplicated api i g \<longleftrightarrow> (\<exists>g0 replicas. g = g0 @ [To ThisIbox C_GetReplicas] \<and>
     r_GetReplicas api (calls_to ThisIbox g0) = Inr replicas \<and> (\<forall>r \<in> set replicas. rep_LocalEntityID r \<noteq> i))"

definition replica_rule :: "Env \<Rightarrow> replica_cr \<Rightarrow> IboxreplicaSpec event list \<Rightarrow> IboxreplicaSpec event \<Rightarrow> bool" where
  "replica_rule E cr g e \<longleftrightarrow> (ibox_change e \<longrightarrow>
     (cr_Deleted cr \<and> removes_replica cr e) \<or>
     (\<not> cr_Deleted cr \<and> st_ID (cr_Status cr) = 0 \<and>
       (\<exists>q api secrets. e = To ThisIbox (C_CreateReplica q) \<and> NewClient E secrets = Ok api \<and>
          link_listed api (crr_LinkID q) g \<and> unreplicated api (crr_LocalEntityID q) g)))"

lemma link_listed_append: "link_listed api i g \<Longrightarrow> link_listed api i (g @ t)"
  unfolding link_listed_def by fastforce

lemma link_of_Ok:
  "link_of links name = Ok link \<Longrightarrow> link \<in> set links \<and> link_LinkState link = IboxreplicaLinkStateUp \<and>
     link_ResiliencyMode link = IboxreplicaLinkWitnessResiliencyMode"
  by (auto simp: link_of_def find_Some_iff split: option.splits if_splits) (metis nth_mem set_rev length_rev)

lemma validateLink_listed:
  assumes "validateLink_replica api w cr h = (Ok link, t)"
  shows "link_listed api (link_ID link) (h @ t)"
proof -
  obtain links where "r_GetLinks api (calls_to ThisIbox h) = Inr links" "link_of links (irs_LinkRemoteSystemName (cr_Spec cr)) = Ok link"
    "t = [To ThisIbox C_GetLinks]"
    using assms by (auto simp: validateLink_replica_def api_server_defs GetLinks_api_def go_run split: go_splits)
  then show ?thesis unfolding link_listed_def using link_of_Ok by fastforce
qed

lemma client_service_Ok: "client_service E cr h = (Ok api, t) \<Longrightarrow> \<exists>secrets. NewClient E secrets = Ok api"
  by (auto simp: client_service_def Let_def go_run split: go_splits)

lemma quiet_rule: "quiet m \<Longrightarrow> wp m h (\<lambda>r t. each_call (replica_rule E cr) h t)"
  by (auto simp: wp_def only_def replica_rule_def intro!: each_call_all)

lemma quiet_lookups [only_intros]:
  shows quiet_entity: "quiet (getLocalEntityID api w cr)" and quiet_link: "quiet (validateLink_replica api w cr)"
    and quiet_pool: "quiet (lookupTargetPoolID E cr)"
  unfolding getLocalEntityID_def validateLink_replica_def lookupTargetPoolID_def Let_def
  by (intro only_intros; simp)+

lemma quiet_createPVC: "quiet (createPVC_replica E w cr)"
  unfolding createPVC_replica_def create_pair_def Let_def by (intro only_intros)

lemma create_unless_replicated_rule:
  assumes "NewClient E secrets = Ok api" and "link_listed api (link_ID link) h"
    and "\<not> cr_Deleted cr" and "st_ID (cr_Status cr) = 0"
  shows "wp (create_unless_replicated api w i link replica) h (\<lambda>r t. each_call (replica_rule E cr) h t)"
proof -
  have "replica_rule E cr (h @ [To ThisIbox C_GetReplicas]) (To ThisIbox (C_CreateReplica (requested_replica spec i link)))"
    if "r_GetReplicas api (calls_to ThisIbox h) = Inr replicas" "\<forall>r \<in> set replicas. rep_LocalEntityID r \<noteq> i" for spec replicas
  proof -
    have "unreplicated api i (h @ [To ThisIbox C_GetReplicas])" using that by (auto simp: unreplicated_def)
    moreover have "link_listed api (link_ID link) (h @ [To ThisIbox C_GetReplicas])" by (rule link_listed_append [OF assms(2)])
    ultimately show ?thesis using assms by (auto simp: replica_rule_def requested_replica_def)
  qed
  then show ?thesis
    by (auto simp: create_unless_replicated_def api_server_defs wp_simps list_ex_iff GetReplicas_api_def CreateReplica_api_def replica_rule_def
        split: res.splits option.splits)
qed

lemma createReplica_rule:
  assumes "\<not> cr_Deleted cr" and "st_ID (cr_Status cr) = 0"
  shows "wp (createReplica E w cr) h (\<lambda>r t. each_call (replica_rule E cr) h t)"
proof (cases "spec_defaults (cr_Spec cr)")
  case (Inl x)
  then show ?thesis by (auto simp: createReplica_def split_beta intro: quiet_rule quiet_fail_state)
next
  case (Inr spec)
  let ?replica = "cr\<lparr>cr_Spec := spec\<rparr>"
  have make: "wp (create_unless_replicated api w i link replica) ((g @ t) @ u) (\<lambda>r t'. each_call (replica_rule E cr) ((g @ t) @ u) t')"
    if "client_service E ?replica f = (Ok api, s)" "validateLink_replica api w ?replica g = (Ok link, t)" for api f s i link replica g t u
    using create_unless_replicated_rule [OF _ link_listed_append [OF validateLink_listed [OF that(2)]] assms] client_service_Ok [OF that(1)]
    by blast
  note quiets = quiet_service [THEN quiet_rule] quiet_lookups [THEN quiet_rule] quiet_server [THEN quiet_rule]
  show ?thesis
    unfolding createReplica_def Inr sum.case Let_def or_state_def getClientService_replica_def
  proof (intro wp_each_try wp_each_then quiets, goal_cases)
    case (1 api s i u link t pool v)
    then show ?case by (intro make)
  next
    case (2 api s i u link t err v stored x)
    then show ?case using make [OF 2(1,3), of i stored "v @ x"] by simp
  qed
qed

lemma replica_is_new_rule:
  assumes "\<not> cr_Deleted cr" and "st_ID (cr_Status cr) = 0"
  shows "wp (replica_is_new E w cr) h (\<lambda>r t. each_call (replica_rule E cr) h t)"
  unfolding replica_is_new_def
  by (intro wp_each_then wp_each_if wp_each_try createReplica_rule assms quiet_rule quiet_createPVC only_intros)

text \<open>C20: One run of the controller for a resource creates or deletes at most what \<open>replica_rule\<close> allows, on whatever state the
  InfiniBoxes and the cluster are in.\<close>

theorem replica_reconcile_rule:
  assumes "w_Get w h name ns = Inr (Some cr)"
  shows "each_call (replica_rule E cr) h (calls_of (Reconcile_replica E w name ns h))"
  unfolding Reconcile_replica_def
proof (rule replica_reconciler.found_resource [OF assms])
  show "each_call (replica_rule E cr) g (calls_of (deleteReplica E cr g))" if "cr_Deleted cr" for g
    by (rule each_call_all) (use that deleteReplica_only [of cr E] in \<open>auto simp: only_def replica_rule_def\<close>)
  show "each_call (replica_rule E cr) g (calls_of (replica_is_new E w cr g))" if "\<not> cr_Deleted cr" "st_ID (cr_Status cr) = 0" for g
    using replica_is_new_rule [OF that] by (simp add: wp_def)
qed (auto simp: replica_rule_def intro!: replica_reconciler.quiet_each only_intros)

text \<open>The finalizer is taken off before the replica is deleted. When the deletion fails, the API server forgets the resource all the
  same, and the retry finds nothing to do: the replica stays.\<close>

theorem replica_delete_leaks:
  assumes "w_Get w h name ns = Inr (Some cr)" and "cr_Deleted cr" and "''infinidat.com/iboxreplica'' \<in> set (cr_Finalizers cr)"
    and "free = cr\<lparr>cr_Finalizers := removeAll ''infinidat.com/iboxreplica'' (cr_Finalizers cr)\<rparr>"
    and "w_Update w (h @ [Cr_Get name ns]) free = Inr stored"
    and "deleteReplica E cr (h @ [Cr_Get name ns, Cr_Update free]) = (Err e, t)"
    and "w_Get w (h @ [Cr_Get name ns, Cr_Update free] @ t) name ns = Inr None"
  shows "Reconcile_replica E w name ns h = (Err e, [Cr_Get name ns, Cr_Update free] @ t) \<and>
    Reconcile_replica E w name ns (h @ [Cr_Get name ns, Cr_Update free] @ t) = (Ok (), [Cr_Get name ns])"
  using assms replica_reconciler.gone_resource [OF assms(7)]
  by (simp add: Reconcile_replica_def reconcile_def Get_cr_def handleFinalizer_replica_def handle_finalizer_def Update_cr_def go_run)

text \<open>A volume, a link and a resource that asks for its replication.\<close>

definition a_replica :: Replica where
  "a_replica = \<lparr>rep_ID = 3, rep_Role = ''SOURCE'', rep_State = ''ACTIVE'', rep_LinkID = 4, rep_LocalEntityID = 7, rep_RemoteEntityID = 8,
     rep_LocalPoolID = 1, rep_RemotePoolID = 2, rep_LastSynchronized = 0, rep_SyncDuration = 0, rep_EntityPairs = []\<rparr>"

definition creates_replica :: "call \<Rightarrow> bool" where
  "creates_replica c = (case c of C_CreateReplica q \<Rightarrow> True | _ \<Rightarrow> False)"

definition cr_ibox :: Client where
  "cr_ibox = replica_ibox\<lparr>
     r_GetLinks := (\<lambda>h. Inr [\<lparr>link_ID = 4, link_Name = ''b'', link_RemoteLinkID = 5, link_RemoteSystemName = ''b'',
        link_LinkState = ''UP'', link_ResiliencyMode = ''WITNESS''\<rparr>]),
     r_GetReplicas := (\<lambda>h. Inr (if list_ex creates_replica h then [a_replica] else [])),
     r_CreateReplica := (\<lambda>h q. Inr a_replica), r_GetVolumeByName := (\<lambda>h n. Inr sample_volume),
     r_DeleteReplica := (\<lambda>h i. Inl (Errors_New ''busy''))\<rparr>"

definition cr_env :: Env where
  "cr_env = stocked_env\<lparr>dial := (\<lambda>_. cr_ibox),
     cluster := (cluster stocked_env)\<lparr>kr_GetSecret := (\<lambda>h n ns. Inr (req_Secrets sample_create))\<rparr>\<rparr>"

definition a_replica_spec :: IboxreplicaSpec where
  "a_replica_spec = \<lparr>irs_IsPreferred = None, irs_SyncInterval = 0, irs_Description = ''d'', irs_EntityType = ReplicaEntityVolume,
     irs_LocalEntityName = ''v'', irs_RemoteEntityName = ''v'', irs_ReplicationType = IboxreplicaReplicaTypeASYNC, irs_BaseAction = '''',
     irs_LinkRemoteSystemName = ''b'', irs_RpoValue = 0, irs_RemotePoolID = 2, irs_RemoteIboxCredentialName = '''',
     irs_RemoteIboxCredentialNamespace = '''', irs_RemoteCreatePVC = None, irs_RemotePVCNameSuffix = '''', irs_RemotePVCName = '''',
     irs_RemotePVCNamespace = '''', irs_RemoteNetworkSpace = '''', irs_RemotePoolName = '''', irs_RemotePVCKubeconfigSecretName = '''',
     irs_RemotePVCKubeconfigSecretNamespace = ''''\<rparr>"

definition a_resource :: "string \<Rightarrow> 'spec \<Rightarrow> 'spec custom_resource" where
  "a_resource finalizer spec = \<lparr>cr_Name = ''r'', cr_Namespace = ''ns'', cr_ResourceVersion = ''1'',
     cr_Annotations = [(PVCAnnotationSecretName, ''s''), (PVCAnnotationSecretNamespace, ''ns'')],
     cr_Finalizers = [finalizer], cr_Deleted = False, cr_Spec = spec, cr_Status = \<lparr>st_State = '''', st_ID = 0\<rparr>\<rparr>"

text \<open>An API server that holds \<open>cr\<close> and refuses every change of a status.\<close>

definition stale_world :: "'spec custom_resource \<Rightarrow> 'spec CrWorld" where
  "stale_world cr = \<lparr>w_Get = (\<lambda>h n ns. Inr (Some cr)), w_Update = (\<lambda>h x. Inr x), w_StatusUpdate = (\<lambda>h x. Inl (Errors_New ''conflict'')),
     w_GetPV = (\<lambda>h n. Inl (Errors_New ''no pv'')), w_CreatePV = (\<lambda>h r p. Inr p), w_CreatePVC = (\<lambda>h r p. Inr p),
     w_GetSecret = (\<lambda>h r ns n. Inl (Errors_New ''no secret'')), w_CreateSecret = (\<lambda>h r s. Inr s),
     w_GetSnapshot = (\<lambda>h ns n. Inr \<lparr>vs_Status = None\<rparr>), w_GetSnapshotContent = (\<lambda>h n. Inr \<lparr>vs_Status = None\<rparr>),
     w_ClientConfig = (\<lambda>c. Inr ()), w_InClusterConfig = Inr ()\<rparr>"

definition replica_resource :: replica_cr where
  "replica_resource = a_resource ''infinidat.com/iboxreplica'' a_replica_spec"

definition run_replica :: "replica_cr \<Rightarrow> IboxreplicaSpec event list \<Rightarrow> unit res \<times> IboxreplicaSpec event list" where
  "run_replica cr h = Reconcile_replica cr_env (stale_world cr) ''r'' ''ns'' h"

definition is_status_update :: "'spec event \<Rightarrow> bool" where
  "is_status_update e = (case e of Cr_StatusUpdate x \<Rightarrow> True | _ \<Rightarrow> False)"

definition box_calls :: "unit res \<times> 'spec event list \<Rightarrow> call list" where
  "box_calls p = filter mutating (calls_to ThisIbox (calls_of p))"

text \<open>When the id of a new replica cannot be written to the status, it is lost: the retry finds the entity replicated and answers that
  all is well without an id, and the deletion of the resource asks the InfiniBox to delete the replica 0.\<close>

theorem replica_id_lost:
  "let first = run_replica replica_resource []; second = run_replica replica_resource (calls_of first)
   in list_ex creates_replica (box_calls first) \<and> result_of first = Err (Errors_New ''conflict'') \<and>
      result_of second = Ok () \<and> \<not> list_ex is_status_update (calls_of second) \<and> box_calls second = [] \<and>
      box_calls (run_replica (replica_resource\<lparr>cr_Deleted := True\<rparr>) (calls_of first @ calls_of second)) = [C_DeleteReplica 0]"
  by code_simp

text \<open>A remote pool that cannot be looked up is no obstacle: the replica is created with the pool 0.\<close>

theorem replica_pool_unchecked:
  "box_calls (run_replica (a_resource ''infinidat.com/iboxreplica'' (a_replica_spec\<lparr>irs_RemotePoolName := ''p''\<rparr>)) []) =
     [C_CreateReplica \<lparr>crr_IsPreferred = None, crr_SyncInterval = 240000, crr_Description = ''d'', crr_EntityType = ''VOLUME'',
        crr_RemoteEntityName = ''v'', crr_LocalEntityID = 7, crr_ReplicationType = ''ASYNC'', crr_BaseAction = ''NEW'', crr_LinkID = 4,
        crr_RpoValue = 300000, crr_RemotePoolID = 0\<rparr>]"
  by code_simp

theorem replica_reconcile_rule_witness:
  "each_call (replica_rule cr_env replica_resource) [] (calls_of (run_replica replica_resource [])) \<and>
   list_ex creates_replica (box_calls (run_replica replica_resource []))"
proof (rule conjI)
  show "each_call (replica_rule cr_env replica_resource) [] (calls_of (run_replica replica_resource []))"
    unfolding run_replica_def by (rule replica_reconcile_rule) (simp add: stale_world_def)
qed code_simp

text \<open>A server that forgets the resource as soon as it is updated.\<close>

definition forgetful_world :: "'spec custom_resource \<Rightarrow> 'spec CrWorld" where
  "forgetful_world cr = (stale_world cr)\<lparr>
     w_Get := (\<lambda>h n ns. Inr (if list_ex (\<lambda>e. case e of Cr_Update x \<Rightarrow> True | _ \<Rightarrow> False) h then None else Some cr))\<rparr>"

theorem replica_delete_leaks_witness:
  "let cr = replica_resource\<lparr>cr_Deleted := True\<rparr>; free = cr\<lparr>cr_Finalizers := []\<rparr>; w = forgetful_world cr;
       t = [Cr_Get ''r'' ''ns'', Cr_Update free, To Cluster K_BuildClient, To Cluster (K_GetSecret ''s'' ''ns''), To ThisIbox (C_DeleteReplica 0)]
   in Reconcile_replica cr_env w ''r'' ''ns'' [] = (Err (Errors_New ''busy''), t) \<and>
      Reconcile_replica cr_env w ''r'' ''ns'' t = (Ok (), [Cr_Get ''r'' ''ns''])"
proof -
  let ?cr = "replica_resource\<lparr>cr_Deleted := True\<rparr>"
  let ?t = "[To Cluster K_BuildClient, To Cluster (K_GetSecret ''s'' ''ns''), To ThisIbox (C_DeleteReplica 0)]"
  let ?free = "?cr\<lparr>cr_Finalizers := []\<rparr>"
  have "Reconcile_replica cr_env (forgetful_world ?cr) ''r'' ''ns'' [] = (Err (Errors_New ''busy''), [Cr_Get ''r'' ''ns'', Cr_Update ?free] @ ?t) \<and>
    Reconcile_replica cr_env (forgetful_world ?cr) ''r'' ''ns'' ([] @ [Cr_Get ''r'' ''ns'', Cr_Update ?free] @ ?t) = (Ok (), [Cr_Get ''r'' ''ns''])"
  proof (rule replica_delete_leaks)
    show "deleteReplica cr_env ?cr ([] @ [Cr_Get ''r'' ''ns'', Cr_Update ?free]) = (Err (Errors_New ''busy''), ?t)"
      by code_simp
  qed (simp_all add: forgetful_world_def stale_world_def replica_resource_def a_resource_def)
  then show ?thesis by (simp add: Let_def)
qed

section \<open>Progress\<close>

text \<open>A world in which nothing stands in the way of the resource \<open>cr\<close>: the entity \<open>i\<close> it names exists and is not replicated, the link
  is up, and every request of the controller is granted.\<close>

definition nothing_in_the_way :: "Env \<Rightarrow> replica_world \<Rightarrow> replica_cr \<Rightarrow> Client \<Rightarrow> int \<Rightarrow> Link \<Rightarrow> Replica \<Rightarrow> bool" where
  "nothing_in_the_way E w cr api i link new \<longleftrightarrow>
     (\<forall>h n ns. w_Get w h n ns = Inr (Some cr)) \<and> (\<forall>h x. w_Update w h x = Inr x) \<and> (\<forall>h x. w_StatusUpdate w h x = Inr x) \<and>
     (\<forall>h. kr_BuildClient (cluster E) h = Inr ()) \<and> (\<forall>h n ns. \<exists>s. kr_GetSecret (cluster E) h n ns = Inr s \<and> NewClient E s = Ok api) \<and>
     (\<forall>h n. \<exists>v. r_GetVolumeByName api h n = Inr v \<and> vol_ID v = i) \<and>
     (\<forall>h. \<exists>ls. r_GetLinks api h = Inr ls \<and> link_of ls (irs_LinkRemoteSystemName (cr_Spec cr)) = Ok link) \<and>
     (\<forall>h. \<exists>rs. r_GetReplicas api h = Inr rs \<and> (\<forall>r \<in> set rs. rep_LocalEntityID r \<noteq> i)) \<and> (\<forall>h q. r_CreateReplica api h q = Inr new)"

lemma healthyD:
  assumes "nothing_in_the_way E w cr api i link new"
  shows healthy_secret: "\<exists>s. kr_GetSecret (cluster E) g n ns = Inr s \<and> NewClient E s = Ok api"
    and healthy_volume: "\<exists>v. r_GetVolumeByName api g n = Inr v \<and> vol_ID v = i"
    and healthy_links: "\<exists>ls. r_GetLinks api g = Inr ls \<and> link_of ls (irs_LinkRemoteSystemName (cr_Spec cr)) = Ok link"
    and healthy_replicas: "\<exists>rs. r_GetReplicas api g = Inr rs \<and> (\<forall>r \<in> set rs. rep_LocalEntityID r \<noteq> i)"
  using assms by (simp_all add: nothing_in_the_way_def)

lemma healthy_service:
  assumes "nothing_in_the_way E w cr api i link new"
    and "lookup (cr_Annotations x) PVCAnnotationSecretName \<noteq> ''''" and "lookup (cr_Annotations x) PVCAnnotationSecretNamespace \<noteq> ''''"
  shows "\<exists>t. client_service E x h = (Ok api, t)"
proof -
  let ?n = "lookup (cr_Annotations x) PVCAnnotationSecretName" and ?ns = "lookup (cr_Annotations x) PVCAnnotationSecretNamespace"
  obtain s where "kr_GetSecret (cluster E) (calls_to Cluster h @ [K_BuildClient]) ?n ?ns = Inr s" "NewClient E s = Ok api"
    using healthy_secret [OF assms(1)] by blast
  with assms show ?thesis
    by (simp add: client_service_def nothing_in_the_way_def Let_def go_run BuildClient_kube_def GetSecret_kube_def)
qed

lemma healthy_creation:
  assumes "nothing_in_the_way E w cr api i link new"
  shows "\<exists>t. create_unless_replicated api w i link x h =
    (Ok (cr\<lparr>cr_Status := \<lparr>st_State = ''created'', st_ID = rep_ID new\<rparr>\<rparr>),
     [To ThisIbox C_GetReplicas, To ThisIbox (C_CreateReplica (requested_replica (cr_Spec x) i link))] @ t @
     [Cr_StatusUpdate (cr\<lparr>cr_Status := \<lparr>st_State = ''created'', st_ID = rep_ID new\<rparr>\<rparr>)])"
proof -
  obtain rs where "r_GetReplicas api (calls_to ThisIbox h) = Inr rs" "\<forall>r \<in> set rs. rep_LocalEntityID r \<noteq> i"
    using healthy_replicas [OF assms] by blast
  with assms show ?thesis
    by (auto simp: create_unless_replicated_def nothing_in_the_way_def api_server_defs list_ex_iff go_run GetReplicas_api_def CreateReplica_api_def)
qed


definition live_world :: "'spec custom_resource \<Rightarrow> 'spec CrWorld" where
  "live_world cr = (stale_world cr)\<lparr>w_StatusUpdate := (\<lambda>h x. Inr x)\<rparr>"

definition empty_cr_env :: Env where
  "empty_cr_env = cr_env\<lparr>dial := (\<lambda>_. cr_ibox\<lparr>r_GetReplicas := (\<lambda>h. Inr [])\<rparr>)\<rparr>"


end
