(* ===== verification/Cg_Props.thy ===== *)
theory Cg_Props
  imports Cr_Props
begin

text \<open>
  The controllers of consistency groups and promotions, and the remote volumes: a suspended replica is resumed, only snapshots are
  promoted, and the volume made for a remote entity names that entity.
\<close>

section \<open>Consistency groups\<close>

text \<open>The replicas that are suspended, as far as the calls ask for it.\<close>

fun suspend_step :: "int set \<Rightarrow> call \<Rightarrow> int set" where
  "suspend_step S (C_SuspendReplica i) = insert i S"
| "suspend_step S (C_ResumeReplica i) = S - {i}"
| "suspend_step S c = S"

definition suspended :: "int set \<Rightarrow> call list \<Rightarrow> int set" where
  "suspended S t = foldl suspend_step S t"

lemma suspended_simps [simp]:
  shows "suspended S [] = S" and "suspended S (c # t) = suspended (suspend_step S c) t"
    and "suspended S (t @ u) = suspended (suspended S t) u"
  by (simp_all add: suspended_def)

lemma suspended_reads: "\<forall>c \<in> set t. \<not> mutating c \<Longrightarrow> suspended S t = S"
proof (induction t arbitrary: S)
  case (Cons c t)
  then have "suspend_step S c = S" by (cases c) auto
  with Cons show ?case by simp
qed simp

lemma wait_suspended_reads: "only (\<lambda>c. \<not> mutating c) (wait_suspended n api name)"
  by (induction n; unfold wait_suspended.simps; intro only_intros) simp_all

lemma wp_reads: "only (\<lambda>c. \<not> mutating c) m \<Longrightarrow> (\<And>r t. \<forall>c \<in> set t. \<not> mutating c \<Longrightarrow> Q r t) \<Longrightarrow> wp m h Q"
  by (rule wp_mono [OF wp_only])

text \<open>The wait for the suspension asks at most as often as it may and does not end in an error: it returns, or panics on a failed query.\<close>

lemma wait_suspended_bound:
  "wp (wait_suspended n api name) h (\<lambda>r t. length t \<le> n \<and> set t \<subseteq> {C_GetReplicaForCG name} \<and> (\<forall>e. r \<noteq> Err e))"
proof (induction n arbitrary: h)
  case (Suc n)
  have "wp (wait_suspended n api name) (h @ [C_GetReplicaForCG name])
      (\<lambda>r t. length ([C_GetReplicaForCG name] @ t) \<le> Suc n \<and> set ([C_GetReplicaForCG name] @ t) \<subseteq> {C_GetReplicaForCG name} \<and> (\<forall>e. r \<noteq> Err e))"
    by (rule wp_mono [OF Suc]) auto
  then show ?case by (simp add: wp_simps GetReplicaForCG_api_def)
qed (simp add: wp_simps)

lemma suspend_replica_wp:
  "wp (suspend_replica api name found ms) h (\<lambda>r t. \<forall>S. r = Ok () \<longrightarrow>
     suspended S t = S \<union> (case found of None \<Rightarrow> {} | Some replica \<Rightarrow> if ms = [] then {} else {rep_ID replica}))"
proof (cases "found = None \<or> ms = []")
  case True
  then show ?thesis by (auto simp: suspend_replica_def wp_simps split: option.splits)
next
  case False
  then show ?thesis
    by (auto simp: suspend_replica_def SuspendReplica_api_def wp_simps intro!: wp_reads wait_suspended_reads simp: suspended_reads)
qed

lemma find_replica_reads: "only (\<lambda>c. \<not> mutating c) (find_replica api name)"
  unfolding find_replica_def by (intro only_intros) simp_all

definition resumed :: "'a res \<Rightarrow> call list \<Rightarrow> bool" where
  "resumed r t \<longleftrightarrow> (\<forall>a. r = Ok a \<longrightarrow> suspended {} t = {})"

lemma add_to_group_resumed: "wp (add_to_group api v cg ms) h resumed"
  unfolding add_to_group_def
proof (intro wp_then_rule [OF wp_only [OF find_replica_reads]] wp_then_rule [OF suspend_replica_wp])
qed (auto simp: wp_simps resumed_def suspended_reads AddMemberToCG_api_def ResumeReplica_api_def resume_replica_def split: res.splits option.splits)

lemma handleRemoveMember_resumed: "wp (handleRemoveMember spec v cg api ms) h resumed"
  unfolding handleRemoveMember_def wp_if
proof (intro conjI impI wp_then_rule [OF wp_only [OF find_replica_reads]] wp_then_rule [OF suspend_replica_wp])
qed (auto simp: wp_simps resumed_def suspended_reads RemoveMemberFromCG_api_def ResumeReplica_api_def resume_replica_def split: res.splits option.splits)

text \<open>The whole run: everything but the change of the members leaves the InfiniBox alone.\<close>

lemma calls_to_quiet: "\<forall>e \<in> set t. \<not> ibox_change e \<Longrightarrow> p \<noteq> Cluster \<Longrightarrow> \<forall>c \<in> set (calls_to p t). \<not> mutating c"
  by (auto simp: calls_to_def List.map_filter_def sent_to_def split: event.splits if_splits)

definition cr_resumed :: "'a res \<Rightarrow> 'spec event list \<Rightarrow> bool" where
  "cr_resumed r t \<longleftrightarrow> resumed r (calls_to ThisIbox t)"

lemma quiet_resumed: "quiet m \<Longrightarrow> wp m h (\<lambda>r t. suspended S (calls_to ThisIbox t) = S)"
  by (rule wp_mono [OF wp_only]) (auto dest!: calls_to_quiet [where p = ThisIbox] intro!: suspended_reads)

lemma resumed_try:
  assumes "wp m h cr_resumed" and "\<And>e g. wp (f e) g (\<lambda>r t. \<forall>a. r \<noteq> Ok a)" and "\<And>a g. wp (k a) g cr_resumed"
  shows "wp (try_go m f k) h cr_resumed"
  by (rule wp_try_rule [OF assms(1)])
    (use assms(2,3) in \<open>auto simp: cr_resumed_def resumed_def wp_def\<close>)

lemma resumed_quiet: "quiet m \<Longrightarrow> wp m h cr_resumed"
  by (rule wp_mono [OF quiet_resumed [where S = "{}"]]) (auto simp: cr_resumed_def resumed_def)

lemma fail_state_fails: "wp (fail_state w cr e) g (\<lambda>r t. \<forall>a. r \<noteq> Ok a)"
  by (simp add: api_server_defs wp_simps)

lemma resumed_then: "wp m h cr_resumed \<Longrightarrow> (\<And>a g. wp (k a) g cr_resumed) \<Longrightarrow> wp (then_go m k) h cr_resumed"
  unfolding then_go_def by (rule resumed_try) (simp_all add: wp_fail)

lemma resumed_or_state: "wp m h cr_resumed \<Longrightarrow> (\<And>a g. wp (k a) g cr_resumed) \<Longrightarrow> wp (or_state w cr m k) h cr_resumed"
  unfolding or_state_def by (rule resumed_try) (simp_all add: fail_state_fails)

lemma resumed_on_party: "(\<And>g. wp m g resumed) \<Longrightarrow> wp (on_party ThisIbox m) h cr_resumed"
  by (simp add: wp_on_party cr_resumed_def)

lemma quiet_createPVC_cg: "quiet (createPVC_cg E w cr found)"
  unfolding createPVC_cg_def kept_def getRemoteEntities_def Let_def by (intro only_intros) simp_all

lemma change_members_resumed: "wp (change_members E w cr v cg api ms) h cr_resumed"
  unfolding change_members_def handleAddMember_def Let_def wp_if wp_case_option
  by (intro conjI impI allI resumed_or_state)
    (auto simp: wp_if wp_case_option intro!: resumed_then resumed_on_party add_to_group_resumed handleRemoveMember_resumed
       quiet_createPVC_cg [THEN resumed_quiet] only_return [THEN resumed_quiet] quiet_fail_state [THEN resumed_quiet] split: option.splits)

lemma handleNewCR_resumed: "wp (handleNewCR E w cr) h cr_resumed"
  unfolding handleNewCR_def getClientService_cg_def
  by (intro resumed_or_state resumed_then)
    (auto simp: wp_if intro!: resumed_or_state resumed_then change_members_resumed quiet_server [THEN resumed_quiet]
      only_return [THEN resumed_quiet] only_on_party [THEN resumed_quiet] only_api)

text \<open>C37: A run of the controller that ends without an error has asked to resume every replica it has suspended.\<close>

theorem cg_reconcile_resumes:
  assumes "Reconcile_cg E w name ns h = (Ok (), t)"
  shows "suspended {} (calls_to ThisIbox t) = {}"
proof -
  have "wp (Reconcile_cg E w name ns) h cr_resumed"
    unfolding Reconcile_cg_def reconcile_def
    by (intro resumed_then)
      (auto simp: wp_if wp_case_option intro!: resumed_then handleNewCR_resumed quiet_server [THEN resumed_quiet] quiet_updates [THEN resumed_quiet]
        only_return [THEN resumed_quiet] split: option.splits)
  from wpD [OF this assms] show ?thesis by (simp add: cr_resumed_def resumed_def)
qed

text \<open>A replicated group with one member, which suspends at once, and a resource that adds a volume to it.\<close>

definition suspends :: "call \<Rightarrow> bool" where
  "suspends c = (case c of C_SuspendReplica i \<Rightarrow> True | _ \<Rightarrow> False)"

definition cg_ibox :: Client where
  "cg_ibox = addons_ibox\<lparr>r_GetVolumeByName := (\<lambda>h n. Inr sample_volume),
     r_GetConsistencyGroupByName := (\<lambda>h n. Inr (group_info 5 n)),
     r_GetReplicaForCG := (\<lambda>h n. Inr (a_replica\<lparr>rep_State := ''SUSPENDED''\<rparr>)),
     r_SuspendReplica := (\<lambda>h i. Inr ()), r_ResumeReplica := (\<lambda>h i. Inr ())\<rparr>"

definition a_cg_spec :: IboxcgSpec where
  "a_cg_spec = \<lparr>ics_Description = '''', ics_LocalCGName = ''g'', ics_LocalVolumeName = ''v'', ics_BaseAction = '''',
     ics_RemoteIboxCredentialName = '''', ics_RemoteIboxCredentialNamespace = '''', ics_RemoteCreatePVC = None,
     ics_RemotePVCNameSuffix = '''', ics_RemotePVCName = '''', ics_RemotePVCNamespace = '''', ics_RemoteNetworkSpace = '''',
     ics_RemotePoolName = '''', ics_RemotePVCKubeconfigSecretName = '''', ics_RemotePVCKubeconfigSecretNamespace = ''''\<rparr>"

definition run_cg :: "Client \<Rightarrow> IboxcgSpec \<Rightarrow> unit res \<times> IboxcgSpec event list" where
  "run_cg api spec = Reconcile_cg (cr_env\<lparr>dial := (\<lambda>_. api)\<rparr>) (live_world (a_resource ''infinidat.com/iboxcg'' spec)) ''r'' ''ns'' []"

lemma run_cg_adds:
  "result_of (run_cg cg_ibox a_cg_spec) = Ok () \<and>
   box_calls (run_cg cg_ibox a_cg_spec) = [C_SuspendReplica 3, C_AddMemberToCG 7 5 (vol_Name sample_volume), C_ResumeReplica 3]"
  by code_simp

theorem cg_reconcile_resumes_witness:
  "suspended {} (calls_to ThisIbox (calls_of (run_cg cg_ibox a_cg_spec))) = {} \<and>
   list_ex suspends (box_calls (run_cg cg_ibox a_cg_spec))"
proof (rule conjI)
  have "run_cg cg_ibox a_cg_spec = (Ok (), calls_of (run_cg cg_ibox a_cg_spec))"
    using run_cg_adds by (simp add: result_of_def calls_of_def prod_eq_iff)
  from cg_reconcile_resumes [OF this [unfolded run_cg_def]]
  show "suspended {} (calls_to ThisIbox (calls_of (run_cg cg_ibox a_cg_spec))) = {}" by (simp add: run_cg_def)
  show "list_ex suspends (box_calls (run_cg cg_ibox a_cg_spec))" using run_cg_adds by (simp add: suspends_def)
qed

text \<open>A run that fails does not: when the volume cannot be added, the group stays suspended; and when the state of the replica cannot be read
  while the controller waits for the suspension, the controller panics and the group stays suspended.\<close>

theorem cg_left_suspended:
  "(let run = run_cg (cg_ibox\<lparr>r_AddMemberToCG := (\<lambda>h i g n. Inl (Errors_New ''no''))\<rparr>) a_cg_spec
    in result_of run = Err (Errors_New ''no'') \<and> suspended {} (calls_to ThisIbox (calls_of run)) = {3}) \<and>
   (let run = run_cg (cg_ibox\<lparr>r_GetReplicaForCG := (\<lambda>h n. if list_ex suspends h then Inl (Errors_New ''no'') else Inr a_replica)\<rparr>) a_cg_spec
    in result_of run = Crash (GoPanic ''nil pointer dereference: replica.ID'') \<and> suspended {} (calls_to ThisIbox (calls_of run)) = {3})"
  by code_simp

text \<open>A volume that cannot be removed is reported as handled all the same.\<close>

theorem cg_remove_error_ignored:
  "let run = run_cg (cg_ibox\<lparr>r_RemoveMemberFromCG := (\<lambda>h g i. Inl (Errors_New ''no''))\<rparr>)
        (a_cg_spec\<lparr>ics_BaseAction := IboxcgBaseActionRemove, ics_LocalVolumeName := ''m''\<rparr>)
   in result_of run = Ok () \<and> list_ex is_status_update (calls_of run) \<and>
      box_calls run = [C_SuspendReplica 3, C_RemoveMemberFromCG 5 7, C_ResumeReplica 3]"
  by code_simp

section \<open>Promotions\<close>

text \<open>When a run for \<open>cr\<close> may promote: the volume was read by the call right before, and it is not a volume of its own already.\<close>

definition promote_rule :: "Env \<Rightarrow> promote_cr \<Rightarrow> IboxpromoteSpec event list \<Rightarrow> IboxpromoteSpec event \<Rightarrow> bool" where
  "promote_rule E cr g e \<longleftrightarrow> (ibox_change e \<longrightarrow> \<not> cr_Deleted cr \<and> st_ID (cr_Status cr) = 0 \<and>
     (\<exists>api secrets vol g0. NewClient E secrets = Ok api \<and> e = To ThisIbox (C_PromoteSnapshot (vol_ID vol)) \<and> vol_Type vol \<noteq> ''MASTER'' \<and>
        ((\<exists>i. g = g0 @ [To ThisIbox (C_GetVolume i)] \<and> r_GetVolume api (calls_to ThisIbox g0) i = Inr vol) \<or>
         (\<exists>n. g = g0 @ [To ThisIbox (C_GetVolumeByName n)] \<and> r_GetVolumeByName api (calls_to ThisIbox g0) n = Inr vol))))"

lemma promoted_volume_read:
  assumes "promoted_volume w cr api h = (Ok vol, t)"
  shows "\<exists>g0. (\<exists>i. h @ t = g0 @ [To ThisIbox (C_GetVolume i)] \<and> r_GetVolume api (calls_to ThisIbox g0) i = Inr vol) \<or>
    (\<exists>n. h @ t = g0 @ [To ThisIbox (C_GetVolumeByName n)] \<and> r_GetVolumeByName api (calls_to ThisIbox g0) n = Inr vol)"
  using assms
  by (auto simp: promoted_volume_def lookupEntityByVolumeSnapshotName_def api_server_defs GetVolume_api_def GetVolumeByName_api_def go_run
      split: go_splits)

lemma quiet_promoted_volume: "quiet (promoted_volume w cr api)"
  unfolding promoted_volume_def lookupEntityByVolumeSnapshotName_def Let_def by (intro only_intros) simp_all

lemma quiet_promote_rule: "quiet m \<Longrightarrow> wp m h (\<lambda>r t. each_call (promote_rule E cr) h t)"
  by (auto simp: wp_def only_def promote_rule_def intro!: each_call_all)

lemma promote_unless_master_rule:
  assumes "client_service E x f = (Ok api, s)" "promoted_volume w y api g = (Ok vol, t)"
    and "\<not> cr_Deleted cr" and "st_ID (cr_Status cr) = 0"
  shows "wp (promote_unless_master w cr' api vol) (g @ t) (\<lambda>r t'. each_call (promote_rule E cr) (g @ t) t')"
proof (cases "vol_Type vol = ''MASTER''")
  case False
  with promoted_volume_read [OF assms(2)] client_service_Ok [OF assms(1)] assms(3,4)
  have "promote_rule E cr (g @ t) (To ThisIbox (C_PromoteSnapshot (vol_ID vol)))"
    unfolding promote_rule_def by (auto; metis)
  then show ?thesis using False
    by (auto simp: promote_unless_master_def wp_simps PromoteSnapshot_api_def api_server_defs promote_rule_def split: res.splits option.splits)
qed (simp add: promote_unless_master_def wp_return)

lemma createPromote_rule:
  assumes "\<not> cr_Deleted cr" and "st_ID (cr_Status cr) = 0"
  shows "wp (createPromote E w cr) h (\<lambda>r t. each_call (promote_rule E cr) h t)"
  unfolding createPromote_def Let_def or_state_def getClientService_promote_def
  by (intro wp_each_if wp_each_try wp_each_then quiet_service [THEN quiet_promote_rule] quiet_promoted_volume [THEN quiet_promote_rule]
      quiet_server [THEN quiet_promote_rule] promote_unless_master_rule [OF _ _ assms])

text \<open>C29: A run of the promotion controller promotes at most the volume it has just read, and only when that is a snapshot.\<close>

theorem promote_reconcile_rule:
  assumes "w_Get w h name ns = Inr (Some cr)"
  shows "each_call (promote_rule E cr) h (calls_of (Reconcile_promote E w name ns h))"
  unfolding Reconcile_promote_def
proof (rule promote_reconciler.found_resource [OF assms])
  show "each_call (promote_rule E cr) g (calls_of (createPromote E w cr g))" if "\<not> cr_Deleted cr" "st_ID (cr_Status cr) = 0" for g
    using createPromote_rule [OF that] by (simp add: wp_def)
qed (auto simp: promote_rule_def calls_of_def intro!: promote_reconciler.quiet_each [unfolded calls_of_def] only_intros)

text \<open>A snapshot and a resource that promotes it, named by the InfiniBox or by a VolumeSnapshot of the cluster.\<close>

definition promote_ibox :: "string \<Rightarrow> Client" where
  "promote_ibox kind = cr_ibox\<lparr>r_GetVolume := (\<lambda>h i. Inr (sample_volume\<lparr>vol_ID := i, vol_Type := kind\<rparr>)),
     r_GetVolumeByName := (\<lambda>h n. Inr (sample_volume\<lparr>vol_Name := n, vol_Type := kind\<rparr>)),
     r_PromoteSnapshot := (\<lambda>h i. Inr (sample_volume\<lparr>vol_ID := i, vol_Type := ''MASTER''\<rparr>))\<rparr>"

definition a_promote_spec :: IboxpromoteSpec where
  "a_promote_spec = \<lparr>ips_Description = '''', ips_EntityType = ''KUBE_SNAPSHOT'', ips_EntityName = ''snap'', ips_EntityNamespace = ''ns'',
     ips_BaseAction = ''''\<rparr>"

definition snapshot_world :: "string option option \<Rightarrow> 'spec custom_resource \<Rightarrow> 'spec CrWorld" where
  "snapshot_world handle cr = (live_world cr)\<lparr>w_GetSnapshot := (\<lambda>h ns n. Inr \<lparr>vs_Status = Some (Some ''content'')\<rparr>),
     w_GetSnapshotContent := (\<lambda>h n. Inr \<lparr>vs_Status = handle\<rparr>)\<rparr>"

definition promote_resource :: promote_cr where
  "promote_resource = a_resource ''infinidat.com/iboxpromote'' a_promote_spec"

definition run_promote :: "string \<Rightarrow> string option option \<Rightarrow> unit res \<times> IboxpromoteSpec event list" where
  "run_promote kind handle = Reconcile_promote (cr_env\<lparr>dial := (\<lambda>_. promote_ibox kind)\<rparr>) (snapshot_world handle promote_resource) ''r'' ''ns'' []"

theorem promote_reconcile_rule_witness:
  "each_call (promote_rule (cr_env\<lparr>dial := (\<lambda>_. promote_ibox ''SNAP'')\<rparr>) promote_resource) []
     (calls_of (run_promote ''SNAP'' (Some (Some ''9$$fc'')))) \<and>
   box_calls (run_promote ''SNAP'' (Some (Some ''9$$fc''))) = [C_PromoteSnapshot 9]"
proof (rule conjI)
  show "each_call (promote_rule (cr_env\<lparr>dial := (\<lambda>_. promote_ibox ''SNAP'')\<rparr>) promote_resource) []
     (calls_of (run_promote ''SNAP'' (Some (Some ''9$$fc''))))"
    unfolding run_promote_def
    by (rule promote_reconcile_rule) (simp add: snapshot_world_def live_world_def stale_world_def)
qed code_simp

text \<open>A volume that is no snapshot is left alone, and the status never says that the resource was handled; a content without a status
  makes the controller panic.\<close>

theorem promote_edge_cases:
  "(let run = run_promote ''MASTER'' (Some (Some ''9$$fc''))
    in result_of run = Ok () \<and> box_calls run = [] \<and> \<not> list_ex is_status_update (calls_of run)) \<and>
   result_of (run_promote ''SNAP'' None) = Crash (GoPanic ''nil pointer dereference: volumeSnapshotContent.Status'')"
  by code_simp

section \<open>Remote volumes\<close>

text \<open>What the PersistentVolume made for the remote entity \<open>i\<close> says: the credentials \<open>cred\<close> everywhere, and a handle that the driver reads back as
  that entity with the protocol of the local volume.\<close>

definition names_entity :: "KubePV \<Rightarrow> int \<Rightarrow> string \<times> string \<Rightarrow> KubePV \<Rightarrow> bool" where
  "names_entity localPV i cred pv \<longleftrightarrow> (\<exists>csi remote. kpv_CSI localPV = Some csi \<and> kpv_CSI pv = Some remote \<and>
     kcsi_NodeStageSecretRef remote = Some cred \<and> kcsi_NodePublishSecretRef remote = Some cred \<and> kcsi_NodeExpandSecretRef remote = Some cred \<and>
     kcsi_ControllerPublishSecretRef remote = Some cred \<and> kcsi_ControllerExpandSecretRef remote = Some cred \<and>
     kpv_Capacity pv = kpv_Capacity localPV \<and> kpv_AccessModes pv = kpv_AccessModes localPV \<and>
     (let p = lookup (kcsi_VolumeAttributes csi) StorageClassStorageProtocol in
      is_int64 i \<longrightarrow> CHR ''$'' \<notin> set p \<longrightarrow> p \<noteq> '''' \<longrightarrow> p \<noteq> ProtocolTreeq \<longrightarrow>
      ValidateVolumeID (kcsi_VolumeHandle remote) = Ok (zero_VolProto\<lparr>vpc_StorageType := p, vpc_VolumeID := i\<rparr>)))"

lemma remote_pv_names:
  "kpv_CSI localPV = Some csi \<Longrightarrow> names_entity localPV i cred (remote_pv localPV csi name i ip pool sp cred)"
  by (simp add: names_entity_def remote_pv_def Let_def ValidateVolumeID_plain del: append_Cons)


text \<open>For a consistency group the entities are the members on the local InfiniBox: the remote PersistentVolumes get the ids of the local volumes.\<close>

theorem remote_entities_of_group:
  assumes "GetRemoteEntities E w local remote ReplicaEntityCG name sp rn h = (Ok ps, t)"
    and "r_GetConsistencyGroupByName local (calls_to ThisIbox h) name = Inr cg"
    and "r_GetMembersByCGID local (calls_to ThisIbox h @ [C_GetConsistencyGroupByName name]) (cg_ID cg) = Inr ms"
  shows "map ep_RemoteEntityID ps = map mem_ID ms"
proof -
  let ?f = "\<lambda>m. then_go (GetLocalPV E w (mem_Name m)) (\<lambda>localPV.
    return_go \<lparr>ep_LocalPV = localPV, ep_RemoteEntityID = mem_ID m, ep_RemoteIPAddress = ''''\<rparr>)"
  obtain g u where "map_go ?f ms g = (Ok ps, u)"
    using assms by (auto simp: GetRemoteEntities_def GetCGMembers_def GetConsistencyGroupByName_api_def GetMembersByCGID_api_def go_run split: go_splits)
  then have "list_all2 (\<lambda>m p. \<exists>g s. ?f m g = (Ok p, s)) ms ps" by (rule map_go_Ok)
  moreover have "returns (\<lambda>p. ep_RemoteEntityID p = mem_ID m) (?f m)" for m
    by (intro returns_intros) simp
  ultimately have "list_all2 (\<lambda>m p. ep_RemoteEntityID p = mem_ID m) ms ps"
    by (auto elim!: list_all2_mono dest: returnsD)
  then show ?thesis by (induction rule: list_all2_induct) simp_all
qed

definition a_pv :: KubePV where
  "a_pv = \<lparr>kpv_Name = ''pv'', kpv_AccessModes = [''ReadWriteOnce''], kpv_Capacity = [(''storage'', ''1Gi'')], kpv_MountOptions = [],
     kpv_ReclaimPolicy = ''Delete'', kpv_StorageClassName = ''gold'', kpv_VolumeMode = None, kpv_CSI = Some \<lparr>kcsi_Driver = ''d'',
       kcsi_ControllerExpandSecretRef = None, kcsi_ControllerPublishSecretRef = None, kcsi_NodeExpandSecretRef = None,
       kcsi_NodePublishSecretRef = None, kcsi_NodeStageSecretRef = None, kcsi_VolumeAttributes = [(StorageClassStorageProtocol, ''fc'')],
       kcsi_VolumeHandle = ''7$$fc''\<rparr>\<rparr>"

definition is_pv_create :: "'spec event \<Rightarrow> bool" where
  "is_pv_create e = (case e of Pv_Create cl pv \<Rightarrow> True | _ \<Rightarrow> False)"

lemma is_pv_create_iff: "is_pv_create e \<longleftrightarrow> (\<exists>cl pv. e = Pv_Create cl pv)"
  by (cases e) (simp_all add: is_pv_create_def)

definition run_remote_pv :: "KubePV res \<times> IboxreplicaSpec event list" where
  "run_remote_pv = CreateRemotePV cr_env (live_world replica_resource) cr_ibox a_pv 9 '''' ''pool'' '''' '''' ''c'' ''cns'' '''' '''' []"


end
