(* ===== verification/Go_Text.thy ===== *)
theory Go_Text
  imports Go_Lib
begin

text \<open>
  More of Go's \<open>strings\<close>, \<open>bufio\<close>, \<open>path/filepath\<close> and \<open>strconv\<close>: what the node side of the driver uses to
  build commands and to read the output of host programs. Text is a sequence of bytes.
\<close>

section \<open>strings\<close>

definition TrimPrefix :: "string \<Rightarrow> string \<Rightarrow> string" where
  "TrimPrefix s p = (if HasPrefix s p then drop (length p) s else s)"

definition HasSuffix :: "string \<Rightarrow> string \<Rightarrow> bool" where
  "HasSuffix s p \<longleftrightarrow> HasPrefix (rev s) (rev p)"

definition TrimSuffix :: "string \<Rightarrow> string \<Rightarrow> string" where
  "TrimSuffix s p = (if HasSuffix s p then take (length s - length p) s else s)"

text \<open>\<open>strings.Replace(s, old, new, 1)\<close> for a non-empty \<open>old\<close>\<close>

fun Replace1 :: "string \<Rightarrow> string \<Rightarrow> string \<Rightarrow> string" where
  "Replace1 [] old new = []"
| "Replace1 (c # s) old new =
     (if HasPrefix (c # s) old then new @ drop (length old) (c # s) else c # Replace1 s old new)"

text \<open>\<open>strings.ReplaceAll\<close> for a non-empty \<open>old\<close>\<close>

definition ReplaceAll :: "string \<Rightarrow> string \<Rightarrow> string \<Rightarrow> string" where
  "ReplaceAll s old new = join new (Split s old)"

text \<open>\<open>strings.SplitAfter\<close>: every part but the last keeps the separator behind it.\<close>

definition SplitAfter :: "string \<Rightarrow> string \<Rightarrow> string list" where
  "SplitAfter s sep = (let parts = Split s sep in map (\<lambda>p. p @ sep) (butlast parts) @ [last parts])"

text \<open>\<open>strings.Fields\<close>: the maximal runs of characters that are no white space.\<close>

fun fields_from :: "string \<Rightarrow> string \<Rightarrow> string list" where
  "fields_from acc [] = (if acc = [] then [] else [rev acc])"
| "fields_from acc (c # s) =
     (if is_space c then (if acc = [] then fields_from [] s else rev acc # fields_from [] s)
      else fields_from (c # acc) s)"

definition Fields :: "string \<Rightarrow> string list" where
  "Fields s = fields_from [] s"

definition newline :: string where
  "newline = [CHR 0x0A]"

section \<open>bufio.Scanner over lines\<close>

text \<open>A last line without a line feed counts, an empty one does not; one carriage return at the end of a line is dropped.\<close>

definition raw_lines :: "string \<Rightarrow> string list" where
  "raw_lines s = (let parts = Split s newline in if last parts = [] then butlast parts else parts)"

definition drop_cr :: "string \<Rightarrow> string" where
  "drop_cr l = TrimSuffix l [CHR 0x0D]"

text \<open>The scanner stops at a line that does not fit into its buffer of 64 KiB.\<close>

definition MaxScanTokenSize :: nat where
  "MaxScanTokenSize = 65536"

definition fits :: "string \<Rightarrow> bool" where
  "fits l \<longleftrightarrow> length l < MaxScanTokenSize"

definition scanned_lines :: "string \<Rightarrow> string list" where
  "scanned_lines s = map drop_cr (takeWhile fits (raw_lines s))"

definition scan_ok :: "string \<Rightarrow> bool" where
  "scan_ok s \<longleftrightarrow> list_all fits (raw_lines s)"

section \<open>path/filepath\<close>

text \<open>\<open>filepath.Base\<close>\<close>

definition path_Base :: "string \<Rightarrow> string" where
  "path_Base p =
     (if p = [] then ''.''
      else let stripped = rev (dropWhile (\<lambda>c. c = CHR ''/'') (rev p)) in
           if stripped = [] then ''/'' else last (Split stripped ''/''))"

text \<open>\<open>filepath.Dir\<close>\<close>

definition path_Dir :: "string \<Rightarrow> string" where
  "path_Dir p = path_Clean (concat (map (\<lambda>d. d @ ''/'') (butlast (Split p ''/''))))"

definition path_Join3 :: "string \<Rightarrow> string \<Rightarrow> string \<Rightarrow> string" where
  "path_Join3 a b c = (let ne = filter (\<lambda>p. p \<noteq> []) [a, b, c] in
     if ne = [] then [] else path_Clean (join_slash ne))"

section \<open>strconv\<close>

definition hex_digit :: "nat \<Rightarrow> char" where
  "hex_digit d = (if d < 10 then char_of (48 + d) else char_of (87 + d))"

text \<open>\<open>%q\<close>: quotes, back slashes and control characters are escaped; bytes beyond ASCII are kept, as in valid printable UTF-8.\<close>

definition quote_char :: "char \<Rightarrow> string" where
  "quote_char c =
     (let n = (of_char c :: nat); bs = CHR 0x5C in
      if n = 34 \<or> n = 92 then [bs, c]
      else if n = 7 then [bs, CHR ''a'']
      else if n = 8 then [bs, CHR ''b'']
      else if n = 9 then [bs, CHR ''t'']
      else if n = 10 then [bs, CHR ''n'']
      else if n = 11 then [bs, CHR ''v'']
      else if n = 12 then [bs, CHR ''f'']
      else if n = 13 then [bs, CHR ''r'']
      else if n < 32 \<or> n = 127 then [bs, CHR ''x'', hex_digit (n div 16), hex_digit (n mod 16)]
      else [c])"

definition Quote :: "string \<Rightarrow> string" where
  "Quote s = [CHR 0x22] @ concat (map quote_char s) @ [CHR 0x22]"

definition hex_val :: "char \<Rightarrow> nat option" where
  "hex_val c = (let n = (of_char c :: nat) in
     if 48 \<le> n \<and> n \<le> 57 then Some (n - 48)
     else if 97 \<le> n \<and> n \<le> 102 then Some (n - 87)
     else if 65 \<le> n \<and> n \<le> 70 then Some (n - 55)
     else None)"

fun hex_digits_val :: "nat \<Rightarrow> string \<Rightarrow> nat option" where
  "hex_digits_val acc [] = Some acc"
| "hex_digits_val acc (c # s) = (case hex_val c of None \<Rightarrow> None | Some d \<Rightarrow> hex_digits_val (acc * 16 + d) s)"

text \<open>\<open>strconv.ParseInt(s, 16, 0)\<close>\<close>

definition ParseInt16 :: "string \<Rightarrow> int64 option" where
  "ParseInt16 s = (let neg = (s \<noteq> [] \<and> hd s = CHR ''-'');
                       body = (if s \<noteq> [] \<and> (hd s = CHR ''-'' \<or> hd s = CHR ''+'') then tl s else s)
     in if body = [] then None
        else case hex_digits_val 0 body of
          None \<Rightarrow> None
        | Some n \<Rightarrow> (let i = (if neg then - int n else int n) in if is_int64 i then Some i else None))"

section \<open>Facts\<close>

lemma TrimPrefix_append [simp]: "TrimPrefix (p @ s) p = s"
  by (simp add: TrimPrefix_def HasPrefix_append)

lemma TrimSuffix_append [simp]: "TrimSuffix (s @ p) p = s"
  by (simp add: TrimSuffix_def HasSuffix_def HasPrefix_append)

lemma Replace1_prefix: "old \<noteq> [] \<Longrightarrow> Replace1 (old @ s) old new = new @ s"
  by (cases old) (simp_all add: HasPrefix_append [of "_ # _", simplified])

lemma Fields_nonempty: "f \<in> set (Fields s) \<Longrightarrow> f \<noteq> []"
proof -
  have "f \<in> set (fields_from acc s) \<Longrightarrow> f \<noteq> []" for acc
    by (induction acc s rule: fields_from.induct) (auto split: if_splits)
  then show "f \<in> set (Fields s) \<Longrightarrow> f \<noteq> []" by (simp add: Fields_def)
qed

end
