(* ===== verification/Node_World.thy ===== *)
theory Node_World
  imports Cr_World Go_Text
begin

text \<open>
  The host a node pod works on: the commands it runs and the files, mounts and connections it touches, with
  what they answer as a parameter, the record \<open>NodeWorld\<close>. As for the InfiniBox, an answer is a function of everything that
  happened before, so the host may be in any state and change at any time; nothing is assumed about it.

  An event of a node operation is a call to the host, a call to the InfiniBox or to Kubernetes (with the
  programs of the controller side), or a listing of all PersistentVolumes. Commands that only feed the log
  (\<open>LogPermissions\<close>, \<open>DebugWalkDir\<close>, the \<open>ls\<close> of a staging directory) and waiting are left out.
\<close>

definition NodeRootDir :: string where "NodeRootDir = ''/host''"
definition FSTypeXFS :: string where "FSTypeXFS = ''xfs''"
definition EnvVarCleanupNFSPerms :: string where "EnvVarCleanupNFSPerms = ''CLEANUP_NFS_PERMS''"
definition EnvVarKubeNodeName :: string where "EnvVarKubeNodeName = ''KUBE_NODE_NAME''"
definition EnvVarNodeIP :: string where "EnvVarNodeIP = ''NODE_IP''"

section \<open>Host calls\<close>

text \<open>Errors of the operating system as far as the code tells them apart: \<open>os.IsNotExist\<close>, the errors of a broken
  mount (\<open>ENOTCONN\<close>, \<open>ESTALE\<close>, \<open>EIO\<close>), and the others.\<close>

datatype os_error = NotExist | BrokenMount string | OsError string

fun os_text :: "os_error \<Rightarrow> string" where
  "os_text NotExist = ''no such file or directory''"
| "os_text (BrokenMount s) = s"
| "os_text (OsError s) = s"

definition os_failure :: "os_error \<Rightarrow> go_error" where
  "os_failure e = Errors_New (os_text e)"

text \<open>The end of a process: its exit code and what it wrote to the standard output; or it was not started.\<close>

datatype process = Exited int string | NotStarted string

record MountPoint =
  mp_Device :: string
  mp_Path :: string
  mp_Type :: string
  mp_Opts :: "string list"

record FsStats =
  fst_Available :: "int64 option"
  fst_Capacity :: "int64 option"
  fst_Used :: "int64 option"
  fst_InodesFree :: "int64 option"
  fst_Inodes :: "int64 option"
  fst_InodesUsed :: "int64 option"

record DiskInfo =
  di_RootDir :: string
  di_MpathDevice :: string
  di_IsBlock :: bool
  di_VolumeID :: int

datatype (plugins only: code size) host_call =
    H_Exec string "string list"
  | H_Glob string
  | H_ReadDir string
  | H_Readdirnames string
  | H_ReadFile string
  | H_Stat string
  | H_Lstat string
  | H_EvalSymlinks string
  | H_Create string
  | H_Write string string
  | H_Remove string
  | H_RemoveAll string
  | H_MkdirAll string
  | H_Chown string int int
  | H_Chmod string int
  | H_MountList
  | H_Unmount string
  | H_Mount string string string "string list"
  | H_FormatAndMount string string string "string list"
  | H_Dial string
  | H_StatFS string

datatype (plugins only: code size) nevent = Host host_call | Remote call | ListPVs

type_synonym 'a node_go = "(nevent, 'a) prog"

text \<open>\<open>n_Readdirnames\<close> answers the first name of a directory, or none at its end; \<open>n_Stat\<close> and \<open>n_Lstat\<close> whether the path is a
  directory. \<open>n_json_DiskInfo\<close> encodes, \<open>n_decode_DiskInfo\<close> decodes into the given record; \<open>n_decode_multipath\<close> reads the names of the
  paths, per path group, from the output of \<open>multipathd\<close>.\<close>

record NodeWorld =
  n_Exec :: "nevent list \<Rightarrow> string \<Rightarrow> string list \<Rightarrow> process"
  n_Glob :: "nevent list \<Rightarrow> string \<Rightarrow> os_error + string list"
  n_ReadDir :: "nevent list \<Rightarrow> string \<Rightarrow> os_error + string list"
  n_Readdirnames :: "nevent list \<Rightarrow> string \<Rightarrow> os_error + string option"
  n_ReadFile :: "nevent list \<Rightarrow> string \<Rightarrow> os_error + string"
  n_Stat :: "nevent list \<Rightarrow> string \<Rightarrow> os_error + bool"
  n_Lstat :: "nevent list \<Rightarrow> string \<Rightarrow> os_error + bool"
  n_EvalSymlinks :: "nevent list \<Rightarrow> string \<Rightarrow> os_error + string"
  n_Create :: "nevent list \<Rightarrow> string \<Rightarrow> os_error + unit"
  n_Write :: "nevent list \<Rightarrow> string \<Rightarrow> string \<Rightarrow> os_error + unit"
  n_Remove :: "nevent list \<Rightarrow> string \<Rightarrow> os_error + unit"
  n_RemoveAll :: "nevent list \<Rightarrow> string \<Rightarrow> os_error + unit"
  n_MkdirAll :: "nevent list \<Rightarrow> string \<Rightarrow> os_error + unit"
  n_Chown :: "nevent list \<Rightarrow> string \<Rightarrow> int \<Rightarrow> int \<Rightarrow> os_error + unit"
  n_Chmod :: "nevent list \<Rightarrow> string \<Rightarrow> int \<Rightarrow> os_error + unit"
  n_MountList :: "nevent list \<Rightarrow> os_error + MountPoint list"
  n_Unmount :: "nevent list \<Rightarrow> string \<Rightarrow> os_error + unit"
  n_Mount :: "nevent list \<Rightarrow> string \<Rightarrow> string \<Rightarrow> string \<Rightarrow> string list \<Rightarrow> os_error + unit"
  n_FormatAndMount :: "nevent list \<Rightarrow> string \<Rightarrow> string \<Rightarrow> string \<Rightarrow> string list \<Rightarrow> os_error + unit"
  n_Dial :: "nevent list \<Rightarrow> string \<Rightarrow> os_error + unit"
  n_StatFS :: "nevent list \<Rightarrow> string \<Rightarrow> os_error + FsStats"
  n_ListPVs :: "nevent list \<Rightarrow> go_error + KubePV list"
  n_json_DiskInfo :: "DiskInfo \<Rightarrow> string"
  n_decode_DiskInfo :: "string \<Rightarrow> DiskInfo \<Rightarrow> string + DiskInfo"
  n_decode_multipath :: "string \<Rightarrow> string + string list list"

text \<open>A host call answers with an error of the operating system or a value; the program looks at it.\<close>

definition on_host :: "host_call \<Rightarrow> (nevent list \<Rightarrow> 'a) \<Rightarrow> 'a node_go" where
  "on_host c f = (\<lambda>h. (Ok (f h), [Host c]))"

lemma run_host [go_run]: "on_host c f h = (Ok (f h), [Host c])"
  by (simp add: on_host_def)

lemma wp_host [wp_simps]: "wp (on_host c f) h Q = Q (Ok (f h)) [Host c]"
  by (simp add: wp_def result_of_def calls_of_def run_host)

lemma only_host [only_intros]: "P (Host c) \<Longrightarrow> only P (on_host c f)"
  by (simp add: only_def calls_of_def run_host)

lemma allows_host [allows_intros]: "(\<And>h. Q h (Host c)) \<Longrightarrow> allows Q (on_host c f)"
  by (simp add: allows_def wp_host)

lemma safe_host [safe_intros]: "safe (on_host c f)"
  by (simp add: safe_def run_host)

text \<open>The answer as a result: an error of the operating system becomes an error of the program.\<close>

definition os_go :: "(os_error + 'a) node_go \<Rightarrow> 'a node_go" where
  "os_go m = then_go m (\<lambda>r. case r of Inl e \<Rightarrow> fail_go (os_failure e) | Inr a \<Rightarrow> return_go a)"

definition os_glob where "os_glob w p = on_host (H_Glob p) (\<lambda>h. n_Glob w h p)"
definition os_readdir where "os_readdir w p = on_host (H_ReadDir p) (\<lambda>h. n_ReadDir w h p)"
definition os_readdirnames where "os_readdirnames w p = on_host (H_Readdirnames p) (\<lambda>h. n_Readdirnames w h p)"
definition os_readfile where "os_readfile w p = on_host (H_ReadFile p) (\<lambda>h. n_ReadFile w h p)"
definition os_stat where "os_stat w p = on_host (H_Stat p) (\<lambda>h. n_Stat w h p)"
definition os_lstat where "os_lstat w p = on_host (H_Lstat p) (\<lambda>h. n_Lstat w h p)"
definition os_evalsymlinks where "os_evalsymlinks w p = on_host (H_EvalSymlinks p) (\<lambda>h. n_EvalSymlinks w h p)"
definition os_create where "os_create w p = on_host (H_Create p) (\<lambda>h. n_Create w h p)"
definition os_write where "os_write w p s = on_host (H_Write p s) (\<lambda>h. n_Write w h p s)"
definition os_remove where "os_remove w p = on_host (H_Remove p) (\<lambda>h. n_Remove w h p)"
definition os_removeall where "os_removeall w p = on_host (H_RemoveAll p) (\<lambda>h. n_RemoveAll w h p)"
definition os_mkdirall where "os_mkdirall w p = on_host (H_MkdirAll p) (\<lambda>h. n_MkdirAll w h p)"
definition os_chown where "os_chown w p u g = on_host (H_Chown p u g) (\<lambda>h. n_Chown w h p u g)"
definition os_chmod where "os_chmod w p m = on_host (H_Chmod p m) (\<lambda>h. n_Chmod w h p m)"
definition mounter_list where "mounter_list w = on_host H_MountList (\<lambda>h. n_MountList w h)"
definition mounter_unmount where "mounter_unmount w p = on_host (H_Unmount p) (\<lambda>h. n_Unmount w h p)"
definition mounter_mount where "mounter_mount w s p t opts = on_host (H_Mount s p t opts) (\<lambda>h. n_Mount w h s p t opts)"
definition mounter_format where "mounter_format w d p t opts = on_host (H_FormatAndMount d p t opts) (\<lambda>h. n_FormatAndMount w h d p t opts)"
definition net_dial where "net_dial w a = on_host (H_Dial a) (\<lambda>h. n_Dial w h a)"
definition stat_fs where "stat_fs w p = on_host (H_StatFS p) (\<lambda>h. n_StatFS w h p)"
definition os_exec where "os_exec w prog args = on_host (H_Exec prog args) (\<lambda>h. n_Exec w h prog args)"

lemmas host_defs = os_glob_def os_readdir_def os_readdirnames_def os_readfile_def os_stat_def os_lstat_def os_evalsymlinks_def
  os_create_def os_write_def os_remove_def os_removeall_def os_mkdirall_def os_chown_def os_chmod_def mounter_list_def
  mounter_unmount_def mounter_mount_def mounter_format_def net_dial_def stat_fs_def os_exec_def

section \<open>Programs of the controller side\<close>

definition to_remote :: "nevent \<Rightarrow> call option" where
  "to_remote e = (case e of Remote c \<Rightarrow> Some c | _ \<Rightarrow> None)"

definition remote :: "'a go \<Rightarrow> 'a node_go" where
  "remote m = embed Remote to_remote m"

interpretation remote: embedding Remote to_remote
  by unfold_locales (simp add: to_remote_def)

definition remote_calls :: "nevent list \<Rightarrow> call list" where
  "remote_calls h = List.map_filter to_remote h"

lemma to_remote_simps [simp]:
  shows "to_remote (Remote c) = Some c" and "to_remote (Host x) = None" and "to_remote ListPVs = None"
  by (simp_all add: to_remote_def)

lemma remote_calls_simps [simp]:
  shows "remote_calls [] = []" and "remote_calls (h @ t) = remote_calls h @ remote_calls t"
    and "remote_calls (e # h) = (case to_remote e of None \<Rightarrow> remote_calls h | Some c \<Rightarrow> c # remote_calls h)"
    and "remote_calls (map Remote cs) = cs"
  by (simp_all add: remote_calls_def List.map_filter_simps remote.seen_own split: option.splits)

lemma run_remote [go_run]: "remote m h = (case m (remote_calls h) of (r, t) \<Rightarrow> (r, map Remote t))"
  by (simp add: remote_def remote_calls_def run_embed)

lemma wp_remote [wp_simps]: "wp (remote m) h Q = wp m (remote_calls h) (\<lambda>r t. Q r (map Remote t))"
  by (simp add: remote_def remote_calls_def wp_embed)

lemma only_remote [only_intros]: "only (\<lambda>c. P (Remote c)) m \<Longrightarrow> only P (remote m)"
  unfolding remote_def by (rule only_embed)

lemma safe_remote [safe_intros]: "safe m \<Longrightarrow> safe (remote m)"
  unfolding remote_def by (rule safe_embed)

lemma returns_remote [returns_intros]: "returns P m \<Longrightarrow> returns P (remote m)"
  unfolding remote_def by (rule returns_embed)

section \<open>Answers in programs\<close>

lemma wp_case_sum [wp_simps]:
  "wp (case x of Inl e \<Rightarrow> f e | Inr a \<Rightarrow> k a) h Q \<longleftrightarrow>
     (\<forall>e. x = Inl e \<longrightarrow> wp (f e) h Q) \<and> (\<forall>a. x = Inr a \<longrightarrow> wp (k a) h Q)"
  by (cases x) auto

lemma allows_case_sum [allows_intros]:
  "(\<And>e. x = Inl e \<Longrightarrow> allows P (f e)) \<Longrightarrow> (\<And>a. x = Inr a \<Longrightarrow> allows P (k a))
   \<Longrightarrow> allows P (case x of Inl e \<Rightarrow> f e | Inr a \<Rightarrow> k a)"
  by (cases x) auto

lemma safe_case_sum [safe_intros]:
  "(\<And>e. x = Inl e \<Longrightarrow> safe (f e)) \<Longrightarrow> (\<And>a. x = Inr a \<Longrightarrow> safe (k a))
   \<Longrightarrow> safe (case x of Inl e \<Rightarrow> f e | Inr a \<Rightarrow> k a)"
  by (cases x) auto

lemma only_os_go [only_intros]: "only P m \<Longrightarrow> only P (os_go m)"
  unfolding os_go_def by (intro only_intros)

lemma safe_os_go [safe_intros]: "safe m \<Longrightarrow> safe (os_go m)"
  unfolding os_go_def by (intro safe_intros)

lemma wp_os_go [wp_simps]:
  "wp (os_go m) h Q = wp m h (\<lambda>r t. case r of
     Ok (Inr a) \<Rightarrow> Q (Ok a) t | Ok (Inl e) \<Rightarrow> Q (Err (os_failure e)) t | Err e \<Rightarrow> Q (Err e) t | Crash x \<Rightarrow> Q (Crash x) t)"
  unfolding os_go_def wp_then by (rule arg_cong [where f = "wp m h"]) (auto simp: fun_eq_iff wp_simps split: res.splits sum.splits)

section \<open>helper/exec.go\<close>

text \<open>
  \<open>Exec.Command\<close>: bash runs the command with \<open>pipefail\<close>; the output is trimmed. The exit codes of \<open>iscsiadm\<close> become
  codes of gRPC. The standard error output is returned too, but no caller reads it.
\<close>

definition pipefail :: "string \<Rightarrow> string" where
  "pipefail cmd = ''set -o pipefail; '' @ cmd"

definition iscsiadm_code :: "int \<Rightarrow> grpc_code" where
  "iscsiadm_code exitCode =
     (if exitCode = 2 then NotFound
      else if exitCode = 13 then PermissionDenied
      else if exitCode = 15 then AlreadyExists
      else if exitCode = 24 then Unauthenticated
      else Internal)"

definition exit_text :: "int \<Rightarrow> string" where
  "exit_text n = ''exit status '' @ Itoa n"

definition Command :: "NodeWorld \<Rightarrow> string \<Rightarrow> string \<Rightarrow> string node_go" where
  "Command w cmd0 args0 =
     (let cmd = TrimSpace cmd0; args = TrimSpace args0;
          pipefailCmd = pipefail cmd @ (if args \<noteq> '''' then '' '' @ args else '''')
      in then_go (os_exec w ''bash'' [''-c'', pipefailCmd]) (\<lambda>p. case p of
           Exited exitCode out \<Rightarrow>
             if exitCode = 0 then return_go (TrimSpace out)
             else if cmd = ''iscsiadm''
             then fail_go (Status_Error (iscsiadm_code exitCode) (''iscsiadm error: '' @ Itoa exitCode @ '', '' @ exit_text exitCode))
             else fail_go (Status_Error Unknown (''error: '' @ exit_text exitCode @ '' result: '' @ out))
         | NotStarted e \<Rightarrow> fail_go (Status_Error Unknown (cmd @ '' failed with error: '' @ e @ '', result: ''))))"

text \<open>\<^verbatim>\<open>exec.Command("bash", "-c", text).Output()\<close>\<close>

definition bash_output :: "NodeWorld \<Rightarrow> string \<Rightarrow> string node_go" where
  "bash_output w text = then_go (os_exec w ''bash'' [''-c'', text]) (\<lambda>p. case p of
     Exited exitCode out \<Rightarrow> if exitCode = 0 then return_go out else fail_go (Errors_New (exit_text exitCode))
   | NotStarted e \<Rightarrow> fail_go (Errors_New e))"

text \<open>What \<open>Command\<close> hands to bash.\<close>

definition shell :: "string \<Rightarrow> string \<Rightarrow> nevent" where
  "shell cmd args = Host (H_Exec ''bash'' [''-c'', pipefail (TrimSpace cmd) @ (if TrimSpace args \<noteq> '''' then '' '' @ TrimSpace args else '''')])"

lemma Command_run:
  "\<exists>r. Command w cmd args h = (r, [shell cmd args]) \<and> (\<forall>x. r \<noteq> Crash x)"
  by (auto simp: Command_def shell_def os_exec_def go_run Let_def split: process.splits)

lemma wp_Command:
  "(\<And>r. (\<forall>x. r \<noteq> Crash x) \<Longrightarrow> Q r [shell cmd args]) \<Longrightarrow> wp (Command w cmd args) h Q"
  using Command_run [of w cmd args h] by (auto simp: wp_def result_of_def calls_of_def)

lemma only_Command [only_intros]: "P (shell cmd args) \<Longrightarrow> only P (Command w cmd args)"
  by (simp add: only_wp wp_Command)

lemma safe_Command [safe_intros]: "safe (Command w cmd args)"
  unfolding safe_def using Command_run [of w cmd args] by (metis fst_conv)

lemma bash_output_run:
  "\<exists>r. bash_output w cmd h = (r, [Host (H_Exec ''bash'' [''-c'', cmd])]) \<and> (\<forall>x. r \<noteq> Crash x)"
  by (auto simp: bash_output_def os_exec_def go_run split: process.splits)

lemma only_bash_output [only_intros]: "P (Host (H_Exec ''bash'' [''-c'', cmd])) \<Longrightarrow> only P (bash_output w cmd)"
  unfolding only_def calls_of_def using bash_output_run [of w cmd] by (metis snd_conv empty_iff empty_set set_ConsD)

lemma safe_bash_output [safe_intros]: "safe (bash_output w cmd)"
  unfolding safe_def using bash_output_run [of w cmd] by (metis fst_conv)

end
