(* ===== verification/Node_Mount.thy ===== *)
theory Node_Mount
  imports Node_World
begin

text \<open>
  Mounts and files of a node: \<open>storage/common/mount.go\<close>, and of \<open>common.go\<close> and \<open>permissions.go\<close> the parts that touch the host.
\<close>

section \<open>Checks (common.go)\<close>

text \<open>\<open>PathExists\<close> returns a truth value and an error; with an error the value says whether the mount is broken.\<close>

definition PathExists :: "NodeWorld \<Rightarrow> string \<Rightarrow> (bool \<times> os_error option) node_go" where
  "PathExists w p = then_go (os_stat w p) (\<lambda>r. return_go (case r of
     Inr _ \<Rightarrow> (True, None)
   | Inl NotExist \<Rightarrow> (False, None)
   | Inl (BrokenMount s) \<Rightarrow> (True, Some (BrokenMount s))
   | Inl (OsError s) \<Rightarrow> (False, Some (OsError s))))"

definition ValidateIPAddress :: "NodeWorld \<Rightarrow> string \<Rightarrow> int64 \<Rightarrow> unit node_go" where
  "ValidateIPAddress w ip port =
     (let ipAndPort = ip @ '':'' @ Itoa port
      in or_wrap (''error dialing IP address '' @ ipAndPort @ '' error '') (os_go (net_dial w ipAndPort)) return_go)"

definition StringToLines :: "string \<Rightarrow> string list res" where
  "StringToLines s = (if scan_ok s then Ok (scanned_lines s) else Err (Errors_New ''bufio.Scanner: token too long''))"

section \<open>Permissions of a volume (permissions.go)\<close>

text \<open>The number of a parameter that is an id of a user or a group; \<open>-1\<close> where it is not given.\<close>

definition owner_id :: "string \<Rightarrow> string \<Rightarrow> int64 res" where
  "owner_id what tmp =
     (if tmp = '''' then Ok (-1)
      else case Atoi tmp of
        None \<Rightarrow> Err (Errorf (''storage class specifies an invalid volume '' @ what) (parse_error tmp))
      | Some n \<Rightarrow> if n < -1 then Err (Errors_New (''storage class specifies an invalid volume '' @ what)) else Ok n)"

definition SetVolumePermissions :: "NodeWorld \<Rightarrow> CsiNodePublishRequest \<Rightarrow> unit node_go" where
  "SetVolumePermissions w req =
     then_go (pure_go (owner_id ''UID'' (np_context req StorageClassUID))) (\<lambda>UID.
     then_go (pure_go (owner_id ''GID'' (np_context req StorageClassGID))) (\<lambda>GID.
     let hostTargetPath = ''/host'' @ np_TargetPath req;
         unixPermissions = np_context req StorageClassUNIXPermissions
     in then_go (if UID \<noteq> -1 \<or> GID \<noteq> -1
          then or_wrap ''failed to chown path '' (os_go (os_chown w hostTargetPath UID GID)) return_go
          else return_go ()) (\<lambda>_.
        if unixPermissions \<noteq> ''''
        then case ParseUint8_32 unixPermissions of
            None \<Rightarrow> fail_go (Errorf ''failed to convert unix_permissions '' (parse_error unixPermissions))
          | Some mode \<Rightarrow> or_wrap ''failed to chmod path '' (os_go (os_chmod w hostTargetPath mode)) return_go
        else return_go ())))"

section \<open>The file that remembers a disk (mount.go)\<close>

definition config_path :: "DiskInfo \<Rightarrow> string \<Rightarrow> string" where
  "config_path conf mnt = path_Join3 (di_RootDir conf) mnt (Itoa (di_VolumeID conf) @ ''.json'')"

definition CreateConfigFile :: "NodeWorld \<Rightarrow> DiskInfo \<Rightarrow> string \<Rightarrow> unit node_go" where
  "CreateConfigFile w conf mnt =
     (let filePath = config_path conf mnt
      in or_wrap ''failed creating persist file with error '' (os_go (os_create w filePath)) (\<lambda>_.
         or_wrap ''failed creating persist file with error '' (os_go (os_write w filePath (n_json_DiskInfo w conf))) return_go))"

definition LoadDiskInfoFromFile :: "NodeWorld \<Rightarrow> DiskInfo \<Rightarrow> string \<Rightarrow> DiskInfo node_go" where
  "LoadDiskInfoFromFile w conf mnt =
     or_wrap ''Open - error '' (os_go (os_readfile w (config_path conf mnt))) (\<lambda>content.
     case n_decode_DiskInfo w content conf of
       Inl e \<Rightarrow> fail_go (Errorf ''Decode - error '' (Errors_New e))
     | Inr conf' \<Rightarrow> return_go conf')"

section \<open>Mounting\<close>

definition mount_mode :: "bool \<Rightarrow> string" where
  "mount_mode readOnly = (if readOnly then ''0550'' else ''0750'')"

definition mount_access :: "bool \<Rightarrow> string list" where
  "mount_access readOnly = [if readOnly then ''ro'' else ''rw'']"

definition mkdir_run :: "NodeWorld \<Rightarrow> string list \<Rightarrow> unit node_go" where
  "mkdir_run w args = then_go (os_exec w ''mkdir'' args) (\<lambda>p. case p of
     Exited exitCode out \<Rightarrow> if exitCode = 0 then return_go () else fail_go (Errors_New (exit_text exitCode))
   | NotStarted e \<Rightarrow> fail_go (Errors_New e))"

text \<open>A raw block volume: the device is bound to a file.\<close>

definition mount_block :: "NodeWorld \<Rightarrow> DiskInfo \<Rightarrow> string \<Rightarrow> string \<Rightarrow> string \<Rightarrow> bool \<Rightarrow> unit node_go" where
  "mount_block w config targetPath devicePath0 stagePath readOnly =
     (let chrootPath = di_RootDir config @ targetPath;
          devicePath = Replace1 devicePath0 (di_RootDir config) '''';
          options = mount_access readOnly @ [''bind'']
      in or_status Internal ''mountLogic: failed to mkdir ''
           (mkdir_run w [''--parents'', ''--mode'', mount_mode readOnly, path_Dir targetPath]) (\<lambda>_.
         then_go (CreateConfigFile w config stagePath) (\<lambda>_.
         or_status Internal ''mountLogic - failed to create target path for raw bind mount: '' (os_go (os_create w chrootPath)) (\<lambda>_.
         try_go (Command w ''mount'' (''-o '' @ join '','' options @ '' '' @ devicePath @ '' '' @ targetPath))
           (\<lambda>e. fail_go (Errors_New (''mountLogic: failed to mount fc volume '' @ err_text e)))
           (\<lambda>_. return_go ())))))"

text \<open>A volume with a file system. An error of the mount that says that the device is already mounted at that place is no error.\<close>

definition mount_filesystem ::
    "NodeWorld \<Rightarrow> DiskInfo \<Rightarrow> string \<Rightarrow> string \<Rightarrow> string \<Rightarrow> string \<Rightarrow> string list \<Rightarrow> bool \<Rightarrow> unit node_go" where
  "mount_filesystem w config targetPath devicePath stagePath fsType mountOptions readOnly =
     then_go (os_stat w targetPath) (\<lambda>st.
     then_go (if st = Inl NotExist
         then then_go (Command w ''mkdir'' (''--parents --mode '' @ mount_mode readOnly @ '' '' @ [CHR 0x27] @ targetPath @ [CHR 0x27])) (\<lambda>_. return_go ())
         else return_go ()) (\<lambda>_.
     then_go (CreateConfigFile w config stagePath) (\<lambda>_.
     let options = mount_access readOnly @ mountOptions @ (if fsType = FSTypeXFS then [''nouuid''] else [])
     in then_go (mounter_format w devicePath targetPath fsType options) (\<lambda>r. case r of
          Inr _ \<Rightarrow> return_go ()
        | Inl e \<Rightarrow> if Contains (os_text e) (''already mounted on '' @ targetPath) then return_go ()
                  else fail_go (Status_Error Internal (''mountLogic - failed to mount volume '' @ os_text e))))))"

definition MountLogic ::
    "NodeWorld \<Rightarrow> DiskInfo \<Rightarrow> string \<Rightarrow> string \<Rightarrow> string \<Rightarrow> string \<Rightarrow> string list \<Rightarrow> bool \<Rightarrow> bool \<Rightarrow> unit node_go" where
  "MountLogic w config targetPath devicePath stagePath fsType mountOptions isBlock readOnly =
     or_status Internal ''mountLogic - mounter.List error '' (os_go (mounter_list w)) (\<lambda>mntPoints.
     if di_RootDir config @ targetPath \<in> mp_Path ` set mntPoints then return_go ()
     else if isBlock then mount_block w config targetPath devicePath stagePath readOnly
     else mount_filesystem w config targetPath devicePath stagePath fsType mountOptions readOnly)"

section \<open>Unmounting\<close>

definition isMountedByListMethod :: "NodeWorld \<Rightarrow> string \<Rightarrow> bool node_go" where
  "isMountedByListMethod w targetHostPath =
     then_go (os_go (mounter_list w)) (\<lambda>mountList. return_go (list_ex (\<lambda>m. mp_Path m = targetHostPath) mountList))"

definition IsDirEmpty :: "NodeWorld \<Rightarrow> string \<Rightarrow> bool node_go" where
  "IsDirEmpty w name = then_go (os_go (os_readdirnames w name)) (\<lambda>first. return_go (first = None))"

definition IsDirectory :: "NodeWorld \<Rightarrow> string \<Rightarrow> bool node_go" where
  "IsDirectory w p = os_go (os_stat w p)"

text \<open>\<^verbatim>\<open>if _, err := os.Stat(p); os.IsNotExist(err) { ... } else { remove }\<close>\<close>

definition remove_if_there :: "NodeWorld \<Rightarrow> string \<Rightarrow> unit node_go" where
  "remove_if_there w p = then_go (os_stat w p) (\<lambda>st.
     if st = Inl NotExist then return_go () else os_go (os_remove w p))"

definition cleanupOldMountDirectory :: "NodeWorld \<Rightarrow> string \<Rightarrow> unit node_go" where
  "cleanupOldMountDirectory w targetHostPath =
     or_wrap ''failed IsDirEmpty() '' (IsDirEmpty w targetHostPath) (\<lambda>isMountEmpty.
     if \<not> isMountEmpty
     then fail_go (Errors_New (''error: mount directory at targetHostPath '' @ targetHostPath @ '' is not empty and may contain volume data''))
     else or_wrap ''after unmounting, failed to Remove() path '' (remove_if_there w targetHostPath) (\<lambda>_.
     let csiHostPath = TrimSuffix targetHostPath ''/mount''
     in ignore_go (remove_if_there w (path_Join csiHostPath ''vol_data.json'')) (\<lambda>_.
        ignore_go (remove_if_there w csiHostPath) (\<lambda>_.
        return_go ()))))"

definition UnmountAndCleanUp :: "NodeWorld \<Rightarrow> string \<Rightarrow> unit node_go" where
  "UnmountAndCleanUp w targetPath =
     (let targetHostPath = path_Join ''/host'' targetPath
      in then_go (mounter_unmount w targetPath) (\<lambda>_.
         or_wrap ''error: failed to check if targetHostPath is unmounted after unmounting '' (isMountedByListMethod w targetHostPath) (\<lambda>isMounted.
         if isMounted then fail_go (Errors_New (''error: volume remains mounted at targetHostPath '' @ targetHostPath))
         else then_go (os_stat w targetHostPath) (\<lambda>st.
         if st = Inl NotExist then return_go ()
         else or_wrap ''failed to check if targetHostPath is a directory: '' (IsDirectory w targetHostPath) (\<lambda>isADir.
         if isADir then or_wrap '''' (cleanupOldMountDirectory w targetHostPath) return_go
         else or_wrap ''failed to Remove() path '' (os_go (os_remove w targetHostPath)) return_go)))))"

section \<open>What a publish request asks for\<close>

record Mounter =
  mnt_ReadOnly :: bool
  mnt_FsType :: string
  mnt_MountOptions :: "string list"
  mnt_TargetPath :: string
  mnt_StagePath :: string
  mnt_IsBlock :: bool

definition GetDiskMounter :: "CsiNodePublishRequest \<Rightarrow> Mounter res" where
  "GetDiskMounter req =
     (let cap = np_capability req;
          mounter = \<lparr>mnt_ReadOnly = (np_Readonly req \<or> mode_of cap = MULTI_NODE_READER_ONLY), mnt_FsType = '''', mnt_MountOptions = [],
            mnt_TargetPath = np_TargetPath req, mnt_StagePath = np_StagingTargetPath req, mnt_IsBlock = False\<rparr>
      in case cap_AccessType cap of
           MountAccess fstype flags \<Rightarrow> Ok (mounter\<lparr>mnt_FsType := fstype, mnt_MountOptions := flags\<rparr>)
         | BlockAccess \<Rightarrow> Ok (mounter\<lparr>mnt_IsBlock := True\<rparr>)
         | NoAccessType \<Rightarrow> Err (Errors_New (''bad VolumeCapability parameters: both block and mount modes, for volume: '' @ np_VolumeId req)))"

lemmas node_mount_defs = PathExists_def ValidateIPAddress_def CreateConfigFile_def LoadDiskInfoFromFile_def Let_def
  mkdir_run_def mount_block_def mount_filesystem_def MountLogic_def isMountedByListMethod_def IsDirEmpty_def IsDirectory_def
  remove_if_there_def cleanupOldMountDirectory_def UnmountAndCleanUp_def SetVolumePermissions_def

end
