(* ===== verification/Node_Multipath.thy ===== *)
theory Node_Multipath
  imports Node_Mount
begin

text \<open>
  SCSI and multipath devices of a node: \<open>storage/common/multipath.go\<close>, and the growing of a file system,
  \<open>storage/common/nodeexpandvolume.go\<close>. The loops that wait for the kernel are bounded; the delays between two
  rounds (and the variables of the environment that set them) are left out.
\<close>

definition MULTIPATH_FLUSH_RETRIES :: string where "MULTIPATH_FLUSH_RETRIES = ''MULTIPATH_FLUSH_RETRIES''"
definition mpathDeviceCount :: nat where "mpathDeviceCount = 6"
definition defaultFlushRetries :: int64 where "defaultFlushRetries = 6"

section \<open>Looking for devices\<close>

text \<open>The loop over \<open>/proc/mounts\<close>: it leaves at a line whose mount path contains the name; without one the device of
  the last line stays.\<close>

fun device_of_mount :: "string \<Rightarrow> string \<Rightarrow> string list \<Rightarrow> string res" where
  "device_of_mount volumeName device [] = Ok device"
| "device_of_mount volumeName device (line # rest) = (case Split line '' '' of
     dev # mountPath # _ \<Rightarrow> if Contains mountPath volumeName then Ok dev else device_of_mount volumeName dev rest
   | _ \<Rightarrow> Crash (GoPanic ''index out of range: parts''))"

definition FindMultipathDeviceFromVolumePath :: "NodeWorld \<Rightarrow> string \<Rightarrow> string node_go" where
  "FindMultipathDeviceFromVolumePath w volumePath =
     (let pathParts = Split volumePath ''/''; lenPathParts = length pathParts in
      if lenPathParts < 5 then fail_go (Errors_New (''error parsing volumepath '' @ volumePath))
      else let volumeName = pathParts ! (lenPathParts - 2) in
      or_wrap ''error reading /proc/mounts error '' (os_go (os_readfile w ''/proc/mounts'')) (\<lambda>mounts.
      then_go (pure_go (device_of_mount volumeName '''' (scanned_lines mounts))) (\<lambda>device.
      if device = '''' then fail_go (Errors_New (''error finding device from volume in list of mounts - volume '' @ volumeName))
      else return_go device)))"

definition GetDMDevicePath :: "NodeWorld \<Rightarrow> string \<Rightarrow> string node_go" where
  "GetDMDevicePath w wwid0 =
     (let wwid = TrimPrefix wwid0 ''naa.''; FcPath = ''scsi-3'' @ wwid; DevID = ''/host/dev/disk/by-id/''
      in then_go (os_readdir w DevID) (\<lambda>r. case r of
           Inl _ \<Rightarrow> return_go ''''
         | Inr names \<Rightarrow>
             if FcPath \<in> set names
             then then_go (os_evalsymlinks w (DevID @ FcPath)) (\<lambda>l. return_go (case l of Inl _ \<Rightarrow> '''' | Inr dmResult \<Rightarrow> dmResult))
             else return_go ''''))"

definition scsi_disk :: "string \<Rightarrow> string \<Rightarrow> string \<Rightarrow> string \<Rightarrow> string" where
  "scsi_disk host channel target lun = ''/sys/class/scsi_disk/'' @ host @ '':'' @ channel @ '':'' @ target @ '':'' @ lun"

text \<open>Rounds of \<open>WaitForOneDeviceState\<close>: the id of the last successful reading is returned, whatever the state is in the end.\<close>

fun wait_device_state :: "NodeWorld \<Rightarrow> string \<Rightarrow> string \<Rightarrow> string \<Rightarrow> nat \<Rightarrow> string \<Rightarrow> string node_go" where
  "wait_device_state w hostPath wwidPath state 0 wwid = return_go wwid"
| "wait_device_state w hostPath wwidPath state (Suc n) wwid =
     ignore_go (Command w ''cat'' hostPath) (\<lambda>hostOutput.
     let deviceState = (case hostOutput of None \<Rightarrow> '''' | Some s \<Rightarrow> TrimSpace s)
     in ignore_go (Command w ''cat'' wwidPath) (\<lambda>wwidOutput. case wwidOutput of
          None \<Rightarrow> wait_device_state w hostPath wwidPath state n wwid
        | Some s \<Rightarrow> if deviceState \<noteq> state then wait_device_state w hostPath wwidPath state n (TrimSpace s)
                    else return_go (TrimSpace s)))"

definition WaitForOneDeviceState :: "NodeWorld \<Rightarrow> string \<Rightarrow> string \<Rightarrow> string \<Rightarrow> string \<Rightarrow> string \<Rightarrow> string node_go" where
  "WaitForOneDeviceState w hostID channel target lun state =
     (let disk = scsi_disk hostID channel target lun
      in wait_device_state w (disk @ ''/device/state'') (disk @ ''/device/wwid'') state 5 '''')"

text \<open>Three characters of the disk id, the fifth to the third from its end, pick one of several ids.\<close>

definition wwid_key :: "string \<Rightarrow> string res" where
  "wwid_key diskID =
     (if length diskID < 5 then Crash (GoPanic ''slice bounds out of range: diskID'')
      else Ok (take 3 (drop (length diskID - 5) diskID)))"

definition WaitForDeviceState :: "NodeWorld \<Rightarrow> string \<Rightarrow> string \<Rightarrow> string \<Rightarrow> string \<Rightarrow> string node_go" where
  "WaitForDeviceState w hostID lun state diskID =
     then_go (os_glob w (scsi_disk hostID ''*'' ''*'' lun)) (\<lambda>r.
     let targets = (case r of Inl _ \<Rightarrow> [] | Inr ts \<Rightarrow> ts) in
     if targets = [] then return_go ''''
     else then_go (map_go (\<lambda>targetString. let parts = Split targetString '':'' in
            if length parts < 3 then panic_go ''index out of range: target''
            else WaitForOneDeviceState w hostID (parts ! 1) (parts ! 2) lun state) targets) (\<lambda>allWWIDs.
     case allWWIDs of
       [wwid] \<Rightarrow> return_go wwid
     | _ \<Rightarrow> then_go (pure_go (wwid_key diskID)) (\<lambda>key.
         case find (\<lambda>wwid. Contains wwid key) allWWIDs of
           Some wwid \<Rightarrow> return_go wwid
         | None \<Rightarrow> fail_go (Errors_New ''could not determine the wwid''))))"

fun wait_multipath :: "NodeWorld \<Rightarrow> string \<Rightarrow> nat \<Rightarrow> unit node_go" where
  "wait_multipath w masterPath 0 = return_go ()"
| "wait_multipath w masterPath (Suc n) = then_go (os_glob w masterPath) (\<lambda>r.
     if (case r of Inl _ \<Rightarrow> True | Inr devices \<Rightarrow> length devices < mpathDeviceCount)
     then wait_multipath w masterPath n else return_go ())"

definition WaitForMultipath :: "NodeWorld \<Rightarrow> string \<Rightarrow> string \<Rightarrow> unit node_go" where
  "WaitForMultipath w hostID lun =
     wait_multipath w (scsi_disk hostID ''*'' ''*'' lun @ ''/device/block/*/holders/*/slaves/*'') 40"

definition rescan_host :: "NodeWorld \<Rightarrow> string \<Rightarrow> string \<Rightarrow> unit node_go" where
  "rescan_host w lun host =
     or_wrap ''rescan of host failed ''
       (Command w ''echo'' ([CHR 0x27] @ ''- - '' @ lun @ [CHR 0x27] @ '' > /sys/class/scsi_host/host'' @ host @ ''/scan'')) (\<lambda>_. return_go ())"

definition RescanDeviceMap :: "NodeWorld \<Rightarrow> string list \<Rightarrow> string \<Rightarrow> string \<Rightarrow> string node_go" where
  "RescanDeviceMap w hosts diskID lun =
     then_go (map_go (rescan_host w lun) hosts) (\<lambda>_.
     then_go (for_go hosts (\<lambda>host.
        or_wrap ''waitForDeviceState failed '' (WaitForDeviceState w host lun ''running'' diskID)
          (\<lambda>wwid. return_go (if wwid \<noteq> '''' then Some wwid else None)))) (\<lambda>found.
     then_go (map_go (\<lambda>host. WaitForMultipath w host lun) hosts) (\<lambda>_.
     case found of
       Some wwid \<Rightarrow> return_go wwid
     | None \<Rightarrow> fail_go (Errors_New ''searchDisk rescan error wwid not found''))))"

definition FindSlaveDevicesOnMultipath :: "NodeWorld \<Rightarrow> string \<Rightarrow> string list node_go" where
  "FindSlaveDevicesOnMultipath w dmDevice =
     (let parts = Split dmDevice ''/'' in
      if length parts \<noteq> 3 \<or> \<not> HasPrefix (parts ! 1) ''dev'' then fail_go (Errors_New (''for dm '' @ dmDevice @ '' failed''))
      else or_wrap '''' (os_go (os_readdir w (path_Join3 ''/sys/block/'' (parts ! 2) ''/slaves/''))) (\<lambda>files.
      if files = [] then fail_go (Errors_New (''for dm '' @ dmDevice @ '' found no devices''))
      else return_go (map (path_Join ''/dev/'') files)))"

record PortInfo =
  pi_HostID :: string
  pi_PortName :: string
  pi_PortState :: string

text \<open>A port whose name or state cannot be read is left out.\<close>

fun port_infos :: "NodeWorld \<Rightarrow> string list \<Rightarrow> PortInfo list node_go" where
  "port_infos w [] = return_go []"
| "port_infos w (file # rest) =
     then_go (os_readfile w (file @ ''/port_name'')) (\<lambda>name. case name of
       Inl _ \<Rightarrow> port_infos w rest
     | Inr data \<Rightarrow> then_go (os_readfile w (file @ ''/port_state'')) (\<lambda>state. case state of
         Inl _ \<Rightarrow> port_infos w rest
       | Inr data2 \<Rightarrow> then_go (port_infos w rest) (\<lambda>ports. return_go
           (\<lparr>pi_HostID = Replace1 file ''/sys/class/fc_host/host'' '''', pi_PortName = Replace1 (TrimSpace data) ''0x'' '''',
             pi_PortState = TrimSpace data2\<rparr> # ports))))"

definition GetPortInfo :: "NodeWorld \<Rightarrow> PortInfo list node_go" where
  "GetPortInfo w = then_go (os_glob w ''/sys/class/fc_host/host*'') (\<lambda>r. case r of
     Inl _ \<Rightarrow> return_go [] | Inr goFiles \<Rightarrow> port_infos w goFiles)"

section \<open>Detaching\<close>

definition removeMultipathDevices :: "NodeWorld \<Rightarrow> string \<Rightarrow> unit node_go" where
  "removeMultipathDevices w device =
     or_wrap ''command failed '' (bash_output w (pipefail (''multipathd del path '' @ device))) (\<lambda>_. return_go ())"

definition removeWWIDEntry :: "NodeWorld \<Rightarrow> string \<Rightarrow> unit node_go" where
  "removeWWIDEntry w mpath =
     or_wrap ''command failed '' (bash_output w (pipefail (''multipath -w  '' @ mpath))) (\<lambda>_. return_go ())"

definition findDevicesForMpath :: "NodeWorld \<Rightarrow> string \<Rightarrow> string list node_go" where
  "findDevicesForMpath w mpath =
     or_wrap ''command failed '' (bash_output w (pipefail (''multipathd show multipath '' @ mpath @ '' json''))) (\<lambda>out.
     case n_decode_multipath w out of
       Inl e \<Rightarrow> fail_go (Errorf ''error unmarshalling output: '' (Errors_New e))
     | Inr pathGroups \<Rightarrow> return_go (map (\<lambda>dev. ''/dev/'' @ dev) (concat pathGroups)))"

definition FindMpathFromDevice :: "NodeWorld \<Rightarrow> string \<Rightarrow> string node_go" where
  "FindMpathFromDevice w device =
     (let deviceName = Replace1 device ''/dev/'' '''';
          command = ''multipathd show maps raw format '' @ [CHR 0x22] @ ''%n_%d_'' @ [CHR 0x22] @ '' | grep _'' @ deviceName @ ''_''
      in or_wrap ''command failed command: '' (Command w command '''') (\<lambda>out. return_go (hd (Split out ''_''))))"

definition getIntEnvVar :: "Env \<Rightarrow> string \<Rightarrow> int64 \<Rightarrow> int64" where
  "getIntEnvVar E envVar defaultInt =
     (if getenv E envVar = '''' then defaultInt
      else case Atoi (getenv E envVar) of None \<Rightarrow> defaultInt | Some x \<Rightarrow> x)"

fun flush_tries :: "NodeWorld \<Rightarrow> string \<Rightarrow> nat \<Rightarrow> unit node_go" where
  "flush_tries w mpath 0 = return_go ()"
| "flush_tries w mpath (Suc n) =
     try_go (Command w ''multipath'' (''-f '' @ mpath)) (\<lambda>err. if n = 0 then fail_go err else flush_tries w mpath n) (\<lambda>_. return_go ())"

text \<open>\<^verbatim>\<open>for i := range flushRetries\<close> makes no round where the number is zero or negative.\<close>

definition multipathFlush :: "Env \<Rightarrow> NodeWorld \<Rightarrow> string \<Rightarrow> unit node_go" where
  "multipathFlush E w mpath = flush_tries w mpath (nat (getIntEnvVar E MULTIPATH_FLUSH_RETRIES defaultFlushRetries))"

fun wait_unblocked :: "NodeWorld \<Rightarrow> string \<Rightarrow> nat \<Rightarrow> unit node_go" where
  "wait_unblocked w statePath 0 = return_go ()"
| "wait_unblocked w statePath (Suc n) =
     then_go (Command w ''cat'' statePath) (\<lambda>output.
     if TrimSpace output = ''blocked''
     then (if n = 0 then fail_go (Errors_New (''device '' @ statePath @ '' is blocked'')) else wait_unblocked w statePath n)
     else return_go ())"

text \<open>After the deletion the path is looked at; what is found only goes to the log.\<close>

definition removeOneFromScsiSubsystemByHostLun :: "NodeWorld \<Rightarrow> string \<Rightarrow> string \<Rightarrow> string \<Rightarrow> string \<Rightarrow> unit node_go" where
  "removeOneFromScsiSubsystemByHostLun w host channel target lun =
     (let deletePath = scsi_disk host channel target lun @ ''/device/delete'';
          statePath = scsi_disk host channel target lun @ ''/device/state''
      in then_go (wait_unblocked w statePath 5) (\<lambda>_.
         or_wrap ''error failed to delete device '' (Command w ''echo'' (''1 > '' @ deletePath)) (\<lambda>_.
         then_go (os_stat w deletePath) (\<lambda>_. return_go ()))))"

definition detachDiskByDeviceName :: "NodeWorld \<Rightarrow> string \<Rightarrow> unit node_go" where
  "detachDiskByDeviceName w deviceName =
     (let deviceNameParts = Split deviceName ''/'' in
      if length deviceNameParts \<noteq> 3 then fail_go (Errors_New (''device name '' @ deviceName @ '' did not parse to 3 parts as normal''))
      else or_wrap '''' (os_go (os_evalsymlinks w (''/sys/block/'' @ deviceNameParts ! 2 @ ''/device''))) (\<lambda>hctlPath.
      let hctlParts = Split (last (Split hctlPath ''/'')) '':'' in
      if length hctlParts < 4 then panic_go ''index out of range: hctlParts''
      else or_wrap '''' (removeOneFromScsiSubsystemByHostLun w (hctlParts ! 0) (hctlParts ! 1) (hctlParts ! 2) (hctlParts ! 3)) return_go))"

text \<open>\<^verbatim>\<open>for ... { if err := f(x); err != nil { log } }\<close>\<close>

fun each_ignored :: "('x \<Rightarrow> unit node_go) \<Rightarrow> 'x list \<Rightarrow> unit node_go" where
  "each_ignored f [] = return_go ()"
| "each_ignored f (x # xs) = ignore_go (f x) (\<lambda>_. each_ignored f xs)"

definition mpath_and_devices :: "NodeWorld \<Rightarrow> string \<Rightarrow> (string \<times> string list) node_go" where
  "mpath_and_devices w mpathDevice =
     (let dstPath = (if HasPrefix mpathDevice ''/host'' then Replace1 mpathDevice ''/host'' '''' else mpathDevice) in
      if HasPrefix dstPath ''/dev/dm-''
      then or_wrap ''error looking for slave devices for multipath '' (FindSlaveDevicesOnMultipath w dstPath) (\<lambda>devices.
           or_wrap '''' (FindMpathFromDevice w mpathDevice) (\<lambda>mpath. return_go (mpath, devices)))
      else or_wrap ''mpath error '' (findDevicesForMpath w mpathDevice) (\<lambda>devices. return_go (mpathDevice, devices)))"

definition DetachMpathDevice :: "Env \<Rightarrow> NodeWorld \<Rightarrow> string \<Rightarrow> unit node_go" where
  "DetachMpathDevice E w mpathDevice =
     (if mpathDevice = '''' then return_go ()
      else then_go (mpath_and_devices w mpathDevice) (\<lambda>(mpath, devices).
      then_go (multipathFlush E w mpath) (\<lambda>_.
      then_go (each_ignored (detachDiskByDeviceName w) devices) (\<lambda>_.
      then_go (each_ignored (removeMultipathDevices w) devices) (\<lambda>_.
      ignore_go (removeWWIDEntry w mpath) (\<lambda>_. return_go ()))))))"

section \<open>Growing a volume on the node (nodeexpandvolume.go)\<close>

definition rescan_device :: "NodeWorld \<Rightarrow> string \<Rightarrow> unit node_go" where
  "rescan_device w dev = then_go (Command w (''echo 1 > /sys/block/'' @ dev @ ''/device/rescan'') '''') (\<lambda>_. return_go ())"

fun second_fields :: "string list \<Rightarrow> string list res" where
  "second_fields [] = Ok []"
| "second_fields (line # rest) = (case Split line '','' of
     _ # dev # _ \<Rightarrow> (case second_fields rest of Ok ds \<Rightarrow> Ok (TrimSpace dev # ds) | r \<Rightarrow> r)
   | _ \<Rightarrow> Err (Errors_New ''error in multipathd command output''))"

definition quoted :: "string \<Rightarrow> string" where
  "quoted s = [CHR 0x22] @ s @ [CHR 0x22]"

definition BlockExpandVolume :: "NodeWorld \<Rightarrow> string \<Rightarrow> unit node_go" where
  "BlockExpandVolume w volumePath =
     or_wrap ''error running findmnt command name '' (Command w (''findmnt --noheadings -l -o SOURCE --target '' @ volumePath) '''') (\<lambda>out.
     if out = '''' then fail_go (Errors_New ''error getting findmnt command output'')
     else case Split (TrimSpace out) ''['' of
       _ # part # _ \<Rightarrow>
        (let deviceName = hd (Split part '']'') in
         or_wrap ''error running multipath command name ''
           (Command w (''multipathd show maps raw format '' @ quoted ''%n_/%d_'' @ '' 2> /dev/null | grep '' @ deviceName @ ''_'') '''') (\<lambda>out2.
         if out2 = '''' then fail_go (Errors_New ''error getting multipath command output'')
         else let userFriendlyName = hd (Split out2 ''_'') in
         or_wrap ''error running multipathd command name ''
           (Command w (''multipathd show paths format '' @ quoted ''%m,%d'' @ '' 2> /dev/null | grep '' @ quoted userFriendlyName) '''') (\<lambda>out3.
         if out3 = '''' then fail_go (Errors_New ''error getting multipathd command output'')
         else then_go (pure_go (second_fields (Split (TrimSuffix out3 newline) newline))) (\<lambda>devices.
         or_wrap ''error writing rescan on multipath devices '' (map_go (rescan_device w) devices) (\<lambda>_.
         or_wrap ''error running multipathd resize map command ''
           (Command w (''multipathd resize map '' @ userFriendlyName @ '' 2> /dev/null'') '''') (\<lambda>_. return_go ()))))))
     | _ \<Rightarrow> fail_go (Errors_New ''format error in findmnt command output''))"

definition ExpandFileSystem :: "NodeWorld \<Rightarrow> string \<Rightarrow> string \<Rightarrow> unit node_go" where
  "ExpandFileSystem w multipathDevice fsType =
     or_wrap ''command - error: '' (Command w ((if fsType = FSTypeXFS then ''xfs_growfs '' else ''resize2fs '') @ multipathDevice) '''') (\<lambda>_. return_go ())"

end
