(* ===== verification/Block_Node.thy ===== *)
theory Block_Node
  imports Node_Multipath
begin

text \<open>
  The node side of the block protocols: the requests of the CSI node service, and the operations of Fibre Channel
  (\<open>storage/fc/fcnode.go\<close>) and of NVMe over TCP (\<open>storage/nvme/nvmenode.go\<close>, \<open>nvme.go\<close>).
\<close>

section \<open>Requests\<close>

record CsiNodeStageRequest =
  stg_VolumeId :: string
  stg_PublishContext :: gomap
  stg_StagingTargetPath :: string
  stg_VolumeCapability :: "VolumeCapability option"
  stg_Secrets :: gomap
  stg_VolumeContext :: gomap

record CsiNodeUnpublishRequest =
  nup_VolumeId :: string
  nup_TargetPath :: string

record CsiNodeUnstageRequest =
  nus_VolumeId :: string
  nus_StagingTargetPath :: string

record CsiNodeExpandRequest =
  nex_VolumeId :: string
  nex_VolumePath :: string
  nex_VolumeCapability :: "VolumeCapability option"
  nex_Secrets :: gomap

definition impl_text :: "string \<Rightarrow> go_error" where
  "impl_text s = ImplementationError Internal s"

text \<open>The port a node has is added to the host on the InfiniBox where it is not there yet.\<close>

definition ensure_port :: "Commonservice \<Rightarrow> int \<Rightarrow> string \<Rightarrow> string \<Rightarrow> unit node_go" where
  "ensure_port cs hostID portType portName =
     try_go (remote (GetHostPort_api (cs_IboxAPI cs) hostID portName))
       (\<lambda>err. if errors_is err ErrNotFound
              then or_impl (remote (AddPortForHost cs hostID portType portName)) return_go
              else fail_go (impl_error err))
       (\<lambda>_. return_go ())"

section \<open>Fibre Channel\<close>

definition FCPortOnline :: string where "FCPortOnline = ''Online''"
definition FCSearchDiskDelay :: string where "FCSearchDiskDelay = ''FC_SEARCH_DISK_DELAY''"

definition NodeStageVolume_fc :: "NodeWorld \<Rightarrow> Commonservice \<Rightarrow> CsiNodeStageRequest \<Rightarrow> unit node_go" where
  "NodeStageVolume_fc w cs req =
     then_go (remote (GetHostInfo (stg_Secrets req) (cs_IboxAPI cs))) (\<lambda>_.
     or_impl (pure_go (ValidatePublishContext (stg_PublishContext req))) (\<lambda>(hostID, _).
     then_go (GetPortInfo w) (\<lambda>portInfo.
     if portInfo = [] then fail_go (impl_text ''port name not found on worker'')
     else if \<not> list_ex (\<lambda>p. pi_PortState p = FCPortOnline) portInfo then fail_go (impl_text ''all FC ports on worker are offline'')
     else then_go (map_go (ensure_port cs hostID ''FC'') (map pi_PortName portInfo)) (\<lambda>_. return_go ()))))"

record fcDevice =
  fcd_VolumeID :: int
  fcd_TargetWWNs :: "string list"
  fcd_Lun :: string
  fcd_WWIDs :: "string list"

definition getFCDiskDetails :: "Commonservice \<Rightarrow> CsiNodePublishRequest \<Rightarrow> fcDevice node_go" where
  "getFCDiskDetails cs req =
     (let lun = lookup (np_PublishContext req) ''lun'';
          wwidList = Split (np_context req ''WWIDs'') '',''
      in or_wrap '''' (remote (GetFCPorts_api (cs_IboxAPI cs))) (\<lambda>fcNodes.
         if fcNodes = [] then fail_go (Errors_New ''error getting FC details, zero FC ports found'')
         else let targetList = map (\<lambda>wwpn. ReplaceAll wwpn '':'' '''') (filter (\<lambda>wwpn. wwpn \<noteq> '''') (map fcp_WWPn (concat (map fcn_Ports fcNodes)))) in
         if lun = '''' \<or> targetList = [] \<and> wwidList = [] then fail_go (Errors_New ''FC target information is missing'')
         else return_go \<lparr>fcd_VolumeID = vpc_VolumeID (cs_VolProto cs), fcd_TargetWWNs = targetList, fcd_Lun = lun, fcd_WWIDs = wwidList\<rparr>))"

text \<open>The two loops of \<open>searchDisk\<close>: over the disk ids, and over the tries. The device is looked up only where target ports are known.\<close>

fun search_ids :: "NodeWorld \<Rightarrow> string \<Rightarrow> bool \<Rightarrow> string list \<Rightarrow> string \<Rightarrow> string node_go" where
  "search_ids w wwid byTarget [] dmDevice = return_go dmDevice"
| "search_ids w wwid byTarget (diskID # rest) dmDevice =
     then_go (if byTarget then GetDMDevicePath w wwid else return_go dmDevice) (\<lambda>dm.
     if dm \<noteq> '''' then return_go dm else search_ids w wwid byTarget rest dm)"

fun search_tries :: "NodeWorld \<Rightarrow> string \<Rightarrow> bool \<Rightarrow> string list \<Rightarrow> nat \<Rightarrow> string \<Rightarrow> string node_go" where
  "search_tries w wwid byTarget diskIDs 0 dmDevice = return_go dmDevice"
| "search_tries w wwid byTarget diskIDs (Suc n) dmDevice =
     then_go (search_ids w wwid byTarget diskIDs dmDevice) (\<lambda>dm.
     if dm \<noteq> '''' \<and> Contains dm ''dm-'' then return_go dm else search_tries w wwid byTarget diskIDs n dm)"

definition searchDisk :: "Env \<Rightarrow> NodeWorld \<Rightarrow> fcDevice \<Rightarrow> string node_go" where
  "searchDisk E w connector =
     (let byTarget = (fcd_TargetWWNs connector \<noteq> []);
          diskIDs = (if byTarget then fcd_TargetWWNs connector else fcd_WWIDs connector);
          tries = getIntEnvVar E FCSearchDiskDelay 10
      in then_go (GetPortInfo w) (\<lambda>portInfo.
         let fcHosts = map pi_HostID (filter (\<lambda>p. pi_PortState p = FCPortOnline) portInfo) in
         if diskIDs = [] then panic_go ''index out of range: diskIDs''
         else or_wrap '''' (RescanDeviceMap w fcHosts (hd diskIDs) (fcd_Lun connector)) (\<lambda>wwid.
         then_go (search_tries w wwid byTarget diskIDs (nat tries) '''') (\<lambda>dmDevice.
         if dmDevice = '''' then fail_go (Errors_New ''no FC disk found'') else return_go dmDevice))))"

definition mountFCDisk :: "NodeWorld \<Rightarrow> Mounter \<Rightarrow> string \<Rightarrow> int \<Rightarrow> unit node_go" where
  "mountFCDisk w mounter devicePath volumeID =
     (let diskInfo = \<lparr>di_RootDir = NodeRootDir, di_MpathDevice = devicePath, di_IsBlock = mnt_IsBlock mounter, di_VolumeID = volumeID\<rparr>
      in or_wrap '''' (MountLogic w diskInfo (mnt_TargetPath mounter) devicePath (mnt_StagePath mounter) (mnt_FsType mounter)
             (mnt_MountOptions mounter) (mnt_IsBlock mounter) (mnt_ReadOnly mounter)) (\<lambda>_.
         if HasPrefix devicePath ''/dev/dm-'' \<and> \<not> mnt_ReadOnly mounter
         then or_wrap '''' (CreateConfigFile w diskInfo (mnt_StagePath mounter)) return_go
         else return_go ()))"

definition set_permissions :: "NodeWorld \<Rightarrow> Mounter \<Rightarrow> CsiNodePublishRequest \<Rightarrow> unit node_go" where
  "set_permissions w mounter req =
     (if mnt_ReadOnly mounter then return_go () else or_impl (SetVolumePermissions w req) return_go)"

definition NodePublishVolume_fc :: "Env \<Rightarrow> NodeWorld \<Rightarrow> Commonservice \<Rightarrow> CsiNodePublishRequest \<Rightarrow> unit node_go" where
  "NodePublishVolume_fc E w cs req =
     then_go (remote (GetHostInfo (np_Secrets req) (cs_IboxAPI cs))) (\<lambda>_.
     or_impl (getFCDiskDetails cs req) (\<lambda>fcDetails.
     or_impl (searchDisk E w fcDetails) (\<lambda>dmDevice.
     let devicePath = Replace1 dmDevice ''/host'' '''' in
     or_impl (pure_go (GetDiskMounter req)) (\<lambda>diskMounter.
     or_impl (mountFCDisk w diskMounter devicePath (fcd_VolumeID fcDetails)) (\<lambda>_.
     set_permissions w diskMounter req)))))"

definition NodeUnpublishVolume_fc :: "NodeWorld \<Rightarrow> CsiNodeUnpublishRequest \<Rightarrow> unit node_go" where
  "NodeUnpublishVolume_fc w req = or_impl (UnmountAndCleanUp w (nup_TargetPath req)) return_go"

text \<open>The name of the device that staging has left; without the file there is nothing to detach.\<close>

definition staged_device :: "NodeWorld \<Rightarrow> int \<Rightarrow> string \<Rightarrow> string option node_go" where
  "staged_device w volumeID stagePath =
     (let dskInfo = \<lparr>di_RootDir = NodeRootDir, di_MpathDevice = '''', di_IsBlock = False, di_VolumeID = volumeID\<rparr>
      in try_go (LoadDiskInfoFromFile w dskInfo stagePath)
           (\<lambda>_. then_go (PathExists w (path_Join3 ''/host'' stagePath (Itoa volumeID @ ''.json''))) (\<lambda>(pathExist, pathErr).
                 return_go (if pathErr = None \<and> \<not> pathExist then None else Some '''')))
           (\<lambda>info. return_go (Some (di_MpathDevice info))))"

definition NodeUnstageVolume_fc :: "Env \<Rightarrow> NodeWorld \<Rightarrow> int \<Rightarrow> CsiNodeUnstageRequest \<Rightarrow> unit node_go" where
  "NodeUnstageVolume_fc E w volumeID req =
     (let stagePath = nus_StagingTargetPath req
      in then_go (staged_device w volumeID stagePath) (\<lambda>staged. case staged of
           None \<Rightarrow> or_impl (os_go (os_removeall w stagePath)) return_go
         | Some mpathDevice \<Rightarrow>
             ignore_go (DetachMpathDevice E w mpathDevice) (\<lambda>_.
             or_impl (os_go (os_removeall w (''/host'' @ stagePath))) return_go)))"

text \<open>The steps after the device is found: every path of it is rescanned, then the map and the file system grow.\<close>

definition rescan_path :: "NodeWorld \<Rightarrow> string \<Rightarrow> unit node_go" where
  "rescan_path w line =
     (if line = '''' then return_go ()
      else case Split line ''_'' of
        _ # blockDevice # _ \<Rightarrow> or_impl (rescan_device w blockDevice) return_go
      | _ \<Rightarrow> return_go ())"

definition fs_type :: "VolumeCapability option \<Rightarrow> string res" where
  "fs_type cap = (case cap of
     Some c \<Rightarrow> (case cap_AccessType c of MountAccess t _ \<Rightarrow> Ok t | _ \<Rightarrow> Crash (GoPanic ''nil pointer dereference: FsType''))
   | None \<Rightarrow> Crash (GoPanic ''nil pointer dereference: FsType''))"

definition is_block_request :: "VolumeCapability option \<Rightarrow> bool" where
  "is_block_request cap = (case cap of None \<Rightarrow> False | Some c \<Rightarrow> is_block c)"

definition expand_multipath :: "NodeWorld \<Rightarrow> (string \<Rightarrow> go_error) \<Rightarrow> CsiNodeExpandRequest \<Rightarrow> unit node_go" where
  "expand_multipath w no_output req =
     or_impl (FindMultipathDeviceFromVolumePath w (nex_VolumePath req)) (\<lambda>multipathDevice.
     or_impl (Command w (''multipathd show paths raw format '' @ quoted ''%m_%d_'' @ '' | grep '' @ path_Base multipathDevice @ ''_'') '''') (\<lambda>out.
     if out = '''' then fail_go (no_output multipathDevice)
     else then_go (map_go (rescan_path w) (Split (TrimSpace out) newline)) (\<lambda>_.
     case SplitAfter multipathDevice ''/dev/mapper/'' of
       _ # mpathPart # _ \<Rightarrow>
         or_impl (Command w (''multipathd resize map '' @ mpathPart) '''') (\<lambda>_.
         then_go (pure_go (fs_type (nex_VolumeCapability req))) (\<lambda>fsType.
         or_impl (ExpandFileSystem w multipathDevice fsType) return_go))
     | _ \<Rightarrow> fail_go (impl_text ''error getting mpathPart''))))"

definition NodeExpandVolume_fc :: "NodeWorld \<Rightarrow> CsiNodeExpandRequest \<Rightarrow> unit node_go" where
  "NodeExpandVolume_fc w req =
     (if is_block_request (nex_VolumeCapability req) then or_impl (BlockExpandVolume w (nex_VolumePath req)) return_go
      else expand_multipath w (\<lambda>dev. Errors_New (''error getting multipathDevice: '' @ dev @ '', command output was empty'')) req)"

section \<open>Network spaces\<close>

text \<open>The portals of a network space that are enabled and answer on their port.\<close>

fun live_portals :: "NodeWorld \<Rightarrow> int64 \<Rightarrow> Portal list \<Rightarrow> string list node_go" where
  "live_portals w port [] = return_go []"
| "live_portals w port (portal # rest) =
     (if \<not> portal_Enabled portal then live_portals w port rest
      else try_go (ValidateIPAddress w (portal_IPAddress portal) port)
        (\<lambda>_. live_portals w port rest)
        (\<lambda>_. then_go (live_portals w port rest) (\<lambda>ps. return_go (PortalMounter (portal_IPAddress portal) # ps))))"

record target =
  tgt_Portals :: "string list"
  tgt_Iqn :: string

definition space_targets :: "NodeWorld \<Rightarrow> Commonservice \<Rightarrow> (NetworkSpace \<Rightarrow> int64 \<times> string) \<Rightarrow> CsiNodePublishRequest \<Rightarrow> target list node_go" where
  "space_targets w cs port_iqn req =
     then_go (map_go (\<lambda>networkSpace.
        or_wrap '''' (remote (GetNetworkSpaceByName_api (cs_IboxAPI cs) networkSpace)) (\<lambda>nspace.
        let (port, iqn) = port_iqn nspace
        in then_go (live_portals w port (ns_Portals nspace)) (\<lambda>ps. return_go \<lparr>tgt_Portals = ps, tgt_Iqn = iqn\<rparr>)))
       (Split (np_context req StorageClassNetworkSpace) '','')) (\<lambda>targets.
     if list_all (\<lambda>t. tgt_Portals t = []) targets then fail_go (Errors_New ''no network space IP addresses available'')
     else return_go targets)"

section \<open>NVMe\<close>

definition NVMEDiscoveryPort :: int64 where "NVMEDiscoveryPort = 8009"

definition getHostNQN :: "NodeWorld \<Rightarrow> string node_go" where
  "getHostNQN w = or_wrap ''getHostNQN (nvme) - failed to read hostnqn file error: ''
     (os_go (os_readfile w ''/host/etc/nvme/hostnqn'')) (\<lambda>content. return_go (TrimSuffix content newline))"

record NVMEDeviceInfo =
  nvd_Node :: string
  nvd_Namespace :: int

definition no_0x :: "string \<Rightarrow> string" where
  "no_0x s = (if length s > 2 \<and> take 2 s = ''0x'' then drop 2 s else s)"

text \<open>One line of \<open>nvme list\<close>: the columns are those of the header, by position.\<close>

fun nvme_element :: "string list \<Rightarrow> string list \<Rightarrow> NVMEDeviceInfo \<Rightarrow> NVMEDeviceInfo res" where
  "nvme_element [] cells el = Ok el"
| "nvme_element (column # columns) cells el =
     (if column = ''Node''
      then (case cells of [] \<Rightarrow> Crash (GoPanic ''index out of range: fields'')
            | f # rest \<Rightarrow> nvme_element columns rest (el\<lparr>nvd_Node := f\<rparr>))
      else if column = ''Namespace''
      then (case cells of [] \<Rightarrow> Crash (GoPanic ''index out of range: fields'')
            | f # rest \<Rightarrow> (case ParseInt16 (no_0x f) of
                None \<Rightarrow> Err (parse_error (no_0x f))
              | Some n \<Rightarrow> nvme_element columns rest (el\<lparr>nvd_Namespace := n\<rparr>)))
      else nvme_element columns (drop 1 cells) el)"

fun nvme_elements :: "string list \<Rightarrow> string list \<Rightarrow> NVMEDeviceInfo list res" where
  "nvme_elements columns [] = Ok []"
| "nvme_elements columns (line # rest) =
     (if line = [] then nvme_elements columns rest
      else case nvme_element columns (Fields line) \<lparr>nvd_Node = '''', nvd_Namespace = 0\<rparr> of
        Ok el \<Rightarrow> (case nvme_elements columns rest of Ok els \<Rightarrow> Ok (el # els) | r \<Rightarrow> r)
      | Err e \<Rightarrow> Err e
      | Crash x \<Rightarrow> Crash x)"

definition parse_nvme_list :: "string \<Rightarrow> NVMEDeviceInfo list res" where
  "parse_nvme_list rawOutput =
     (let lines = Split rawOutput newline in
      if length lines < 2 then Crash (GoPanic ''slice bounds out of range: lines'')
      else nvme_elements (Fields (hd lines)) (drop 2 lines))"

definition getNVMENamespacesByNormalOutput :: "NodeWorld \<Rightarrow> NVMEDeviceInfo list node_go" where
  "getNVMENamespacesByNormalOutput w =
     or_wrap ''(nvme) error command: '' (Command w ''nvme list'' '''') (\<lambda>rawOutput. pure_go (parse_nvme_list rawOutput))"

definition nvmeConnectAll :: "NodeWorld \<Rightarrow> string \<Rightarrow> unit node_go" where
  "nvmeConnectAll w ipAddress =
     or_wrap ''nvmeConnectAll (nvme) - failed command: '' (Command w (''nvme connect-all -t tcp -a '' @ ipAddress) '''') (\<lambda>_. return_go ())"

definition nvmeDiscover :: "NodeWorld \<Rightarrow> string \<Rightarrow> unit node_go" where
  "nvmeDiscover w ipAddress =
     or_wrap ''nvmeDiscover (nvme) failed command: ''
       (Command w (''nvme discover -t tcp -a '' @ ipAddress @ '' -s '' @ Itoa NVMEDiscoveryPort) '''') (\<lambda>_. return_go ())"

definition NodeStageVolume_nvme :: "NodeWorld \<Rightarrow> Commonservice \<Rightarrow> CsiNodeStageRequest \<Rightarrow> unit node_go" where
  "NodeStageVolume_nvme w cs req =
     then_go (remote (GetHostInfo (stg_Secrets req) (cs_IboxAPI cs))) (\<lambda>_.
     or_impl (pure_go (ValidatePublishContext (stg_PublishContext req))) (\<lambda>(hostID, _).
     or_impl (getHostNQN w) (\<lambda>hostNQN.
     ensure_port cs hostID ''NVME'' hostNQN)))"

record nvmeDevice =
  nvm_lun :: string
  nvm_secret :: gomap
  nvm_HostNQN :: string
  nvm_VolumeID :: int

definition getNVMEDisk :: "NodeWorld \<Rightarrow> Commonservice \<Rightarrow> CsiNodePublishRequest \<Rightarrow> nvmeDevice node_go" where
  "getNVMEDisk w cs req =
     or_wrap '''' (getHostNQN w) (\<lambda>hostNQN.
     let lun = lookup (np_PublishContext req) LunPublishContext in
     if lun = '''' then fail_go (Errors_New ''lun is missing'')
     else return_go \<lparr>nvm_lun = lun, nvm_secret = np_Secrets req, nvm_HostNQN = hostNQN, nvm_VolumeID = vpc_VolumeID (cs_VolProto cs)\<rparr>)"

definition getNVMETargets :: "NodeWorld \<Rightarrow> Commonservice \<Rightarrow> CsiNodePublishRequest \<Rightarrow> target list node_go" where
  "getNVMETargets w cs req = space_targets w cs (\<lambda>nspace. (NVMEDiscoveryPort, '''')) req"

definition connect_target :: "NodeWorld \<Rightarrow> target \<Rightarrow> unit node_go" where
  "connect_target w target = (case tgt_Portals target of
     [] \<Rightarrow> fail_go (Errors_New ''error target has no portals target'')
   | portal # _ \<Rightarrow> (let ipAddressOnly = hd (Split portal '':'') in
       or_wrap '''' (nvmeDiscover w ipAddressOnly) (\<lambda>_. or_wrap '''' (nvmeConnectAll w ipAddressOnly) return_go)))"

text \<open>The first listed device whose namespace has the number of the LUN.\<close>

definition nvme_device_path :: "string \<Rightarrow> NVMEDeviceInfo list \<Rightarrow> string res" where
  "nvme_device_path lun devices =
     (if devices = [] then Ok ''''
      else case Atoi lun of
        None \<Rightarrow> Err (Errorf '''' (parse_error lun))
      | Some lunInt \<Rightarrow> Ok (case find (\<lambda>d. nvd_Namespace d = lunInt) devices of None \<Rightarrow> '''' | Some d \<Rightarrow> nvd_Node d))"

definition AttachDisk_nvme :: "NodeWorld \<Rightarrow> Mounter \<Rightarrow> target list \<Rightarrow> nvmeDevice \<Rightarrow> string node_go" where
  "AttachDisk_nvme w diskMounter targets disk =
     (if targets = [] then fail_go (Errors_New ''no nvme targets'')
      else then_go (map_go (connect_target w) targets) (\<lambda>_.
      or_wrap '''' (getNVMENamespacesByNormalOutput w) (\<lambda>devices.
      then_go (pure_go (nvme_device_path (nvm_lun disk) devices)) (\<lambda>nvmeDevicePath.
      if nvmeDevicePath = '''' then fail_go (Errors_New (''could not find nvme device path using lun: '' @ nvm_lun disk))
      else or_wrap '''' (MountLogic w \<lparr>di_RootDir = NodeRootDir, di_MpathDevice = nvmeDevicePath, di_IsBlock = mnt_IsBlock diskMounter,
               di_VolumeID = nvm_VolumeID disk\<rparr> (mnt_TargetPath diskMounter) nvmeDevicePath (mnt_StagePath diskMounter) (mnt_FsType diskMounter)
               (mnt_MountOptions diskMounter) (mnt_IsBlock diskMounter) (mnt_ReadOnly diskMounter)) (\<lambda>_.
           return_go nvmeDevicePath)))))"

text \<open>The start of publishing, which logs the access mode (it must be set) and asks for the serial number.\<close>

definition publish_start :: "Commonservice \<Rightarrow> CsiNodePublishRequest \<Rightarrow> unit node_go" where
  "publish_start cs req =
     (if cap_AccessMode (np_capability req) = None then panic_go ''nil pointer dereference: Mode''
      else then_go (remote (GetHostInfo (np_Secrets req) (cs_IboxAPI cs))) (\<lambda>_. return_go ()))"

definition NodePublishVolume_nvme :: "NodeWorld \<Rightarrow> Commonservice \<Rightarrow> CsiNodePublishRequest \<Rightarrow> unit node_go" where
  "NodePublishVolume_nvme w cs req =
     then_go (publish_start cs req) (\<lambda>_.
     or_impl (getNVMETargets w cs req) (\<lambda>targets.
     or_impl (getNVMEDisk w cs req) (\<lambda>nvmeDisk.
     or_impl (pure_go (GetDiskMounter req)) (\<lambda>diskMounter.
     or_impl (AttachDisk_nvme w diskMounter targets nvmeDisk) (\<lambda>_.
     set_permissions w diskMounter req)))))"

definition NodeUnpublishVolume_nvme :: "NodeWorld \<Rightarrow> CsiNodeUnpublishRequest \<Rightarrow> unit node_go" where
  "NodeUnpublishVolume_nvme w req = or_impl (UnmountAndCleanUp w (nup_TargetPath req)) return_go"

definition remove_existing :: "NodeWorld \<Rightarrow> string \<Rightarrow> unit node_go" where
  "remove_existing w p = then_go (PathExists w p) (\<lambda>(pathExists, pathErr).
     if pathErr = None \<and> pathExists then or_impl (os_go (os_remove w p)) return_go else return_go ())"

definition NodeUnstageVolume_nvme :: "NodeWorld \<Rightarrow> int \<Rightarrow> CsiNodeUnstageRequest \<Rightarrow> unit node_go" where
  "NodeUnstageVolume_nvme w volumeID req =
     (let removePath = path_Join ''/host'' (nus_StagingTargetPath req)
      in then_go (remove_existing w (removePath @ ''/'' @ Itoa volumeID @ ''.json'')) (\<lambda>_. remove_existing w removePath))"

definition NodeExpandVolume_nvme :: "NodeWorld \<Rightarrow> CsiNodeExpandRequest \<Rightarrow> unit node_go" where
  "NodeExpandVolume_nvme w req =
     (if is_block_request (nex_VolumeCapability req) then return_go ()
      else or_impl (FindMultipathDeviceFromVolumePath w (nex_VolumePath req)) (\<lambda>multipathDevice.
      then_go (pure_go (fs_type (nex_VolumeCapability req))) (\<lambda>fsType.
      or_impl (ExpandFileSystem w multipathDevice fsType) return_go)))"

end
