(* ===== verification/Iscsi_Node.thy ===== *)
theory Iscsi_Node
  imports Block_Node
begin

text \<open>
  The node side of iSCSI, \<open>storage/iscsi/iscsinode.go\<close>: the initiator, CHAP, discovery and login, attaching and
  mounting, unstaging. A loop over a Go map runs over the entries in the order of the list that models it.
\<close>

definition devMapperDir :: string where "devMapperDir = ''/dev/mapper/''"
definition CHAPInboundUsername :: string where "CHAPInboundUsername = ''security_chap_inbound_username''"
definition CHAPInboundSecret :: string where "CHAPInboundSecret = ''security_chap_inbound_secret''"
definition CHAPOutboundUsername :: string where "CHAPOutboundUsername = ''security_chap_outbound_username''"
definition CHAPOutboundSecret :: string where "CHAPOutboundSecret = ''security_chap_outbound_secret''"
definition SecurityMethod :: string where "SecurityMethod = ''security_method''"
definition SecurityMethodCHAP :: string where "SecurityMethodCHAP = ''CHAP''"
definition SecurityMethodMutualCHAP :: string where "SecurityMethodMutualCHAP = ''MUTUAL_CHAP''"
definition UseCHAP :: string where "UseCHAP = ''chap''"
definition UseMutualCHAP :: string where "UseMutualCHAP = ''mutual_chap''"
definition ISCSITransportTCP :: string where "ISCSITransportTCP = ''tcp''"
definition CHAPUsername :: string where "CHAPUsername = ''node.session.auth.username''"
definition CHAPPassword :: string where "CHAPPassword = ''node.session.auth.password''"
definition CHAPUsernameIn :: string where "CHAPUsernameIn = ''node.session.auth.username_in''"
definition CHAPPasswordIn :: string where "CHAPPasswordIn = ''node.session.auth.password_in''"

definition CHAPSessionCredentials :: "string list" where
  "CHAPSessionCredentials = [CHAPUsername, CHAPPassword, CHAPUsernameIn, CHAPPasswordIn]"

lemmas chap_defs = CHAPInboundUsername_def CHAPInboundSecret_def CHAPOutboundUsername_def CHAPOutboundSecret_def SecurityMethod_def
  SecurityMethodCHAP_def SecurityMethodMutualCHAP_def UseCHAP_def UseMutualCHAP_def CHAPUsername_def CHAPPassword_def
  CHAPUsernameIn_def CHAPPasswordIn_def

record iscsiDevice =
  isd_Lun :: string
  isd_Iface :: string
  isd_CHAPDiscovery :: bool
  isd_CHAPSession :: bool
  isd_Secret :: gomap
  isd_InitiatorName :: string
  isd_VolName :: string
  isd_VolumeID :: int

record SessionDetails =
  ses_protocol :: string
  ses_ipAddress :: string
  ses_hostID :: string
  ses_iqn :: string

section \<open>Initiator and CHAP\<close>

definition getInitiatorName :: "NodeWorld \<Rightarrow> string node_go" where
  "getInitiatorName w =
     or_impl (bash_output w ''cat /etc/iscsi/initiatorname.iscsi | grep InitiatorName='') (\<lambda>out.
     case Split (TrimSuffix out newline) ''='' of
       _ # name # _ \<Rightarrow> if name = '''' then fail_go (impl_text ''initiator name is empty'') else return_go name
     | _ \<Rightarrow> panic_go ''index out of range: arr'')"

text \<open>The credentials for the InfiniBox; the four entries are put into a new map.\<close>

definition chap_credentials :: "string \<Rightarrow> gomap \<Rightarrow> gomap res" where
  "chap_credentials useChap secrets =
     (if useChap \<noteq> UseCHAP \<and> useChap \<noteq> UseMutualCHAP then Ok []
      else if lookup secrets CHAPUsername = '''' \<or> lookup secrets CHAPPassword = ''''
      then Err (Errors_New ''iscsi mutual chap credentials not provided'')
      else let chapCreds = [(CHAPInboundUsername, lookup secrets CHAPUsername), (CHAPInboundSecret, lookup secrets CHAPPassword),
             (SecurityMethod, SecurityMethodCHAP)] in
      if useChap \<noteq> UseMutualCHAP then Ok chapCreds
      else if lookup secrets CHAPUsernameIn = '''' \<or> lookup secrets CHAPPasswordIn = ''''
      then Err (Errors_New ''iscsi mutual chap credentials not provided'')
      else Ok (store (chapCreds @ [(CHAPOutboundUsername, lookup secrets CHAPUsernameIn), (CHAPOutboundSecret, lookup secrets CHAPPasswordIn)])
             SecurityMethod SecurityMethodMutualCHAP))"

definition addCHAPSecurity :: "Commonservice \<Rightarrow> string \<Rightarrow> int \<Rightarrow> gomap \<Rightarrow> unit node_go" where
  "addCHAPSecurity cs useChap hostID secrets =
     then_go (pure_go (chap_credentials useChap secrets)) (\<lambda>chapCreds.
     if length chapCreds > 1
     then or_wrap '''' (or_wrap '''' (remote (AddHostSecurity_api (cs_IboxAPI cs) chapCreds hostID)) return_go) return_go
     else return_go ())"

definition NodeStageVolume_iscsi :: "NodeWorld \<Rightarrow> Commonservice \<Rightarrow> CsiNodeStageRequest \<Rightarrow> unit node_go" where
  "NodeStageVolume_iscsi w cs req =
     then_go (remote (GetHostInfo (stg_Secrets req) (cs_IboxAPI cs))) (\<lambda>_.
     or_impl (pure_go (ValidatePublishContext (stg_PublishContext req))) (\<lambda>(hostID, ports).
     or_impl (getInitiatorName w) (\<lambda>initiatorName.
     then_go (ensure_port cs hostID ''ISCSI'' initiatorName) (\<lambda>_.
     let useChap = lookup (stg_VolumeContext req) StorageClassUseCHAP;
         hostSecurity = lookup (stg_PublishContext req) SecurityMethodPublishContext
     in if ToLower hostSecurity \<noteq> useChap \<or> \<not> Contains ports initiatorName
        then or_impl (addCHAPSecurity cs useChap hostID (stg_Secrets req)) return_go
        else return_go ()))))"

text \<open>The credentials of the session, from the secrets of the request.\<close>

definition parseSessionSecret :: "string \<Rightarrow> gomap \<Rightarrow> gomap res" where
  "parseSessionSecret useChap secretParams =
     (let needed = [CHAPUsername, CHAPPassword] @ (if useChap = UseMutualCHAP then [CHAPUsernameIn, CHAPPasswordIn] else [])
      in if useChap \<noteq> UseCHAP \<and> useChap \<noteq> UseMutualCHAP then Ok []
         else if secretParams = [] then Err (impl_text ''parseSessionSecret (iscsi): required chap secrets not provided'')
         else case find (\<lambda>k. \<not> provided secretParams k) needed of
           Some k \<Rightarrow> Err (impl_text (k @ '' not found in secret''))
         | None \<Rightarrow> Ok (map (\<lambda>k. (k, lookup secretParams k)) needed @ [(''SecretsType'', UseCHAP)]))"

definition getISCSIDisk :: "NodeWorld \<Rightarrow> Commonservice \<Rightarrow> CsiNodePublishRequest \<Rightarrow> iscsiDevice node_go" where
  "getISCSIDisk w cs req =
     or_impl (getInitiatorName w) (\<lambda>initiatorName.
     let volumeID = vpc_VolumeID (cs_VolProto cs); lun = lookup (np_PublishContext req) ''lun'';
         useChap = np_context req StorageClassUseCHAP; chapSession = (useChap \<noteq> ''none'') in
     if lun = '''' then fail_go (impl_text ''LUN is missing'')
     else or_impl (pure_go (if chapSession then parseSessionSecret useChap (np_Secrets req) else Ok (np_Secrets req))) (\<lambda>secret.
     return_go \<lparr>isd_Lun = lun, isd_Iface = ''default'', isd_CHAPDiscovery = (np_context req ''discoveryCHAPAuth'' = ''true''),
       isd_CHAPSession = chapSession, isd_Secret = secret, isd_InitiatorName = initiatorName, isd_VolName = Itoa volumeID,
       isd_VolumeID = volumeID\<rparr>))"

section \<open>Interfaces\<close>

text \<open>The first match of \<^verbatim>\<open>iface.transport_name = (.*)\n\<close>: the dot stands for any character but a line feed.\<close>

fun transport_match :: "string \<Rightarrow> string option" where
  "transport_match [] = None"
| "transport_match (c # s) =
     (let body = drop 6 (c # s); value = takeWhile (\<lambda>x. x \<noteq> CHR 0x0A) (drop 17 body) in
      if HasPrefix (c # s) ''iface'' \<and> length (c # s) > 5 \<and> (c # s) ! 5 \<noteq> CHR 0x0A \<and> HasPrefix body ''transport_name = ''
         \<and> length (drop 17 body) > length value
      then Some value else transport_match s)"

definition iface_show :: "string \<Rightarrow> string" where
  "iface_show iface = ''--mode iface --interface '' @ iface @ '' --op show''"

definition extractTransportName :: "NodeWorld \<Rightarrow> string \<Rightarrow> string node_go" where
  "extractTransportName w diskMounterIface =
     or_wrap '''' (Command w ''iscsiadm'' (iface_show diskMounterIface)) (\<lambda>commandOutput.
     case transport_match commandOutput of
       None \<Rightarrow> return_go ''''
     | Some value \<Rightarrow>
        (let iscsiTransport = (if value = ''<empty>'' then ISCSITransportTCP else value) in
         if iscsiTransport = '''' then fail_go (Errors_New (''could not find transport name in iface: '' @ diskMounterIface))
         else return_go iscsiTransport))"

fun iscsiadm_params :: "gomap \<Rightarrow> string list \<Rightarrow> gomap res" where
  "iscsiadm_params params [] = Ok params"
| "iscsiadm_params params (line # rest) =
     (if \<not> HasPrefix line ''iface.'' \<or> Contains line ''<empty>'' then iscsiadm_params params rest
      else case Fields line of
        [key, eq, value] \<Rightarrow> if eq \<noteq> ''='' then Err (Errors_New ''invalid iface setting'')
          else if key = ''iface.iscsi_ifacename'' then iscsiadm_params params rest
          else iscsiadm_params (store params key value) rest
      | _ \<Rightarrow> Err (Errors_New ''invalid iface setting''))"

definition parseIscsiadmShow :: "string \<Rightarrow> gomap res" where
  "parseIscsiadmShow output = iscsiadm_params [] (Split output newline)"

text \<open>A record that cannot be written: the new interface is deleted again, and the loop is left with an error.\<close>

definition update_iface :: "NodeWorld \<Rightarrow> string \<Rightarrow> string \<times> string \<Rightarrow> unit node_go" where
  "update_iface w newIface = (\<lambda>(key, val).
     try_go (Command w ''iscsiadm'' (''--mode iface --interface '' @ newIface @ '' --op update --name '' @ Quote key @ '' --value '' @ Quote val))
       (\<lambda>_. or_wrap '''' (Command w ''iscsiadm'' (''--mode iface --interface '' @ newIface @ '' --op delete''))
               (\<lambda>_. fail_go (Errors_New ''failed to update iface records'')))
       (\<lambda>_. return_go ()))"

definition cloneIface :: "NodeWorld \<Rightarrow> iscsiDevice \<Rightarrow> string \<Rightarrow> unit node_go" where
  "cloneIface w disk newIface =
     or_wrap '''' (Command w ''iscsiadm'' (iface_show (isd_Iface disk))) (\<lambda>out.
     or_wrap '''' (pure_go (parseIscsiadmShow out)) (\<lambda>params0.
     let params = store params0 ''iface.initiatorname'' (isd_InitiatorName disk) in
     or_wrap '''' (Command w ''iscsiadm'' (''--mode iface --interface '' @ newIface @ '' --op new'')) (\<lambda>_.
     then_go (map_go (update_iface w newIface) params) (\<lambda>_. return_go ()))))"

definition ensure_iface :: "NodeWorld \<Rightarrow> iscsiDevice \<Rightarrow> target \<Rightarrow> unit node_go" where
  "ensure_iface w iscsiDisk target = (case tgt_Portals target of
     [] \<Rightarrow> panic_go ''index out of range: Portals''
   | newIface # _ \<Rightarrow>
       try_go (Command w ''iscsiadm'' (iface_show newIface))
         (\<lambda>_. or_impl (cloneIface w iscsiDisk newIface) return_go)
         (\<lambda>_. return_go ()))"

section \<open>Discovery and login\<close>

definition discover_portal :: "NodeWorld \<Rightarrow> string \<Rightarrow> unit node_go" where
  "discover_portal w portal =
     or_wrap ''command output '' (Command w ''iscsiadm'' (''--mode discoverydb --type sendtargets --portal '' @ portal @ '' --discover --op new --op delete''))
       (\<lambda>_. return_go ())"

definition discoverISCITargets :: "NodeWorld \<Rightarrow> target list \<Rightarrow> unit node_go" where
  "discoverISCITargets w targets =
     then_go (map_go (discover_portal w) (concat (map tgt_Portals targets))) (\<lambda>_. return_go ())"

definition node_update :: "string \<Rightarrow> string \<Rightarrow> string \<Rightarrow> string" where
  "node_update portal iqn what = ''--mode node --portal '' @ portal @ '' --targetname '' @ iqn @ '' --op update --name '' @ what"

definition update_credential :: "NodeWorld \<Rightarrow> gomap \<Rightarrow> string \<Rightarrow> string \<Rightarrow> string \<Rightarrow> unit node_go" where
  "update_credential w secret portal iqn credential =
     (let v = lookup secret credential in
      if v = '''' then return_go ()
      else or_impl (Command w ''iscsiadm'' (node_update portal iqn (Quote credential @ '' --value '' @ Quote v))) (\<lambda>_. return_go ()))"

definition updateISCSINode :: "NodeWorld \<Rightarrow> iscsiDevice \<Rightarrow> string \<Rightarrow> string \<Rightarrow> unit node_go" where
  "updateISCSINode w iscsiDisk iqn portal =
     (if \<not> isd_CHAPSession iscsiDisk then return_go ()
      else or_impl (Command w ''iscsiadm'' (node_update portal iqn ''node.session.auth.authmethod --value CHAP'')) (\<lambda>_.
      then_go (map_go (update_credential w (isd_Secret iscsiDisk) portal iqn) CHAPSessionCredentials) (\<lambda>_. return_go ())))"

text \<open>Errors go to the log.\<close>

definition updateForCHAP :: "NodeWorld \<Rightarrow> iscsiDevice \<Rightarrow> target list \<Rightarrow> unit node_go" where
  "updateForCHAP w iscsiDisk targets =
     (if \<not> isd_CHAPSession iscsiDisk then (if targets = [] then panic_go ''index out of range: targets'' else return_go ())
      else each_ignored (\<lambda>(iqn, portal). updateISCSINode w iscsiDisk iqn portal)
        (concat (map (\<lambda>t. map (Pair (tgt_Iqn t)) (tgt_Portals t)) targets)))"

text \<open>A line of the session list: \<^verbatim>\<open>tcp: [8] 172.31.32.145:3260,1 iqn... (non-flash)\<close>\<close>

definition session_of :: "string \<Rightarrow> SessionDetails res" where
  "session_of line =
     (let parts = Split line '' '' in
      if length parts < 3 then Crash (GoPanic ''index out of range: parts'')
      else let ipaddressParts = Split (parts ! 2) '','' in
      if length ipaddressParts < 2 then Crash (GoPanic ''index out of range: ipaddressParts'')
      else if length parts < 4 then Crash (GoPanic ''index out of range: parts'')
      else Ok \<lparr>ses_protocol = hd (Split (parts ! 0) '':''), ses_ipAddress = ipaddressParts ! 0, ses_hostID = ipaddressParts ! 1,
             ses_iqn = parts ! 3\<rparr>)"

fun sessions_of :: "string list \<Rightarrow> SessionDetails list res" where
  "sessions_of [] = Ok []"
| "sessions_of (line # rest) =
     (if line = [] then sessions_of rest
      else case session_of line of
        Ok s \<Rightarrow> (case sessions_of rest of Ok ss \<Rightarrow> Ok (s # ss) | r \<Rightarrow> r)
      | Err e \<Rightarrow> Err e
      | Crash x \<Rightarrow> Crash x)"

text \<open>An error gives no sessions.\<close>

definition getSessionDetails :: "NodeWorld \<Rightarrow> SessionDetails list node_go" where
  "getSessionDetails w =
     try_go (then_go (Command w ''iscsiadm'' ''--mode session'') (\<lambda>rawOutput. pure_go (StringToLines rawOutput)))
       (\<lambda>_. return_go []) (\<lambda>lines. pure_go (sessions_of lines))"

definition login_portal :: "NodeWorld \<Rightarrow> string \<Rightarrow> string \<Rightarrow> unit node_go" where
  "login_portal w iqn portal =
     try_go (Command w ''iscsiadm'' (''--mode node --targetname '' @ iqn @ '' --portal '' @ portal @ '' --login''))
       (\<lambda>err. if status_code err \<noteq> AlreadyExists
              then fail_go (Errors_New (''iscsi login failed to target iqn: '' @ iqn @ '', portal '' @ portal @ '' err: '' @ err_text err))
              else return_go ())
       (\<lambda>_. return_go ())"

definition login_target :: "NodeWorld \<Rightarrow> SessionDetails list \<Rightarrow> target \<Rightarrow> unit node_go" where
  "login_target w sessionDetails target =
     (if list_ex (\<lambda>s. ses_iqn s = tgt_Iqn target) sessionDetails then return_go ()
      else then_go (map_go (login_portal w (tgt_Iqn target)) (tgt_Portals target)) (\<lambda>_. return_go ()))"

definition loginToTargets :: "NodeWorld \<Rightarrow> target list \<Rightarrow> unit node_go" where
  "loginToTargets w targets =
     then_go (getSessionDetails w) (\<lambda>sessionDetails.
     then_go (map_go (login_target w sessionDetails) targets) (\<lambda>_.
     then_go (getSessionDetails w) (\<lambda>_. return_go ())))"

fun host_ids :: "string list \<Rightarrow> string list res" where
  "host_ids [] = Ok []"
| "host_ids (part # rest) =
     (if \<not> Contains part ''tcp'' then host_ids rest
      else case Split (dropWhile (\<lambda>c. c = CHR '' '') part) '' '' of
        _ # rawNumber # _ \<Rightarrow> (case host_ids rest of
            Ok hs \<Rightarrow> Ok (ReplaceAll (ReplaceAll rawNumber ''['' '''') '']'' '''' # hs) | r \<Rightarrow> r)
      | _ \<Rightarrow> Err (Errors_New ''error could not parse host number''))"

definition getHostIDs :: "NodeWorld \<Rightarrow> string list node_go" where
  "getHostIDs w = or_wrap '''' (Command w ''iscsiadm'' ''-m host -P0'') (\<lambda>rawOutput. pure_go (host_ids (Split rawOutput newline)))"

definition getISCSITargets :: "NodeWorld \<Rightarrow> Commonservice \<Rightarrow> CsiNodePublishRequest \<Rightarrow> target list node_go" where
  "getISCSITargets w cs req = space_targets w cs (\<lambda>nspace. (ns_ISCSITCPPort nspace, ns_ISCSIIqn nspace)) req"

section \<open>Publishing\<close>

fun find_dm :: "NodeWorld \<Rightarrow> string \<Rightarrow> nat \<Rightarrow> string node_go" where
  "find_dm w wwid 0 = return_go ''''"
| "find_dm w wwid (Suc n) = then_go (GetDMDevicePath w wwid) (\<lambda>dmDevice. if dmDevice \<noteq> '''' then return_go dmDevice else find_dm w wwid n)"

text \<open>The list of options that is given to \<open>MountLogic\<close> is declared and never filled.\<close>

definition AttachDisk_iscsi :: "NodeWorld \<Rightarrow> Mounter \<Rightarrow> iscsiDevice \<Rightarrow> target list \<Rightarrow> string node_go" where
  "AttachDisk_iscsi w diskMounter iscsiDisk targets =
     or_impl (extractTransportName w (isd_Iface iscsiDisk)) (\<lambda>_.
     then_go (if isd_InitiatorName iscsiDisk = '''' then then_go (map_go (ensure_iface w iscsiDisk) targets) (\<lambda>_. return_go ())
              else return_go ()) (\<lambda>_.
     or_impl (discoverISCITargets w targets) (\<lambda>_.
     then_go (updateForCHAP w iscsiDisk targets) (\<lambda>_.
     or_impl (loginToTargets w targets) (\<lambda>_.
     or_impl (getHostIDs w) (\<lambda>hosts.
     or_impl (RescanDeviceMap w hosts (isd_VolName iscsiDisk) (isd_Lun iscsiDisk)) (\<lambda>wwid.
     then_go (find_dm w wwid 10) (\<lambda>dmDevice.
     if dmDevice = '''' then fail_go (impl_text (''error, could not find a dm device for wwid: '' @ wwid))
     else or_impl (FindMpathFromDevice w (Replace1 dmDevice ''/host'' '''')) (\<lambda>thisMpath.
     let config = \<lparr>di_RootDir = NodeRootDir, di_MpathDevice = thisMpath, di_IsBlock = False, di_VolumeID = isd_VolumeID iscsiDisk\<rparr>;
         options = []; devicePath = devMapperDir @ thisMpath
     in or_impl (MountLogic w config (mnt_TargetPath diskMounter) devicePath (mnt_StagePath diskMounter) (mnt_FsType diskMounter)
            options (mnt_IsBlock diskMounter) (mnt_ReadOnly diskMounter)) (\<lambda>_. return_go devicePath))))))))))"

definition NodePublishVolume_iscsi :: "NodeWorld \<Rightarrow> Commonservice \<Rightarrow> CsiNodePublishRequest \<Rightarrow> unit node_go" where
  "NodePublishVolume_iscsi w cs req =
     then_go (publish_start cs req) (\<lambda>_.
     or_impl (getISCSITargets w cs req) (\<lambda>targets.
     or_impl (getISCSIDisk w cs req) (\<lambda>iscsiDisk.
     or_impl (pure_go (GetDiskMounter req)) (\<lambda>diskMounter.
     or_impl (AttachDisk_iscsi w diskMounter iscsiDisk targets) (\<lambda>_.
     set_permissions w diskMounter req)))))"

definition NodeUnpublishVolume_iscsi :: "NodeWorld \<Rightarrow> CsiNodeUnpublishRequest \<Rightarrow> unit node_go" where
  "NodeUnpublishVolume_iscsi w req = or_impl (UnmountAndCleanUp w (nup_TargetPath req)) return_go"

section \<open>Unstaging and growing\<close>

definition getMultipathDeviceCount :: "NodeWorld \<Rightarrow> nat node_go" where
  "getMultipathDeviceCount w =
     or_wrap '''' (bash_output w (pipefail ''multipath -ll -v 1'')) (\<lambda>out. return_go (length (Fields out)))"

definition logoutAllSessions :: "NodeWorld \<Rightarrow> unit node_go" where
  "logoutAllSessions w = or_wrap '''' (bash_output w (pipefail ''iscsiadm --mode node --logoutall=all'')) (\<lambda>_. return_go ())"

definition NodeUnstageVolume_iscsi :: "Env \<Rightarrow> NodeWorld \<Rightarrow> int \<Rightarrow> CsiNodeUnstageRequest \<Rightarrow> unit node_go" where
  "NodeUnstageVolume_iscsi E w volumeID req =
     (let stagePath = nus_StagingTargetPath req; removePath = path_Join ''/host'' stagePath
      in then_go (staged_device w volumeID stagePath) (\<lambda>staged. case staged of
           None \<Rightarrow> then_go (os_removeall w stagePath) (\<lambda>_. return_go ())
         | Some mpathDevice \<Rightarrow>
             ignore_go (DetachMpathDevice E w mpathDevice) (\<lambda>_.
             or_impl (IsDirectory w removePath) (\<lambda>isADir.
             then_go (if isADir then or_impl (os_go (os_remove w (removePath @ ''/'' @ Itoa volumeID @ ''.json''))) return_go
                      else return_go ()) (\<lambda>_.
             or_impl (os_go (os_remove w removePath)) (\<lambda>_.
             ignore_go (getMultipathDeviceCount w) (\<lambda>deviceCount.
             if deviceCount = Some 0 then ignore_go (logoutAllSessions w) (\<lambda>_. return_go ()) else return_go ())))))))"

definition NodeExpandVolume_iscsi :: "NodeWorld \<Rightarrow> Commonservice \<Rightarrow> CsiNodeExpandRequest \<Rightarrow> unit node_go" where
  "NodeExpandVolume_iscsi w cs req =
     then_go (remote (GetHostInfo (nex_Secrets req) (cs_IboxAPI cs))) (\<lambda>_.
     if is_block_request (nex_VolumeCapability req) then or_impl (BlockExpandVolume w (nex_VolumePath req)) return_go
     else expand_multipath w (\<lambda>dev. impl_text (''error getting multipath devices from output '' @ dev @ '' command output was empty'')) req)"

end
