(* ===== verification/Nfs_Node.thy ===== *)
theory Nfs_Node
  imports Iscsi_Node
begin

text \<open>
  The node side of NFS and of treeqs: \<open>storage/nfs/nfsnode.go\<close>, \<open>cleanupnfsperm.go\<close> and \<open>storage/treeq/treeqnode.go\<close>.
\<close>

definition DefaultHostMountPoint :: string where "DefaultHostMountPoint = ''/host/''"

section \<open>The export rule of a node\<close>

text \<open>
  \<open>UpdateExport\<close>: the first export with the path of the file system decides. A client that has a rule already leaves it as
  it is; otherwise the new rules are appended. Without such an export one is created.
\<close>

definition UpdateExport :: "Env \<Rightarrow> NFSstorage \<Rightarrow> int \<Rightarrow> string \<Rightarrow> NFSstorage go" where
  "UpdateExport E nfs fileSystemID exportPerms =
     or_wrap '''' (GetFileSystemByID_api (nfs_ibox nfs) fileSystemID) (\<lambda>fileSystem.
     or_wrap '''' (pure_go (getPermissionMaps E exportPerms)) (\<lambda>permissionsMapArray.
     then_go (pure_go (convertToExportRulePermissions permissionsMapArray)) (\<lambda>updatePerms.
     let exportPath = ''/'' @ fs_Name fileSystem in
     or_wrap '''' (GetExportsByFileSystemID_api (nfs_ibox nfs) fileSystemID) (\<lambda>existingExports.
     case find (\<lambda>e. exp_ExportPath e = exportPath) existingExports of
       Some existingExport \<Rightarrow>
         if list_ex (\<lambda>p. list_ex (\<lambda>newP. perm_Client newP = perm_Client p) updatePerms) (exp_Permissions existingExport)
         then return_go nfs
         else or_wrap '''' (UpdateExportPermissions_api (nfs_ibox nfs) existingExport
                  \<lparr>epr_Permissions = exp_Permissions existingExport @ updatePerms\<rparr>) (\<lambda>_.
              return_go (nfs\<lparr>nfs_ExportID := exp_ID existingExport, nfs_ExportBlock := exp_ExportPath existingExport,
                nfs_SnapdirVisible := exp_SnapdirVisible existingExport\<rparr>))
     | None \<Rightarrow>
         or_wrap '''' (CreateExport_api (nfs_ibox nfs) \<lparr>cer_FilesystemID = fileSystemID, cer_Name = '''', cer_TransportProtocols = ''TCP'',
             cer_PrivilegedPort = nfs_UsePrivilegedPorts nfs, cer_ExportPath = exportPath, cer_Permissionsput = permissionsMapArray,
             cer_SnapdirVisible = nfs_SnapdirVisible nfs\<rparr>) (\<lambda>exportResp.
         return_go (nfs\<lparr>nfs_ExportID := exp_ID exportResp, nfs_ExportBlock := exp_ExportPath exportResp\<rparr>))))))"

definition read_only_request :: "CsiNodePublishRequest \<Rightarrow> bool" where
  "read_only_request req \<longleftrightarrow> np_Readonly req \<or> mode_of (np_capability req) = MULTI_NODE_READER_ONLY"

text \<open>\<^verbatim>\<open>[{'access':'RW','client':'<nodeID>','no_root_squash':true}]\<close>\<close>

definition default_export_perms :: "CsiNodePublishRequest \<Rightarrow> string" where
  "default_export_perms req =
     (let q = (\<lambda>s. [CHR 0x27] @ s @ [CHR 0x27])
      in ''[{'' @ q ''access'' @ '':'' @ q (if read_only_request req then ''RO'' else ''RW'') @ '','' @ q ''client'' @ '':'' @
         q (np_context req ''nodeID'') @ '','' @ q ''no_root_squash'' @ '':true}]'')"

definition context_bool :: "CsiNodePublishRequest \<Rightarrow> string \<Rightarrow> bool res" where
  "context_bool req k =
     (let s = np_context req k in
      if s = '''' then Ok False else case ParseBool s of None \<Rightarrow> Err (parse_error s) | Some b \<Rightarrow> Ok b)"

definition host_target :: "CsiNodePublishRequest \<Rightarrow> string" where
  "host_target req =
     (let mountPoint = lookup (np_PublishContext req) ''csiContainerHostMountPoint''
      in (if mountPoint = '''' then DefaultHostMountPoint else mountPoint) @ np_TargetPath req)"

definition ensure_target :: "NodeWorld \<Rightarrow> string \<Rightarrow> unit node_go" where
  "ensure_target w p = then_go (os_stat w p) (\<lambda>st.
     if st = Inl NotExist then or_impl (os_go (os_mkdirall w p)) return_go else return_go ())"

definition source_address :: "CsiNodePublishRequest \<Rightarrow> string" where
  "source_address req = (let dnsName = np_context req ''dnsname'' in if dnsName \<noteq> '''' then dnsName else np_context req ''ipAddress'')"

text \<open>The end of publishing: the address is tried, the export is mounted, and the permissions are set unless the volume is read-only.\<close>

definition mount_nfs :: "NodeWorld \<Rightarrow> string \<Rightarrow> CsiNodePublishRequest \<Rightarrow> unit node_go" where
  "mount_nfs w ep req =
     or_impl (pure_go (GetNFSMountOptions req)) (\<lambda>mountOptions.
     let sourceIP = source_address req; nfsPort = snd (GetNFSVersionPort mountOptions) in
     case Atoi nfsPort of
       None \<Rightarrow> fail_go (impl_error (parse_error nfsPort))
     | Some port \<Rightarrow>
         or_impl (ValidateIPAddress w sourceIP port) (\<lambda>_.
         or_impl (os_go (mounter_mount w (sourceIP @ '':'' @ ep) (np_TargetPath req) ''nfs'' mountOptions)) (\<lambda>_.
         if read_only_request req then return_go () else or_impl (SetVolumePermissions w req) return_go)))"

definition NodePublishVolume_nfs :: "Env \<Rightarrow> NodeWorld \<Rightarrow> NFSstorage \<Rightarrow> CsiNodePublishRequest \<Rightarrow> unit node_go" where
  "NodePublishVolume_nfs E w nfs0 req =
     then_go (remote (GetHostInfo (np_Secrets req) (nfs_ibox nfs0))) (\<lambda>_.
     or_impl (pure_go (context_bool req StorageClassSnapDirVisible)) (\<lambda>snapDir.
     or_impl (pure_go (context_bool req StorageClassPrivPorts)) (\<lambda>privPorts.
     let nfs = nfs0\<lparr>nfs_SnapdirVisible := snapDir, nfs_UsePrivilegedPorts := privPorts\<rparr> in
     then_go (if np_context req StorageClassNFSExportPermissions = ''''
         then or_impl (remote (UpdateExport E nfs (vpc_VolumeID (cs_VolProto (nfs_CS nfs))) (default_export_perms req))) (\<lambda>_. return_go ())
         else return_go ()) (\<lambda>_.
     then_go (ensure_target w (host_target req)) (\<lambda>_.
     mount_nfs w (np_context req ''volPathd'') req)))))"

section \<open>Removing the rule of a node that has unmounted (cleanupnfsperm.go)\<close>

definition isCleanupNFSPermsSet :: "Env \<Rightarrow> bool" where
  "isCleanupNFSPermsSet E = (ParseBool (getenv E EnvVarCleanupNFSPerms) = Some True)"

fun pv_of_handle :: "string \<Rightarrow> KubePV list \<Rightarrow> KubePV option res" where
  "pv_of_handle handle [] = Ok None"
| "pv_of_handle handle (pv # rest) = (case kpv_CSI pv of
     None \<Rightarrow> Crash (GoPanic ''nil pointer dereference: Spec.CSI'')
   | Some csi \<Rightarrow> if kcsi_VolumeHandle csi = handle then Ok (Some pv) else pv_of_handle handle rest)"

text \<open>\<open>GetPVByVolumeID\<close> of \<open>api/clientgo/goclient.go\<close> goes through all PersistentVolumes of the cluster.\<close>

definition GetPVByVolumeID :: "NodeWorld \<Rightarrow> int \<Rightarrow> string \<Rightarrow> KubePV node_go" where
  "GetPVByVolumeID w volumeID protocol =
     then_go (invoke ListPVs (\<lambda>h. n_ListPVs w h)) (\<lambda>pvList.
     then_go (pure_go (pv_of_handle (Itoa volumeID @ ''$$'' @ protocol) pvList)) (\<lambda>found. case found of
       Some pv \<Rightarrow> return_go pv
     | None \<Rightarrow> fail_go (Errors_New ''no PV found for volumeHandle'')))"

definition getPVSecret :: "Env \<Rightarrow> NodeWorld \<Rightarrow> int \<Rightarrow> gomap node_go" where
  "getPVSecret E w volumeID =
     then_go (remote (BuildClient_kube (cluster E))) (\<lambda>_.
     then_go (GetPVByVolumeID w volumeID ProtocolNFS) (\<lambda>persistentVolume.
     case kpv_CSI persistentVolume of
       None \<Rightarrow> panic_go ''nil pointer dereference: Spec.CSI''
     | Some csi \<Rightarrow> (case kcsi_ControllerExpandSecretRef csi of
         None \<Rightarrow> panic_go ''nil pointer dereference: ControllerExpandSecretRef''
       | Some (name, ns) \<Rightarrow> remote (GetSecret_kube (cluster E) name ns))))"

definition isVolumeMounted :: "NodeWorld \<Rightarrow> string \<Rightarrow> bool node_go" where
  "isVolumeMounted w fsName =
     then_go (Command w ''nfsstat -m'' '''') (\<lambda>out.
     then_go (pure_go (StringToLines out)) (\<lambda>lines. return_go (list_ex (\<lambda>v. Contains v fsName) lines)))"

definition zero_permission :: Permissions where
  "zero_permission = \<lparr>perm_Access = '''', perm_NoRootSquash = False, perm_Client = ''''\<rparr>"

text \<open>
  The loop over the exports. An export with one rule is deleted when that is the node's; of several rules the last one of
  the node is taken out. \<open>slices.Delete\<close> works in place and clears the last entry, so the export that is passed on holds
  the shortened list with an empty rule behind it.
\<close>

fun cleanup_exports :: "Client \<Rightarrow> string \<Rightarrow> Export list \<Rightarrow> unit go" where
  "cleanup_exports api nodeIP [] = return_go ()"
| "cleanup_exports api nodeIP (export # rest) = (case last_index (\<lambda>p. perm_Client p = nodeIP) (exp_Permissions export) of
     None \<Rightarrow> cleanup_exports api nodeIP rest
   | Some i \<Rightarrow>
       if length (exp_Permissions export) = 1
       then try_go (DeleteExport_api api (exp_ID export)) (\<lambda>_. return_go ()) (\<lambda>_. cleanup_exports api nodeIP rest)
       else let updatedPerms = removeIndex (exp_Permissions export) i
            in ignore_go (UpdateExportPermissions_api api (export\<lparr>exp_Permissions := updatedPerms @ [zero_permission]\<rparr>)
                 \<lparr>epr_Permissions = updatedPerms\<rparr>) (\<lambda>_. cleanup_exports api nodeIP rest))"

text \<open>Every error goes to the log and ends the clean-up.\<close>

definition cleanupNFSPerms :: "Env \<Rightarrow> NodeWorld \<Rightarrow> int \<Rightarrow> unit node_go" where
  "cleanupNFSPerms E w volumeID =
     try_go
       (then_go (getPVSecret E w volumeID) (\<lambda>secretMap.
        then_go (pure_go (NewClient E secretMap)) (\<lambda>api.
        then_go (remote (GetFileSystemByID_api api volumeID)) (\<lambda>fileSystem.
        then_go (remote (GetExportsByFileSystemID_api api volumeID)) (\<lambda>exports.
        if exports = [] then return_go ()
        else then_go (isVolumeMounted w (fs_Name fileSystem)) (\<lambda>volumeMounted.
        if volumeMounted then return_go ()
        else remote (cleanup_exports api (getenv E EnvVarNodeIP) exports)))))))
       (\<lambda>_. return_go ()) return_go"

definition NodeUnpublishVolume_nfs :: "Env \<Rightarrow> NodeWorld \<Rightarrow> int \<Rightarrow> CsiNodeUnpublishRequest \<Rightarrow> unit node_go" where
  "NodeUnpublishVolume_nfs E w volumeID req =
     or_impl (UnmountAndCleanUp w (nup_TargetPath req)) (\<lambda>_.
     if isCleanupNFSPermsSet E then cleanupNFSPerms E w volumeID else return_go ())"

section \<open>Treeqs (treeqnode.go)\<close>

text \<open>Treeqs of one file system share its export: a rule is made only where there is no export at all.\<close>

definition NodePublishVolume_treeq :: "Env \<Rightarrow> NodeWorld \<Rightarrow> NFSstorage \<Rightarrow> CsiNodePublishRequest \<Rightarrow> unit node_go" where
  "NodePublishVolume_treeq E w nfs0 req =
     then_go (remote (GetHostInfo (np_Secrets req) (nfs_ibox nfs0))) (\<lambda>_.
     or_impl (pure_go (ValidateVolumeID (np_VolumeId req))) (\<lambda>volumeInfo.
     or_impl (pure_go (context_bool req StorageClassSnapDirVisible)) (\<lambda>snapDir.
     or_impl (pure_go (context_bool req StorageClassPrivPorts)) (\<lambda>privPorts.
     let nfs = nfs0\<lparr>nfs_SnapdirVisible := snapDir, nfs_UsePrivilegedPorts := privPorts\<rparr>;
         fileSystemID = vpc_VolumeID volumeInfo; ownPerms = np_context req StorageClassNFSExportPermissions in
     or_impl (remote (GetExportsByFileSystemID_api (nfs_ibox nfs) fileSystemID)) (\<lambda>exports.
     then_go (if exports = []
         then or_impl (remote (UpdateExport E nfs fileSystemID (if ownPerms \<noteq> '''' then ownPerms else default_export_perms req))) (\<lambda>_. return_go ())
         else return_go ()) (\<lambda>_.
     then_go (ensure_target w (host_target req)) (\<lambda>_.
     mount_nfs w (np_context req ''volumePath'') req)))))))"

definition NodeUnpublishVolume_treeq :: "NodeWorld \<Rightarrow> CsiNodeUnpublishRequest \<Rightarrow> unit node_go" where
  "NodeUnpublishVolume_treeq w req = or_impl (UnmountAndCleanUp w (nup_TargetPath req)) return_go"

end
