(* ===== verification/Node_Service.thy ===== *)
theory Node_Service
  imports Nfs_Node
begin

text \<open>
  The CSI node service, \<open>service/node.go\<close>: the checks of a request, the protocol a label of the node asks for, the choice of the
  storage implementation, and the operation. The mutex around an operation and the counters for events are left out.
\<close>

section \<open>The interface StorageOperations on the node\<close>

fun sn_NodeStageVolume :: "NodeWorld \<Rightarrow> StorageController \<Rightarrow> CsiNodeStageRequest \<Rightarrow> unit node_go" where
  "sn_NodeStageVolume w (FCstorage st) req = NodeStageVolume_fc w (st_CS st) req"
| "sn_NodeStageVolume w (ISCSIstorage st) req = NodeStageVolume_iscsi w (st_CS st) req"
| "sn_NodeStageVolume w (NVMEstorage st) req = NodeStageVolume_nvme w (st_CS st) req"
| "sn_NodeStageVolume w (NFScontroller nfs) req = return_go ()"
| "sn_NodeStageVolume w (TreeqController tq) req = return_go ()"

fun sn_NodePublishVolume :: "Env \<Rightarrow> NodeWorld \<Rightarrow> StorageController \<Rightarrow> CsiNodePublishRequest \<Rightarrow> unit node_go" where
  "sn_NodePublishVolume E w (FCstorage st) req = NodePublishVolume_fc E w (st_CS st) req"
| "sn_NodePublishVolume E w (ISCSIstorage st) req = NodePublishVolume_iscsi w (st_CS st) req"
| "sn_NodePublishVolume E w (NVMEstorage st) req = NodePublishVolume_nvme w (st_CS st) req"
| "sn_NodePublishVolume E w (NFScontroller nfs) req = NodePublishVolume_nfs E w nfs req"
| "sn_NodePublishVolume E w (TreeqController tq) req = NodePublishVolume_treeq E w (tqs_NFSstorage tq) req"

text \<open>The treeq implementation has no \<open>NodeExpandVolume\<close> of its own: the call goes to the embedded interface, which is nil.\<close>

fun sn_NodeExpandVolume :: "NodeWorld \<Rightarrow> StorageController \<Rightarrow> CsiNodeExpandRequest \<Rightarrow> unit node_go" where
  "sn_NodeExpandVolume w (FCstorage st) req = NodeExpandVolume_fc w req"
| "sn_NodeExpandVolume w (ISCSIstorage st) req = NodeExpandVolume_iscsi w (st_CS st) req"
| "sn_NodeExpandVolume w (NVMEstorage st) req = NodeExpandVolume_nvme w req"
| "sn_NodeExpandVolume w (NFScontroller nfs) req = return_go ()"
| "sn_NodeExpandVolume w (TreeqController tq) req = panic_go ''nil pointer dereference: NodeServer''"

text \<open>Unpublishing and unstaging have no secrets: the implementation is chosen by the storage type alone and gets a service without
  a client, which these operations do not use.\<close>

definition invalid_protocol :: "string \<Rightarrow> go_error" where
  "invalid_protocol p = Errors_New (''Error: Invalid storage protocol -'' @ p)"

definition known_protocol :: "string \<Rightarrow> bool" where
  "known_protocol p \<longleftrightarrow> p \<in> {ProtocolFC, ProtocolISCSI, ProtocolNVME, ProtocolNFS, ProtocolTreeq}"

definition sn_NodeUnpublishVolume :: "Env \<Rightarrow> NodeWorld \<Rightarrow> VolumeProtocolConfig \<Rightarrow> CsiNodeUnpublishRequest \<Rightarrow> unit node_go" where
  "sn_NodeUnpublishVolume E w volumeInfo req =
     (if vpc_StorageType volumeInfo = ProtocolFC then NodeUnpublishVolume_fc w req
      else if vpc_StorageType volumeInfo = ProtocolISCSI then NodeUnpublishVolume_iscsi w req
      else if vpc_StorageType volumeInfo = ProtocolNVME then NodeUnpublishVolume_nvme w req
      else if vpc_StorageType volumeInfo = ProtocolNFS then NodeUnpublishVolume_nfs E w (vpc_VolumeID volumeInfo) req
      else NodeUnpublishVolume_treeq w req)"

definition sn_NodeUnstageVolume :: "Env \<Rightarrow> NodeWorld \<Rightarrow> VolumeProtocolConfig \<Rightarrow> CsiNodeUnstageRequest \<Rightarrow> unit node_go" where
  "sn_NodeUnstageVolume E w volumeInfo req =
     (if vpc_StorageType volumeInfo = ProtocolFC then NodeUnstageVolume_fc E w (vpc_VolumeID volumeInfo) req
      else if vpc_StorageType volumeInfo = ProtocolISCSI then NodeUnstageVolume_iscsi E w (vpc_VolumeID volumeInfo) req
      else if vpc_StorageType volumeInfo = ProtocolNVME then NodeUnstageVolume_nvme w (vpc_VolumeID volumeInfo) req
      else return_go ())"

section \<open>Steps of the handlers\<close>

text \<open>The volume with the protocol of the node, where a label sets one.\<close>

definition node_volume :: "Env \<Rightarrow> grpc_code \<Rightarrow> string \<Rightarrow> (VolumeProtocolConfig \<times> string) node_go" where
  "node_volume E code volumeId =
     or_status code (''ValidateVolumeID volume ID: '' @ volumeId @ '' error: '') (pure_go (ValidateVolumeID volumeId)) (\<lambda>volumeInfo.
     or_status Internal (''getNodeProtocol volume ID '' @ volumeId @ '' - error: '') (remote (getNodeProtocol E (getenv E EnvVarKubeNodeName)))
       (\<lambda>nodeProtocol. return_go (if nodeProtocol = '''' then volumeInfo else volumeInfo\<lparr>vpc_StorageType := nodeProtocol\<rparr>, nodeProtocol)))"

text \<open>Publishing with a protocol of the node also needs the protocol secret and, for iSCSI and NVMe, its network space.\<close>

definition node_network_space :: "Env \<Rightarrow> string \<Rightarrow> CsiNodePublishRequest \<Rightarrow> CsiNodePublishRequest node_go" where
  "node_network_space E nodeProtocol req =
     (let put_space = (\<lambda>networkSpace. if networkSpace = ''''
            then fail_go (Status_Error InvalidArgument ''error: protocol secret in use, but network space is empty'')
            else case np_VolumeContext req of
              None \<Rightarrow> panic_go ''assignment to entry in nil map''
            | Some ctx \<Rightarrow> return_go (req\<lparr>np_VolumeContext := Some (store ctx StorageClassNetworkSpace networkSpace)\<rparr>)) in
      if nodeProtocol = '''' then return_go req
      else or_status InvalidArgument ''error: could not get protocol secret '' (remote (GetProtocolSecret E)) (\<lambda>(protocolSecret, inUse).
      if \<not> inUse then fail_go (Status_Error InvalidArgument
        ''error: protocol secret not in use, but is required when nodeProtocol label is set on node'')
      else if nodeProtocol = ProtocolISCSI then put_space (lookup protocolSecret ProtocolSecretISCSINetworkSpace)
      else if nodeProtocol = ProtocolNVME then put_space (lookup protocolSecret ProtocolSecretNVMENetworkSpace)
      else return_go req))"

section \<open>The handlers\<close>

definition NodePublishVolume :: "Env \<Rightarrow> NodeWorld \<Rightarrow> Driver \<Rightarrow> CsiNodePublishRequest \<Rightarrow> unit node_go" where
  "NodePublishVolume E w D req =
     (if np_VolumeId req = '''' then fail_go (Status_Error InvalidArgument ''error volumeId parameter was empty'')
      else if np_StagingTargetPath req = '''' then fail_go (Status_Error InvalidArgument ''error stagingTargetPath parameter was empty'')
      else case np_VolumeCapability req of
        None \<Rightarrow> fail_go (Status_Error InvalidArgument ''error volumeCapability parameter was nil'')
      | Some cap \<Rightarrow>
         or_status FailedPrecondition ''validateCapabilities - error '' (pure_go (validateCapabilities (Some [cap]))) (\<lambda>_.
         then_go (node_volume E Internal (np_VolumeId req)) (\<lambda>(volumeInfo, nodeProtocol).
         then_go (node_network_space E nodeProtocol req) (\<lambda>req1.
         or_status InvalidArgument ''validateSecret '' (pure_go (validateSecret (np_VolumeId req) (np_Secrets req))) (\<lambda>_.
         or_status Internal (''NewStorageNode - volume ID: '' @ np_VolumeId req @ '' error: '')
           (pure_go (NewStorageController E [] (np_Secrets req) volumeInfo 0)) (\<lambda>(storageNode, _).
         case np_VolumeContext req1 of
           None \<Rightarrow> panic_go ''assignment to entry in nil map''
         | Some ctx \<Rightarrow>
             or_status Internal (''sn.NodePublishVolume - volume ID: '' @ np_VolumeId req @ '' error: '')
               (sn_NodePublishVolume E w storageNode (req1\<lparr>np_VolumeContext := Some (store ctx ''nodeID'' (drv_nodeID D))\<rparr>)) return_go))))))"

definition NodeUnpublishVolume :: "Env \<Rightarrow> NodeWorld \<Rightarrow> CsiNodeUnpublishRequest \<Rightarrow> unit node_go" where
  "NodeUnpublishVolume E w req =
     (if nup_TargetPath req = '''' then fail_go (Status_Error InvalidArgument ''error targetPath parameter was empty'')
      else if nup_VolumeId req = '''' then fail_go (Status_Error InvalidArgument ''error volumeId parameter was empty'')
      else then_go (node_volume E Internal (nup_VolumeId req)) (\<lambda>(volumeInfo, _).
      if \<not> known_protocol (vpc_StorageType volumeInfo)
      then fail_go (Status_Error Internal (err_text (invalid_protocol (vpc_StorageType volumeInfo))))
      else or_wrap ''NodeUnpublishVolume error '' (sn_NodeUnpublishVolume E w volumeInfo req) return_go))"

definition NodeStageVolume :: "Env \<Rightarrow> NodeWorld \<Rightarrow> CsiNodeStageRequest \<Rightarrow> unit node_go" where
  "NodeStageVolume E w req =
     (if stg_VolumeId req = '''' then fail_go (Status_Error InvalidArgument ''error volumeId parameter was empty'')
      else case stg_VolumeCapability req of
        None \<Rightarrow> fail_go (Status_Error InvalidArgument ''error volumeCapability parameter was nil'')
      | Some cap \<Rightarrow>
         or_status FailedPrecondition ''validateCapabilities - error '' (pure_go (validateCapabilities (Some [cap]))) (\<lambda>_.
         if stg_StagingTargetPath req = '''' then fail_go (Status_Error InvalidArgument ''error stagingTargetPath parameter was empty'')
         else or_status Internal (''ValidateVolumeID - volume ID '' @ stg_VolumeId req @ '' - error: '')
           (pure_go (ValidateVolumeID (stg_VolumeId req))) (\<lambda>_.
         or_status InvalidArgument ''validateSecret error '' (pure_go (validateSecret (stg_VolumeId req) (stg_Secrets req))) (\<lambda>_.
         then_go (node_volume E Internal (stg_VolumeId req)) (\<lambda>(volumeInfo, _).
         or_status Internal (''NewStorageNode volume ID '' @ stg_VolumeId req @ '' - error: '')
           (pure_go (NewStorageController E [] (stg_Secrets req) volumeInfo 0)) (\<lambda>(storageNode, _).
         or_status Internal (''sn.NodeStageVolume volume ID '' @ stg_VolumeId req @ '' - error: '')
           (sn_NodeStageVolume w storageNode req) return_go)))))) "

definition NodeUnstageVolume :: "Env \<Rightarrow> NodeWorld \<Rightarrow> CsiNodeUnstageRequest \<Rightarrow> unit node_go" where
  "NodeUnstageVolume E w req =
     (if nus_VolumeId req = '''' then fail_go (Status_Error InvalidArgument ''error volumeId parameter was empty'')
      else if nus_StagingTargetPath req = '''' then fail_go (Status_Error InvalidArgument ''error stagingTargetPath parameter was empty'')
      else then_go (node_volume E Internal (nus_VolumeId req)) (\<lambda>(volumeInfo, _).
      if \<not> known_protocol (vpc_StorageType volumeInfo)
      then fail_go (Status_Error Internal (err_text (invalid_protocol (vpc_StorageType volumeInfo))))
      else or_status Internal (''po.NodeUnstageVolume volume ID: '' @ nus_VolumeId req @ '' - error: '')
        (sn_NodeUnstageVolume E w volumeInfo req) return_go))"

definition NodeExpandVolume :: "Env \<Rightarrow> NodeWorld \<Rightarrow> CsiNodeExpandRequest \<Rightarrow> unit node_go" where
  "NodeExpandVolume E w req =
     (if nex_VolumeId req = '''' then fail_go (Status_Error InvalidArgument ''error volumeId parameter was empty'')
      else then_go (node_volume E InvalidArgument (nex_VolumeId req)) (\<lambda>(volumeInfo, _).
      or_status InvalidArgument ''validateSecret error '' (pure_go (validateSecret (nex_VolumeId req) (nex_Secrets req))) (\<lambda>_.
      or_status Internal (''NewStorageNode volume ID: '' @ nex_VolumeId req @ '' - error: '')
        (pure_go (NewStorageController E [] (nex_Secrets req) volumeInfo 0)) (\<lambda>(storageNode, _).
      or_status Internal (''sn.NodeExpandVolume volume ID: '' @ nex_VolumeId req @ '' - error: '')
        (sn_NodeExpandVolume w storageNode req) return_go))))"

text \<open>The usage of a volume; a quantity that does not fit 64 bits has no value.\<close>

definition stats_usage :: "FsStats \<Rightarrow> ((int64 \<times> int64 \<times> int64) \<times> (int64 \<times> int64 \<times> int64)) res" where
  "stats_usage m = (case (fst_Available m, fst_Capacity m, fst_Used m, fst_InodesFree m, fst_Inodes m, fst_InodesUsed m) of
     (Some available, Some capacity, Some used, Some inodesFree, Some inodes, Some inodesUsed) \<Rightarrow>
       Ok ((available, capacity, used), (inodesFree, inodes, inodesUsed))
   | _ \<Rightarrow> Err (Status_Error Internal ''failed to transform volume size''))"

definition NodeGetVolumeStats :: "NodeWorld \<Rightarrow> string \<Rightarrow> string \<Rightarrow> ((int64 \<times> int64 \<times> int64) \<times> (int64 \<times> int64 \<times> int64)) node_go" where
  "NodeGetVolumeStats w volumeID volumePath0 =
     (let volumePath = ''/host'' @ volumePath0 in
      if volumeID = '''' then fail_go (Status_Error InvalidArgument ''NodeGetVolumeStatus - volumeID empty'')
      else then_go (os_lstat w volumePath) (\<lambda>st. case st of
          Inl NotExist \<Rightarrow> fail_go (Status_Error NotFound (''path does not exist '' @ volumePath))
        | Inl e \<Rightarrow> fail_go (Status_Error Internal (''failed to stat file '' @ volumePath @ os_text e))
        | Inr _ \<Rightarrow> or_status Internal ''failed to get metrics '' (os_go (stat_fs w volumePath)) (\<lambda>m. pure_go (stats_usage m))))"

section \<open>The identity of the node\<close>

definition UNKNOWN :: string where
  "UNKNOWN = ''unknown''"

definition getNodeFQDN :: "Env \<Rightarrow> NodeWorld \<Rightarrow> string node_go" where
  "getNodeFQDN E w =
     (let finish = (\<lambda>out. return_go (TrimSuffix (if out = '''' then UNKNOWN else out) newline)) in
      if getenv E ''IBOX_HOST_NAMING_CONVENTION'' = ''nodename'' then return_go (getenv E EnvVarKubeNodeName)
      else try_go (bash_output w ''hostname -f'')
        (\<lambda>_. try_go (bash_output w ''echo $HOSTNAME'') (\<lambda>_. return_go UNKNOWN) finish) finish)"

definition NodeGetInfo :: "Env \<Rightarrow> NodeWorld \<Rightarrow> Driver \<Rightarrow> (string \<times> gomap) node_go" where
  "NodeGetInfo E w D = then_go (getNodeFQDN E w) (\<lambda>nodeFQDN.
     return_go (nodeFQDN @ ''$$'' @ drv_nodeID D, [(''topology.csi.infinidat.com/zone'', ''true'')]))"

end
