(* ===== verification/Node_Sample.thy ===== *)
theory Node_Sample
  imports Node_Service
begin

text \<open>
  A node on which everything works, for the examples: one SCSI disk behind a multipath map, one Fibre Channel port, one NVMe device. Files
  keep what was written to them; a command answers by what its text contains.
\<close>

definition command_outputs :: "(string \<times> string) list" where
  "command_outputs =
     [(''/device/state'', ''running''), (''/device/wwid'', ''naa.6742''), (''show maps raw'', ''mpatha_dm-3_''),
      (''show paths raw'', ''mpatha_sda_''), (''-m host -P0'', ''tcp: [34] 10.0.0.9''), (''--mode session'', ''''),
      (''InitiatorName='', ''InitiatorName=iqn.node''),
      (''nvme list'', ''Node Namespace'' @ newline @ ''---- ---------'' @ newline @ ''/dev/nvme0n1 0xb'')]"

definition command_output :: "string \<Rightarrow> string" where
  "command_output cmd = (case find (\<lambda>(needle, out). Contains cmd needle) command_outputs of None \<Rightarrow> '''' | Some (_, out) \<Rightarrow> out)"

definition is_write_to :: "string \<Rightarrow> nevent \<Rightarrow> bool" where
  "is_write_to p e = (case e of Host (H_Write q s) \<Rightarrow> q = p | _ \<Rightarrow> False)"

definition written :: "nevent list \<Rightarrow> string \<Rightarrow> string option" where
  "written h p = (case find (is_write_to p) (rev h) of Some (Host (H_Write q s)) \<Rightarrow> Some s | _ \<Rightarrow> None)"

definition node_file :: "string \<Rightarrow> os_error + string" where
  "node_file p =
     (if Contains p ''/port_name'' then Inr ''0x5001''
      else if Contains p ''/port_state'' then Inr ''Online''
      else if p = ''/proc/mounts'' then Inr (''/dev/sdz /other xfs'' @ newline @ ''/dev/mapper/mpatha /var/lib/pv-1/globalmount xfs'')
      else if p = ''/host/etc/nvme/hostnqn'' then Inr ''nqn.node''
      else Inl NotExist)"

definition healthy_node :: NodeWorld where
  "healthy_node = \<lparr>
     n_Exec = (\<lambda>h prog args. Exited 0 (command_output (last args))),
     n_Glob = (\<lambda>h p. Inr (if Contains p ''holders'' then replicate 6 ''x'' else if Contains p ''fc_host'' then [''/sys/class/fc_host/host34'']
        else [''/sys/class/scsi_disk/34:0:0:11''])),
     n_ReadDir = (\<lambda>h p. Inr (if Contains p ''by-id'' then [''scsi-36742''] else [''sda''])),
     n_Readdirnames = (\<lambda>h p. Inr None),
     n_ReadFile = (\<lambda>h p. case written h p of Some s \<Rightarrow> Inr s | None \<Rightarrow> node_file p),
     n_Stat = (\<lambda>h p. Inr True), n_Lstat = (\<lambda>h p. Inr True),
     n_EvalSymlinks = (\<lambda>h p. Inr (if Contains p ''by-id'' then ''/host/dev/dm-3'' else ''/sys/devices/host34/34:0:0:11'')),
     n_Create = (\<lambda>h p. Inr ()), n_Write = (\<lambda>h p s. Inr ()), n_Remove = (\<lambda>h p. Inr ()), n_RemoveAll = (\<lambda>h p. Inr ()),
     n_MkdirAll = (\<lambda>h p. Inr ()), n_Chown = (\<lambda>h p u g. Inr ()), n_Chmod = (\<lambda>h p m. Inr ()),
     n_MountList = (\<lambda>h. Inr []), n_Unmount = (\<lambda>h p. Inr ()), n_Mount = (\<lambda>h s p t opts. Inr ()),
     n_FormatAndMount = (\<lambda>h d p t opts. Inr ()), n_Dial = (\<lambda>h a. Inr ()),
     n_StatFS = (\<lambda>h p. Inr \<lparr>fst_Available = Some 1, fst_Capacity = Some 2, fst_Used = Some 1, fst_InodesFree = Some 1, fst_Inodes = Some 2, fst_InodesUsed = Some 1\<rparr>),
     n_ListPVs = (\<lambda>h. Inr []),
     n_json_DiskInfo = di_MpathDevice,
     n_decode_DiskInfo = (\<lambda>s conf. Inr (conf\<lparr>di_MpathDevice := s\<rparr>)),
     n_decode_multipath = (\<lambda>out. Inr [[''sda'']])\<rparr>"

definition node_capability :: VolumeCapability where
  "node_capability = \<lparr>cap_AccessMode = Some SINGLE_NODE_WRITER, cap_AccessType = MountAccess ''xfs'' [''noatime'']\<rparr>"

definition node_publish :: "string \<Rightarrow> CsiNodePublishRequest" where
  "node_publish proto = \<lparr>np_VolumeId = ''70001$$'' @ proto, np_PublishContext = [(''lun'', ''11''), (HostIDPublishContext, ''5'')],
     np_StagingTargetPath = ''/var/lib/pv-1/globalmount'', np_TargetPath = ''/var/lib/pods/p/mount'', np_VolumeCapability = Some node_capability,
     np_Readonly = False, np_Secrets = sample_secrets, np_VolumeContext = Some [(StorageClassUseCHAP, ''none''), (StorageClassNetworkSpace, ''san'')]\<rparr>"

definition node_stage :: "string \<Rightarrow> CsiNodeStageRequest" where
  "node_stage proto = \<lparr>stg_VolumeId = ''70001$$'' @ proto, stg_PublishContext = [(''lun'', ''11''), (HostIDPublishContext, ''5'')],
     stg_StagingTargetPath = ''/var/lib/pv-1/globalmount'', stg_VolumeCapability = Some node_capability, stg_Secrets = sample_secrets,
     stg_VolumeContext = [(StorageClassUseCHAP, ''none'')]\<rparr>"

definition node_unstage :: "string \<Rightarrow> CsiNodeUnstageRequest" where
  "node_unstage proto = \<lparr>nus_VolumeId = ''70001$$'' @ proto, nus_StagingTargetPath = ''/var/lib/pv-1/globalmount''\<rparr>"

definition node_driver :: Driver where
  "node_driver = \<lparr>drv_nodeID = ''10.0.0.9'', drv_version = ''''\<rparr>"

definition node_ibox :: Client where
  "node_ibox = stocked_ibox\<lparr>r_AddHostPort := (\<lambda>h t a i. Inr ()),
     r_GetFCPorts := (\<lambda>h. Inr [\<lparr>fcn_Ports = [\<lparr>fcp_PortID = 1, fcp_State = ''UP'', fcp_Enabled = True, fcp_WWNn = ''57:42'', fcp_WWPn = ''57:42:b0'',
        fcp_SwitchWWNn = '''', fcp_Vendor = '''', fcp_SwitchVendor = ''''\<rparr>]\<rparr>])\<rparr>"

definition node_env :: Env where
  "node_env = stocked_env\<lparr>dial := (\<lambda>creds. node_ibox)\<rparr>"

text \<open>A host for short examples: every command succeeds without output, nothing is mounted, the volume was staged with the map \<open>mpatha\<close>, whose
  only path is the disk \<open>sda\<close>.\<close>

definition quiet_node :: NodeWorld where
  "quiet_node = healthy_node\<lparr>n_Exec := (\<lambda>h prog args. Exited 0 ''''), n_ReadFile := (\<lambda>h p. Inr ''mpatha''),
     n_Glob := (\<lambda>h p. Inr [''/sys/class/scsi_disk/34:0:0:11'']), n_EvalSymlinks := (\<lambda>h p. Inr ''/sys/devices/34:0:0:11'')\<rparr>"

end
