(* ===== verification/Go_Rules.thy ===== *)
theory Go_Rules
  imports Node_World
begin

text \<open>
  Rules for what a program may do once something has been seen. An \<^emph>\<open>evidence\<close> is a predicate on an event and the history before it
  (``the host answered this listing with nothing''); it has been \<^emph>\<open>seen\<close> when some earlier event satisfies it. A program may keep to a
  rule only under what has been seen before it started; a step that establishes the evidence opens the way for the steps behind it.
\<close>

named_theorems under_intros \<open>programs that keep to a rule under a fact about their history\<close>
named_theorems stable_intros \<open>facts that a longer history keeps\<close>

section \<open>Evidence\<close>

fun some_call :: "('c list \<Rightarrow> 'c \<Rightarrow> bool) \<Rightarrow> 'c list \<Rightarrow> 'c list \<Rightarrow> bool" where
  "some_call P h [] = False"
| "some_call P h (c # t) = (P h c \<or> some_call P (h @ [c]) t)"

definition seen :: "('c list \<Rightarrow> 'c \<Rightarrow> bool) \<Rightarrow> 'c list \<Rightarrow> bool" where
  "seen P h = some_call P [] h"

lemma some_call_append [simp]: "some_call P h (s @ t) \<longleftrightarrow> some_call P h s \<or> some_call P (h @ s) t"
  by (induction s arbitrary: h) auto

lemma seen_append [simp]: "seen P (h @ t) \<longleftrightarrow> seen P h \<or> some_call P h t"
  by (simp add: seen_def)

lemma some_callD: "some_call P h t \<Longrightarrow> \<exists>a c b. t = a @ c # b \<and> P (h @ a) c"
proof (induction t arbitrary: h)
  case Nil
  then show ?case by simp
next
  case (Cons c t)
  show ?case
  proof (cases "P h c")
    case True
    then show ?thesis by (intro exI [of _ "[]"]) auto
  next
    case False
    with Cons.prems have "some_call P (h @ [c]) t" by simp
    from Cons.IH [OF this] obtain a d b where "t = a @ d # b" "P ((h @ [c]) @ a) d" by blast
    then show ?thesis by (intro exI [of _ "c # a"]) auto
  qed
qed

lemma seenD: "seen P h \<Longrightarrow> \<exists>a c b. h = a @ c # b \<and> P a c"
  unfolding seen_def by (drule some_callD) simp

definition stable :: "('c list \<Rightarrow> bool) \<Rightarrow> bool" where
  "stable F \<longleftrightarrow> (\<forall>h t. F h \<longrightarrow> F (h @ t))"

lemma stable_facts [stable_intros]:
  shows "stable (seen P)" and "stable (\<lambda>h. seen P h)" and "stable (\<lambda>h. True)" and "stable (\<lambda>h. b)"
  by (simp_all add: stable_def)

lemma stable_conj [stable_intros]: "stable F \<Longrightarrow> stable G \<Longrightarrow> stable (\<lambda>h. F h \<and> G h)"
  by (simp add: stable_def)

section \<open>Programs under a fact\<close>

definition under :: "('c list \<Rightarrow> bool) \<Rightarrow> ('c list \<Rightarrow> 'c \<Rightarrow> bool) \<Rightarrow> ('c, 'a) prog \<Rightarrow> bool" where
  "under F Q m \<longleftrightarrow> (\<forall>h. F h \<longrightarrow> wp m h (\<lambda>r t. each_call Q h t))"

lemma under_True: "under (\<lambda>h. True) Q m = allows Q m"
  by (simp add: under_def allows_def)

lemma under_weaken: "allows Q m \<Longrightarrow> under F Q m"
  by (simp add: under_def allows_def)

lemma under_mono: "under G Q m \<Longrightarrow> (\<And>h. F h \<Longrightarrow> G h) \<Longrightarrow> under F Q m"
  by (simp add: under_def)

lemma each_call_mono: "each_call P h t \<Longrightarrow> (\<And>g e. P g e \<Longrightarrow> Q g e) \<Longrightarrow> each_call Q h t"
  by (induction t arbitrary: h) auto

lemma under_rule: "(\<And>g e. P g e \<Longrightarrow> Q g e) \<Longrightarrow> under F P m \<Longrightarrow> under F Q m"
  unfolding under_def wp_def by (metis each_call_mono)

lemma under_False: "(\<And>h. \<not> F h) \<Longrightarrow> under F Q m"
  by (simp add: under_def)

lemma underD: "under F Q m \<Longrightarrow> F h \<Longrightarrow> each_call Q h (calls_of (m h))"
  by (simp add: under_def wp_def)

lemma under_basic [under_intros]:
  shows "under F Q (return_go a)" and "under F Q (fail_go e)" and "under F Q (panic_go s)" and "under F Q (pure_go r)"
  by (simp_all add: under_def wp_simps)

lemma under_host [under_intros]: "(\<And>h. F h \<Longrightarrow> Q h (Host c)) \<Longrightarrow> under F Q (on_host c f)"
  by (simp add: under_def wp_host)

lemma each_call_stable:
  "F h \<Longrightarrow> \<forall>c \<in> set t. P c \<Longrightarrow> (\<And>h c. F h \<Longrightarrow> P c \<Longrightarrow> Q h c) \<Longrightarrow> stable F \<Longrightarrow> each_call Q h t"
  by (induction t arbitrary: h) (auto simp: stable_def)

lemma under_only: "only P m \<Longrightarrow> (\<And>h c. F h \<Longrightarrow> P c \<Longrightarrow> Q h c) \<Longrightarrow> stable F \<Longrightarrow> under F Q m"
  unfolding under_def wp_def only_def by (blast intro: each_call_stable [where P = P])

text \<open>The step \<open>m\<close> may establish a fact \<open>G\<close> for what follows it: \<open>gate\<close>.\<close>

lemma gate_try:
  assumes "under F Q m"
    and "\<And>h a t. F h \<Longrightarrow> m h = (Ok a, t) \<Longrightarrow> G a (h @ t)" and "\<And>a. under (G a) Q (k a)"
    and "\<And>h e t. F h \<Longrightarrow> m h = (Err e, t) \<Longrightarrow> H e (h @ t)" and "\<And>e. under (H e) Q (f e)"
  shows "under F Q (try_go m f k)"
  unfolding under_def
proof (intro allI impI)
  fix h
  assume F: "F h"
  obtain r t where m: "m h = (r, t)" by fastforce
  have t: "each_call Q h t" using underD [OF assms(1) F] m by (simp add: calls_of_def)
  show "wp (try_go m f k) h (\<lambda>r t. each_call Q h t)"
  proof (cases r)
    case (Ok a)
    with assms(2) [OF F] m have "G a (h @ t)" by simp
    with underD [OF assms(3), of a "h @ t"] t m Ok show ?thesis
      by (auto simp: wp_def run_try calls_of_def split: prod.splits)
  next
    case (Err e)
    with assms(4) [OF F] m have "H e (h @ t)" by simp
    with underD [OF assms(5), of e "h @ t"] t m Err show ?thesis
      by (auto simp: wp_def run_try calls_of_def split: prod.splits)
  next
    case (Crash x)
    with t m show ?thesis by (simp add: wp_def run_try calls_of_def)
  qed
qed

lemma under_try [under_intros]:
  "stable F \<Longrightarrow> under F Q m \<Longrightarrow> (\<And>e. under F Q (f e)) \<Longrightarrow> (\<And>a. under F Q (k a)) \<Longrightarrow> under F Q (try_go m f k)"
  by (rule gate_try [where G = "\<lambda>_. F" and H = "\<lambda>_. F"]) (auto simp: stable_def)

lemma gate_then:
  assumes "under F Q m" and "\<And>h a t. F h \<Longrightarrow> m h = (Ok a, t) \<Longrightarrow> G a (h @ t)" and "\<And>a. under (G a) Q (k a)"
  shows "under F Q (then_go m k)"
  unfolding then_go_def by (rule gate_try [OF assms, where H = "\<lambda>_ _. True"]) (auto intro: under_basic)

lemma under_then [under_intros]: "stable F \<Longrightarrow> under F Q m \<Longrightarrow> (\<And>a. under F Q (k a)) \<Longrightarrow> under F Q (then_go m k)"
  unfolding then_go_def by (intro under_try under_basic)

lemma under_ignore [under_intros]: "stable F \<Longrightarrow> under F Q m \<Longrightarrow> (\<And>x. under F Q (k x)) \<Longrightarrow> under F Q (ignore_go m k)"
  unfolding ignore_go_def by (intro under_try)

lemma gate_or:
  assumes "under F Q m" and "\<And>h a t. F h \<Longrightarrow> m h = (Ok a, t) \<Longrightarrow> G a (h @ t)" and "\<And>a. under (G a) Q (k a)"
  shows gate_or_impl: "under F Q (or_impl m k)" and gate_or_status: "under F Q (or_status c s m k)" and gate_or_wrap: "under F Q (or_wrap s m k)"
  unfolding go_error_defs by (rule gate_try [OF assms, where H = "\<lambda>_ _. True"]; auto intro: under_basic)+

lemma under_or [under_intros]:
  assumes "stable F" and "under F Q m" and "\<And>a. under F Q (k a)"
  shows under_or_impl: "under F Q (or_impl m k)" and under_or_status: "under F Q (or_status c s m k)" and under_or_wrap: "under F Q (or_wrap s m k)"
  unfolding go_error_defs using assms by (auto intro: under_intros)

lemma under_pure:
  assumes "\<And>a. r = Ok a \<Longrightarrow> under F Q (k a)"
  shows pure_then: "under F Q (then_go (pure_go r) k)" and pure_or_impl: "under F Q (or_impl (pure_go r) k)"
    and pure_or_status: "under F Q (or_status c s (pure_go r) k)" and pure_or_wrap: "under F Q (or_wrap s (pure_go r) k)"
  using assms by (cases r; auto simp: under_def wp_simps go_error_defs)+

lemma under_os_go [under_intros]: "under F Q m \<Longrightarrow> under F Q (os_go m)"
  unfolding os_go_def then_go_def
  by (rule gate_try [where G = "\<lambda>_ _. True" and H = "\<lambda>_ _. True"]) (auto intro: under_basic split: sum.splits)

lemma under_branches [under_intros]:
  shows "(b \<Longrightarrow> under F Q m) \<Longrightarrow> (\<not> b \<Longrightarrow> under F Q n) \<Longrightarrow> under F Q (if b then m else n)"
    and "(x = None \<Longrightarrow> under F Q m) \<Longrightarrow> (\<And>a. x = Some a \<Longrightarrow> under F Q (k a)) \<Longrightarrow> under F Q (case x of None \<Rightarrow> m | Some a \<Rightarrow> k a)"
    and "(\<And>e. y = Inl e \<Longrightarrow> under F Q (f e)) \<Longrightarrow> (\<And>a. y = Inr a \<Longrightarrow> under F Q (g a)) \<Longrightarrow> under F Q (case y of Inl e \<Rightarrow> f e | Inr a \<Rightarrow> g a)"
    and "(\<And>u v. z = (u, v) \<Longrightarrow> under F Q (p u v)) \<Longrightarrow> under F Q (case z of (u, v) \<Rightarrow> p u v)"
    and "(xs = [] \<Longrightarrow> under F Q m) \<Longrightarrow> (\<And>y ys. xs = y # ys \<Longrightarrow> under F Q (l y ys)) \<Longrightarrow> under F Q (case xs of [] \<Rightarrow> m | y # ys \<Rightarrow> l y ys)"
  by (auto split: option.splits sum.splits prod.splits list.splits)

lemma under_map [under_intros]: "stable F \<Longrightarrow> (\<And>x. x \<in> set xs \<Longrightarrow> under F Q (f x)) \<Longrightarrow> under F Q (map_go f xs)"
  by (induction xs) (auto intro!: under_basic under_then)

text \<open>A test whose positive (or negative) answer is evidence.\<close>

lemma under_tested:
  shows "(b \<Longrightarrow> under (\<lambda>h. F h \<and> E h) Q m) \<Longrightarrow> (\<not> b \<Longrightarrow> under F Q n) \<Longrightarrow> under (\<lambda>h. F h \<and> (b \<longrightarrow> E h)) Q (if b then m else n)"
    and "(\<not> b \<Longrightarrow> under F Q m) \<Longrightarrow> (b \<Longrightarrow> under (\<lambda>h. F h \<and> E h) Q n) \<Longrightarrow> under (\<lambda>h. F h \<and> (b \<longrightarrow> E h)) Q (if \<not> b then m else n)"
    and "(b \<Longrightarrow> under F Q m) \<Longrightarrow> (\<not> b \<Longrightarrow> under (\<lambda>h. F h \<and> E h) Q n) \<Longrightarrow> under (\<lambda>h. F h \<and> (\<not> b \<longrightarrow> E h)) Q (if b then m else n)"
  by (cases b; simp)+

lemma gate_test:
  assumes "stable F" and "under F Q m" and "\<And>h b t. m h = (Ok b, t) \<Longrightarrow> T b \<Longrightarrow> E (h @ t)"
    and "\<And>b. under (\<lambda>h. F h \<and> (T b \<longrightarrow> E h)) Q (k b)"
  shows test_then: "under F Q (then_go m k)" and test_or_impl: "under F Q (or_impl m k)"
    and test_or_wrap: "under F Q (or_wrap s m k)" and test_or_status: "under F Q (or_status c s m k)"
proof -
  have fact: "F h \<Longrightarrow> m h = (Ok b, t) \<Longrightarrow> F (h @ t) \<and> (T b \<longrightarrow> E (h @ t))" for h b t
    using assms(1,3) by (auto simp: stable_def)
  show "under F Q (then_go m k)" by (rule gate_then [OF assms(2) fact assms(4)])
  show "under F Q (or_impl m k)" by (rule gate_or_impl [OF assms(2) fact assms(4)])
  show "under F Q (or_wrap s m k)" by (rule gate_or_wrap [OF assms(2) fact assms(4)])
  show "under F Q (or_status c s m k)" by (rule gate_or_status [OF assms(2) fact assms(4)])
qed

end
