(* ===== verification/Node_Props.thy ===== *)
theory Node_Props
  imports Node_Sample Go_Rules
begin

text \<open>
  What the node service does to its host: unmounting keeps data that may belong to a volume; the paths of a disk are deleted only
  after the multipath map was flushed; staging adds only ports that are missing; sessions are closed only when no device is
  left; and requests are checked before anything is touched.
\<close>

section \<open>Unmounting\<close>

definition not_mounted :: "NodeWorld \<Rightarrow> string \<Rightarrow> nevent list \<Rightarrow> nevent \<Rightarrow> bool" where
  "not_mounted w p g e \<longleftrightarrow> e = Host H_MountList \<and> (\<exists>ms. n_MountList w g = Inr ms \<and> p \<notin> mp_Path ` set ms)"

definition empty_directory :: "NodeWorld \<Rightarrow> string \<Rightarrow> nevent list \<Rightarrow> nevent \<Rightarrow> bool" where
  "empty_directory w p g e \<longleftrightarrow> e = Host (H_Readdirnames p) \<and> n_Readdirnames w g p = Inr None"

definition plain_file :: "NodeWorld \<Rightarrow> string \<Rightarrow> nevent list \<Rightarrow> nevent \<Rightarrow> bool" where
  "plain_file w p g e \<longleftrightarrow> e = Host (H_Stat p) \<and> n_Stat w g p = Inr False"

text \<open>The mount point, the file \<open>vol_data.json\<close> beside it and the directory of both.\<close>

definition removable :: "string \<Rightarrow> string set" where
  "removable p = {p, TrimSuffix p ''/mount'', path_Join (TrimSuffix p ''/mount'') ''vol_data.json''}"

text \<open>
  What may be removed when the volume at \<open>p\<close> is unmounted: only the mount point and what belongs to it, only after the list of mounts was
  read and did not hold \<open>p\<close>, and only where \<open>p\<close> was seen to be an empty directory, or is a plain file. Nothing is removed
  recursively and nothing is mounted.
\<close>

definition unmount_rule :: "NodeWorld \<Rightarrow> string \<Rightarrow> nevent list \<Rightarrow> nevent \<Rightarrow> bool" where
  "unmount_rule w p g e = (case e of
     Host (H_Remove q) \<Rightarrow> q \<in> removable p \<and> seen (not_mounted w p) g \<and>
        (seen (empty_directory w p) g \<or> q = p \<and> seen (plain_file w p) g)
   | Host (H_RemoveAll q) \<Rightarrow> False
   | Host (H_Mount s q t opts) \<Rightarrow> False
   | Host (H_FormatAndMount s q t opts) \<Rightarrow> False
   | _ \<Rightarrow> True)"

lemma isMounted_evidence:
  "isMountedByListMethod w p h = (Ok b, t) \<Longrightarrow> b \<or> seen (not_mounted w p) (h @ t)"
  by (auto simp: isMountedByListMethod_def mounter_list_def os_go_def go_run not_mounted_def list_ex_iff split: go_splits)

lemma IsDirEmpty_evidence: "IsDirEmpty w p h = (Ok True, t) \<Longrightarrow> seen (empty_directory w p) (h @ t)"
  by (auto simp: IsDirEmpty_def os_readdirnames_def os_go_def go_run empty_directory_def split: go_splits)

lemma IsDirectory_evidence: "IsDirectory w p h = (Ok b, t) \<Longrightarrow> b \<or> seen (plain_file w p) (h @ t)"
  by (auto simp: IsDirectory_def os_stat_def os_go_def go_run plain_file_def split: go_splits)

lemma stable_or [stable_intros]: "stable F \<Longrightarrow> stable (\<lambda>h. b \<or> F h)"
  by (auto simp: stable_def)

lemma remove_if_there_under:
  assumes "\<And>h. F h \<Longrightarrow> Q h (Host (H_Remove q))" and "\<And>h. Q h (Host (H_Stat q))" and "stable F"
  shows "under F Q (remove_if_there w q)"
  unfolding remove_if_there_def os_stat_def os_remove_def by (intro under_intros assms)

lemma cleanup_rule: "under (seen (not_mounted w p)) (unmount_rule w p) (cleanupOldMountDirectory w p)"
proof -
  let ?E = "\<lambda>h. seen (not_mounted w p) h \<and> seen (empty_directory w p) h"
  have remove: "under ?E (unmount_rule w p) (remove_if_there w q)" if "q \<in> removable p" for q
    using that by (intro remove_if_there_under stable_intros) (auto simp: unmount_rule_def)
  have test: "under F (unmount_rule w p) (IsDirEmpty w p)" if "stable F" for F
    unfolding IsDirEmpty_def os_readdirnames_def by (intro under_intros that) (simp add: unmount_rule_def)
  show ?thesis
    unfolding cleanupOldMountDirectory_def Let_def
    by (intro test_or_wrap [where T = "\<lambda>b. b" and E = "seen (empty_directory w p)"] under_tested under_intros stable_intros test remove)
      (auto simp: removable_def dest: IsDirEmpty_evidence)
qed

lemma unmount_allows: "allows (unmount_rule w (path_Join ''/host'' target)) (UnmountAndCleanUp w target)"
proof -
  define p where "p = path_Join ''/host'' target"
  let ?Q = "unmount_rule w p" and ?M = "seen (not_mounted w p)"
  have unmount: "under F ?Q (mounter_unmount w target)" and stat: "under F ?Q (os_stat w p)" for F
    unfolding mounter_unmount_def os_stat_def by (intro under_intros, simp add: unmount_rule_def)+
  have list: "under F ?Q (isMountedByListMethod w p)" and dir: "under F ?Q (IsDirectory w p)" if "stable F" for F
    unfolding isMountedByListMethod_def IsDirectory_def mounter_list_def os_stat_def
    by (intro under_intros that, simp add: unmount_rule_def)+
  have remove: "under (\<lambda>h. ?M h \<and> seen (plain_file w p) h) ?Q (os_go (os_remove w p))"
    unfolding os_remove_def by (intro under_intros) (auto simp: unmount_rule_def removable_def)
  have last: "under ?M ?Q (or_wrap s (IsDirectory w p) (\<lambda>isADir.
      if isADir then or_wrap s1 (cleanupOldMountDirectory w p) return_go else or_wrap s2 (os_go (os_remove w p)) return_go))" for s s1 s2
    by (intro test_or_wrap [where T = "\<lambda>b. \<not> b" and E = "seen (plain_file w p)"] under_tested under_intros stable_intros dir remove cleanup_rule)
      (auto dest: IsDirectory_evidence)
  have rest: "under (\<lambda>h. True \<and> ?M h) ?Q (then_go (os_stat w p) (\<lambda>st. if st = Inl NotExist then return_go () else
      or_wrap s (IsDirectory w p) (\<lambda>isADir.
        if isADir then or_wrap s1 (cleanupOldMountDirectory w p) return_go else or_wrap s2 (os_go (os_remove w p)) return_go)))" for s s1 s2
    by (simp, intro under_intros stable_intros stat last)
  show ?thesis
    unfolding UnmountAndCleanUp_def Let_def p_def [symmetric] under_True [symmetric]
    by (intro under_then [OF stable_facts(3) unmount] test_or_wrap [where T = "\<lambda>b. \<not> b" and E = ?M, OF stable_facts(3) list] under_tested rest under_basic)
      (auto intro: stable_facts dest: isMounted_evidence)
qed

section \<open>Unpublishing, for every protocol\<close>

text \<open>An unpublish operation unmounts the target and then does nothing that touches files or mounts.\<close>

definition leaves_files :: "nevent \<Rightarrow> bool" where
  "leaves_files e = (case e of Host (H_Exec prog args) \<Rightarrow> True | Host c \<Rightarrow> False | _ \<Rightarrow> True)"

lemma leaves_files_rule: "leaves_files e \<Longrightarrow> unmount_rule w p g e"
  by (auto simp: leaves_files_def unmount_rule_def split: nevent.splits host_call.splits)

locale unmounting =
  fixes w :: NodeWorld and unpublish :: "CsiNodeUnpublishRequest \<Rightarrow> unit node_go" and rest :: "CsiNodeUnpublishRequest \<Rightarrow> unit node_go"
  assumes unmounts: "unpublish req = or_impl (UnmountAndCleanUp w (nup_TargetPath req)) (\<lambda>_. rest req)"
    and rest_quiet: "only leaves_files (rest req)"
begin

lemma removes_safely: "allows (unmount_rule w (path_Join ''/host'' (nup_TargetPath req))) (unpublish req)"
  unfolding unmounts by (intro allows_intros unmount_allows allows_only [OF rest_quiet] leaves_files_rule)

end

lemma cleanup_quiet: "only leaves_files (cleanupNFSPerms E w i)"
  unfolding cleanupNFSPerms_def getPVSecret_def GetPVByVolumeID_def isVolumeMounted_def remote_def
  by (intro only_intros only_embed) (auto simp: leaves_files_def shell_def only_def)

interpretation fc_unmounting: unmounting w "NodeUnpublishVolume_fc w" "\<lambda>_. return_go ()" for w
  by unfold_locales (auto simp: NodeUnpublishVolume_fc_def intro: only_intros)

interpretation iscsi_unmounting: unmounting w "NodeUnpublishVolume_iscsi w" "\<lambda>_. return_go ()" for w
  by unfold_locales (auto simp: NodeUnpublishVolume_iscsi_def intro: only_intros)

interpretation nvme_unmounting: unmounting w "NodeUnpublishVolume_nvme w" "\<lambda>_. return_go ()" for w
  by unfold_locales (auto simp: NodeUnpublishVolume_nvme_def intro: only_intros)

interpretation treeq_unmounting: unmounting w "NodeUnpublishVolume_treeq w" "\<lambda>_. return_go ()" for w
  by unfold_locales (auto simp: NodeUnpublishVolume_treeq_def intro: only_intros)

interpretation nfs_unmounting: unmounting w "NodeUnpublishVolume_nfs E w i"
    "\<lambda>_. if isCleanupNFSPermsSet E then cleanupNFSPerms E w i else return_go ()" for E w i
  by unfold_locales (auto simp: NodeUnpublishVolume_nfs_def intro: only_intros cleanup_quiet)

lemma node_volume_quiet: "only leaves_files (node_volume E code i)"
  unfolding node_volume_def remote_def by (intro only_intros only_embed) (auto simp: leaves_files_def only_def)

text \<open>C9: While a volume is unpublished, whatever its protocol and whatever the host answers, only the mount point and what belongs to it
  is removed, only after the list of mounts did not show it any more, and a directory only when it was found empty.\<close>

theorem unpublish_removes_safely:
  "each_call (unmount_rule w (path_Join ''/host'' (nup_TargetPath req))) h (calls_of (NodeUnpublishVolume E w req h))"
proof -
  have "allows (unmount_rule w (path_Join ''/host'' (nup_TargetPath req))) (NodeUnpublishVolume E w req)"
    unfolding NodeUnpublishVolume_def sn_NodeUnpublishVolume_def
    by (intro allows_intros allows_only [OF node_volume_quiet] leaves_files_rule fc_unmounting.removes_safely iscsi_unmounting.removes_safely
        nvme_unmounting.removes_safely nfs_unmounting.removes_safely treeq_unmounting.removes_safely)
  then show ?thesis by (simp add: allows_def wp_def)
qed

section \<open>Unstaging\<close>

definition runs :: "string \<Rightarrow> nevent" where
  "runs cmd = Host (H_Exec ''bash'' [''-c'', pipefail cmd])"

definition succeeded :: "NodeWorld \<Rightarrow> string \<Rightarrow> string \<Rightarrow> nevent list \<Rightarrow> nevent \<Rightarrow> bool" where
  "succeeded w cmd out g e \<longleftrightarrow> e = runs cmd \<and> n_Exec w g ''bash'' [''-c'', pipefail cmd] = Exited 0 out"

lemma runs_inject [simp]: "runs a = runs b \<longleftrightarrow> a = b"
  by (simp add: runs_def pipefail_def)

lemma shell_runs: "shell cmd args = runs (TrimSpace cmd @ (if TrimSpace args \<noteq> '''' then '' '' @ TrimSpace args else ''''))"
  by (simp add: shell_def runs_def pipefail_def)

text \<open>A disk is deleted from the SCSI subsystem by writing to its file \<open>delete\<close>; \<open>logoutall\<close> closes all iSCSI sessions of the node.\<close>

definition deletes_disk :: "nevent \<Rightarrow> bool" where
  "deletes_disk e \<longleftrightarrow> (\<exists>disk. e = runs (''echo 1 > '' @ disk @ ''/device/delete''))"

definition logs_out :: "nevent \<Rightarrow> bool" where
  "logs_out e \<longleftrightarrow> e = runs ''iscsiadm --mode node --logoutall=all''"

definition flushed :: "NodeWorld \<Rightarrow> nevent list \<Rightarrow> nevent \<Rightarrow> bool" where
  "flushed w g e \<longleftrightarrow> (\<exists>mpath out. succeeded w (''multipath '' @ TrimSpace (''-f '' @ mpath)) out g e)"

definition no_devices :: "NodeWorld \<Rightarrow> nevent list \<Rightarrow> nevent \<Rightarrow> bool" where
  "no_devices w g e \<longleftrightarrow> (\<exists>out. succeeded w ''multipath -ll -v 1'' out g e \<and> Fields out = [])"

definition unstage_rule :: "NodeWorld \<Rightarrow> nevent list \<Rightarrow> nevent \<Rightarrow> bool" where
  "unstage_rule w g e \<longleftrightarrow> (deletes_disk e \<longrightarrow> seen (flushed w) g) \<and> (logs_out e \<longrightarrow> seen (no_devices w) g)"

text \<open>Trimming keeps a first character that is no white space.\<close>

lemma TrimSpace_Cons:
  assumes "\<not> is_space c"
  shows "\<exists>r. TrimSpace (c # s) = c # r"
  using assms by (simp add: TrimSpace_def trim_with_def dropWhile_append3)

definition harmless :: "nevent \<Rightarrow> bool" where
  "harmless e \<longleftrightarrow> \<not> deletes_disk e \<and> \<not> logs_out e"

lemma harmless_rule: "harmless e \<Longrightarrow> unstage_rule w g e"
  by (simp add: harmless_def unstage_rule_def)

lemma harmless_runs: "c \<noteq> CHR ''e'' \<Longrightarrow> c \<noteq> CHR ''i'' \<Longrightarrow> harmless (runs (c # s))"
  by (auto simp: harmless_def deletes_disk_def logs_out_def)

lemma harmless_shell: "\<not> is_space c \<Longrightarrow> c \<noteq> CHR ''e'' \<Longrightarrow> c \<noteq> CHR ''i'' \<Longrightarrow> harmless (shell (c # s) args)"
  using TrimSpace_Cons [of c s] by (auto simp: shell_runs intro: harmless_runs)

lemma harmless_others [simp]:
  shows "harmless (Remote x)" and "harmless ListPVs" and "(\<And>p a. c \<noteq> H_Exec p a) \<Longrightarrow> harmless (Host c)"
  by (auto simp: harmless_def deletes_disk_def logs_out_def runs_def)

lemma not_space [simp]: "\<not> is_space (CHR ''m'')" "\<not> is_space (CHR ''c'')"
  by (simp_all add: is_space_def)

lemma trimmed_words [simp]:
  shows "TrimSpace ''multipath'' = ''multipath''" and "TrimSpace ''echo'' = ''echo''" and "TrimSpace ''cat'' = ''cat''"
    and "TrimSpace [] = []"
  by code_simp+

lemma Command_Ok:
  assumes "Command w cmd args h = (Ok out, t)"
  shows "\<exists>raw. succeeded w (TrimSpace cmd @ (if TrimSpace args \<noteq> '''' then '' '' @ TrimSpace args else '''')) raw h
     (shell cmd args) \<and> t = [shell cmd args] \<and> out = TrimSpace raw"
  using assms by (auto simp: Command_def os_exec_def go_run Let_def succeeded_def shell_runs runs_def pipefail_def split: process.splits if_splits)

lemma flush_evidence:
  assumes "Command w ''multipath'' (''-f '' @ mpath) h = (Ok out, t)"
  shows "seen (flushed w) (h @ t)"
proof -
  have "TrimSpace (''-f '' @ mpath) \<noteq> ''''" using TrimSpace_Cons [of "CHR ''-''" "''f '' @ mpath"] by (auto simp: is_space_def)
  with Command_Ok [OF assms] obtain raw e where "succeeded w (''multipath '' @ TrimSpace (''-f '' @ mpath)) raw h e" "t = [e]"
    by auto
  then have "flushed w h e" unfolding flushed_def by blast
  with \<open>t = [e]\<close> show ?thesis by simp
qed

lemma flush_tries_evidence: "flush_tries w mpath (Suc n) h = (Ok (), t) \<Longrightarrow> seen (flushed w) (h @ t)"
proof (induction n arbitrary: h t)
  case 0
  then obtain out where "Command w ''multipath'' (''-f '' @ mpath) h = (Ok out, t)"
    by (auto simp: run_try split: prod.splits res.splits)
  then show ?case by (rule flush_evidence)
next
  case (Suc n)
  obtain r u where run: "Command w ''multipath'' (''-f '' @ mpath) h = (r, u)" by fastforce
  show ?case
  proof (cases r)
    case (Ok out)
    with Suc.prems run have "t = u" by (simp add: run_try)
    with flush_evidence [OF run [unfolded Ok]] show ?thesis by simp
  next
    case (Err e)
    with Suc.prems run obtain v where "flush_tries w mpath (Suc n) (h @ u) = (Ok (), v)" "t = u @ v"
      by (auto simp: run_try split: prod.splits)
    with Suc.IH [of "h @ u" v] show ?thesis by simp
  next
    case (Crash x)
    with run show ?thesis using safeD [OF safe_Command] by blast
  qed
qed

lemma multipathFlush_evidence:
  assumes "0 < getIntEnvVar E MULTIPATH_FLUSH_RETRIES defaultFlushRetries" and "multipathFlush E w mpath h = (Ok (), t)"
  shows "seen (flushed w) (h @ t)"
proof -
  obtain n where "nat (getIntEnvVar E MULTIPATH_FLUSH_RETRIES defaultFlushRetries) = Suc n"
    using assms(1) by (cases "nat (getIntEnvVar E MULTIPATH_FLUSH_RETRIES defaultFlushRetries)") auto
  with assms(2) show ?thesis unfolding multipathFlush_def by (metis flush_tries_evidence)
qed

lemma flush_tries_harmless: "only harmless (flush_tries w mpath n)"
  by (induction n) (simp_all only: flush_tries.simps, (intro only_intros harmless_shell; simp)+)

lemma mpath_and_devices_harmless: "only harmless (mpath_and_devices w dev)"
  unfolding mpath_and_devices_def FindSlaveDevicesOnMultipath_def FindMpathFromDevice_def findDevicesForMpath_def host_defs Let_def
  by (intro only_intros) (auto intro: harmless_shell harmless_runs simp: runs_def [symmetric])

lemma wait_unblocked_harmless: "only harmless (wait_unblocked w p n)"
  by (induction n) (simp_all only: wait_unblocked.simps, (intro only_intros harmless_shell; simp)+)

lemma no_logout_delete: "\<not> logs_out (shell ''echo'' x)"
  by (simp add: logs_out_def shell_runs)

lemma detach_disk_under: "under (seen (flushed w)) (unstage_rule w) (detachDiskByDeviceName w dev)"
proof -
  have "under (seen (flushed w)) (unstage_rule w) (Command w ''echo'' x)" for x
    by (rule under_only [OF only_Command [where P = "\<lambda>e. \<not> logs_out e"]]) (auto simp: no_logout_delete unstage_rule_def intro: stable_intros)
  moreover have "under (seen (flushed w)) (unstage_rule w) (wait_unblocked w p n)" for p n
    by (rule under_only [OF wait_unblocked_harmless harmless_rule stable_facts(1)])
  ultimately show ?thesis
    unfolding detachDiskByDeviceName_def removeOneFromScsiSubsystemByHostLun_def host_defs Let_def
    by (intro under_intros stable_intros) (auto intro: harmless_rule)
qed

lemma under_each_ignored [under_intros]: "stable F \<Longrightarrow> (\<And>x. x \<in> set xs \<Longrightarrow> under F Q (f x)) \<Longrightarrow> under F Q (each_ignored f xs)"
proof (induction xs)
  case Nil
  show ?case unfolding each_ignored.simps by (rule under_basic)
next
  case (Cons x xs)
  then show ?case unfolding each_ignored.simps by (intro under_ignore) auto
qed

lemma removals_harmless: "only harmless (removeMultipathDevices w dev)" "only harmless (removeWWIDEntry w mpath)"
  unfolding removeMultipathDevices_def removeWWIDEntry_def
  by (intro only_intros; simp add: runs_def [symmetric] harmless_runs)+

lemma detach_rule:
  assumes "0 < getIntEnvVar E MULTIPATH_FLUSH_RETRIES defaultFlushRetries"
  shows "allows (unstage_rule w) (DetachMpathDevice E w dev)"
proof -
  have flush: "under (\<lambda>h. True) (unstage_rule w) (multipathFlush E w mpath)" for mpath
    unfolding multipathFlush_def by (rule under_only [OF flush_tries_harmless harmless_rule stable_facts(3)])
  have behind: "under (seen (flushed w)) (unstage_rule w) (then_go (each_ignored (detachDiskByDeviceName w) devices) (\<lambda>_.
      then_go (each_ignored (removeMultipathDevices w) devices) (\<lambda>_. ignore_go (removeWWIDEntry w mpath) (\<lambda>_. return_go ()))))" for devices mpath
    by (intro under_intros stable_intros detach_disk_under under_only [OF removals_harmless(1) harmless_rule] under_only [OF removals_harmless(2) harmless_rule])
  have all: "under (\<lambda>h. True) (unstage_rule w) (then_go (multipathFlush E w mpath) (\<lambda>_. then_go (each_ignored (detachDiskByDeviceName w) devices) (\<lambda>_.
      then_go (each_ignored (removeMultipathDevices w) devices) (\<lambda>_. ignore_go (removeWWIDEntry w mpath) (\<lambda>_. return_go ())))))" for devices mpath
    by (rule gate_then [OF flush multipathFlush_evidence [OF assms] behind]) simp
  show ?thesis
    unfolding DetachMpathDevice_def under_True [symmetric]
    by (intro under_branches under_basic under_then [OF stable_facts(3) under_only [OF mpath_and_devices_harmless harmless_rule stable_facts(3)]] all)
qed

lemma device_count_evidence: "getMultipathDeviceCount w h = (Ok n, t) \<Longrightarrow> n = 0 \<Longrightarrow> seen (no_devices w) (h @ t)"
  by (auto simp: getMultipathDeviceCount_def bash_output_def os_exec_def go_error_defs go_run no_devices_def succeeded_def runs_def
      split: process.splits if_splits prod.splits res.splits)

lemma logout_under: "under (seen (no_devices w)) (unstage_rule w) (logoutAllSessions w)"
  unfolding logoutAllSessions_def bash_output_def os_exec_def
  by (intro under_intros stable_intros) (auto simp: unstage_rule_def deletes_disk_def runs_def pipefail_def split: process.splits intro: under_basic)

lemma staged_device_harmless: "only harmless (staged_device w v p)"
  unfolding staged_device_def LoadDiskInfoFromFile_def PathExists_def host_defs Let_def
  by (intro only_intros) simp_all

lemma remove_existing_harmless: "only harmless (remove_existing w p)"
  unfolding remove_existing_def PathExists_def host_defs by (intro only_intros) simp_all

lemmas unstage_quiet = under_only [OF staged_device_harmless harmless_rule] under_only [OF remove_existing_harmless harmless_rule]

lemma logout_gate:
  "under (\<lambda>h. True) (unstage_rule w) (ignore_go (getMultipathDeviceCount w) (\<lambda>n.
     if n = Some 0 then ignore_go (logoutAllSessions w) (\<lambda>_. return_go ()) else return_go ()))"
proof -
  have count: "under (\<lambda>h. True) (unstage_rule w) (getMultipathDeviceCount w)"
    unfolding getMultipathDeviceCount_def
    by (rule under_only [where P = harmless])
      (auto intro!: only_intros harmless_rule stable_facts harmless_runs simp: runs_def [symmetric])
  show ?thesis
    unfolding ignore_go_def [of "getMultipathDeviceCount w"]
    by (rule gate_try [OF count, where G = "\<lambda>n h. n = 0 \<longrightarrow> seen (no_devices w) h" and H = "\<lambda>_ _. True"])
      (auto intro!: under_basic under_ignore stable_facts logout_under dest: device_count_evidence)
qed

lemma unstage_protocols:
  assumes "0 < getIntEnvVar E MULTIPATH_FLUSH_RETRIES defaultFlushRetries"
  shows "under (\<lambda>h. True) (unstage_rule w) (sn_NodeUnstageVolume E w v req)"
proof -
  note detach = detach_rule [OF assms, folded under_True]
  have fc: "under (\<lambda>h. True) (unstage_rule w) (NodeUnstageVolume_fc E w i req)" for i
    unfolding NodeUnstageVolume_fc_def host_defs Let_def
    by (intro under_intros stable_intros unstage_quiet detach) (auto intro: harmless_rule)
  have iscsi: "under (\<lambda>h. True) (unstage_rule w) (NodeUnstageVolume_iscsi E w i req)" for i
    unfolding NodeUnstageVolume_iscsi_def IsDirectory_def host_defs Let_def
    by (rule logout_gate unstage_quiet detach under_intros stable_intros | simp add: harmless_rule)+
  have nvme: "under (\<lambda>h. True) (unstage_rule w) (NodeUnstageVolume_nvme w i req)" for i
    unfolding NodeUnstageVolume_nvme_def Let_def by (intro under_intros stable_intros unstage_quiet)
  show ?thesis unfolding sn_NodeUnstageVolume_def by (intro under_branches under_basic fc iscsi nvme)
qed

lemma node_volume_harmless: "only harmless (node_volume E code i)"
  unfolding node_volume_def by (intro only_intros) (auto simp: only_def)



section \<open>Staging\<close>

text \<open>The client of a request is the one its secrets give.\<close>

definition client_of :: "Env \<Rightarrow> gomap \<Rightarrow> Client \<Rightarrow> bool" where
  "client_of E secrets api \<longleftrightarrow> (\<exists>v cs. BuildCommonService E [] secrets v = Ok cs \<and> cs_IboxAPI cs = api)"

text \<open>The InfiniBox has just said that the host has no such port.\<close>

definition port_missing :: "Client \<Rightarrow> int \<Rightarrow> string \<Rightarrow> nevent list \<Rightarrow> bool" where
  "port_missing api hostID port g \<longleftrightarrow> (\<exists>g' err. g = g' @ [Remote (C_GetHostPort hostID port)] \<and>
     r_GetHostPort api (remote_calls g') hostID port = Inl err \<and> errors_is err ErrNotFound)"

text \<open>What staging changes on the InfiniBox: ports and the security of the host that the publish context names.\<close>

definition stage_rule :: "Client \<Rightarrow> int \<Rightarrow> nevent list \<Rightarrow> nevent \<Rightarrow> bool" where
  "stage_rule api hostID g e \<longleftrightarrow> (\<forall>c. e = Remote c \<longrightarrow> mutating c \<longrightarrow>
     (\<exists>creds. c = C_AddHostSecurity creds hostID) \<or> (\<exists>ty port. c = C_AddHostPort ty port hostID \<and> port_missing api hostID port g))"

definition stage_changes :: "Env \<Rightarrow> CsiNodeStageRequest \<Rightarrow> nevent list \<Rightarrow> nevent \<Rightarrow> bool" where
  "stage_changes E req g e \<longleftrightarrow> (\<forall>c. e = Remote c \<longrightarrow> mutating c \<longrightarrow>
     (\<exists>api hostID ports. client_of E (stg_Secrets req) api \<and> ValidatePublishContext (stg_PublishContext req) = Ok (hostID, ports) \<and> stage_rule api hostID g e))"

definition reading :: "nevent \<Rightarrow> bool" where
  "reading e \<longleftrightarrow> (\<forall>c. e = Remote c \<longrightarrow> \<not> mutating c)"

lemma reading_simps [simp]: "reading (Host x)" "reading ListPVs" "reading (Remote c) \<longleftrightarrow> \<not> mutating c"
  by (simp_all add: reading_def)

lemma reading_rule: "reading e \<Longrightarrow> stage_rule api hostID g e" "reading e \<Longrightarrow> stage_changes E req g e"
  by (auto simp: stage_rule_def stage_changes_def reading_def)

lemma ensure_port_rule: "under (\<lambda>h. True) (stage_rule (cs_IboxAPI cs) hostID) (ensure_port cs hostID ty port)"
  by (auto simp: under_def ensure_port_def wp_simps go_error_defs AddPortForHost_def ibox_api_defs stage_rule_def port_missing_def
      split: sum.splits res.splits)

lemma GetHostInfo_reading: "only reading (remote (GetHostInfo secrets api))"
  unfolding GetHostInfo_def Let_def by (intro only_intros) simp

lemma port_infos_reading: "only reading (port_infos w goFiles)"
  by (induction goFiles) (simp_all only: port_infos.simps host_defs, (intro only_intros; simp)+)

lemma node_reads:
  shows "only reading (GetPortInfo w)" and "only reading (getHostNQN w)" and "only reading (getInitiatorName w)"
  unfolding GetPortInfo_def getHostNQN_def getInitiatorName_def host_defs
  by (intro only_intros port_infos_reading; simp)+

lemma chap_rule: "under (\<lambda>h. True) (stage_rule api hostID) (addCHAPSecurity cs useChap hostID secrets)"
  by (rule under_only [where P = "\<lambda>e. \<exists>creds. e = Remote (C_AddHostSecurity creds hostID)"])
    (auto simp: addCHAPSecurity_def stage_rule_def intro!: only_intros stable_facts)

lemmas stage_reads = under_only [OF GetHostInfo_reading reading_rule(2) stable_facts(3)]
  under_only [OF node_reads(1) reading_rule(2) stable_facts(3)] under_only [OF node_reads(2) reading_rule(2) stable_facts(3)]
  under_only [OF node_reads(3) reading_rule(2) stable_facts(3)]

lemma stage_protocols:
  assumes "sc \<in> {FCstorage st, ISCSIstorage st, NVMEstorage st}" and "client_of E (stg_Secrets req) (cs_IboxAPI (st_CS st))"
  shows "under (\<lambda>h. True) (stage_changes E req) (sn_NodeStageVolume w sc req)"
proof -
  have rule: "under (\<lambda>h. True) (stage_changes E req) m" if "ValidatePublishContext (stg_PublishContext req) = Ok (hostID, ports)"
    and "under (\<lambda>h. True) (stage_rule (cs_IboxAPI (st_CS st)) hostID) m" for hostID ports and m :: "'x node_go"
  proof -
    have "stage_rule (cs_IboxAPI (st_CS st)) hostID g e \<Longrightarrow> stage_changes E req g e" for g e
      using that(1) assms(2) unfolding stage_changes_def by blast
    then show ?thesis using that(2) by (rule under_rule)
  qed
  show ?thesis
    using assms(1)
    by (auto simp: NodeStageVolume_fc_def NodeStageVolume_iscsi_def NodeStageVolume_nvme_def Let_def
        intro!: under_pure under_intros stable_intros stage_reads rule [OF _ ensure_port_rule] rule [OF _ chap_rule])
qed

lemma stage_services:
  assumes "NewStorageController E [] (stg_Secrets req) v n = Ok (sc, cs)"
  shows "under (\<lambda>h. True) (stage_changes E req) (sn_NodeStageVolume w sc req)"
proof -
  have "client_of E (stg_Secrets req) (cs_IboxAPI cs)" and "st_CS st = cs" if "sc \<in> {FCstorage st, ISCSIstorage st, NVMEstorage st}" for st
    using assms that unfolding client_of_def
    by (auto simp: NewStorageController_def NewStorageNode_def Let_def split: res.splits if_splits)
  then show ?thesis using stage_protocols [of sc _ E req w] by (cases sc) (auto intro: under_basic)
qed

lemma node_volume_reading: "only reading (node_volume E code i)"
  unfolding node_volume_def getNodeProtocol_def Let_def by (intro only_intros) simp_all

text \<open>C12: Staging a volume changes nothing on the InfiniBox but the host that the publish context names: its security, and a port of
  the node, which is added only right after the InfiniBox said that the host has no such port.\<close>

theorem stage_adds_missing_ports:
  "each_call (stage_changes E req) h (calls_of (NodeStageVolume E w req h))"
proof -
  have "under (\<lambda>h. True) (stage_changes E req) (NodeStageVolume E w req)"
    unfolding NodeStageVolume_def
    by (auto intro!: under_pure under_intros stable_intros under_only [OF node_volume_reading reading_rule(2)] stage_services)
  then show ?thesis by (simp add: under_def wp_def)
qed

end
