(* ===== verification/Mount_Props.thy ===== *)
theory Mount_Props
  imports Node_Props
begin

text \<open>
  What publishing leaves behind on the node and on the InfiniBox: the file that names the device of a volume is what unstaging
  reads; the export rules of other clients stay; the number of flush attempts is bounded; the node's id is what the
  controller takes its host name and address from.
\<close>

section \<open>The file that remembers the device\<close>

text \<open>What a file is known to hold: what was last written to it with success, unless it was created anew or removed since.\<close>

definition file_step :: "NodeWorld \<Rightarrow> string \<Rightarrow> nevent list \<Rightarrow> string option \<Rightarrow> nevent \<Rightarrow> string option" where
  "file_step w p g c e = (case e of
     Host (H_Write q s) \<Rightarrow> if q = p then (case n_Write w g q s of Inr _ \<Rightarrow> Some s | Inl _ \<Rightarrow> None) else c
   | Host (H_Create q) \<Rightarrow> if q = p then None else c
   | Host (H_Remove q) \<Rightarrow> if q = p then None else c
   | Host (H_RemoveAll q) \<Rightarrow> if HasPrefix p q then None else c
   | _ \<Rightarrow> c)"

fun file_content :: "NodeWorld \<Rightarrow> string \<Rightarrow> nevent list \<Rightarrow> string option \<Rightarrow> nevent list \<Rightarrow> string option" where
  "file_content w p g c [] = c"
| "file_content w p g c (e # t) = file_content w p (g @ [e]) (file_step w p g c e) t"

lemma file_content_append [simp]: "file_content w p g c (s @ t) = file_content w p (g @ s) (file_content w p g c s) t"
  by (induction s arbitrary: g c) auto

definition leaves :: "string \<Rightarrow> nevent \<Rightarrow> bool" where
  "leaves p e = (case e of Host (H_Write q s) \<Rightarrow> q \<noteq> p | Host (H_Create q) \<Rightarrow> q \<noteq> p | Host (H_Remove q) \<Rightarrow> q \<noteq> p
     | Host (H_RemoveAll q) \<Rightarrow> \<not> HasPrefix p q | _ \<Rightarrow> True)"

lemma file_content_left: "\<forall>e \<in> set t. leaves p e \<Longrightarrow> file_content w p g c t = c"
  by (induction t arbitrary: g) (auto simp: leaves_def file_step_def split: nevent.splits host_call.splits)

text \<open>A file system that gives back what was written, and an encoding that is decoded to what was encoded.\<close>

definition files_kept :: "NodeWorld \<Rightarrow> bool" where
  "files_kept w \<longleftrightarrow> (\<forall>h p s. file_content w p [] None h = Some s \<longrightarrow> n_ReadFile w h p = Inr s)"

definition decodes :: "NodeWorld \<Rightarrow> DiskInfo \<Rightarrow> bool" where
  "decodes w config \<longleftrightarrow> n_decode_DiskInfo w (n_json_DiskInfo w config) (config\<lparr>di_MpathDevice := '''', di_IsBlock := False\<rparr>) = Inr config"

lemma CreateConfigFile_Ok:
  assumes "CreateConfigFile w config stage h = (Ok u, t)"
  shows "t = [Host (H_Create (config_path config stage)), Host (H_Write (config_path config stage) (n_json_DiskInfo w config))]"
    and "file_content w (config_path config stage) h c t = Some (n_json_DiskInfo w config)"
  using assms
  by (auto simp: CreateConfigFile_def Let_def host_defs os_go_def go_run go_error_defs file_step_def split: sum.splits res.splits)

text \<open>Steps behind the writing of the file that do not touch it again.\<close>

lemma content_behind:
  assumes "then_go m k h = (Ok (), t)" and "\<And>g u s. m g = (Ok u, s) \<Longrightarrow> file_content w p g c s = Some x" and "\<And>u. only (leaves p) (k u)"
  shows "file_content w p h c t = Some x"
proof -
  from assms(1) obtain u s v where m: "m h = (Ok u, s)" and k: "k u (h @ s) = (Ok (), v)" and t: "t = s @ v"
    by (auto simp: run_then split: prod.splits res.splits)
  from k assms(3) [of u] have "\<forall>e \<in> set v. leaves p e" by (metis only_def calls_of_def snd_conv)
  with assms(2) [OF m] t show ?thesis by (simp add: file_content_left)
qed

lemma content_before:
  assumes "then_go m k h = (Ok (), t)" and "\<And>u g s c. k u g = (Ok (), s) \<Longrightarrow> file_content w p g c s = Some x"
  shows "file_content w p h c t = Some x"
proof -
  from assms(1) obtain u s v where "m h = (Ok u, s)" and k: "k u (h @ s) = (Ok (), v)" and t: "t = s @ v"
    by (auto simp: run_then split: prod.splits res.splits)
  with assms(2) [OF k] show ?thesis by simp
qed

lemma or_status_Ok: "or_status code s m k h = (Ok a, t) \<Longrightarrow> then_go m k h = (Ok a, t)"
  by (auto simp: go_error_defs go_run split: prod.splits res.splits)

lemma block_content:
  assumes "mount_block w config target dev stage ro h = (Ok (), t)" and "di_RootDir config @ target \<noteq> config_path config stage"
  shows "file_content w (config_path config stage) h c t = Some (n_json_DiskInfo w config)"
  using or_status_Ok [OF assms(1) [unfolded mount_block_def Let_def]]
  apply (rule content_before)
  apply (erule content_behind)
   apply (erule CreateConfigFile_Ok(2))
  apply (auto simp: leaves_def shell_def os_create_def assms(2) intro!: only_intros)
  done

lemma filesystem_content:
  assumes "mount_filesystem w config target dev stage fs opts ro h = (Ok (), t)"
  shows "file_content w (config_path config stage) h c t = Some (n_json_DiskInfo w config)"
  using assms unfolding mount_filesystem_def Let_def
  apply (rule content_before)
  apply (erule content_before)
  apply (erule content_behind)
   apply (erule CreateConfigFile_Ok(2))
  apply (auto simp: leaves_def mounter_format_def intro!: only_intros)
  done

lemma mount_content:
  assumes "MountLogic w config target dev stage fs opts blk ro h = (Ok (), t)"
    and "n_MountList w h = Inr ms" and "di_RootDir config @ target \<notin> mp_Path ` set ms" and "di_RootDir config @ target \<noteq> config_path config stage"
  shows "file_content w (config_path config stage) h c t = Some (n_json_DiskInfo w config)"
proof -
  from assms(1-3) obtain s where t: "t = Host H_MountList # s" and run: "(if blk then mount_block w config target dev stage ro
      else mount_filesystem w config target dev stage fs opts ro) (h @ [Host H_MountList]) = (Ok (), s)"
    by (auto simp: MountLogic_def mounter_list_def os_go_def go_run go_error_defs split: prod.splits)
  then have "file_content w (config_path config stage) (h @ [Host H_MountList]) d s = Some (n_json_DiskInfo w config)" for d
    using block_content assms(4) filesystem_content by (auto split: if_splits)
  then show ?thesis using t by simp
qed


lemma healthy_written: "file_content healthy_node p [] None h = Some s \<Longrightarrow> written h p = Some s"
proof (induction h rule: rev_induct)
  case Nil
  then show ?case by simp
next
  case (snoc e h)
  show ?case
  proof (cases "is_write_to p e")
    case True
    then obtain x where "e = Host (H_Write p x)" by (auto simp: is_write_to_def split: nevent.splits host_call.splits)
    with snoc.prems show ?thesis by (simp add: file_step_def written_def is_write_to_def healthy_node_def)
  next
    case False
    with snoc.prems have "file_content healthy_node p [] None h = Some s"
      by (auto simp: file_step_def is_write_to_def split: nevent.splits host_call.splits if_splits)
    with snoc.IH False show ?thesis by (simp add: written_def)
  qed
qed

lemma healthy_fields:
  shows "n_ReadFile healthy_node = (\<lambda>h p. case written h p of Some s \<Rightarrow> Inr s | None \<Rightarrow> node_file p)" and "n_MountList healthy_node h = Inr []"
    and "n_json_DiskInfo healthy_node = di_MpathDevice" and "n_decode_DiskInfo healthy_node = (\<lambda>s conf. Inr (conf\<lparr>di_MpathDevice := s\<rparr>))"
  by (simp_all add: healthy_node_def)

lemma healthy_files: "files_kept healthy_node"
  by (auto simp: files_kept_def healthy_fields dest: healthy_written)

definition sample_disk :: DiskInfo where
  "sample_disk = \<lparr>di_RootDir = ''/host'', di_MpathDevice = ''/dev/dm-3'', di_IsBlock = False, di_VolumeID = 7\<rparr>"


section \<open>The export rule of a node\<close>

text \<open>
  What publishing may do to the exports of a file system: right after they were listed, the rules of one are extended, when none of its rules
  is for a client of the new ones; or an export is created, when none was listed with its path.
\<close>

definition export_rule :: "Client \<Rightarrow> int \<Rightarrow> call list \<Rightarrow> call \<Rightarrow> bool" where
  "export_rule api fsID g c \<longleftrightarrow> (mutating c \<longrightarrow> (\<exists>g' exs. g = g' @ [C_GetExportsByFileSystemID fsID] \<and> r_GetExportsByFileSystemID api g' fsID = Inr exs \<and>
     ((\<exists>ex \<in> set exs. \<exists>ps. c = C_UpdateExportPermissions ex \<lparr>epr_Permissions = exp_Permissions ex @ ps\<rparr> \<and>
         perm_Client ` set (exp_Permissions ex) \<inter> perm_Client ` set ps = {}) \<or>
      (\<exists>q. c = C_CreateExport q \<and> cer_FilesystemID q = fsID \<and> cer_ExportPath q \<notin> exp_ExportPath ` set exs))))"

lemma find_member: "find P xs = Some x \<Longrightarrow> P x \<and> x \<in> set xs"
  by (metis find_Some_iff nth_mem)

lemma UpdateExport_wp: "wp (UpdateExport E nfs fsID perms) h (\<lambda>r t. each_call (export_rule (nfs_ibox nfs) fsID) h t)"
  unfolding UpdateExport_def Let_def
  by (auto simp: wp_simps go_error_defs ibox_api_defs export_rule_def find_None_iff list_ex_iff split: sum.splits res.splits option.splits
      dest!: find_member) metis+

text \<open>C27: When a node publishes an NFS volume, the rules that its export has are all kept and come first; new rules are added only
  for clients that have none, and an export is created only when the file system was listed without one of that path.\<close>

theorem publish_keeps_rules: "each_call (export_rule (nfs_ibox nfs) fsID) h (calls_of (UpdateExport E nfs fsID perms h))"
  using UpdateExport_wp by (simp add: wp_def)

section \<open>Removing the rule of a node\<close>

definition read_filesystem :: "Client \<Rightarrow> int \<Rightarrow> FileSystem \<Rightarrow> nevent list \<Rightarrow> nevent \<Rightarrow> bool" where
  "read_filesystem api i fs g e \<longleftrightarrow> e = Remote (C_GetFileSystemByID i) \<and> r_GetFileSystemByID api (remote_calls g) i = Inr fs"

definition listed_exports :: "Client \<Rightarrow> int \<Rightarrow> Export list \<Rightarrow> nevent list \<Rightarrow> nevent \<Rightarrow> bool" where
  "listed_exports api i exs g e \<longleftrightarrow> e = Remote (C_GetExportsByFileSystemID i) \<and> r_GetExportsByFileSystemID api (remote_calls g) i = Inr exs"

text \<open>The node has listed its NFS mounts, and no line of the answer names the file system.\<close>

definition nfs_unmounted :: "NodeWorld \<Rightarrow> string \<Rightarrow> nevent list \<Rightarrow> nevent \<Rightarrow> bool" where
  "nfs_unmounted w name g e \<longleftrightarrow> (\<exists>out ls. succeeded w ''nfsstat -m'' out g e \<and> StringToLines (TrimSpace out) = Ok ls \<and> (\<forall>l \<in> set ls. \<not> Contains l name))"

text \<open>An export is deleted when its only rule is the node's; of several rules one of the node's is taken out.\<close>

definition drops_node :: "string \<Rightarrow> Export list \<Rightarrow> call \<Rightarrow> bool" where
  "drops_node nodeIP exs c \<longleftrightarrow> (\<exists>ex \<in> set exs.
     (c = C_DeleteExport (exp_ID ex) \<and> map perm_Client (exp_Permissions ex) = [nodeIP]) \<or>
     (\<exists>i e2. c = C_UpdateExportPermissions e2 \<lparr>epr_Permissions = removeIndex (exp_Permissions ex) i\<rparr> \<and> exp_ID e2 = exp_ID ex \<and>
        i < length (exp_Permissions ex) \<and> perm_Client (exp_Permissions ex ! i) = nodeIP \<and> removeIndex (exp_Permissions ex) i \<noteq> []))"

definition cleanup_evidence :: "NodeWorld \<Rightarrow> int \<Rightarrow> Export list \<Rightarrow> nevent list \<Rightarrow> bool" where
  "cleanup_evidence w i exs g \<longleftrightarrow> (\<exists>api fs. seen (read_filesystem api i fs) g \<and> seen (listed_exports api i exs) g \<and> seen (nfs_unmounted w (fs_Name fs)) g)"

definition cleanup_changes :: "NodeWorld \<Rightarrow> int \<Rightarrow> string \<Rightarrow> nevent list \<Rightarrow> nevent \<Rightarrow> bool" where
  "cleanup_changes w i nodeIP g e \<longleftrightarrow> (\<forall>c. e = Remote c \<longrightarrow> mutating c \<longrightarrow> (\<exists>exs. cleanup_evidence w i exs g \<and> drops_node nodeIP exs c))"

lemma last_index_Some: "last_index P xs = Some i \<Longrightarrow> i < length xs \<and> P (xs ! i)"
proof -
  assume some: "last_index P xs = Some i"
  then have "i = last (filter (\<lambda>i. P (xs ! i)) [0..<length xs])" and "filter (\<lambda>i. P (xs ! i)) [0..<length xs] \<noteq> []"
    by (auto simp: last_index_def split: list.splits if_splits)
  then have "i \<in> set (filter (\<lambda>i. P (xs ! i)) [0..<length xs])" using last_in_set by blast
  then show ?thesis by simp
qed

lemma length_removeIndex: "i < length xs \<Longrightarrow> length (removeIndex xs i) = length xs - 1"
  by (simp add: removeIndex_def)

lemma cleanup_exports_only: "set exs \<subseteq> set all \<Longrightarrow> only (\<lambda>c. mutating c \<longrightarrow> drops_node nodeIP all c) (cleanup_exports api nodeIP exs)"
proof (induction exs)
  case Nil
  show ?case by (simp only: cleanup_exports.simps) (intro only_intros)
next
  case (Cons ex exs)
  have rest: "only (\<lambda>c. mutating c \<longrightarrow> drops_node nodeIP all c) (cleanup_exports api nodeIP exs)" using Cons by simp
  have delete: "drops_node nodeIP all (C_DeleteExport (exp_ID ex))"
    if "last_index (\<lambda>p. perm_Client p = nodeIP) (exp_Permissions ex) = Some i" "length (exp_Permissions ex) = 1" for i
    using that last_index_Some [OF that(1)] Cons.prems by (auto simp: drops_node_def length_Suc_conv)
  have update: "drops_node nodeIP all (C_UpdateExportPermissions (ex\<lparr>exp_Permissions := ps\<rparr>)
      \<lparr>epr_Permissions = removeIndex (exp_Permissions ex) i\<rparr>)"
    if "last_index (\<lambda>p. perm_Client p = nodeIP) (exp_Permissions ex) = Some i" "length (exp_Permissions ex) \<noteq> 1" for i ps
  proof -
    have "0 < length (removeIndex (exp_Permissions ex) i)"
      using length_removeIndex [of i "exp_Permissions ex"] last_index_Some [OF that(1)] that(2) by simp
    then have "removeIndex (exp_Permissions ex) i \<noteq> []" by auto
    with last_index_Some [OF that(1)] Cons.prems show ?thesis unfolding drops_node_def by (intro bexI [of _ ex]) auto
  qed
  show ?case by (simp only: cleanup_exports.simps Let_def) (intro only_intros rest; simp add: delete update)
qed

text \<open>What the calls of the clean-up establish, one behind the other.\<close>

lemma cleanup_facts:
  shows "remote (GetFileSystemByID_api api i) h = (Ok fs, t) \<Longrightarrow> seen (read_filesystem api i fs) (h @ t)"
    and "remote (GetExportsByFileSystemID_api api i) h = (Ok exs, t) \<Longrightarrow> seen (listed_exports api i exs) (h @ t)"
    and "isVolumeMounted w name h = (Ok False, t) \<Longrightarrow> seen (nfs_unmounted w name) (h @ t)"
proof -
  show "remote (GetFileSystemByID_api api i) h = (Ok fs, t) \<Longrightarrow> seen (read_filesystem api i fs) (h @ t)"
    by (auto simp: go_run ibox_api_defs read_filesystem_def split: sum.splits)
  show "remote (GetExportsByFileSystemID_api api i) h = (Ok exs, t) \<Longrightarrow> seen (listed_exports api i exs) (h @ t)"
    by (auto simp: go_run ibox_api_defs listed_exports_def split: sum.splits)
  assume run: "isVolumeMounted w name h = (Ok False, t)"
  then obtain out u where cmd: "Command w ''nfsstat -m'' '''' h = (Ok out, u)" by (auto simp: isVolumeMounted_def go_run split: prod.splits res.splits)
  have "TrimSpace ''nfsstat -m'' = ''nfsstat -m''" by code_simp
  with Command_Ok [OF cmd] obtain raw where "succeeded w ''nfsstat -m'' raw h (shell ''nfsstat -m'' '''')" "u = [shell ''nfsstat -m'' '''']" "out = TrimSpace raw"
    by auto
  moreover obtain ls where "StringToLines out = Ok ls" "\<forall>l \<in> set ls. \<not> Contains l name" "t = u"
    using run cmd by (auto simp: isVolumeMounted_def go_run list_ex_iff split: res.splits)
  ultimately have "nfs_unmounted w name h (shell ''nfsstat -m'' '''')" and "t = [shell ''nfsstat -m'' '''']"
    unfolding nfs_unmounted_def by blast+
  then show "seen (nfs_unmounted w name) (h @ t)" by simp
qed

lemma cleanup_read:
  assumes "only reading m"
  shows "under F (cleanup_changes w i ip) m"
  using under_weaken [OF allows_only [OF assms, where Q = "cleanup_changes w i ip"]] by (simp add: cleanup_changes_def reading_def)

lemma cleanup_reads:
  shows "only reading (getPVSecret E w i)" and "only reading (remote (GetFileSystemByID_api api i))"
    and "only reading (remote (GetExportsByFileSystemID_api api i))" and "only reading (isVolumeMounted w name)"
  unfolding getPVSecret_def GetPVByVolumeID_def isVolumeMounted_def
  by (intro only_intros; simp add: shell_def)+

lemma cleanup_remote:
  "under (cleanup_evidence w i exs) (cleanup_changes w i ip) (remote (cleanup_exports api ip exs))"
proof (rule under_only)
  show "only (\<lambda>e. \<forall>c. e = Remote c \<longrightarrow> mutating c \<longrightarrow> drops_node ip exs c) (remote (cleanup_exports api ip exs))"
    by (rule only_remote) (use cleanup_exports_only [of exs exs] in simp)
  show "stable (cleanup_evidence w i exs)" unfolding stable_def cleanup_evidence_def by (auto 0 4)
qed (auto simp: cleanup_changes_def)

lemma nfs_cleanup_rule: "under (\<lambda>h. True) (cleanup_changes w i (getenv E EnvVarNodeIP)) (cleanupNFSPerms E w i)"
proof -
  let ?Q = "cleanup_changes w i (getenv E EnvVarNodeIP)"
  have evidence: "b \<or> cleanup_evidence w i exs (h @ t)" if "seen (read_filesystem api i fs) h \<and> seen (listed_exports api i exs) h"
      "isVolumeMounted w (fs_Name fs) h = (Ok b, t)" for api fs exs h b t
    using that cleanup_facts(3) [of w "fs_Name fs" h t] unfolding cleanup_evidence_def seen_append by (cases b) auto
  have last: "under (\<lambda>h. seen (read_filesystem api i fs) h \<and> seen (listed_exports api i exs) h) ?Q (then_go (isVolumeMounted w (fs_Name fs)) (\<lambda>volumeMounted.
      if volumeMounted then return_go () else remote (cleanup_exports api (getenv E EnvVarNodeIP) exs)))" for api fs exs
    by (rule gate_then [OF cleanup_read [OF cleanup_reads(4)], where G = "\<lambda>b h. b \<or> cleanup_evidence w i exs h"])
      (auto intro: under_basic cleanup_remote dest: evidence [OF conjI])
  have exports: "under (seen (read_filesystem api i fs)) ?Q (then_go (remote (GetExportsByFileSystemID_api api i)) (\<lambda>exports.
      if exports = [] then return_go () else then_go (isVolumeMounted w (fs_Name fs)) (\<lambda>volumeMounted.
      if volumeMounted then return_go () else remote (cleanup_exports api (getenv E EnvVarNodeIP) exports))))" for api fs
    by (rule gate_then [OF cleanup_read [OF cleanup_reads(3)], where G = "\<lambda>exs h. seen (read_filesystem api i fs) h \<and> seen (listed_exports api i exs) h"])
      (auto dest: cleanup_facts(2) intro: under_basic last)
  have fs: "under (\<lambda>h. True) ?Q (then_go (remote (GetFileSystemByID_api api i)) (\<lambda>fileSystem.
      then_go (remote (GetExportsByFileSystemID_api api i)) (\<lambda>exports.
      if exports = [] then return_go () else then_go (isVolumeMounted w (fs_Name fileSystem)) (\<lambda>volumeMounted.
      if volumeMounted then return_go () else remote (cleanup_exports api (getenv E EnvVarNodeIP) exports)))))" for api
    by (rule gate_then [OF cleanup_read [OF cleanup_reads(2)], where G = "\<lambda>fs h. seen (read_filesystem api i fs) h"])
      (auto dest: cleanup_facts(1) intro: exports)
  show ?thesis
    unfolding cleanupNFSPerms_def
    by (intro under_try under_then stable_facts under_basic cleanup_read [OF cleanup_reads(1)] fs)
qed


section \<open>The identity of the node\<close>

text \<open>C39: A node always reports an id; the controller accepts it and takes it apart again into the name and the address of the node: the host on the
  InfiniBox gets the name, the export rule the address. Neither may contain a dollar sign, as no host name and no address does.\<close>

theorem node_id_parses:
  assumes "result_of (getNodeFQDN E w h) = Ok fqdn" and "CHR ''$'' \<notin> set fqdn" and "CHR ''$'' \<notin> set (drv_nodeID D)"
  shows "\<exists>nodeID topology. result_of (NodeGetInfo E w D h) = Ok (nodeID, topology) \<and> Split nodeID ''$$'' = [fqdn, drv_nodeID D] \<and> validateNodeID nodeID = Ok () \<and>
    DetermineHostName C nodeID = Ok (if getenv C EnvVarRemoveDomainName = ''true'' then short_name fqdn else fqdn)"
proof -
  let ?id = "fqdn @ ''$$'' @ drv_nodeID D"
  have split: "Split ?id ''$$'' = [fqdn, drv_nodeID D]" using assms(2,3) by (intro Split_two) auto
  have "result_of (NodeGetInfo E w D h) = Ok (?id, [(''topology.csi.infinidat.com/zone'', ''true'')])"
    using assms(1) by (auto simp: NodeGetInfo_def result_of_def go_run split: prod.splits)
  moreover have "validateNodeID ?id = Ok ()" "DetermineHostName C ?id = Ok (if getenv C EnvVarRemoveDomainName = ''true'' then short_name fqdn else fqdn)"
    using split by (simp_all add: validateNodeID_def DetermineHostName_def Let_def)
  ultimately show ?thesis using split by blast
qed

definition named_node :: NodeWorld where
  "named_node = healthy_node\<lparr>n_Exec := (\<lambda>h prog args. Exited 0 (''n1.lab'' @ newline))\<rparr>"

lemma named_node_fqdn: "result_of (getNodeFQDN node_env named_node []) = Ok ''n1.lab''"
  by code_simp

theorem node_id_parses_witness:
  "\<exists>nodeID topology. result_of (NodeGetInfo node_env named_node node_driver []) = Ok (nodeID, topology) \<and> Split nodeID ''$$'' = [''n1.lab'', ''10.0.0.9''] \<and>
    validateNodeID nodeID = Ok () \<and>
    DetermineHostName node_env nodeID = Ok (if getenv node_env EnvVarRemoveDomainName = ''true'' then short_name ''n1.lab'' else ''n1.lab'')"
  using node_id_parses [OF named_node_fqdn, of node_driver node_env] by (simp add: node_driver_def)

section \<open>Flushing\<close>

lemma flush_tries_length: "length (calls_of (flush_tries w mpath n h)) \<le> n"
proof (induction n arbitrary: h)
  case 0
  then show ?case by (simp add: go_run calls_of_def)
next
  case (Suc n)
  obtain r where "Command w ''multipath'' (''-f '' @ mpath) h = (r, [shell ''multipath'' (''-f '' @ mpath)])" using Command_run by blast
  then show ?case using Suc.IH [of "h @ [shell ''multipath'' (''-f '' @ mpath)]"]
    by (auto simp: calls_of_def run_try go_run split: res.splits prod.splits)
qed

text \<open>The flush of a multipath map is tried at most as often as the setting says. With a setting of zero or less it is not tried at all and
  still counts as done, so that the disks behind the map are deleted without a flush.\<close>

theorem flush_tries_bounded:
  "length (calls_of (multipathFlush E w mpath h)) \<le> nat (getIntEnvVar E MULTIPATH_FLUSH_RETRIES defaultFlushRetries) \<and>
   (getIntEnvVar E MULTIPATH_FLUSH_RETRIES defaultFlushRetries \<le> 0 \<longrightarrow> multipathFlush E w mpath h = (Ok (), []))"
  using flush_tries_length by (auto simp: multipathFlush_def go_run)

definition no_flush_env :: Env where
  "no_flush_env = node_env\<lparr>getenv := (\<lambda>v. if v = MULTIPATH_FLUSH_RETRIES then ''0'' else '''')\<rparr>"

theorem flush_tries_bounded_witness:
  "getIntEnvVar no_flush_env MULTIPATH_FLUSH_RETRIES defaultFlushRetries \<le> 0 \<and> multipathFlush no_flush_env quiet_node ''mpatha'' [] = (Ok (), [])"
proof -
  have "getIntEnvVar no_flush_env MULTIPATH_FLUSH_RETRIES defaultFlushRetries \<le> 0" by code_simp
  with flush_tries_bounded [of no_flush_env quiet_node "''mpatha''" "[]"] show ?thesis by simp
qed

text \<open>With that setting the rule of unstaging is broken: the disk of a map that was never flushed is deleted.\<close>

lemma detach_without_flush:
  "Host (H_Exec ''bash'' [''-c'', ''set -o pipefail; echo 1 > /sys/class/scsi_disk/34:0:0:11/device/delete''])
     \<in> set (calls_of (DetachMpathDevice no_flush_env quiet_node ''mpatha'' [])) \<and>
   shell ''multipath'' ''-f mpatha'' \<notin> set (calls_of (DetachMpathDevice no_flush_env quiet_node ''mpatha'' []))"
  by code_simp

end
