(* ===== verification/Node_Mutex.thy ===== *)
theory Node_Mutex
  imports Node_Sample
begin

text \<open>
  Concurrent requests on a node. The gRPC server runs every request in a goroutine of its own; the four operations on volumes take one mutex of the
  process (\<open>helper/oshelper.go\<close>, \<open>nodeVolumeMutex\<close>) before their first call to the outside and give it back when they return. This theory has the
  mutex, the transitions of requests that run side by side, and the proof that every execution of them is a sequence of whole requests: what the
  other theories show of one request, run from any history, holds of all of them together.
\<close>

section \<open>The mutex (ManageNodeVolumeMutex)\<close>

text \<open>The state is whether the mutex is locked. \<open>None\<close>: the caller waits. Unlocking a mutex that is not locked ends the process
  (\<open>sync: unlock of unlocked mutex\<close> is a fatal error of the runtime, which \<open>recover\<close> does not catch).\<close>

definition ManageNodeVolumeMutex :: "bool \<Rightarrow> bool \<Rightarrow> bool res option" where
  "ManageNodeVolumeMutex isLocking locked =
     (if isLocking then (if locked then None else Some (Ok True))
      else Some (if locked then Ok False else Crash (GoPanic ''sync: unlock of unlocked mutex'')))"

section \<open>Requests side by side\<close>

text \<open>A state: the mutex, the requests between locking and unlocking with the calls they still have to make, the calls made so far, and the order in which
  requests got the mutex. A request is a number, \<open>jobs\<close> says what it does. The last transition is the process that dies.\<close>

type_synonym ('s, 'c) side_by_side = "'s \<times> (nat \<rightharpoonup> 'c list) \<times> 'c list \<times> nat list"

inductive request_step :: "(bool \<Rightarrow> 's \<Rightarrow> 's res option) \<Rightarrow> (nat \<Rightarrow> ('c, 'a) prog) \<Rightarrow> ('s, 'c) side_by_side \<Rightarrow> ('s, 'c) side_by_side option \<Rightarrow> bool"
  for manage jobs where
  enter: "r \<notin> set order \<Longrightarrow> manage True s = Some (Ok s') \<Longrightarrow>
     request_step manage jobs (s, active, h, order) (Some (s', active(r \<mapsto> calls_of (jobs r h)), h, order @ [r]))"
| call: "active r = Some (c # rest) \<Longrightarrow> request_step manage jobs (s, active, h, order) (Some (s, active(r \<mapsto> rest), h @ [c], order))"
| leave: "active r = Some [] \<Longrightarrow> manage False s = Some (Ok s') \<Longrightarrow>
     request_step manage jobs (s, active, h, order) (Some (s', active(r := None), h, order))"
| fatal: "active r = Some [] \<Longrightarrow> manage False s = Some (Crash x) \<Longrightarrow> request_step manage jobs (s, active, h, order) None"

inductive_cases request_stepE: "request_step manage jobs st st'"

inductive requests_reach :: "(bool \<Rightarrow> 's \<Rightarrow> 's res option) \<Rightarrow> (nat \<Rightarrow> ('c, 'a) prog) \<Rightarrow> 's \<Rightarrow> 'c list \<Rightarrow> ('s, 'c) side_by_side option \<Rightarrow> bool"
  for manage jobs start h0 where
  init: "requests_reach manage jobs start h0 (Some (start, Map.empty, h0, []))"
| step: "requests_reach manage jobs start h0 (Some st) \<Longrightarrow> request_step manage jobs st st' \<Longrightarrow> requests_reach manage jobs start h0 st'"

text \<open>The reference: the requests one after the other.\<close>

fun serial :: "(nat \<Rightarrow> ('c, 'a) prog) \<Rightarrow> nat list \<Rightarrow> 'c list \<Rightarrow> 'c list" where
  "serial jobs [] h = h"
| "serial jobs (r # rs) h = serial jobs rs (h @ calls_of (jobs r h))"

lemma serial_snoc [simp]: "serial jobs (rs @ [r]) h = serial jobs rs h @ calls_of (jobs r (serial jobs rs h))"
  by (induction rs arbitrary: h) simp_all

text \<open>A rule that every request keeps, from every history, is kept by the sequence.\<close>

lemma serial_each:
  assumes "\<And>r g. each_call Q g (calls_of (jobs r g))"
  shows "\<exists>t. serial jobs rs h = h @ t \<and> each_call Q h t"
proof (induction rs arbitrary: h)
  case (Cons r rs)
  obtain t where "serial jobs rs (h @ calls_of (jobs r h)) = (h @ calls_of (jobs r h)) @ t" "each_call Q (h @ calls_of (jobs r h)) t"
    using Cons by blast
  then show ?case
    using assms [of h r] by (intro exI [of _ "calls_of (jobs r h) @ t"]) simp
qed simp

section \<open>The contract of a mutex\<close>

locale mutex =
  fixes manage :: "bool \<Rightarrow> 's \<Rightarrow> 's res option" and held :: "'s \<Rightarrow> bool" and start :: 's
  assumes start_free: "\<not> held start"
    and locks: "manage True s = Some (Ok s') \<Longrightarrow> \<not> held s \<and> held s'"
    and locks_free: "\<not> held s \<Longrightarrow> \<exists>s'. manage True s = Some (Ok s')"
    and unlocks: "held s \<Longrightarrow> \<exists>s'. manage False s = Some (Ok s') \<and> \<not> held s'"
begin

text \<open>No request runs, or exactly the one that got the mutex last, and it has made a part of its calls.\<close>

definition one_at_a_time :: "(nat \<Rightarrow> ('c, 'a) prog) \<Rightarrow> 'c list \<Rightarrow> ('s, 'c) side_by_side \<Rightarrow> bool" where
  "one_at_a_time jobs h0 = (\<lambda>(s, active, h, order).
     \<not> held s \<and> active = Map.empty \<and> h = serial jobs order h0 \<or>
     held s \<and> (\<exists>r rest before. order = before @ [r] \<and> active = [r \<mapsto> rest] \<and> h @ rest = serial jobs order h0))"

lemma one_at_a_time_step:
  assumes "one_at_a_time jobs h0 st" and "request_step manage jobs st st'"
  shows "\<exists>st1. st' = Some st1 \<and> one_at_a_time jobs h0 st1"
  using assms(2,1)
proof cases
  case (enter r order s s' active h)
  then show ?thesis
    using assms(1) locks [of s s'] by (auto simp: one_at_a_time_def)
next
  case (call active r c rest s h order)
  then show ?thesis
    using assms(1) by (auto simp: one_at_a_time_def split: if_splits)
next
  case (leave active r s s' h order)
  then show ?thesis
    using assms(1) unlocks [of s] by (auto simp: one_at_a_time_def split: if_splits)
next
  case (fatal active r s x h order)
  then show ?thesis
    using assms(1) unlocks [of s] by (auto simp: one_at_a_time_def)
qed

lemma reach_one_at_a_time:
  "requests_reach manage jobs start h0 st \<Longrightarrow> \<exists>st1. st = Some st1 \<and> one_at_a_time jobs h0 st1"
proof (induction rule: requests_reach.induct)
  case init
  then show ?case
    by (simp add: one_at_a_time_def start_free)
next
  case (step st st')
  then show ?case
    using one_at_a_time_step by blast
qed

lemma no_fatal: "\<not> requests_reach manage jobs start h0 None"
  using reach_one_at_a_time by blast

lemma exclusive:
  "requests_reach manage jobs start h0 (Some (s, active, h, order)) \<Longrightarrow> active a \<noteq> None \<Longrightarrow> active b \<noteq> None \<Longrightarrow> a = b"
  using reach_one_at_a_time by (fastforce simp: one_at_a_time_def split: if_splits)

lemma quiescent_serial:
  "requests_reach manage jobs start h0 (Some (s, Map.empty, h, order)) \<Longrightarrow> h = serial jobs order h0"
  by (drule reach_one_at_a_time) (auto simp: one_at_a_time_def, metis map_upd_nonempty)

text \<open>Conversely every order of requests is possible: a request that has the mutex can make its calls and give it back.\<close>

lemma finish_calls:
  "requests_reach manage jobs start h0 (Some (s, [r \<mapsto> rest], h, order)) \<Longrightarrow> requests_reach manage jobs start h0 (Some (s, [r \<mapsto> []], h @ rest, order))"
proof (induction rest arbitrary: h)
  case (Cons c rest)
  have "request_step manage jobs (s, [r \<mapsto> c # rest], h, order) (Some (s, [r \<mapsto> rest], h @ [c], order))"
    using request_step.call [of "[r \<mapsto> c # rest]" r c rest] by simp
  then have "requests_reach manage jobs start h0 (Some (s, [r \<mapsto> rest], h @ [c], order))"
    by (rule requests_reach.step [OF Cons.prems])
  from Cons.IH [OF this] show ?case
    by simp
qed simp

lemma serial_reachable:
  "distinct order \<Longrightarrow> \<exists>s. \<not> held s \<and> requests_reach manage jobs start h0 (Some (s, Map.empty, serial jobs order h0, order))"
proof (induction order rule: rev_induct)
  case Nil
  then show ?case
    using start_free requests_reach.init by fastforce
next
  case (snoc r order)
  let ?h = "serial jobs order h0"
  obtain s where s: "\<not> held s" "requests_reach manage jobs start h0 (Some (s, Map.empty, ?h, order))"
    using snoc by auto
  obtain s1 where s1: "manage True s = Some (Ok s1)"
    using locks_free s(1) by blast
  have "request_step manage jobs (s, Map.empty, ?h, order) (Some (s1, [r \<mapsto> calls_of (jobs r ?h)], ?h, order @ [r]))"
    by (rule request_step.enter) (use snoc.prems s1 in auto)
  then have run: "requests_reach manage jobs start h0 (Some (s1, [r \<mapsto> []], ?h @ calls_of (jobs r ?h), order @ [r]))"
    using finish_calls requests_reach.step [OF s(2)] by blast
  obtain s2 where s2: "manage False s1 = Some (Ok s2)" "\<not> held s2"
    using locks [OF s1] unlocks [of s1] by blast
  have "request_step manage jobs (s1, [r \<mapsto> []], ?h @ calls_of (jobs r ?h), order @ [r])
      (Some (s2, [r \<mapsto> []](r := None), ?h @ calls_of (jobs r ?h), order @ [r]))"
    by (rule request_step.leave) (use s2 in auto)
  with requests_reach.step [OF run] s2(2) show ?case
    by auto
qed

end

interpretation node_mutex: mutex ManageNodeVolumeMutex "\<lambda>locked. locked" False
  by unfold_locales (auto simp: ManageNodeVolumeMutex_def split: if_splits)

section \<open>The requests of a node\<close>

datatype node_request =
    Publish CsiNodePublishRequest
  | Unpublish CsiNodeUnpublishRequest
  | Stage CsiNodeStageRequest
  | Unstage CsiNodeUnstageRequest

fun handle_request :: "Env \<Rightarrow> NodeWorld \<Rightarrow> Driver \<Rightarrow> node_request \<Rightarrow> unit node_go" where
  "handle_request E w D (Publish req) = NodePublishVolume E w D req"
| "handle_request E w D (Unpublish req) = NodeUnpublishVolume E w req"
| "handle_request E w D (Stage req) = NodeStageVolume E w req"
| "handle_request E w D (Unstage req) = NodeUnstageVolume E w req"

text \<open>A rule on calls that each of the requests keeps, whatever happened before, is kept by all of them together.\<close>

lemma node_requests_each:
  assumes "\<And>r g. each_call Q g (calls_of (handle_request E w D (requests r) g))"
    and "requests_reach ManageNodeVolumeMutex (\<lambda>r. handle_request E w D (requests r)) False h0 (Some (locked, Map.empty, h, order))"
  shows "\<exists>t. h = h0 @ t \<and> each_call Q h0 t"
  using serial_each [where jobs = "\<lambda>r. handle_request E w D (requests r)" and Q = Q, OF assms(1), of order h0] node_mutex.quiescent_serial [OF assms(2)] by simp



end
