(* ===== verification/Cosi_Driver.thy ===== *)
theory Cosi_Driver
  imports Go_Lib
begin

text \<open>
  The driver for object storage, \<open>cosi/pkg/driver/provisioner.go\<close> and \<open>identity.go\<close>, with its S3 client, \<open>cosi/internal/s3/s3.go\<close>
  and \<open>errors.go\<close>. The S3 service (behind the AWS library), the Kubernetes API and the loading of the default AWS configuration are
  parameters, the record \<open>CosiWorld\<close>; as for the InfiniBox, an answer may depend on everything that happened before.
\<close>

definition AWS_ACCESS_KEY_ID :: string where "AWS_ACCESS_KEY_ID = ''AWS_ACCESS_KEY_ID''"
definition AWS_SECRET_ACCESS_KEY :: string where "AWS_SECRET_ACCESS_KEY = ''AWS_SECRET_ACCESS_KEY''"
definition AWS_ENDPOINT_URL :: string where "AWS_ENDPOINT_URL = ''AWS_ENDPOINT_URL''"
definition S3_CREDENTIALS_SECRET_NAME :: string where "S3_CREDENTIALS_SECRET_NAME = ''S3_CREDENTIALS_SECRET_NAME''"
definition POD_NAMESPACE :: string where "POD_NAMESPACE = ''POD_NAMESPACE''"
definition ParamAdminSecretName :: string where "ParamAdminSecretName = ''cosi-driver.infinidat.com/adminSecretName''"
definition ParamAdminSecretNamespace :: string where "ParamAdminSecretNamespace = ''cosi-driver.infinidat.com/adminSecretNamespace''"
definition ParamAccessSecretName :: string where "ParamAccessSecretName = ''cosi-driver.infinidat.com/accessSecretName''"
definition ParamAccessSecretNamespace :: string where "ParamAccessSecretNamespace = ''cosi-driver.infinidat.com/accessSecretNamespace''"

section \<open>Errors\<close>

text \<open>The errors of the AWS library as far as the code tells them apart; \<open>NoAPIError\<close> is an error that is no \<open>smithy.APIError\<close>.\<close>

datatype aws_error = S3NotFound | BucketAlreadyExists | BucketAlreadyOwnedByYou | OtherAPIError string | NoAPIError string

text \<open>The errors of the client: those of \<open>errors.go\<close>, one of the library, another one, and an error wrapped with \<open>%w\<close>.\<close>

datatype s3_error =
    MissingParameterError string
  | BucketNotFoundError string
  | AWSError aws_error
  | PlainError string
  | WrappedError string s3_error

text \<open>\<^verbatim>\<open>errors.AsType[MissingParameterError](err)\<close>, and the same for the other types.\<close>

fun as_missing_parameter :: "s3_error \<Rightarrow> string option" where
  "as_missing_parameter (MissingParameterError p) = Some p"
| "as_missing_parameter (WrappedError s e) = as_missing_parameter e"
| "as_missing_parameter e = None"

fun is_bucket_not_found :: "s3_error \<Rightarrow> bool" where
  "is_bucket_not_found (BucketNotFoundError b) = True"
| "is_bucket_not_found (WrappedError s e) = is_bucket_not_found e"
| "is_bucket_not_found e = False"

section \<open>The outside\<close>

record S3Conn =
  s3_AccessKey :: string
  s3_SecretKey :: string
  s3_Endpoint :: string

datatype cosi_call =
    K8sSecret string string
  | S3Head S3Conn string
  | S3Create S3Conn string
  | S3Delete S3Conn string

type_synonym 'a cosi_go = "(cosi_call, 'a) prog"

text \<open>\<open>w_secret\<close>: the data of a secret, by namespace and name; \<open>w_head\<close>: the region in the answer, when it has one.\<close>

record CosiWorld =
  w_secret :: "cosi_call list \<Rightarrow> string \<Rightarrow> string \<Rightarrow> string + gomap"
  w_config :: "gomap \<Rightarrow> aws_error option"
  w_head :: "cosi_call list \<Rightarrow> S3Conn \<Rightarrow> string \<Rightarrow> aws_error + string option"
  w_create :: "cosi_call list \<Rightarrow> S3Conn \<Rightarrow> string \<Rightarrow> aws_error + unit"
  w_delete :: "cosi_call list \<Rightarrow> S3Conn \<Rightarrow> string \<Rightarrow> aws_error + unit"

definition ask :: "cosi_call \<Rightarrow> (cosi_call list \<Rightarrow> 'a) \<Rightarrow> 'a cosi_go" where
  "ask c f = (\<lambda>h. (Ok (f h), [c]))"

definition get_secret where "get_secret w ns name = ask (K8sSecret ns name) (\<lambda>h. w_secret w h ns name)"
definition head_bucket where "head_bucket w conn b = ask (S3Head conn b) (\<lambda>h. w_head w h conn b)"
definition create_bucket where "create_bucket w conn b = ask (S3Create conn b) (\<lambda>h. w_create w h conn b)"
definition delete_bucket where "delete_bucket w conn b = ask (S3Delete conn b) (\<lambda>h. w_delete w h conn b)"

lemmas ask_defs = get_secret_def head_bucket_def create_bucket_def delete_bucket_def

text \<open>\<^verbatim>\<open>if err != nil { return nil, err }\<close>, and the same with \<open>f\<close> applied to the error.\<close>

definition bind_s3 :: "('e \<Rightarrow> s3_error) \<Rightarrow> ('e + 'a) cosi_go \<Rightarrow> ('a \<Rightarrow> (s3_error + 'b) cosi_go) \<Rightarrow> (s3_error + 'b) cosi_go" where
  "bind_s3 f m k = then_go m (\<lambda>r. case r of Inl e \<Rightarrow> return_go (Inl (f e)) | Inr a \<Rightarrow> k a)"

section \<open>The S3 client\<close>

definition LoadAWSConfigFromSecret :: "CosiWorld \<Rightarrow> gomap \<Rightarrow> s3_error + S3Conn" where
  "LoadAWSConfigFromSecret w secret =
     (case find (\<lambda>k. \<not> provided secret k) [AWS_ACCESS_KEY_ID, AWS_SECRET_ACCESS_KEY, AWS_ENDPOINT_URL] of
        Some k \<Rightarrow> Inl (PlainError (''missing '' @ k @ '' in secret''))
      | None \<Rightarrow> (case w_config w secret of
          Some e \<Rightarrow> Inl (AWSError e)
        | None \<Rightarrow> Inr \<lparr>s3_AccessKey = lookup secret AWS_ACCESS_KEY_ID, s3_SecretKey = lookup secret AWS_SECRET_ACCESS_KEY,
            s3_Endpoint = lookup secret AWS_ENDPOINT_URL\<rparr>))"

definition NewClient_s3 :: "CosiWorld \<Rightarrow> gomap \<Rightarrow> (s3_error + S3Conn) cosi_go" where
  "NewClient_s3 w params =
     (if \<not> provided params ParamAdminSecretName then return_go (Inl (MissingParameterError ParamAdminSecretName))
      else if \<not> provided params ParamAdminSecretNamespace then return_go (Inl (MissingParameterError ParamAdminSecretNamespace))
      else bind_s3 (\<lambda>e. WrappedError ''failed to retrieve admin secret: '' (PlainError e))
        (get_secret w (lookup params ParamAdminSecretNamespace) (lookup params ParamAdminSecretName)) (\<lambda>secret.
      bind_s3 (WrappedError ''failed to load AWS config from secret: '') (return_go (LoadAWSConfigFromSecret w secret)) (\<lambda>conn.
      return_go (Inr conn))))"

definition resolveRegion :: "string option \<Rightarrow> string" where
  "resolveRegion headRegion = (case headRegion of
     Some r \<Rightarrow> if r \<noteq> '''' then r else ''us-east-1''
   | None \<Rightarrow> ''us-east-1'')"

record BucketInfo =
  bi_BucketName :: string
  bi_Endpoint :: string
  bi_Region :: string

definition bucket_info :: "S3Conn \<Rightarrow> string \<Rightarrow> string option \<Rightarrow> BucketInfo" where
  "bucket_info conn bucket headRegion = \<lparr>bi_BucketName = bucket, bi_Endpoint = s3_Endpoint conn, bi_Region = resolveRegion headRegion\<rparr>"

definition BucketInfo_s3 :: "CosiWorld \<Rightarrow> S3Conn \<Rightarrow> string \<Rightarrow> (s3_error + BucketInfo) cosi_go" where
  "BucketInfo_s3 w conn bucket =
     bind_s3 (\<lambda>e. if e = S3NotFound then BucketNotFoundError bucket else WrappedError ''failed to check bucket existence: '' (AWSError e))
       (head_bucket w conn bucket) (\<lambda>region. return_go (Inr (bucket_info conn bucket region)))"

definition CreateBucket_s3 :: "CosiWorld \<Rightarrow> S3Conn \<Rightarrow> string \<Rightarrow> (s3_error + BucketInfo) cosi_go" where
  "CreateBucket_s3 w conn bucket =
     then_go (create_bucket w conn bucket) (\<lambda>created.
     let inform = bind_s3 (\<lambda>e. WrappedError ''failed to retrieve bucket info after creation: '' (AWSError e)) (head_bucket w conn bucket)
           (\<lambda>region. return_go (Inr (bucket_info conn bucket region)))
     in case created of
          Inr _ \<Rightarrow> inform
        | Inl e \<Rightarrow> if e \<in> {BucketAlreadyExists, BucketAlreadyOwnedByYou} then inform
                  else return_go (Inl (WrappedError ''failed to create bucket: '' (AWSError e))))"

definition DeleteBucket_s3 :: "CosiWorld \<Rightarrow> S3Conn \<Rightarrow> string \<Rightarrow> (s3_error + unit) cosi_go" where
  "DeleteBucket_s3 w conn bucket = bind_s3 AWSError (delete_bucket w conn bucket) (\<lambda>_. return_go (Inr ()))"

record AccessInfo =
  ai_AccountID :: string
  ai_AccessKeyID :: string
  ai_SecretKey :: string
  ai_Buckets :: "BucketInfo list"

text \<open>The loop over the buckets: an error of one goes into \<open>errs\<close>, which nothing reads.\<close>

fun access_buckets :: "CosiWorld \<Rightarrow> S3Conn \<Rightarrow> string list \<Rightarrow> BucketInfo list cosi_go" where
  "access_buckets w conn [] = return_go []"
| "access_buckets w conn (bucket # rest) =
     then_go (head_bucket w conn bucket) (\<lambda>r.
     then_go (access_buckets w conn rest) (\<lambda>infos.
     return_go (case r of Inl _ \<Rightarrow> infos | Inr region \<Rightarrow> bucket_info conn bucket region # infos)))"

definition CreateBucketAccess_s3 :: "CosiWorld \<Rightarrow> S3Conn \<Rightarrow> string \<Rightarrow> string list \<Rightarrow> gomap \<Rightarrow> (s3_error + AccessInfo) cosi_go" where
  "CreateBucketAccess_s3 w conn userID buckets params =
     (if \<not> provided params ParamAccessSecretName then return_go (Inl (MissingParameterError ParamAccessSecretName))
      else if \<not> provided params ParamAccessSecretNamespace then return_go (Inl (MissingParameterError ParamAccessSecretNamespace))
      else then_go (access_buckets w conn buckets) (\<lambda>infos.
      bind_s3 PlainError (get_secret w (lookup params ParamAccessSecretNamespace) (lookup params ParamAccessSecretName)) (\<lambda>secret.
      return_go (Inr \<lparr>ai_AccountID = userID, ai_AccessKeyID = lookup secret AWS_ACCESS_KEY_ID, ai_SecretKey = lookup secret AWS_SECRET_ACCESS_KEY,
        ai_Buckets = infos\<rparr>))))"

definition DeleteBucketAccess_s3 :: "S3Conn \<Rightarrow> string \<Rightarrow> string list \<Rightarrow> (s3_error + unit) cosi_go" where
  "DeleteBucketAccess_s3 conn userID buckets = return_go (Inr ())"

text \<open>What the process reads at its start, after the connection to Kubernetes is made; \<open>env\<close> is the environment.\<close>

definition GetS3Credentials :: "CosiWorld \<Rightarrow> (string \<Rightarrow> string) \<Rightarrow> (s3_error + gomap) cosi_go" where
  "GetS3Credentials w env =
     (let ns = env POD_NAMESPACE; secretName = env S3_CREDENTIALS_SECRET_NAME in
      if ns = '''' then return_go (Inl (PlainError (POD_NAMESPACE @ '' not set'')))
      else if secretName = '''' then return_go (Inl (PlainError (S3_CREDENTIALS_SECRET_NAME @ '' not set'')))
      else bind_s3 PlainError (get_secret w ns secretName) (\<lambda>secret.
      case find (\<lambda>k. lookup secret k = '''') [AWS_ACCESS_KEY_ID, AWS_SECRET_ACCESS_KEY, AWS_ENDPOINT_URL] of
        Some k \<Rightarrow> return_go (Inl (PlainError (k @ '' missing in S3 secret'')))
      | None \<Rightarrow> return_go (Inr [(AWS_ACCESS_KEY_ID, lookup secret AWS_ACCESS_KEY_ID), (AWS_SECRET_ACCESS_KEY, lookup secret AWS_SECRET_ACCESS_KEY),
          (AWS_ENDPOINT_URL, lookup secret AWS_ENDPOINT_URL), (ParamAccessSecretName, secretName), (ParamAccessSecretNamespace, ns),
          (ParamAdminSecretName, secretName), (ParamAdminSecretNamespace, ns)])))"

section \<open>The provisioner\<close>

text \<open>An error becomes a gRPC status: \<open>InvalidArgument\<close> where a parameter is missing, \<open>Internal\<close> otherwise.\<close>

definition s3_status :: "string \<Rightarrow> s3_error \<Rightarrow> go_error" where
  "s3_status what e = (case as_missing_parameter e of
     Some p \<Rightarrow> Status_Error InvalidArgument (what @ '' due to missing parameter: '' @ p)
   | None \<Rightarrow> Status_Error Internal what)"

definition or_s3 :: "string \<Rightarrow> (s3_error + 'a) cosi_go \<Rightarrow> ('a \<Rightarrow> 'b cosi_go) \<Rightarrow> 'b cosi_go" where
  "or_s3 what m k = then_go m (\<lambda>r. case r of Inl e \<Rightarrow> fail_go (s3_status what e) | Inr a \<Rightarrow> k a)"

text \<open>The answer: the id and the region of the bucket.\<close>

definition DriverCreateBucket :: "CosiWorld \<Rightarrow> string \<Rightarrow> gomap \<Rightarrow> (string \<times> string) cosi_go" where
  "DriverCreateBucket w bucketName parameters =
     or_s3 ''Failed to initialize S3 client'' (NewClient_s3 w parameters) (\<lambda>s3cli.
     then_go (BucketInfo_s3 w s3cli bucketName) (\<lambda>info.
     let answer = (\<lambda>bucketInfo. return_go (bi_BucketName bucketInfo, bi_Region bucketInfo)) in
     case info of
       Inr bucketInfo \<Rightarrow> answer bucketInfo
     | Inl e \<Rightarrow>
         if \<not> is_bucket_not_found e then fail_go (Status_Error Internal ''Failed to check bucket existence'')
         else or_s3 ''Failed to create bucket'' (CreateBucket_s3 w s3cli bucketName) answer))"

definition DriverDeleteBucket :: "CosiWorld \<Rightarrow> gomap \<Rightarrow> string \<Rightarrow> unit cosi_go" where
  "DriverDeleteBucket w s3Credentials bucketId =
     (if s3Credentials = [] then fail_go (Status_Error InvalidArgument ''missing S3Credentials'')
      else or_s3 ''Failed to initialize S3 client'' (NewClient_s3 w s3Credentials) (\<lambda>s3cli.
      or_s3 ''Failed to delete bucket'' (DeleteBucket_s3 w s3cli bucketId) (\<lambda>_. return_go ())))"

text \<open>The answer: the account and the credentials, here a map with one entry whose secrets are empty.\<close>

definition DriverGrantBucketAccess :: "CosiWorld \<Rightarrow> string \<Rightarrow> string \<Rightarrow> gomap \<Rightarrow> (string \<times> (string \<times> gomap) list) cosi_go" where
  "DriverGrantBucketAccess w name bucketId parameters =
     or_s3 ''Failed to initialize S3 client'' (NewClient_s3 w parameters) (\<lambda>s3cli.
     then_go (BucketInfo_s3 w s3cli bucketId) (\<lambda>info. case info of
       Inl _ \<Rightarrow> fail_go (Status_Error Internal ''Failed to check bucket existence'')
     | Inr _ \<Rightarrow>
         or_s3 ''Failed to create bucket access'' (CreateBucketAccess_s3 w s3cli name [bucketId] parameters) (\<lambda>accessInfo.
         return_go (ai_AccountID accessInfo, [(''somecredential'', [])]))))"

definition DriverRevokeBucketAccess :: "CosiWorld \<Rightarrow> gomap \<Rightarrow> string \<Rightarrow> string \<Rightarrow> unit cosi_go" where
  "DriverRevokeBucketAccess w s3Credentials accountId bucketId =
     (if s3Credentials = [] then fail_go (Status_Error InvalidArgument ''missing S3Credentials'')
      else or_s3 ''Failed to initialize S3 client'' (NewClient_s3 w s3Credentials) (\<lambda>s3cli.
      or_s3 ''Failed to revoke bucket access'' (DeleteBucketAccess_s3 s3cli accountId [bucketId]) (\<lambda>_. return_go ())))"

definition DriverGetInfo :: "string \<Rightarrow> string res" where
  "DriverGetInfo driverName =
     (if driverName = '''' then Err (Status_Error Internal ''empty driver name'') else Ok driverName)"

end
