(* ===== verification/Cosi_Props.thy ===== *)
theory Cosi_Props
  imports Cosi_Driver
begin

text \<open>
  What the object-storage driver promises: buckets are created only where they are missing, the answer names the
  bucket that was asked for, and the credentials read at the start are enough for the later requests. Two theorems record where the
  code does less than its comments say.
\<close>

lemma wp_ask [wp_simps]: "wp (ask c f) h Q = Q (Ok (f h)) [c]"
  by (simp add: wp_def result_of_def calls_of_def ask_def)

lemma run_ask [go_run]: "ask c f h = (Ok (f h), [c])"
  by (simp add: ask_def)

lemma wp_bind_s3 [wp_simps]:
  "wp (bind_s3 f m k) h Q = wp m h (\<lambda>r t. case r of
     Ok (Inr a) \<Rightarrow> wp (k a) (h @ t) (\<lambda>r' t'. Q r' (t @ t')) | Ok (Inl e) \<Rightarrow> Q (Ok (Inl (f e))) t | Err e \<Rightarrow> Q (Err e) t | Crash x \<Rightarrow> Q (Crash x) t)"
  unfolding bind_s3_def wp_then by (rule arg_cong [where f = "wp m h"]) (auto simp: fun_eq_iff wp_simps split: res.splits sum.splits)

lemma wp_or_s3 [wp_simps]:
  "wp (or_s3 what m k) h Q = wp m h (\<lambda>r t. case r of
     Ok (Inr a) \<Rightarrow> wp (k a) (h @ t) (\<lambda>r' t'. Q r' (t @ t')) | Ok (Inl e) \<Rightarrow> Q (Err (s3_status what e)) t | Err e \<Rightarrow> Q (Err e) t | Crash x \<Rightarrow> Q (Crash x) t)"
  unfolding or_s3_def wp_then by (rule arg_cong [where f = "wp m h"]) (auto simp: fun_eq_iff wp_simps split: res.splits sum.splits)

lemma resolveRegion_nonempty [simp]: "resolveRegion r \<noteq> ''''"
  by (auto simp: resolveRegion_def split: option.splits)

section \<open>Buckets\<close>

text \<open>Nothing is deleted; a bucket is created only right after S3 has said, over the same connection, that there is none of its name.\<close>

definition create_rule :: "CosiWorld \<Rightarrow> string \<Rightarrow> cosi_call list \<Rightarrow> cosi_call \<Rightarrow> bool" where
  "create_rule w bucket g c = (case c of
     S3Create conn b \<Rightarrow> b = bucket \<and> (\<exists>g'. g = g' @ [S3Head conn b] \<and> w_head w g' conn b = Inl S3NotFound)
   | S3Delete conn b \<Rightarrow> False
   | S3Head conn b \<Rightarrow> b = bucket
   | K8sSecret ns name \<Rightarrow> True)"

lemma create_bucket_wp:
  "wp (DriverCreateBucket w bucket params) h (\<lambda>r t. each_call (create_rule w bucket) h t \<and>
     (\<forall>b region. r = Ok (b, region) \<longrightarrow> b = bucket \<and> region \<noteq> '''') \<and> (\<forall>x. r \<noteq> Crash x))"
  unfolding DriverCreateBucket_def NewClient_s3_def BucketInfo_s3_def CreateBucket_s3_def ask_defs Let_def
  by (auto simp: wp_simps create_rule_def bucket_info_def split: sum.splits if_splits)

text \<open>C36: Creating a bucket is idempotent and safe: whatever S3 answers, nothing is deleted, a bucket is created only right after S3 has said
  that there is none of that name, the answer names the requested bucket with a region, and the request does not panic.\<close>

theorem cosi_create_rule:
  "each_call (create_rule w bucket) h (calls_of (DriverCreateBucket w bucket params h)) \<and>
   returns (\<lambda>(b, region). b = bucket \<and> region \<noteq> '''') (DriverCreateBucket w bucket params) \<and> safe (DriverCreateBucket w bucket params)"
  using create_bucket_wp unfolding wp_def returns_def safe_def result_of_def by fastforce

text \<open>A bucket that is already gone: the comment of \<open>DriverDeleteBucket\<close> promises success, the code answers \<open>Internal\<close>.\<close>

theorem cosi_delete_missing_bucket:
  assumes "NewClient_s3 w creds h = (Ok (Inr conn), t)" and "creds \<noteq> []" and "w_delete w (h @ t) conn b = Inl (OtherAPIError ''NoSuchBucket'')"
  shows "result_of (DriverDeleteBucket w creds b h) = Err (Status_Error Internal ''Failed to delete bucket'')"
  using assms by (simp add: DriverDeleteBucket_def or_s3_def DeleteBucket_s3_def bind_s3_def delete_bucket_def go_run result_of_def s3_status_def)

section \<open>Access\<close>

text \<open>Granting access reads the secret of the account, but the credentials it answers are empty.\<close>

theorem cosi_grant_without_secrets:
  "returns (\<lambda>(account, credentials). account = name \<and> list_all (\<lambda>(k, secrets). secrets = []) credentials) (DriverGrantBucketAccess w name bucket params)"
proof -
  have "wp (DriverGrantBucketAccess w name bucket params) h (\<lambda>r t. \<forall>a c. r = Ok (a, c) \<longrightarrow> a = name \<and> list_all (\<lambda>(k, secrets). secrets = []) c)" for h
    unfolding DriverGrantBucketAccess_def NewClient_s3_def BucketInfo_s3_def CreateBucketAccess_s3_def
    by (auto simp: wp_simps ask_defs split: sum.splits if_splits)
  then show ?thesis unfolding wp_def returns_def result_of_def by fastforce
qed

section \<open>The credentials of the process\<close>

lemma lookup_parameters:
  "AWS_ACCESS_KEY_ID \<noteq> ParamAdminSecretName" "AWS_SECRET_ACCESS_KEY \<noteq> ParamAdminSecretName" "AWS_ENDPOINT_URL \<noteq> ParamAdminSecretName"
  "ParamAccessSecretName \<noteq> ParamAdminSecretName" "ParamAccessSecretNamespace \<noteq> ParamAdminSecretName"
  "AWS_ACCESS_KEY_ID \<noteq> ParamAdminSecretNamespace" "AWS_SECRET_ACCESS_KEY \<noteq> ParamAdminSecretNamespace" "AWS_ENDPOINT_URL \<noteq> ParamAdminSecretNamespace"
  "ParamAccessSecretName \<noteq> ParamAdminSecretNamespace" "ParamAccessSecretNamespace \<noteq> ParamAdminSecretNamespace" "ParamAdminSecretName \<noteq> ParamAdminSecretNamespace"
  by (simp_all add: AWS_ACCESS_KEY_ID_def AWS_SECRET_ACCESS_KEY_def AWS_ENDPOINT_URL_def ParamAdminSecretName_def ParamAdminSecretNamespace_def
      ParamAccessSecretName_def ParamAccessSecretNamespace_def)

text \<open>What the process reads at its start is enough for the requests without parameters: they find the same secret again.\<close>

theorem cosi_credentials_suffice:
  assumes "GetS3Credentials w env h = (Ok (Inr creds), t)"
  shows "creds \<noteq> [] \<and> (\<exists>conn. NewClient_s3 w creds g = (conn, [K8sSecret (env POD_NAMESPACE) (env S3_CREDENTIALS_SECRET_NAME)]))"
proof -
  from assms have "creds \<noteq> []" and "map_of creds ParamAdminSecretName = Some (env S3_CREDENTIALS_SECRET_NAME)"
    and "map_of creds ParamAdminSecretNamespace = Some (env POD_NAMESPACE)"
    by (auto simp: GetS3Credentials_def bind_s3_def get_secret_def go_run Let_def lookup_parameters lookup_parameters [symmetric]
        split: if_splits sum.splits option.splits)
  then show ?thesis
    by (simp add: NewClient_s3_def bind_s3_def get_secret_def go_run provided_def lookup_def split: sum.splits)
qed

end
