(* ===== verification/Cosi_Start.thy ===== *)
theory Cosi_Start
  imports Cosi_Props Go_Loops
begin

text \<open>
  \<open>cosi/cmd/main.go\<close>: the start and the end of the driver for object storage. Sockets, the gRPC library and the parsing of URLs are parameters; the
  signal that stops the server is the return of \<open>Serve\<close>.
\<close>

datatype cosi_event = Ev_Call cosi_call | Ev_Remove string | Ev_Listen string string | Ev_Register string | Ev_Serve

fun call_of_event :: "cosi_event \<Rightarrow> cosi_call option" where
  "call_of_event (Ev_Call c) = Some c"
| "call_of_event _ = None"

record CosiProcess =
  cp_env :: "string \<Rightarrow> string option"
  cp_world :: CosiWorld
  cp_Kube :: "string \<Rightarrow> go_error option"
  cp_Parse :: "string \<Rightarrow> (string \<times> string) option"
  cp_Listen :: "cosi_event list \<Rightarrow> string \<Rightarrow> string \<Rightarrow> go_error option"
  cp_Serve :: "cosi_event list \<Rightarrow> go_error option"

type_synonym 'a cosi_run = "(cosi_event, 'a) prog"

definition event :: "cosi_event \<Rightarrow> (cosi_event list \<Rightarrow> 'a) \<Rightarrow> 'a cosi_run" where
  "event c f = (\<lambda>h. (Ok (f h), [c]))"

definition getenv_cosi :: "CosiProcess \<Rightarrow> string \<Rightarrow> string" where
  "getenv_cosi w key = (case cp_env w key of None \<Rightarrow> '''' | Some v \<Rightarrow> v)"

definition defaultEnv :: "CosiProcess \<Rightarrow> string \<Rightarrow> string \<Rightarrow> string" where
  "defaultEnv w key defaultValue = (case cp_env w key of
     None \<Rightarrow> defaultValue
   | Some v \<Rightarrow> if v = '''' then defaultValue else TrimSpace v)"

record runOptions =
  ro_driverName :: string
  ro_cosiEndpoint :: string
  ro_kubeconfig :: string
  ro_creds :: gomap

text \<open>The listener, here its scheme and path; a stale socket is removed first, whatever that answers.\<close>

definition listener :: "CosiProcess \<Rightarrow> string \<Rightarrow> (string \<times> string) cosi_run" where
  "listener w cosiEndpoint = (case cp_Parse w cosiEndpoint of
     None \<Rightarrow> fail_go (Errors_New ''unable to parse COSI endpoint'')
   | Some (scheme, path) \<Rightarrow>
       then_go (if scheme = ''unix'' then event (Ev_Remove path) (\<lambda>_. ()) else return_go ()) (\<lambda>_.
       then_go (event (Ev_Listen scheme path) (\<lambda>h. cp_Listen w h scheme path)) (\<lambda>err. case err of
         Some e \<Rightarrow> fail_go (Errorf ''unable to create listener: '' e)
       | None \<Rightarrow> return_go (scheme, path))))"

definition cleanup_socket :: "string \<times> string \<Rightarrow> unit cosi_run" where
  "cleanup_socket = (\<lambda>(scheme, path). if scheme = ''unix'' then event (Ev_Remove path) (\<lambda>_. ()) else return_go ())"

definition grpcServer :: "unit cosi_run" where
  "grpcServer = then_go (event (Ev_Register ''Identity'') (\<lambda>_. ())) (\<lambda>_. event (Ev_Register ''Provisioner'') (\<lambda>_. ()))"

definition run_cosi :: "CosiProcess \<Rightarrow> runOptions \<Rightarrow> unit cosi_run" where
  "run_cosi w opts = (case cp_Kube w (ro_kubeconfig opts) of
     Some e \<Rightarrow> fail_go (Errorf ''unable to create Kubernetes client: '' e)
   | None \<Rightarrow> then_go grpcServer (\<lambda>_.
      try_go (listener w (ro_cosiEndpoint opts)) (\<lambda>e. fail_go (Errorf ''failed to create listener'' e)) (\<lambda>lis.
      then_go (event Ev_Serve (cp_Serve w)) (\<lambda>served.
      then_go (cleanup_socket lis) (\<lambda>_. case served of
        Some e \<Rightarrow> fail_go (Errorf ''gRPC server failed: '' e)
      | None \<Rightarrow> return_go ())))))"

text \<open>\<open>False\<close> is \<open>os.Exit(1)\<close>.\<close>

definition main_cosi :: "CosiProcess \<Rightarrow> bool cosi_run" where
  "main_cosi w =
     then_go (embed Ev_Call call_of_event (GetS3Credentials (cp_world w) (getenv_cosi w))) (\<lambda>creds. case creds of
       Inl e \<Rightarrow> return_go False
     | Inr creds \<Rightarrow>
         try_go (run_cosi w \<lparr>ro_driverName = defaultEnv w ''X_COSI_DRIVER_NAME'' ''cosi-driver.infinidat.com'',
             ro_cosiEndpoint = defaultEnv w ''COSI_ENDPOINT'' ''unix:///var/lib/cosi/cosi.sock'', ro_kubeconfig = defaultEnv w ''KUBECONFIG'' '''', ro_creds = creds\<rparr>)
           (\<lambda>_. return_go False) (\<lambda>_. return_go True))"

section \<open>What the server has when it serves\<close>

lemma wp_event [wp_simps]: "wp (event c f) h Q = Q (Ok (f h)) [c]"
  by (simp add: wp_def result_of_def calls_of_def event_def)

definition prepared :: "cosi_event list \<Rightarrow> bool" where
  "prepared t \<longleftrightarrow> Ev_Serve \<in> set t \<longrightarrow> (\<exists>scheme path.
     {Ev_Register ''Identity'', Ev_Register ''Provisioner'', Ev_Listen scheme path} \<subseteq> set (takeWhile (\<lambda>e. e \<noteq> Ev_Serve) t) \<and>
     tl (dropWhile (\<lambda>e. e \<noteq> Ev_Serve) t) = (if scheme = ''unix'' then [Ev_Remove path] else []))"

lemma run_cosi_wp: "wp (run_cosi w opts) h (\<lambda>r t. prepared t \<and> (\<forall>x. r \<noteq> Crash x))"
  unfolding run_cosi_def grpcServer_def listener_def cleanup_socket_def
  by (auto simp: wp_simps prepared_def split: option.splits)

lemma credentials_no_crash: "wp (GetS3Credentials w env) h (\<lambda>r t. \<forall>x. r \<noteq> Crash x)"
  unfolding GetS3Credentials_def Let_def by (auto simp: wp_simps ask_defs split: sum.splits option.splits)

lemma credentials_embedded:
  "wp (embed Ev_Call call_of_event (GetS3Credentials w env)) h (\<lambda>r t. \<exists>t0. GetS3Credentials w env (List.map_filter call_of_event h) = (r, t0) \<and>
     t = map Ev_Call t0 \<and> (\<forall>x. r \<noteq> Crash x))"
  unfolding wp_embed using credentials_no_crash [of w env "List.map_filter call_of_event h"]
  by (cases "GetS3Credentials w env (List.map_filter call_of_event h)") (auto simp: wp_def result_of_def calls_of_def)

lemma delete_with_credentials:
  assumes "creds \<noteq> []"
  shows "result_of (DriverDeleteBucket w creds bucket g) \<noteq> Err (Status_Error InvalidArgument ''missing S3Credentials'')"
proof -
  have "wp (DriverDeleteBucket w creds bucket) g (\<lambda>r t. r \<noteq> Err (Status_Error InvalidArgument ''missing S3Credentials''))"
    using assms unfolding DriverDeleteBucket_def NewClient_s3_def DeleteBucket_s3_def
    by (auto simp: wp_simps ask_defs s3_status_def split: sum.splits option.splits)
  then show ?thesis
    by (simp add: wp_def)
qed

text \<open>The object-storage driver serves only when it is ready: the credentials are read and enough for the requests that have no parameters of their own, both services
  are registered and the socket is open; afterwards the socket file is removed, and nothing panics.\<close>

theorem cosi_serves_prepared:
  "wp (main_cosi w) h (\<lambda>r t. (\<forall>x. r \<noteq> Crash x) \<and> (Ev_Serve \<in> set t \<longrightarrow>
     (\<exists>creds t0 t1. GetS3Credentials (cp_world w) (getenv_cosi w) (List.map_filter call_of_event h) = (Ok (Inr creds), t0) \<and>
        t = map Ev_Call t0 @ t1 \<and> prepared t1 \<and>
        (\<forall>g bucket. result_of (DriverDeleteBucket (cp_world w) creds bucket g) \<noteq> Err (Status_Error InvalidArgument ''missing S3Credentials'')))))"
  (is "wp _ h ?Q")
proof -
  have served: "wp (try_go (run_cosi w opts) (\<lambda>_. return_go False) (\<lambda>_. return_go True)) g (\<lambda>r t. prepared t \<and> (\<forall>x. r \<noteq> Crash x))" for opts g
    by (rule wp_try_rule [OF run_cosi_wp]) (auto simp: wp_return)
  show ?thesis
    unfolding main_cosi_def
  proof (rule wp_then_rule [OF credentials_embedded], goal_cases)
    case (1 creds t)
    then obtain t0 where t0: "GetS3Credentials (cp_world w) (getenv_cosi w) (List.map_filter call_of_event h) = (Ok creds, t0)" "t = map Ev_Call t0"
      by blast
    show ?case
    proof (cases creds)
      case (Inr c)
      have "\<And>g bucket. result_of (DriverDeleteBucket (cp_world w) c bucket g) \<noteq> Err (Status_Error InvalidArgument ''missing S3Credentials'')"
        by (rule delete_with_credentials) (use cosi_credentials_suffice t0(1) Inr in blast)
      then show ?thesis
        using t0 Inr by (auto intro: wp_mono [OF served])
    qed (use t0 in \<open>auto simp: wp_return\<close>)
  qed auto
qed

end
