(* ===== verification/Metrics_Service.thy ===== *)
theory Metrics_Service
  imports Go_Lib
begin

text \<open>
  The metrics process, \<open>metrics/*.go\<close>: its configuration, and for each of the four kinds of metrics what one round of its endless loop
  does. The process talks to the InfiniBox over HTTP on its own, to Kubernetes, and to the Prometheus library; these and the decoding
  of JSON and of durations are parameters, the record \<open>MetricsWorld\<close>. Gauges take floating-point numbers; here they are set to the
  integer that the code converts, a charge level to the text of its number. Sleeping is left out.
\<close>

definition DefaultInterval :: string where "DefaultInterval = ''30s''"
definition PoolMetrics :: string where "PoolMetrics = ''pool_metrics''"
definition PVMetrics :: string where "PVMetrics = ''pv_metrics''"
definition MetricIboxPerfMetrics :: string where "MetricIboxPerfMetrics = ''ibox_performance_metrics''"
definition MetricIboxSystemMetrics :: string where "MetricIboxSystemMetrics = ''ibox_system_metrics''"
definition FieldOps :: string where "FieldOps = ''ops''"
definition FieldLatencyNAS :: string where "FieldLatencyNAS = ''latency''"
definition FieldLatencySAN :: string where "FieldLatencySAN = ''external_latency_wout_err''"
definition FieldThroughput :: string where "FieldThroughput = ''throughput''"

section \<open>The outside\<close>

record IboxCredentials =
  ib_Hostname :: string
  ib_IPAddress :: string
  ib_Password :: string
  ib_Username :: string

record Pool =
  mpool_Name :: string
  mpool_PhysicalCapacity :: int64
  mpool_AllocatedPhysicalSpace :: int64

record StorageClassInfo =
  sci_Name :: string
  sci_Provisioner :: string
  sci_Parameters :: gomap

record PVItem =
  pvi_Name :: string
  pvi_ProvisionedBy :: string
  pvi_StorageClassName :: string
  pvi_Storage :: int64

record Collector =
  col_Fields :: "string list"
  col_Data :: "int64 list list"

text \<open>A charge level is any JSON value: the text of a number, or something else.\<close>

record HealthState =
  hs_ActiveCacheSsdDevices :: int
  hs_ActiveDrives :: int
  hs_ActiveEncryptedCacheSsdDevices :: int
  hs_ActiveEncryptedDrives :: int
  hs_BbuAggregateChargePercent :: int
  hs_BbuChargeLevel :: "(string \<times> string option) list"
  hs_BbuProtectedNodes :: int
  hs_EnclosureFailureSafeDistribution :: bool
  hs_EncryptionEnabled :: bool
  hs_FailedDrives :: int
  hs_InactiveNodes :: int
  hs_MissingDrives :: int
  hs_NodeBbuProtection :: "(string \<times> string option) list"
  hs_PhasingOutDrives :: int
  hs_RaidGroupsPendingRebuild1 :: int
  hs_RaidGroupsPendingRebuild2 :: int
  hs_ReadyDrives :: int
  hs_Rebuild1Inprogress :: bool
  hs_Rebuild2Inprogress :: bool
  hs_TestingDrives :: int
  hs_UnknownDrives :: int

record SystemResult =
  sys_Name :: string
  sys_HealthState :: HealthState

datatype collector_request = CollectorRequest "string list" string

datatype http_call = GetPools | GetSystemStatus | PostCollector collector_request | GetCollectorData int64 | DeleteCollector int64

datatype gauge_value = GaugeInt int | GaugeText string

datatype (plugins only: code size) m_call =
    M_Http string http_call
  | M_StorageClasses
  | M_PVs
  | M_StorageClass string
  | M_Set string "string list" gauge_value
  | M_Exit

type_synonym 'a metrics_go = "(m_call, 'a) prog"

record MetricsWorld =
  mw_Http :: "m_call list \<Rightarrow> IboxCredentials \<Rightarrow> http_call \<Rightarrow> go_error + string"
  mw_StorageClasses :: "m_call list \<Rightarrow> go_error + StorageClassInfo list"
  mw_PVs :: "m_call list \<Rightarrow> go_error + PVItem list"
  mw_StorageClass :: "m_call list \<Rightarrow> string \<Rightarrow> go_error + StorageClassInfo"
  mw_decode_Pools :: "string \<Rightarrow> go_error + Pool list"
  mw_decode_Created :: "string \<Rightarrow> go_error + int64"
  mw_decode_Data :: "string \<Rightarrow> go_error + Collector list"
  mw_decode_Deleted :: "string \<Rightarrow> go_error + unit"
  mw_decode_Status :: "string \<Rightarrow> go_error + SystemResult"
  mw_ParseDuration :: "string \<Rightarrow> int64 option"

definition request :: "MetricsWorld \<Rightarrow> IboxCredentials \<Rightarrow> http_call \<Rightarrow> string metrics_go" where
  "request w ibox c = invoke (M_Http (ib_Hostname ibox) c) (\<lambda>h. mw_Http w h ibox c)"

text \<open>\<^verbatim>\<open>Gauge.With(labels).Set(v)\<close>\<close>

definition set_gauge :: "string \<Rightarrow> string list \<Rightarrow> gauge_value \<Rightarrow> unit metrics_go" where
  "set_gauge gauge labels v = invoke (M_Set gauge labels v) (\<lambda>h. Inr ())"

definition decoded :: "(go_error + 'a) \<Rightarrow> 'a metrics_go" where
  "decoded r = (case r of Inl e \<Rightarrow> fail_go e | Inr a \<Rightarrow> return_go a)"

text \<open>\<^verbatim>\<open>if err != nil { slog.Error(err.Error()); continue }\<close> in a loop whose body is the rest.\<close>

definition or_continue :: "'a metrics_go \<Rightarrow> ('a \<Rightarrow> unit metrics_go) \<Rightarrow> unit metrics_go" where
  "or_continue m k = try_go m (\<lambda>_. return_go ()) k"

fun for_each :: "('x \<Rightarrow> unit metrics_go) \<Rightarrow> 'x list \<Rightarrow> unit metrics_go" where
  "for_each f [] = return_go ()"
| "for_each f (x # xs) = then_go (f x) (\<lambda>_. for_each f xs)"

section \<open>The configuration (config.go)\<close>

record MetricsSpec =
  ms_Duration :: string
  ms_Name :: string

record MetricsConfig =
  mc_Ibox :: "IboxCredentials list"
  mc_Metrics :: "MetricsSpec list"

definition Validate_metrics :: "MetricsWorld \<Rightarrow> MetricsConfig \<Rightarrow> bool" where
  "Validate_metrics w c = list_ex (\<lambda>metric. mw_ParseDuration w (ms_Duration metric) = None \<or>
     ms_Name metric \<notin> {PoolMetrics, PVMetrics, MetricIboxPerfMetrics, MetricIboxSystemMetrics}) (mc_Metrics c)"

text \<open>An error of \<open>ParseDuration\<close> leaves the duration zero.\<close>

definition duration :: "MetricsWorld \<Rightarrow> string \<Rightarrow> int64" where
  "duration w s = (case mw_ParseDuration w s of None \<Rightarrow> 0 | Some t \<Rightarrow> t)"

definition GetDuration :: "MetricsWorld \<Rightarrow> MetricsConfig \<Rightarrow> string \<Rightarrow> int64" where
  "GetDuration w c name = (case find (\<lambda>m. ms_Name m = name) (mc_Metrics c) of
     Some m \<Rightarrow> (case mw_ParseDuration w (ms_Duration m) of None \<Rightarrow> duration w DefaultInterval | Some t \<Rightarrow> t)
   | None \<Rightarrow> duration w DefaultInterval)"

text \<open>\<open>net.LookupIP\<close> is the function \<open>lookup_ip\<close>; of several addresses the last one stays.\<close>

definition ibox_credentials :: "(string \<Rightarrow> string list option) \<Rightarrow> gomap \<Rightarrow> IboxCredentials" where
  "ibox_credentials lookup_ip sMap = (let hostname = lookup sMap ''hostname'' in
     \<lparr>ib_Hostname = hostname,
      ib_IPAddress = (case lookup_ip hostname of None \<Rightarrow> ''unknown'' | Some [] \<Rightarrow> '''' | Some ips \<Rightarrow> last ips),
      ib_Password = lookup sMap ''password'', ib_Username = lookup sMap ''username''\<rparr>)"

text \<open>\<open>NewConfig\<close>, behind the reading and decoding of the file.\<close>

definition NewConfig :: "MetricsWorld \<Rightarrow> (string \<Rightarrow> string list option) \<Rightarrow> MetricsSpec list \<Rightarrow> gomap list \<Rightarrow> MetricsConfig res" where
  "NewConfig w lookup_ip metrics secrets =
     (if Validate_metrics w \<lparr>mc_Ibox = [], mc_Metrics = metrics\<rparr> then Err (Errors_New ''validation of the metrics config file failed'')
      else Ok \<lparr>mc_Ibox = map (ibox_credentials lookup_ip) secrets, mc_Metrics = metrics\<rparr>)"

section \<open>Pools (poolmetrics.go)\<close>

definition driver_provisioner :: string where "driver_provisioner = ''infinibox-csi-driver''"

definition getStorageClasses :: "MetricsWorld \<Rightarrow> StorageClassInfo list metrics_go" where
  "getStorageClasses w = then_go (invoke M_StorageClasses (\<lambda>h. mw_StorageClasses w h)) (\<lambda>items.
     return_go (filter (\<lambda>sc. sci_Provisioner sc = driver_provisioner) items))"

text \<open>\<open>log.Fatal\<close> ends the process.\<close>

definition getPools :: "MetricsWorld \<Rightarrow> IboxCredentials \<Rightarrow> Pool list metrics_go" where
  "getPools w ibox = then_go (request w ibox GetPools) (\<lambda>responseData.
     case mw_decode_Pools w responseData of
       Inl e \<Rightarrow> then_go (invoke M_Exit (\<lambda>h. Inr ())) (\<lambda>_. panic_go ''log.Fatal'')
     | Inr pools \<Rightarrow> return_go pools)"

definition lookupPool :: "Pool list \<Rightarrow> string \<Rightarrow> Pool option" where
  "lookupPool pools poolName = find (\<lambda>p. mpool_Name p = poolName) pools"

definition sc_pool :: "StorageClassInfo \<Rightarrow> string" where
  "sc_pool sc = lookup (sci_Parameters sc) ''pool_name''"

definition getPoolInfo :: "MetricsWorld \<Rightarrow> IboxCredentials \<Rightarrow> (StorageClassInfo \<times> Pool) list metrics_go" where
  "getPoolInfo w ibox =
     then_go (getStorageClasses w) (\<lambda>storageClasses.
     then_go (getPools w ibox) (\<lambda>allPools.
     return_go (concat (map (\<lambda>sc. case lookupPool allPools (sc_pool sc) of None \<Rightarrow> [] | Some p \<Rightarrow> [(sc, p)]) storageClasses))))"

text \<open>\<^verbatim>\<open>(AllocatedPhysicalSpace / PhysicalCapacity) * 100.00\<close> on 64-bit integers.\<close>

definition pool_pct :: "Pool \<Rightarrow> int64 res" where
  "pool_pct p = (if mpool_PhysicalCapacity p = 0 then Crash (GoPanic ''integer divide by zero'')
     else Ok (wrap64 (go_div (mpool_AllocatedPhysicalSpace p) (mpool_PhysicalCapacity p) * 100)))"

definition pool_labels :: "StorageClassInfo \<Rightarrow> string list" where
  "pool_labels sc = map (lookup (sci_Parameters sc)) [''pool_name'', ''provision_type'', ''ssd_enabled'', ''network_space'', ''storage_protocol'']"

definition record_pool :: "StorageClassInfo \<times> Pool \<Rightarrow> unit metrics_go" where
  "record_pool = (\<lambda>(sc, p).
     then_go (set_gauge ''ibox_pool_available_cap'' (pool_labels sc) (GaugeInt (mpool_PhysicalCapacity p))) (\<lambda>_.
     then_go (set_gauge ''ibox_pool_used_cap'' (pool_labels sc) (GaugeInt (mpool_AllocatedPhysicalSpace p))) (\<lambda>_.
     then_go (pure_go (pool_pct p)) (\<lambda>pct.
     set_gauge ''ibox_pool_pct_utilized'' (pool_labels sc) (GaugeInt pct)))))"

definition RecordPoolMetrics :: "MetricsWorld \<Rightarrow> MetricsConfig \<Rightarrow> unit metrics_go" where
  "RecordPoolMetrics w config = for_each (\<lambda>ibox. or_continue (getPoolInfo w ibox) (for_each record_pool)) (mc_Ibox config)"

section \<open>PersistentVolumes (pvmetrics.go)\<close>

fun pv_infos :: "MetricsWorld \<Rightarrow> PVItem list \<Rightarrow> (PVItem \<times> StorageClassInfo) list metrics_go" where
  "pv_infos w [] = return_go []"
| "pv_infos w (pv # rest) =
     (if pvi_ProvisionedBy pv \<noteq> driver_provisioner then pv_infos w rest
      else try_go (invoke (M_StorageClass (pvi_StorageClassName pv)) (\<lambda>h. mw_StorageClass w h (pvi_StorageClassName pv)))
        (\<lambda>_. pv_infos w rest)
        (\<lambda>sc. then_go (pv_infos w rest) (\<lambda>infos. return_go ((pv, sc) # infos))))"

definition getPVInfo :: "MetricsWorld \<Rightarrow> (PVItem \<times> StorageClassInfo) list metrics_go" where
  "getPVInfo w = then_go (invoke M_PVs (\<lambda>h. mw_PVs w h)) (pv_infos w)"

definition record_pv :: "PVItem \<times> StorageClassInfo \<Rightarrow> unit metrics_go" where
  "record_pv = (\<lambda>(pv, sc). set_gauge ''ibox_pv_total_size''
     ([pvi_Name pv, sci_Name sc] @ map (lookup (sci_Parameters sc)) [''provision_type'', ''ssd_enabled'', ''network_space'', ''storage_protocol''])
     (GaugeInt (pvi_Storage pv)))"

definition RecordPVMetrics :: "MetricsWorld \<Rightarrow> unit metrics_go" where
  "RecordPVMetrics w = or_continue (getPVInfo w) (for_each record_pv)"

section \<open>Performance (performancemetrics.go)\<close>

definition create_collector :: "MetricsWorld \<Rightarrow> IboxCredentials \<Rightarrow> string \<Rightarrow> string \<Rightarrow> int64 metrics_go" where
  "create_collector w ibox latency protocolType =
     then_go (request w ibox (PostCollector (CollectorRequest [FieldOps, FieldThroughput, latency] protocolType))) (\<lambda>responseData.
     decoded (mw_decode_Created w responseData))"

definition createCollectors :: "MetricsWorld \<Rightarrow> IboxCredentials \<Rightarrow> (int64 \<times> int64) metrics_go" where
  "createCollectors w ibox =
     then_go (create_collector w ibox FieldLatencySAN ''SAN'') (\<lambda>san.
     then_go (create_collector w ibox FieldLatencyNAS ''NAS'') (\<lambda>nas.
     if nas = 0 then fail_go (Errors_New ''nas collector not found'')
     else if san = 0 then fail_go (Errors_New ''san collector not found'')
     else return_go (nas, san)))"

definition getCollectorData :: "MetricsWorld \<Rightarrow> IboxCredentials \<Rightarrow> int64 \<Rightarrow> Collector list metrics_go" where
  "getCollectorData w ibox collectorID =
     then_go (request w ibox (GetCollectorData collectorID)) (\<lambda>responseData. decoded (mw_decode_Data w responseData))"

definition deleteCollector :: "MetricsWorld \<Rightarrow> IboxCredentials \<Rightarrow> int64 \<Rightarrow> unit metrics_go" where
  "deleteCollector w ibox collectorID =
     then_go (request w ibox (DeleteCollector collectorID)) (\<lambda>response. decoded (mw_decode_Deleted w response))"

text \<open>The index of a field is that of its last occurrence, and zero when it does not occur.\<close>

definition field_index :: "string set \<Rightarrow> string list \<Rightarrow> nat" where
  "field_index names cols = (case filter (\<lambda>i. cols ! i \<in> names) [0..<length cols] of [] \<Rightarrow> 0 | is \<Rightarrow> last is)"

fun column_total :: "nat \<Rightarrow> int64 list list \<Rightarrow> int64 \<Rightarrow> int64 res" where
  "column_total i [] sum0 = Ok sum0"
| "column_total i (sample # data) sum0 =
     (if i < length sample then column_total i data (wrap64 (sum0 + sample ! i)) else Crash (GoPanic ''index out of range''))"

definition average :: "nat \<Rightarrow> int64 list list \<Rightarrow> int64 res" where
  "average i data = (case column_total i data 0 of
     Ok sum0 \<Rightarrow> Ok (if data \<noteq> [] then go_div sum0 (int (length data)) else 0)
   | r \<Rightarrow> r)"

definition getCounterAverages :: "string list \<Rightarrow> int64 list list \<Rightarrow> (int64 \<times> int64 \<times> int64) res" where
  "getCounterAverages names data =
     (case average (field_index {FieldOps} names) data of
        Ok ops \<Rightarrow> (case average (field_index {FieldThroughput} names) data of
          Ok throughput \<Rightarrow> (case average (field_index {FieldLatencyNAS, FieldLatencySAN} names) data of
            Ok latency \<Rightarrow> Ok (ops, throughput, latency)
          | Err e \<Rightarrow> Err e | Crash x \<Rightarrow> Crash x)
        | Err e \<Rightarrow> Err e | Crash x \<Rightarrow> Crash x)
      | Err e \<Rightarrow> Err e | Crash x \<Rightarrow> Crash x)"

definition collector_averages :: "Collector list \<Rightarrow> (int64 \<times> int64 \<times> int64) res" where
  "collector_averages collectors = (case collectors of
     [] \<Rightarrow> Crash (GoPanic ''index out of range: Collectors'')
   | c # _ \<Rightarrow> getCounterAverages (col_Fields c) (col_Data c))"

definition record_averages :: "IboxCredentials \<Rightarrow> string \<Rightarrow> int64 \<times> int64 \<times> int64 \<Rightarrow> unit metrics_go" where
  "record_averages ibox protocol = (\<lambda>(ops, throughput, latency).
     let labels = [ib_IPAddress ibox, ib_Hostname ibox, protocol] in
     then_go (set_gauge ''ibox_perf_iops'' labels (GaugeInt ops)) (\<lambda>_.
     then_go (set_gauge ''ibox_perf_throughput'' labels (GaugeInt throughput)) (\<lambda>_.
     set_gauge ''ibox_perf_latency'' labels (GaugeInt latency))))"

definition record_performance :: "MetricsWorld \<Rightarrow> IboxCredentials \<Rightarrow> unit metrics_go" where
  "record_performance w ibox =
     or_continue (createCollectors w ibox) (\<lambda>(nasID, sanID).
     or_continue (getCollectorData w ibox nasID) (\<lambda>response.
     then_go (pure_go (collector_averages response)) (\<lambda>nas.
     then_go (record_averages ibox ''NAS'' nas) (\<lambda>_.
     or_continue (getCollectorData w ibox sanID) (\<lambda>sanResponse.
     then_go (pure_go (collector_averages sanResponse)) (\<lambda>san.
     or_continue (deleteCollector w ibox nasID) (\<lambda>_.
     or_continue (deleteCollector w ibox sanID) (\<lambda>_.
     record_averages ibox ''SAN'' san))))))))"

definition RecordPerformanceMetrics :: "MetricsWorld \<Rightarrow> MetricsConfig \<Rightarrow> unit metrics_go" where
  "RecordPerformanceMetrics w config = for_each (record_performance w) (mc_Ibox config)"

section \<open>System health (systemhealthmetrics.go)\<close>

definition getResult :: "MetricsWorld \<Rightarrow> IboxCredentials \<Rightarrow> SystemResult metrics_go" where
  "getResult w ibox = then_go (request w ibox GetSystemStatus) (\<lambda>responseData. decoded (mw_decode_Status w responseData))"

definition gauge_bool :: "bool \<Rightarrow> gauge_value" where
  "gauge_bool b = GaugeInt (if b then 1 else 0)"

text \<open>\<^verbatim>\<open>bbuChargeLevel.(float64)\<close> panics for a value that is no number.\<close>

definition record_charge :: "string list \<Rightarrow> string \<times> string option \<Rightarrow> unit metrics_go" where
  "record_charge labels = (\<lambda>(node, level). case level of
     None \<Rightarrow> panic_go ''interface conversion: float64''
   | Some number \<Rightarrow> set_gauge ''ibox_bbu_charge_level'' (labels @ [node]) (GaugeText number))"

definition record_protection :: "string list \<Rightarrow> string \<times> string option \<Rightarrow> unit metrics_go" where
  "record_protection labels = (\<lambda>(node, state). set_gauge ''ibox_node_bbu_protection'' (labels @ [node]) (gauge_bool (state = Some ''protected'')))"

text \<open>The gauges with one number for the whole system, in two groups: before the charge levels and behind them. The gauge for
  encryption is set from the enclosure distribution, as in the code.\<close>

definition health_before :: "HealthState \<Rightarrow> (string \<times> gauge_value) list" where
  "health_before s = [(''ibox_active_cache_ssd_devices'', GaugeInt (hs_ActiveCacheSsdDevices s)), (''ibox_active_drives'', GaugeInt (hs_ActiveDrives s)),
     (''ibox_active_encrypted_cache_ssd_devices'', GaugeInt (hs_ActiveEncryptedCacheSsdDevices s)),
     (''ibox_active_encrypted_drives'', GaugeInt (hs_ActiveEncryptedDrives s)), (''ibox_bbu_aggregate_charge_percent'', GaugeInt (hs_BbuAggregateChargePercent s))]"

definition health_between :: "HealthState \<Rightarrow> (string \<times> gauge_value) list" where
  "health_between s = [(''ibox_bbu_protected_nodes'', GaugeInt (hs_BbuProtectedNodes s)),
     (''ibox_enclosure_failure_safe_distribution'', gauge_bool (hs_EnclosureFailureSafeDistribution s)),
     (''ibox_encryption_enabled'', gauge_bool (hs_EnclosureFailureSafeDistribution s)),
     (''ibox_failed_drives'', GaugeInt (hs_FailedDrives s)), (''ibox_inactive_nodes'', GaugeInt (hs_InactiveNodes s)),
     (''ibox_missing_drives'', GaugeInt (hs_MissingDrives s))]"

definition health_after :: "HealthState \<Rightarrow> (string \<times> gauge_value) list" where
  "health_after s = [(''ibox_phasing_out_drives'', GaugeInt (hs_PhasingOutDrives s)),
     (''ibox_raid_groups_pending_rebuild_1'', GaugeInt (hs_RaidGroupsPendingRebuild1 s)),
     (''ibox_raid_groups_pending_rebuild_2'', GaugeInt (hs_RaidGroupsPendingRebuild2 s)), (''ibox_ready_drives'', GaugeInt (hs_ReadyDrives s)),
     (''ibox_rebuild_1_inprogress'', gauge_bool (hs_Rebuild1Inprogress s)), (''ibox_rebuild_2_inprogress'', gauge_bool (hs_Rebuild2Inprogress s)),
     (''ibox_testing_drives'', GaugeInt (hs_TestingDrives s)), (''ibox_unknown_drives'', GaugeInt (hs_UnknownDrives s))]"

definition set_gauges :: "string list \<Rightarrow> (string \<times> gauge_value) list \<Rightarrow> unit metrics_go" where
  "set_gauges labels = for_each (\<lambda>(gauge, v). set_gauge gauge labels v)"

definition record_health :: "MetricsWorld \<Rightarrow> IboxCredentials \<Rightarrow> unit metrics_go" where
  "record_health w ibox = or_continue (getResult w ibox) (\<lambda>results.
     let labels = [sys_Name results, ib_IPAddress ibox, ib_Hostname ibox]; s = sys_HealthState results in
     then_go (set_gauges labels (health_before s)) (\<lambda>_.
     then_go (for_each (record_charge labels) (hs_BbuChargeLevel s)) (\<lambda>_.
     then_go (set_gauges labels (health_between s)) (\<lambda>_.
     then_go (for_each (record_protection labels) (hs_NodeBbuProtection s)) (\<lambda>_.
     set_gauges labels (health_after s))))))"

definition RecordSystemHealthMetrics :: "MetricsWorld \<Rightarrow> MetricsConfig \<Rightarrow> unit metrics_go" where
  "RecordSystemHealthMetrics w config = for_each (record_health w) (mc_Ibox config)"

end
