(* ===== verification/Metrics_Props.thy ===== *)
theory Metrics_Props
  imports Metrics_Service
begin

text \<open>
  What the metrics process reports and what it leaves behind: averages are exact as long as nothing overflows, a round that meets no error
  deletes the collectors it has created; and where it does not: collectors stay behind after an error, the utilization of a pool is always
  zero, the gauge for encryption shows something else.
\<close>

section \<open>Averages\<close>

lemma wrap64_add_left: "wrap64 (wrap64 a + b) = wrap64 (a + b)"
  by (metis add.commute wrap64_add_right)

lemma column_total_sum:
  "(\<forall>s \<in> set data. i < length s) \<Longrightarrow> is_int64 a \<Longrightarrow> column_total i data a = Ok (wrap64 (a + (\<Sum>s\<leftarrow>data. s ! i)))"
proof (induction data arbitrary: a)
  case Nil
  then show ?case by (simp add: wrap64_id)
next
  case (Cons s data)
  then have "column_total i (s # data) a = Ok (wrap64 (wrap64 (a + s ! i) + (\<Sum>s\<leftarrow>data. s ! i)))" by (simp add: is_int64_wrap64)
  then show ?case by (simp add: wrap64_add_left ac_simps)
qed

text \<open>The average of a counter is the quotient of the sum of its column and the number of samples, whenever every sample has that
  column and the sum fits 64 bits.\<close>

theorem average_exact:
  assumes "\<forall>s \<in> set data. i < length s" and "is_int64 (\<Sum>s\<leftarrow>data. s ! i)" and "data \<noteq> []"
  shows "average i data = Ok (go_div (\<Sum>s\<leftarrow>data. s ! i) (int (length data)))"
  using column_total_sum [OF assms(1), of 0] assms(2,3) by (simp add: average_def wrap64_id is_int64_def)

theorem average_exact_witness: "average 1 [[7, 10], [8, 20]] = Ok 15"
proof -
  have "go_div (\<Sum>s\<leftarrow>[[7, 10], [8, 20 :: int]]. s ! 1) (int (length [[7, 10], [8, 20 :: int]])) = 15" by code_simp
  with average_exact [of "[[7, 10], [8, 20]]" 1] show ?thesis by (simp add: is_int64_def)
qed

section \<open>Collectors\<close>

lemma run_request [go_run]:
  "request w ibox c h = (case mw_Http w h ibox c of Inl e \<Rightarrow> Err e | Inr a \<Rightarrow> Ok a, [M_Http (ib_Hostname ibox) c])"
  by (simp add: request_def go_run)

lemma run_gauge [go_run]: "set_gauge gauge labels v h = (Ok (), [M_Set gauge labels v])"
  by (simp add: set_gauge_def go_run)

text \<open>A host that answers every request from now on, and answers that can be decoded.\<close>

definition responsive :: "MetricsWorld \<Rightarrow> IboxCredentials \<Rightarrow> bool" where
  "responsive w ibox \<longleftrightarrow> (\<forall>g c. \<exists>body. mw_Http w g ibox c = Inr body) \<and>
     (\<forall>body. \<exists>cs avg. mw_decode_Data w body = Inr cs \<and> collector_averages cs = Ok avg) \<and> (\<forall>body. mw_decode_Deleted w body = Inr ())"

lemma responsive_runs:
  assumes "responsive w ibox"
  shows "\<exists>cs avg. getCollectorData w ibox i h = (Ok cs, [M_Http (ib_Hostname ibox) (GetCollectorData i)]) \<and> collector_averages cs = Ok avg"
    and "deleteCollector w ibox i h = (Ok (), [M_Http (ib_Hostname ibox) (DeleteCollector i)])"
proof -
  obtain body where http: "mw_Http w h ibox c = Inr (body c)" for c using assms unfolding responsive_def by metis
  obtain cs avg where "mw_decode_Data w (body (GetCollectorData i)) = Inr cs" "collector_averages cs = Ok avg"
    using assms unfolding responsive_def by blast
  then show "\<exists>cs avg. getCollectorData w ibox i h = (Ok cs, [M_Http (ib_Hostname ibox) (GetCollectorData i)]) \<and> collector_averages cs = Ok avg"
    by (intro exI [of _ cs] exI [of _ avg]) (simp add: getCollectorData_def go_run http decoded_def)
  have "mw_decode_Deleted w (body (DeleteCollector i)) = Inr ()" using assms by (simp add: responsive_def)
  then show "deleteCollector w ibox i h = (Ok (), [M_Http (ib_Hostname ibox) (DeleteCollector i)])"
    by (simp add: deleteCollector_def go_run http decoded_def)
qed

lemma record_averages_run: "\<exists>t. record_averages ibox protocol avg h = (Ok (), t)"
  by (cases avg) (simp add: record_averages_def Let_def go_run)


text \<open>A world for the examples: ids 7 and 8 for the collectors, one sample; \<open>failing_world\<close> loses the data of collectors.\<close>

definition sample_ibox :: IboxCredentials where
  "sample_ibox = \<lparr>ib_Hostname = ''ibox1'', ib_IPAddress = ''10.0.0.1'', ib_Password = ''p'', ib_Username = ''u''\<rparr>"

definition sample_health :: HealthState where
  "sample_health = \<lparr>hs_ActiveCacheSsdDevices = 1, hs_ActiveDrives = 2, hs_ActiveEncryptedCacheSsdDevices = 0, hs_ActiveEncryptedDrives = 0,
     hs_BbuAggregateChargePercent = 99, hs_BbuChargeLevel = [(''node-1'', Some ''99.5'')], hs_BbuProtectedNodes = 3, hs_EnclosureFailureSafeDistribution = True,
     hs_EncryptionEnabled = False, hs_FailedDrives = 0, hs_InactiveNodes = 0, hs_MissingDrives = 0, hs_NodeBbuProtection = [(''node-1'', Some ''protected'')],
     hs_PhasingOutDrives = 0, hs_RaidGroupsPendingRebuild1 = 0, hs_RaidGroupsPendingRebuild2 = 0, hs_ReadyDrives = 2, hs_Rebuild1Inprogress = False,
     hs_Rebuild2Inprogress = False, hs_TestingDrives = 0, hs_UnknownDrives = 0\<rparr>"

definition metrics_world :: MetricsWorld where
  "metrics_world = \<lparr>mw_Http = (\<lambda>h ibox c. Inr (if c = PostCollector (CollectorRequest [FieldOps, FieldThroughput, FieldLatencySAN] ''SAN'') then ''san'' else '''')),
     mw_StorageClasses = (\<lambda>h. Inr []), mw_PVs = (\<lambda>h. Inr []), mw_StorageClass = (\<lambda>h n. Inl (Errors_New ''not found'')),
     mw_decode_Pools = (\<lambda>s. Inr []), mw_decode_Created = (\<lambda>s. Inr (if s = ''san'' then 8 else 7)),
     mw_decode_Data = (\<lambda>s. Inr [\<lparr>col_Fields = [FieldOps, FieldThroughput, FieldLatencyNAS], col_Data = [[1, 2, 3]]\<rparr>]),
     mw_decode_Deleted = (\<lambda>s. Inr ()), mw_decode_Status = (\<lambda>s. Inr \<lparr>sys_Name = ''ibox'', sys_HealthState = sample_health\<rparr>),
     mw_ParseDuration = (\<lambda>s. Some 30)\<rparr>"

lemma metrics_world_responsive: "responsive metrics_world sample_ibox"
proof -
  have "collector_averages [\<lparr>col_Fields = [FieldOps, FieldThroughput, FieldLatencyNAS], col_Data = [[1, 2, 3]]\<rparr>] = Ok (1, 2, 3)" by code_simp
  then show ?thesis by (auto simp: responsive_def metrics_world_def)
qed


definition failing_world :: MetricsWorld where
  "failing_world = metrics_world\<lparr>mw_decode_Data := (\<lambda>s. Inl (Errors_New ''no data''))\<rparr>"

text \<open>When the data of a collector cannot be read, the round goes on with the next InfiniBox and both collectors stay: every further round adds two.\<close>

theorem collectors_left_behind:
  "calls_of (record_performance failing_world sample_ibox []) =
     [M_Http ''ibox1'' (PostCollector (CollectorRequest [FieldOps, FieldThroughput, FieldLatencySAN] ''SAN'')),
      M_Http ''ibox1'' (PostCollector (CollectorRequest [FieldOps, FieldThroughput, FieldLatencyNAS] ''NAS'')),
      M_Http ''ibox1'' (GetCollectorData 7)]"
  by code_simp

section \<open>Gauges that do not show what they say\<close>

text \<open>The division comes first and is one of integers: a pool that is not full has the utilization zero.\<close>

theorem pool_utilization_zero:
  assumes "0 \<le> mpool_AllocatedPhysicalSpace p" and "mpool_AllocatedPhysicalSpace p < mpool_PhysicalCapacity p"
  shows "pool_pct p = Ok 0"
  using assms by (simp add: pool_pct_def go_div_nonneg div_pos_pos_trivial wrap64_def)

theorem pool_utilization_zero_witness:
  "pool_pct \<lparr>mpool_Name = ''pool'', mpool_PhysicalCapacity = 1000, mpool_AllocatedPhysicalSpace = 999\<rparr> = Ok 0"
  by (rule pool_utilization_zero) simp_all

text \<open>An InfiniBox without encryption is reported as encrypted when its enclosures are distributed safely.\<close>

theorem encryption_gauge_wrong:
  "hs_EncryptionEnabled sample_health = False \<and>
   M_Set ''ibox_encryption_enabled'' [''ibox'', ''10.0.0.1'', ''ibox1''] (GaugeInt 1) \<in> set (calls_of (record_health metrics_world sample_ibox []))"
  by code_simp

section \<open>Durations\<close>

text \<open>With a configuration that was accepted, the interval of a metric is the one its first entry gives, or the default where it has none.\<close>

theorem accepted_durations:
  assumes "NewConfig w ips metrics secrets = Ok c"
  shows "GetDuration w c name = (case find (\<lambda>m. ms_Name m = name) metrics of None \<Rightarrow> duration w DefaultInterval | Some m \<Rightarrow> duration w (ms_Duration m)) \<and>
    length (mc_Ibox c) = length secrets"
proof -
  have c: "mc_Metrics c = metrics" "mc_Ibox c = map (ibox_credentials ips) secrets" and ok: "\<not> Validate_metrics w \<lparr>mc_Ibox = [], mc_Metrics = metrics\<rparr>"
    using assms by (auto simp: NewConfig_def split: if_splits)
  have "mw_ParseDuration w (ms_Duration m) \<noteq> None" if "find (\<lambda>m. ms_Name m = name) metrics = Some m" for m
  proof -
    from that have "m \<in> set metrics" by (metis find_Some_iff nth_mem)
    with ok show ?thesis by (auto simp: Validate_metrics_def list_ex_iff)
  qed
  with c show ?thesis by (auto simp: GetDuration_def duration_def split: option.splits)
qed

end
