(* ===== verification/Kube_Client.thy ===== *)
theory Kube_Client
  imports Controller_Service
begin

text \<open>
  \<open>api/clientgo\<close>: the client of the Kubernetes API. The library \<open>client-go\<close> below it is the record \<open>KubeApi\<close>: for every request its
  answer at a history of calls. \<open>NewKubeClient\<close> makes an instance of the interface \<open>KubeClient\<close> of it, the one that the services are
  proved against.
\<close>

section \<open>The API server\<close>

record KubeSecret =
  sec_Name :: string
  sec_Data :: gomap
  sec_StringData :: gomap

record KubePod =
  pod_Name :: string
  pod_Phase :: string

text \<open>The limits of a connection; zero stands for the library's default.\<close>

record RestConfig =
  rc_Host :: string
  rc_Burst :: int64
  rc_QPS :: int64

type_synonym 'a answer = "call list \<Rightarrow> go_error + 'a"

record KubeApi =
  ka_InClusterConfig :: "RestConfig answer"
  ka_NewForConfig :: "RestConfig \<Rightarrow> go_error option"
  ka_Secret :: "string \<Rightarrow> string \<Rightarrow> KubeSecret answer"
  ka_Secrets :: "string \<Rightarrow> string \<Rightarrow> KubeSecret list answer"
  ka_PersistentVolumes :: "PersistentVolume list answer"
  ka_PersistentVolume :: "string \<Rightarrow> PersistentVolume answer"
  ka_StorageClasses :: "(string \<times> gomap) list answer"
  ka_StorageClass :: "string \<Rightarrow> gomap answer"
  ka_Nodes :: "KubeNode list answer"
  ka_ServerVersion :: "string answer"
  ka_PVCs :: "string \<Rightarrow> PVC list answer"
  ka_PVC :: "string \<Rightarrow> string \<Rightarrow> PVC answer"
  ka_Pods :: "string \<Rightarrow> string \<Rightarrow> KubePod list answer"
  ka_SPDYExecutor :: "string \<Rightarrow> string \<Rightarrow> string list \<Rightarrow> go_error option"
  ka_Stream :: "string \<Rightarrow> string \<Rightarrow> string list \<Rightarrow> (string \<times> string) answer"
  ka_CustomClient :: "RestConfig \<Rightarrow> go_error option"
  ka_CreateIboxreplica :: "Iboxreplica \<Rightarrow> unit answer"
  ka_CreateIboxcg :: "Iboxcg \<Rightarrow> unit answer"

text \<open>\<open>if err != nil { return f(err) }\<close>\<close>

definition bind_err :: "(go_error \<Rightarrow> go_error) \<Rightarrow> go_error + 'a \<Rightarrow> ('a \<Rightarrow> go_error + 'b) \<Rightarrow> go_error + 'b" where
  "bind_err f r k = (case r of Inl e \<Rightarrow> Inl (f e) | Inr a \<Rightarrow> k a)"

section \<open>Connections\<close>

text \<open>The global variable \<open>clientAPI\<close> keeps the first connection of the process; the functions take it and give it back.\<close>

type_synonym kube_cache = "RestConfig option"

definition limit :: "string \<Rightarrow> (int64 \<Rightarrow> RestConfig \<Rightarrow> RestConfig) \<Rightarrow> RestConfig \<Rightarrow> RestConfig" where
  "limit value set_limit config = (if value = '''' then config else case Atoi value of None \<Rightarrow> config | Some n \<Rightarrow> set_limit n config)"

definition connect :: "KubeApi \<Rightarrow> call list \<Rightarrow> (RestConfig \<Rightarrow> RestConfig) \<Rightarrow> kube_cache \<Rightarrow> (go_error + RestConfig) \<times> kube_cache" where
  "connect api h adjust cache = (case cache of
     Some conn \<Rightarrow> (Inr conn, cache)
   | None \<Rightarrow> (case ka_InClusterConfig api h of
       Inl e \<Rightarrow> (Inl e, None)
     | Inr config \<Rightarrow> (case ka_NewForConfig api (adjust config) of
         Some e \<Rightarrow> (Inl e, None)
       | None \<Rightarrow> (Inr (adjust config), Some (adjust config)))))"

definition BuildClient_client :: "(string \<Rightarrow> string) \<Rightarrow> KubeApi \<Rightarrow> call list \<Rightarrow> kube_cache \<Rightarrow> (go_error + RestConfig) \<times> kube_cache" where
  "BuildClient_client env api h =
     connect api h (\<lambda>config. limit (env ''QPS_LIMIT'') (\<lambda>n. rc_QPS_update (\<lambda>_. n))
       (limit (env ''BURST_LIMIT'') (\<lambda>n. rc_Burst_update (\<lambda>_. n)) config))"

section \<open>Secrets\<close>

text \<open>\<open>maps.Copy\<close>, and the loop over \<open>secret.Data\<close>.\<close>

definition copy_into :: "gomap \<Rightarrow> gomap \<Rightarrow> gomap" where
  "copy_into m src = fold (\<lambda>(k, v) acc. store acc k v) src m"

definition secret_map :: "KubeSecret \<Rightarrow> gomap" where
  "secret_map secret = copy_into (copy_into [] (sec_Data secret)) (sec_StringData secret)"

definition GetSecret_client :: "KubeApi \<Rightarrow> call list \<Rightarrow> string \<Rightarrow> string \<Rightarrow> go_error + gomap" where
  "GetSecret_client api h secretName namespace =
     bind_err (Errorf ''error getting secret - namespace: secretName: error: '') (ka_Secret api namespace secretName h) (\<lambda>secret. Inr (secret_map secret))"

definition driver_label :: string where
  "driver_label = ''app=infinidat-csi-driver''"

definition GetSecretContainsName_client :: "KubeApi \<Rightarrow> call list \<Rightarrow> string \<Rightarrow> string \<Rightarrow> go_error + KubeSecret" where
  "GetSecretContainsName_client api h namespace name =
     bind_err (Errorf ''error getting secrets - namespace: error: '') (ka_Secrets api namespace driver_label h) (\<lambda>secrets.
     case find (\<lambda>secret. Contains (sec_Name secret) name) secrets of
       Some secret \<Rightarrow> Inr secret
     | None \<Rightarrow> Inl (Errors_New ''error getting secrets , no secrets were found with the string''))"

definition GetSecrets_client :: "KubeApi \<Rightarrow> call list \<Rightarrow> string \<Rightarrow> go_error + gomap list" where
  "GetSecrets_client api h namespace =
     bind_err (Errorf ''error getting secrets - namespace: error: '') (ka_Secrets api namespace driver_label h) (\<lambda>secrets.
     if secrets = [] then Inl (Errors_New ''error getting secrets , no secrets were found with the label'')
     else Inr (map secret_map secrets))"

section \<open>Volumes, claims, classes, nodes and pods\<close>

text \<open>Functions that hand on the answer as it is.\<close>

definition GetPersistantVolumeByName_client :: "KubeApi \<Rightarrow> call list \<Rightarrow> string \<Rightarrow> go_error + PersistentVolume" where
  "GetPersistantVolumeByName_client api h volumeName = ka_PersistentVolume api volumeName h"

definition GetPV_client :: "KubeApi \<Rightarrow> call list \<Rightarrow> string \<Rightarrow> go_error + PersistentVolume" where
  "GetPV_client api h name = ka_PersistentVolume api name h"

definition GetAllStorageClasses_client :: "KubeApi \<Rightarrow> call list \<Rightarrow> go_error + (string \<times> gomap) list" where
  "GetAllStorageClasses_client api h = ka_StorageClasses api h"

definition GetStorageClass_client :: "KubeApi \<Rightarrow> call list \<Rightarrow> string \<Rightarrow> go_error + gomap" where
  "GetStorageClass_client api h scName = ka_StorageClass api scName h"

definition GetNodes_client :: "KubeApi \<Rightarrow> call list \<Rightarrow> go_error + KubeNode list" where
  "GetNodes_client api h = ka_Nodes api h"

definition GetClusterVerion_client :: "KubeApi \<Rightarrow> call list \<Rightarrow> go_error + string" where
  "GetClusterVerion_client api h = ka_ServerVersion api h"

definition GetPVCs_client :: "KubeApi \<Rightarrow> call list \<Rightarrow> string \<Rightarrow> go_error + PVC list" where
  "GetPVCs_client api h namespace = ka_PVCs api namespace h"

definition GetPVC_client :: "KubeApi \<Rightarrow> call list \<Rightarrow> string \<Rightarrow> string \<Rightarrow> go_error + PVC" where
  "GetPVC_client api h namespace name = ka_PVC api namespace name h"

definition GetPVCAnnotations_client :: "KubeApi \<Rightarrow> call list \<Rightarrow> string \<Rightarrow> string \<Rightarrow> go_error + gomap" where
  "GetPVCAnnotations_client api h pvcName pvcNamespace =
     bind_err id (GetPVC_client api h pvcNamespace pvcName) (\<lambda>pvc. Inr (pvc_Annotations pvc))"

text \<open>Only pods of the driver's DaemonSet that run; none is an error.\<close>

definition GetRunningDriverNodePods_client :: "KubeApi \<Rightarrow> call list \<Rightarrow> string \<Rightarrow> go_error + KubePod list" where
  "GetRunningDriverNodePods_client api h namespace =
     bind_err id (ka_Pods api namespace ''part-of=infiniboxcsidriver-node'' h) (\<lambda>podList.
     let pods = filter (\<lambda>pod. pod_Phase pod = ''Running'') podList in
     if pods = [] then Inl (Errors_New ''no CSI driver node pods are in running status'') else Inr pods)"

text \<open>A command runs in the shell of a pod.\<close>

definition ExecCmdInPod_client :: "KubeApi \<Rightarrow> call list \<Rightarrow> string \<Rightarrow> string \<Rightarrow> string \<Rightarrow> go_error + (string \<times> string)" where
  "ExecCmdInPod_client api h podName nameSpace command =
     (let cmd = [''/bin/sh'', ''-c'', command] in
      case ka_SPDYExecutor api podName nameSpace cmd of
        Some e \<Rightarrow> Inl e
      | None \<Rightarrow> ka_Stream api podName nameSpace cmd h)"

section \<open>Custom resources\<close>

text \<open>Every request makes a client of its own from the configuration of the connection.\<close>

definition CreateIboxreplica_client :: "KubeApi \<Rightarrow> RestConfig \<Rightarrow> call list \<Rightarrow> Iboxreplica \<Rightarrow> go_error + unit" where
  "CreateIboxreplica_client api config h replica =
     (case ka_CustomClient api config of Some e \<Rightarrow> Inl e | None \<Rightarrow> ka_CreateIboxreplica api replica h)"

definition CreateIboxcg_client :: "KubeApi \<Rightarrow> RestConfig \<Rightarrow> call list \<Rightarrow> Iboxcg \<Rightarrow> go_error + unit" where
  "CreateIboxcg_client api config h cg =
     (case ka_CustomClient api config of Some e \<Rightarrow> Inl e | None \<Rightarrow> ka_CreateIboxcg api cg h)"

section \<open>The client as an instance of the interface\<close>

text \<open>The client that a process has whose first connection is \<open>config\<close>. The list of PersistentVolumes is the server's: the interface leaves
  the selection of \<open>GetAllPersistentVolumes\<close> to the function of that name.\<close>

definition NewKubeClient :: "KubeApi \<Rightarrow> RestConfig \<Rightarrow> KubeClient" where
  "NewKubeClient api config = \<lparr>
     kr_BuildClient = (\<lambda>h. bind_err id (fst (connect api h id (Some config))) (\<lambda>_. Inr ())),
     kr_GetSecret = GetSecret_client api,
     kr_GetAllPersistentVolumes = ka_PersistentVolumes api,
     kr_GetStorageClass = GetStorageClass_client api,
     kr_GetNodes = GetNodes_client api,
     kr_GetPVC = GetPVC_client api,
     kr_GetRunningDriverNodePods = (\<lambda>h namespace. bind_err id (GetRunningDriverNodePods_client api h namespace) (\<lambda>pods. Inr (map pod_Name pods))),
     kr_ExecCmdInPod = ExecCmdInPod_client api,
     kr_GetClusterVersion = GetClusterVerion_client api,
     kr_CreateIboxreplica = CreateIboxreplica_client api config,
     kr_CreateIboxcg = CreateIboxcg_client api config,
     kr_GetSecrets = GetSecrets_client api,
     kr_GetSecretContainsName = (\<lambda>h namespace name. bind_err id (GetSecretContainsName_client api h namespace name) (\<lambda>secret. Inr (sec_Data secret)))\<rparr>"

end
