(* ===== verification/Event_Service.thy ===== *)
theory Event_Service
  imports Group_Service "HOL-Library.List_Lexorder" "HOL-Library.Char_ord"
begin

text \<open>
  \<open>helper/customevent.go\<close>: the driver counts what it does and once a day sends the counts, and the usage of its pools, as events to the
  InfiniBox. The counters are global variables of the process, here a record that the functions take and give back.
\<close>

definition EnvVarCSIDriverVersion :: string where "EnvVarCSIDriverVersion = ''CSI_DRIVER_VERSION''"
definition EnvVarCreateEvents :: string where "EnvVarCreateEvents = ''CREATE_EVENTS''"
definition EnvVarOSVersion :: string where "EnvVarOSVersion = ''OS_VERSION''"
definition EnvVarKubeVersion :: string where "EnvVarKubeVersion = ''KUBE_VERSION''"
definition EnvVarNodeCount :: string where "EnvVarNodeCount = ''NODE_COUNT''"
definition EnvVarPrimaryIboxCredential :: string where "EnvVarPrimaryIboxCredential = ''PRIMARY_IBOX_CREDENTIAL''"
definition CustomEventAction :: string where "CustomEventAction = ''csi_action''"

section \<open>Counters\<close>

record EventCounters =
  ec_CreatedVolumes :: int
  ec_CreatedSnapshots :: int
  ec_PublishedVolumes :: "(string \<times> int) list"
  ec_NFSVersions :: "(string \<times> int) list"

text \<open>A Go map from strings to numbers: a missing entry reads as zero.\<close>

definition count_of :: "(string \<times> int) list \<Rightarrow> string \<Rightarrow> int" where
  "count_of m k = (case map_of m k of None \<Rightarrow> 0 | Some n \<Rightarrow> n)"

definition set_count :: "(string \<times> int) list \<Rightarrow> string \<Rightarrow> int \<Rightarrow> (string \<times> int) list" where
  "set_count m k n = (k, n) # filter (\<lambda>(k', _). k' \<noteq> k) m"

definition event_protocols :: "string list" where
  "event_protocols = [ProtocolNFS, ProtocolTreeq, ProtocolISCSI, ProtocolFC, ProtocolNVME]"

definition initial_counters :: EventCounters where
  "initial_counters = \<lparr>ec_CreatedVolumes = 0, ec_CreatedSnapshots = 0,
     ec_PublishedVolumes = [(ProtocolFC, 0), (ProtocolNFS, 0), (ProtocolTreeq, 0), (ProtocolNVME, 0), (ProtocolISCSI, 0)], ec_NFSVersions = []\<rparr>"

text \<open>The increments at the ends of \<open>CreateVolume\<close>, \<open>CreateSnapshot\<close> and \<open>NodePublishVolume\<close>.\<close>

definition count_volume :: "EventCounters \<Rightarrow> EventCounters" where
  "count_volume c = c\<lparr>ec_CreatedVolumes := wrap64 (ec_CreatedVolumes c + 1)\<rparr>"

definition count_snapshot :: "EventCounters \<Rightarrow> EventCounters" where
  "count_snapshot c = c\<lparr>ec_CreatedSnapshots := wrap64 (ec_CreatedSnapshots c + 1)\<rparr>"

definition count_published :: "string \<Rightarrow> EventCounters \<Rightarrow> EventCounters" where
  "count_published proto c = c\<lparr>ec_PublishedVolumes := set_count (ec_PublishedVolumes c) proto (wrap64 (count_of (ec_PublishedVolumes c) proto + 1))\<rparr>"

definition count_nfs_version :: "string \<Rightarrow> EventCounters \<Rightarrow> EventCounters" where
  "count_nfs_version v c = c\<lparr>ec_NFSVersions := set_count (ec_NFSVersions c) v (wrap64 (count_of (ec_NFSVersions c) v + 1))\<rparr>"

definition reset_counters :: "EventCounters \<Rightarrow> EventCounters" where
  "reset_counters c = \<lparr>ec_CreatedVolumes = 0, ec_CreatedSnapshots = 0,
     ec_PublishedVolumes = fold (\<lambda>p m. set_count m p 0) event_protocols (ec_PublishedVolumes c), ec_NFSVersions = []\<rparr>"

section \<open>Sending an event\<close>

definition text_data :: "string \<Rightarrow> string \<Rightarrow> EventRequestData" where
  "text_data name v = \<lparr>evd_Name = name, evd_Type = ''String'', evd_Value = v\<rparr>"

definition create_events :: "Env \<Rightarrow> bool res" where
  "create_events E = (let tmp = getenv E EnvVarCreateEvents in
     if tmp = '''' then Ok True else case ParseBool tmp of None \<Rightarrow> Err (parse_error tmp) | Some b \<Rightarrow> Ok b)"

definition CreateEvent :: "Env \<Rightarrow> Client \<Rightarrow> string \<Rightarrow> EventRequestData list \<Rightarrow> unit go" where
  "CreateEvent E iboxAPI desc eventData =
     then_go (pure_go (create_events E)) (\<lambda>createEvent.
     if \<not> createEvent then return_go ()
     else let data = eventData @ [text_data ''csi_driver_version'' (getenv E EnvVarCSIDriverVersion), text_data ''os_version'' (getenv E EnvVarOSVersion),
            text_data ''kube_version'' (getenv E EnvVarKubeVersion), text_data ''kube_node_name'' (getenv E ''KUBE_NODE_NAME''),
            text_data ''kube_node_count'' (getenv E EnvVarNodeCount), text_data ''event_desc'' desc];
          send = (\<lambda>d. CreateEvent_api iboxAPI \<lparr>ev_Data = d, ev_Code = ''ECOSYSTEM_TOOLS_HEARTBEAT''\<rparr>) in
     try_go (GetSystem_api iboxAPI) (\<lambda>_. send data) (\<lambda>serialNumber. send (data @ [text_data ''serial_number'' (Itoa serialNumber)])))"

definition send_event :: "Env \<Rightarrow> Client \<Rightarrow> string \<Rightarrow> string \<Rightarrow> unit go" where
  "send_event E iboxAPI action desc = ignore_go (CreateEvent E iboxAPI desc [text_data CustomEventAction action]) (\<lambda>_. return_go ())"

text \<open>A Go map is printed with its keys in order.\<close>

definition map_text :: "(string \<times> int) list \<Rightarrow> string" where
  "map_text m = ''map['' @ join '' '' (map (\<lambda>(k, n). k @ '':'' @ Itoa n) (sort_key fst m)) @ '']''"

section \<open>The counts (processEventCountersImpl)\<close>

definition published_text :: "(string \<times> int) list \<Rightarrow> string" where
  "published_text m = ''CSI - Published ['' @ join '','' event_protocols @ ''] ['' @ join '','' (map (\<lambda>p. Itoa (count_of m p)) event_protocols) @ ''] Volumes''"

definition report_counters :: "Env \<Rightarrow> Client \<Rightarrow> EventCounters \<Rightarrow> unit go" where
  "report_counters E api c =
     then_go (if ec_CreatedVolumes c > 0 then send_event E api ''Created Volume'' (''CSI - Created Volumes: '' @ Itoa (ec_CreatedVolumes c)) else return_go ()) (\<lambda>_.
     then_go (if ec_CreatedSnapshots c > 0 then send_event E api ''Created Snapshot'' (''CSI - Created Snapshots: '' @ Itoa (ec_CreatedSnapshots c)) else return_go ()) (\<lambda>_.
     then_go (if wrap64 (\<Sum>p\<leftarrow>event_protocols. count_of (ec_PublishedVolumes c) p) > 0
       then send_event E api ''Published Volumes'' (published_text (ec_PublishedVolumes c)) else return_go ()) (\<lambda>_.
     if ec_NFSVersions c \<noteq> [] then send_event E api ''NFS Versions'' (''CSI - NFS Versions ['' @ map_text (ec_NFSVersions c) @ '']'') else return_go ())))"

text \<open>The client for the primary InfiniBox; an error ends the function after a message in the log.\<close>

definition primary_client :: "Env \<Rightarrow> Client go" where
  "primary_client E =
     (let name = getenv E EnvVarPrimaryIboxCredential in
      if name = '''' then fail_go (Errors_New ''required setting is not set'')
      else then_go (BuildClient_kube (cluster E)) (\<lambda>_.
      then_go (GetSecret_kube (cluster E) name (getenv E EnvVarPodNamespace)) (\<lambda>secretMap.
      pure_go (NewClient E secretMap))))"

definition processEventCountersImpl :: "Env \<Rightarrow> EventCounters \<Rightarrow> EventCounters go" where
  "processEventCountersImpl E c =
     try_go (primary_client E) (\<lambda>_. return_go c) (\<lambda>api.
     then_go (report_counters E api c) (\<lambda>_. return_go (reset_counters c)))"

section \<open>The usage of pools (updatePoolMetricsImpl)\<close>

text \<open>The names of the pools of the driver's volumes. A Go map forgets the order; here it is that of the first occurrence.\<close>

fun pool_names :: "PersistentVolume list \<Rightarrow> string list res" where
  "pool_names [] = Ok []"
| "pool_names (pv # rest) =
     (if pv_ProvisionedBy pv \<noteq> ''infinibox-csi-driver'' then pool_names rest
      else if pv_VolumeHandle pv = None then Crash (GoPanic ''nil pointer dereference: Spec.CSI'')
      else case pool_names rest of
        Ok names \<Rightarrow> (let name = lookup (pv_VolumeAttributes pv) StorageClassPoolName
                    in Ok (if name \<noteq> '''' then name # removeAll name names else names))
      | r \<Rightarrow> r)"

definition pool_usage :: "PoolResult \<Rightarrow> (int64 \<times> int64) res" where
  "pool_usage pool = (if pool_PhysicalCapacity pool = 0 then Crash (GoPanic ''integer divide by zero'')
     else let pctUsed = go_div (wrap64 (pool_TotalDiskUsage pool * 100)) (pool_PhysicalCapacity pool) in Ok (pctUsed, wrap64 (100 - pctUsed)))"

fun report_pools :: "Env \<Rightarrow> Client \<Rightarrow> string list \<Rightarrow> unit go" where
  "report_pools E api [] = return_go ()"
| "report_pools E api (poolName # rest) =
     try_go (GetPoolByName_api api poolName) (\<lambda>_. return_go ()) (\<lambda>pool.
     then_go (pure_go (pool_usage pool)) (\<lambda>(pctUsed, pctAvail).
     then_go (send_event E api ''Pool Usage'' (''Pool ['' @ poolName @ ''] Used ['' @ Itoa pctUsed @ ''] Avail ['' @ Itoa pctAvail @ '']'')) (\<lambda>_.
     report_pools E api rest)))"

definition updatePoolMetricsImpl :: "Env \<Rightarrow> unit go" where
  "updatePoolMetricsImpl E =
     try_go (BuildClient_kube (cluster E)) (\<lambda>_. return_go ()) (\<lambda>_.
     try_go (GetAllPersistentVolumes_kube (cluster E)) (\<lambda>_. return_go ()) (\<lambda>pvList.
     then_go (pure_go (pool_names pvList)) (\<lambda>names.
     let credential = getenv E EnvVarPrimaryIboxCredential in
     if credential = '''' then return_go ()
     else try_go (then_go (GetSecret_kube (cluster E) credential (getenv E EnvVarPodNamespace)) (\<lambda>secretMap. pure_go (NewClient E secretMap)))
       (\<lambda>_. return_go ()) (\<lambda>api. report_pools E api names))))"

end
