(* ===== verification/Event_Props.thy ===== *)
theory Event_Props
  imports Event_Service Sample_World
begin

text \<open>
  What the reports to the InfiniBox are worth: the counters hold the number of actions since the last report, a report is followed by a
  reset whether or not it arrived, and the usage of a pool is a percentage as long as the pool does not exceed its capacity.
\<close>

section \<open>Counters\<close>

lemma count_of_set [simp]: "count_of (set_count m k n) k' = (if k' = k then n else count_of m k')"
  by (induction m) (auto simp: count_of_def set_count_def)

datatype driver_action = Created_Volume | Created_Snapshot | Published string | Mounted_Nfs string

fun count_action :: "driver_action \<Rightarrow> EventCounters \<Rightarrow> EventCounters" where
  "count_action Created_Volume c = count_volume c"
| "count_action Created_Snapshot c = count_snapshot c"
| "count_action (Published p) c = count_published p c"
| "count_action (Mounted_Nfs v) c = count_nfs_version v c"

text \<open>The counter of an action, and its number since the counters had the value \<open>c\<close>.\<close>

fun counter_of :: "driver_action \<Rightarrow> EventCounters \<Rightarrow> int64" where
  "counter_of Created_Volume c = ec_CreatedVolumes c"
| "counter_of Created_Snapshot c = ec_CreatedSnapshots c"
| "counter_of (Published p) c = count_of (ec_PublishedVolumes c) p"
| "counter_of (Mounted_Nfs v) c = count_of (ec_NFSVersions c) v"

lemmas count_defs = count_volume_def count_snapshot_def count_published_def count_nfs_version_def

lemma counter_of_action: "counter_of a (count_action b c) = (if a = b then wrap64 (counter_of a c + 1) else counter_of a c)"
  by (cases a; cases b) (auto simp: count_defs)

lemma counter_of_fold:
  "is_int64 (counter_of a c) \<Longrightarrow> counter_of a (fold count_action acts c) = wrap64 (counter_of a c + int (count_list acts a))"
proof (induction acts arbitrary: c)
  case (Cons b acts)
  have "wrap64 (wrap64 (counter_of a c + 1) + int (count_list acts a)) = wrap64 (counter_of a c + 1 + int (count_list acts a))"
    using wrap64_add_right [of "int (count_list acts a)" "counter_of a c + 1"] by (simp add: add.commute)
  then show ?case
    using Cons by (cases "a = b") (simp_all add: counter_of_action is_int64_wrap64 algebra_simps)
qed simp

lemma counter_of_reset:
  assumes "\<And>p. a = Published p \<Longrightarrow> p \<in> set event_protocols"
  shows "counter_of a (reset_counters c) = 0"
  using assms by (cases a) (auto simp: reset_counters_def event_protocols_def count_of_def [of "[]"])

text \<open>Between two reports a counter counts: after any sequence of actions that starts with a reset, the counter of an action (a created
  volume, a created snapshot, a publication over one of the five protocols, a mount with an NFS version) is the number of times it occurred,
  wrapped to 64 bits.\<close>

theorem counters_count:
  assumes "\<And>p. a = Published p \<Longrightarrow> p \<in> set event_protocols"
  shows "counter_of a (fold count_action acts (reset_counters c)) = wrap64 (int (count_list acts a))"
  using counter_of_fold [of a "reset_counters c"] counter_of_reset [OF assms] by (simp add: is_int64_def)

theorem counters_count_witness:
  "counter_of (Published ProtocolNFS) (fold count_action [Published ProtocolNFS, Created_Volume, Published ProtocolFC, Published ProtocolNFS]
     (reset_counters initial_counters)) = wrap64 2"
  by (subst counters_count) (auto simp: event_protocols_def ProtocolNFS_def ProtocolFC_def)

section \<open>Reports\<close>

definition sends_nothing :: "call list \<Rightarrow> bool" where
  "sends_nothing t \<longleftrightarrow> (\<forall>e. C_CreateEvent e \<notin> set t)"

lemma send_event_wp: "wp (send_event E api action desc) h (\<lambda>r t. r = Ok ())"
  unfolding send_event_def CreateEvent_def Let_def
  by (auto simp: wp_simps create_events_def Let_def split: option.splits)

lemma report_counters_wp: "wp (report_counters E api c) h (\<lambda>r t. r = Ok ())"
  unfolding report_counters_def
  by (intro wp_then_rule [where R = "\<lambda>r t. r = Ok ()"]) (auto simp: wp_simps send_event_wp)

lemma primary_client_wp: "wp (primary_client E) h (\<lambda>r t. sends_nothing t)"
  unfolding primary_client_def Let_def sends_nothing_def
  by (auto simp: wp_simps)

text \<open>A report leaves the counters as they are and sends no event (when there is no client for the primary InfiniBox), or resets them; it resets them
  also when the InfiniBox refuses every event, and then the counts are lost.\<close>

theorem report_then_reset:
  "wp (processEventCountersImpl E c) h (\<lambda>r t. r = Ok c \<and> sends_nothing t \<or> r = Ok (reset_counters c) \<or> (\<exists>x. r = Crash x))"
  unfolding processEventCountersImpl_def
  by (rule wp_try_rule [OF primary_client_wp]) (auto simp: wp_simps intro: wp_mono [OF report_counters_wp])

section \<open>The usage of a pool\<close>

lemma floor_bounds: "0 < (c :: int) \<Longrightarrow> u div c * c \<le> u \<and> u < (u div c + 1) * c"
  using div_mult_mod_eq [of u c] pos_mod_bound [of c u] pos_mod_sign [of c u] unfolding distrib_right mult_1 by linarith

text \<open>A pool whose usage does not exceed its capacity is reported with a percentage between 0 and 100, rounded down, and the rest of 100.\<close>

theorem pool_usage_percent:
  assumes "0 \<le> pool_TotalDiskUsage pool" and "pool_TotalDiskUsage pool \<le> pool_PhysicalCapacity pool" and "0 < pool_PhysicalCapacity pool"
    and "pool_TotalDiskUsage pool * 100 < 2 ^ 63"
  shows "\<exists>used. pool_usage pool = Ok (used, 100 - used) \<and> 0 \<le> used \<and> used \<le> 100 \<and>
    used * pool_PhysicalCapacity pool \<le> pool_TotalDiskUsage pool * 100 \<and> pool_TotalDiskUsage pool * 100 < (used + 1) * pool_PhysicalCapacity pool"
proof -
  let ?u = "pool_TotalDiskUsage pool * 100" and ?c = "pool_PhysicalCapacity pool"
  have "is_int64 ?u"
    using assms by (simp add: is_int64_def)
  then have "pool_usage pool = Ok (?u div ?c, wrap64 (100 - ?u div ?c))"
    using assms by (simp add: pool_usage_def go_div_nonneg Let_def)
  moreover have "0 \<le> ?u div ?c"
    using assms by (simp add: pos_imp_zdiv_nonneg_iff)
  moreover have "?u div ?c \<le> 100"
    using zdiv_mono1 [of ?u "100 * ?c" ?c] assms by simp
  moreover have "?u div ?c * ?c \<le> ?u" "?u < (?u div ?c + 1) * ?c"
    using floor_bounds [OF assms(3), of ?u] by simp_all
  ultimately show ?thesis
    by (auto simp: is_int64_def)
qed

theorem pool_usage_percent_witness:
  "\<exists>used. pool_usage (sample_pool\<lparr>pool_TotalDiskUsage := 5, pool_PhysicalCapacity := 7\<rparr>) = Ok (used, 100 - used) \<and> 0 \<le> used \<and> used \<le> 100 \<and>
    used * 7 \<le> 500 \<and> 500 < (used + 1) * 7"
  using pool_usage_percent [of "sample_pool\<lparr>pool_TotalDiskUsage := 5, pool_PhysicalCapacity := 7\<rparr>"] by simp

text \<open>A pool without physical capacity: the division panics, and with it the process.\<close>

lemma pool_usage_panics: "pool_PhysicalCapacity pool = 0 \<Longrightarrow> pool_usage pool = Crash (GoPanic ''integer divide by zero'')"
  by (simp add: pool_usage_def)

end
