(* ===== verification/Kube_Props.thy ===== *)
theory Kube_Props
  imports Kube_Client Event_Props
begin

text \<open>
  The Kubernetes client: what a secret reads as, how connections are kept, and what the services get from the client when it is the
  \<open>NewKubeClient\<close> of an arbitrary API server.
\<close>

section \<open>Secrets\<close>

lemma lookup_Cons [simp]: "lookup ((a, v) # m) k = (if k = a then v else lookup m k)"
  by (simp add: lookup_def)

lemma provided_Cons [simp]: "provided ((a, v) # m) k \<longleftrightarrow> k = a \<or> provided m k"
  by (simp add: provided_def)

lemma not_provided: "\<not> provided m k \<Longrightarrow> lookup m k = []" "provided m k \<longleftrightarrow> k \<in> fst ` set m"
  by (auto simp: provided_def lookup_def) (metis image_eqI fst_conv map_of_eq_None_iff not_None_eq option.distinct(1))+

lemma lookup_copy_into [simp]:
  "distinct (map fst src) \<Longrightarrow> lookup (copy_into m src) k = (if provided src k then lookup src k else lookup m k)"
  unfolding copy_into_def
proof (induction src arbitrary: m)
  case (Cons p src)
  then show ?case
    by (cases p) (auto simp: not_provided(2) [of src])
qed (simp add: provided_def)

text \<open>The text form of an entry of a secret wins over the encoded one.\<close>

lemma secret_map_lookup:
  assumes "distinct (map fst (sec_Data s))" and "distinct (map fst (sec_StringData s))"
  shows "lookup (secret_map s) k = (if provided (sec_StringData s) k then lookup (sec_StringData s) k else lookup (sec_Data s) k)"
  using assms by (simp add: secret_map_def not_provided(1))

section \<open>Connections\<close>

lemma Atoi_empty: "Atoi [] = None"
  by (simp add: Atoi_def parse_nat_def)

text \<open>The process connects once: after \<open>BuildClient\<close> has succeeded, every later call returns the same connection, whatever the API server
  answers then, and the limits of the connection are those of the environment where they are numbers.\<close>

theorem build_client_once:
  "BuildClient_client env api h cache = (Inr conn, cache') \<Longrightarrow>
   cache' = Some conn \<and> BuildClient_client env' api' h' cache' = (Inr conn, cache') \<and>
   (cache = None \<longrightarrow> (\<forall>n. Atoi (env ''BURST_LIMIT'') = Some n \<longrightarrow> rc_Burst conn = n) \<and> (\<forall>n. Atoi (env ''QPS_LIMIT'') = Some n \<longrightarrow> rc_QPS conn = n))"
  by (auto simp: BuildClient_client_def connect_def limit_def Atoi_empty split: option.splits sum.splits if_splits)

text \<open>\<open>BuildClientFromSecret\<close> may be the first to connect, without the limits; \<open>BuildClient\<close> then returns a connection that has none.\<close>

lemma limits_forgotten:
  "connect api h id None = (Inr conn, cache) \<Longrightarrow> fst (BuildClient_client env api' h' cache) = Inr conn"
  by (auto simp: BuildClient_client_def connect_def split: option.splits sum.splits)

section \<open>What the services get from the client\<close>

text \<open>The PersistentVolumes the controller looks at are volumes of the server that this driver has made.\<close>

lemma own_volumes_of_server:
  "GetAllPersistentVolumes (E\<lparr>cluster := NewKubeClient api config\<rparr>) h = (Ok pvs, t) \<Longrightarrow>
   \<exists>all. ka_PersistentVolumes api h = Inr all \<and> pvs = filter (\<lambda>pv. pv_ProvisionedBy pv = ServiceName) all"
  by (auto simp: GetAllPersistentVolumes_def GetAllPersistentVolumes_kube_def NewKubeClient_def go_run split: sum.splits)

subsection \<open>Probing in running pods\<close>

text \<open>What the automatic choice of a protocol needs from a client: a predicate on pods that holds of every pod the client lists, from then on. Under
  this contract commands run only in pods with the predicate.\<close>

definition probe_rule :: "(string \<Rightarrow> string \<Rightarrow> call list \<Rightarrow> bool) \<Rightarrow> call list \<Rightarrow> call \<Rightarrow> bool" where
  "probe_rule running g c \<longleftrightarrow> \<not> mutating c \<and>
     (\<forall>podName namespace command. c = K_ExecCmdInPod podName namespace command \<longrightarrow> running namespace podName g)"

lemma wp_each_or_wrap:
  assumes "wp m h (\<lambda>r t. each_call Q h t \<and> (\<forall>a. r = Ok a \<longrightarrow> P a (h @ t)))"
    and "\<And>a t. P a (h @ t) \<Longrightarrow> wp (k a) (h @ t) (\<lambda>r t'. each_call Q (h @ t) t')"
  shows "wp (or_wrap s m k) h (\<lambda>r t. each_call Q h t)"
  unfolding or_wrap_def
  by (rule wp_try_rule [OF assms(1)]) (auto simp: wp_fail intro: wp_mono [OF assms(2)])

locale pod_lister =
  fixes kube :: KubeClient and running :: "string \<Rightarrow> string \<Rightarrow> call list \<Rightarrow> bool"
  assumes listed: "kr_GetRunningDriverNodePods kube h namespace = Inr pods \<Longrightarrow> p \<in> set pods \<Longrightarrow>
      running namespace p (h @ [K_GetRunningDriverNodePods namespace])"
    and running_later: "running namespace p g \<Longrightarrow> running namespace p (g @ t)"
begin

lemma probe_allowed:
  assumes "running namespace pod h"
  shows "wp (probe E pod namespace command f) h (\<lambda>r t. each_call (probe_rule running) h t)"
  using assms by (auto simp: probe_def wp_simps probe_rule_def)

lemma pods_allowed:
  "wp (then_go (GetRunningDriverNodePods_kube kube namespace) (\<lambda>pods. case pods of
      [] \<Rightarrow> fail_go e | pod # _ \<Rightarrow> return_go pod)) h
     (\<lambda>r t. each_call (probe_rule running) h t \<and> (\<forall>pod. r = Ok pod \<longrightarrow> running namespace pod (h @ t)))"
  by (auto simp: wp_simps probe_rule_def split: sum.splits list.splits intro: listed)

lemma determine_protocol_allowed:
  assumes c: "cluster E = kube"
  shows "wp (DetermineProtocol E) h (\<lambda>r t. each_call (probe_rule running) h t)"
proof -
  have build: "wp (BuildClient_kube c) g (\<lambda>r t. each_call (probe_rule running) g t \<and> (\<forall>a. r = Ok a \<longrightarrow> True))" for c g
    by (auto simp: wp_simps probe_rule_def split: sum.splits)
  have secret: "wp (GetProtocolSecret E) g (\<lambda>r t. each_call (probe_rule running) g t)" for g
    unfolding GetProtocolSecret_def Let_def by (auto simp: wp_simps go_error_defs probe_rule_def split: sum.splits)
  show ?thesis
    unfolding DetermineProtocol_def Let_def case_prod_beta c
    by (intro wp_each_try wp_each_if wp_each_or_wrap [OF build] wp_each_or_wrap [OF pods_allowed] wp_each_then secret probe_allowed)
      (assumption | rule running_later | simp add: wp_return wp_fail)+
qed

end

text \<open>The client of the driver: a pod that the API server has listed as a running pod of the driver's DaemonSet.\<close>

definition running_pod :: "KubeApi \<Rightarrow> string \<Rightarrow> string \<Rightarrow> call list \<Rightarrow> bool" where
  "running_pod api namespace podName g \<longleftrightarrow> (\<exists>g' t pods pod. g = g' @ K_GetRunningDriverNodePods namespace # t \<and>
     ka_Pods api namespace ''part-of=infiniboxcsidriver-node'' g' = Inr pods \<and> pod \<in> set pods \<and> pod_Phase pod = ''Running'' \<and> pod_Name pod = podName)"

lemma pods_are_running:
  "kr_GetRunningDriverNodePods (NewKubeClient api config) h namespace = Inr pods \<Longrightarrow>
   p \<in> set pods \<Longrightarrow> running_pod api namespace p (h @ [K_GetRunningDriverNodePods namespace])"
  unfolding running_pod_def
  by (fastforce simp: NewKubeClient_def GetRunningDriverNodePods_client_def bind_err_def Let_def split: sum.splits if_splits)

interpretation kube_pods: pod_lister "NewKubeClient api config" "running_pod api" for api config
proof
  show "running_pod api namespace p g \<Longrightarrow> running_pod api namespace p (g @ t)" for namespace p g t
    unfolding running_pod_def by (metis append.assoc append_Cons)
qed (rule pods_are_running)

text \<open>C34: The automatic choice of a protocol changes nothing, and it runs its commands only in pods that the API server has listed before as running pods
  of the driver's DaemonSet in the namespace of the driver.\<close>

theorem probes_in_running_pods:
  "allows (probe_rule (running_pod api)) (DetermineProtocol (E\<lparr>cluster := NewKubeClient api config\<rparr>))"
  by (rule allowsI) (rule kube_pods.determine_protocol_allowed, simp)

end
