(* ===== verification/Driver_Start.thy ===== *)
theory Driver_Start
  imports Addons_Service
begin

text \<open>
  \<open>main.go\<close>, \<open>service/driver.go\<close>, \<open>service/server.go\<close>, \<open>service/identityserver.go\<close> and \<open>service/csiaddons/server.go\<close>: how the process starts,
  which services it registers at which socket, and what it says it can do. Sockets, the gRPC library and the environment are a record of
  answers; a process that ends by \<open>os.Exit(1)\<close> has the outcome \<open>Exited\<close>.
\<close>

section \<open>The driver (driver.go)\<close>

datatype rpc_capability = CREATE_DELETE_VOLUME | LIST_VOLUMES | CREATE_DELETE_SNAPSHOT | PUBLISH_UNPUBLISH_VOLUME | CLONE_VOLUME
  | LIST_SNAPSHOTS | EXPAND_VOLUME | GET_CAPACITY | GET_SNAPSHOT | GET_VOLUME | MODIFY_VOLUME

datatype node_capability = STAGE_UNSTAGE_VOLUME | UNKNOWN_NODE | NODE_EXPAND_VOLUME | GET_VOLUME_STATS

datatype group_capability = CREATE_DELETE_GET_VOLUME_GROUP_SNAPSHOT

record DriverOptions =
  do_NodeID :: string
  do_DriverName :: string
  do_Endpoint :: string
  do_AddonsEndpoint :: string
  do_Version :: string

record DriverState =
  ds_name :: string
  ds_nodeID :: string
  ds_version :: string
  ds_endpoint :: string
  ds_addonsEndpoint :: string
  ds_cscap :: "rpc_capability list"
  ds_nscap :: "node_capability list"
  ds_groupcap :: "group_capability list"
  ds_volumeLocks :: VolumeLocks

text \<open>A capability is a message around its type; the message is left out.\<close>

definition AddControllerServiceCapabilities :: "rpc_capability list \<Rightarrow> DriverState \<Rightarrow> DriverState" where
  "AddControllerServiceCapabilities capability driver = driver\<lparr>ds_cscap := capability\<rparr>"

definition AddGroupControllerServiceCapabilities :: "group_capability list \<Rightarrow> DriverState \<Rightarrow> DriverState" where
  "AddGroupControllerServiceCapabilities capability driver = driver\<lparr>ds_groupcap := capability\<rparr>"

definition AddNodeServiceCapabilities :: "node_capability list \<Rightarrow> DriverState \<Rightarrow> DriverState" where
  "AddNodeServiceCapabilities capability driver = driver\<lparr>ds_nscap := capability\<rparr>"

definition NewDriver :: "DriverOptions \<Rightarrow> DriverState" where
  "NewDriver options =
     (let driver = \<lparr>ds_name = do_DriverName options, ds_nodeID = do_NodeID options, ds_version = do_Version options,
            ds_endpoint = do_Endpoint options, ds_addonsEndpoint = do_AddonsEndpoint options,
            ds_cscap = [], ds_nscap = [], ds_groupcap = [], ds_volumeLocks = NewVolumeLocks\<rparr>;
          driver1 = AddControllerServiceCapabilities [CREATE_DELETE_VOLUME, LIST_VOLUMES, CREATE_DELETE_SNAPSHOT, PUBLISH_UNPUBLISH_VOLUME,
            CLONE_VOLUME, LIST_SNAPSHOTS, EXPAND_VOLUME] driver;
          driver2 = AddGroupControllerServiceCapabilities [CREATE_DELETE_GET_VOLUME_GROUP_SNAPSHOT] driver1 in
      AddNodeServiceCapabilities [STAGE_UNSTAGE_VOLUME, UNKNOWN_NODE, NODE_EXPAND_VOLUME, GET_VOLUME_STATS] driver2)"

definition ControllerGetCapabilities :: "DriverState \<Rightarrow> rpc_capability list" where
  "ControllerGetCapabilities driver = ds_cscap driver"

definition GroupControllerGetCapabilities :: "DriverState \<Rightarrow> group_capability list" where
  "GroupControllerGetCapabilities driver = ds_groupcap driver"

definition NodeGetCapabilities :: "DriverState \<Rightarrow> node_capability list" where
  "NodeGetCapabilities driver = ds_nscap driver"

text \<open>The methods of the controller that have no implementation; two of them answer without an error.\<close>

definition GetCapacity :: "unit res" where
  "GetCapacity = Err (Status_Error Unimplemented '''')"

definition ControllerGetVolume :: "unit res" where
  "ControllerGetVolume = Err (Status_Error Unimplemented '''')"

definition GetSnapshot_controller :: "'a option res" where
  "GetSnapshot_controller = Ok None"

definition ControllerModifyVolume :: "'a option res" where
  "ControllerModifyVolume = Ok None"

section \<open>Identity (identityserver.go, csiaddons/identity.go)\<close>

datatype plugin_capability = CSI_CONTROLLER_SERVICE | GROUP_CONTROLLER_SERVICE | VOLUME_ACCESSIBILITY_CONSTRAINTS

definition GetPluginInfo :: "DriverState \<Rightarrow> (string \<times> string) res" where
  "GetPluginInfo driver =
     (if ds_name driver = '''' then Err (Status_Error Unavailable ''Driver name not configured'')
      else if ds_version driver = '''' then Err (Status_Error Unavailable ''Driver is missing version'')
      else Ok (ds_name driver, ds_version driver))"

definition Probe :: "bool res" where
  "Probe = Ok True"

definition GetPluginCapabilities :: "plugin_capability list res" where
  "GetPluginCapabilities = Ok [CSI_CONTROLLER_SERVICE, GROUP_CONTROLLER_SERVICE, VOLUME_ACCESSIBILITY_CONSTRAINTS]"

definition GetIdentity :: "AddonsConfig \<Rightarrow> (string \<times> string) res" where
  "GetIdentity config = Ok (ac_DriverName config, ac_DriverVersion config)"

definition Probe_addons :: "bool res" where
  "Probe_addons = Ok True"

section \<open>The outside\<close>

datatype grpc_service = CsiIdentity | CsiGroupController | CsiController | CsiNode | AddonsIdentity | AddonsReplication | AddonsVolumeGroup

datatype start_call = S_BuildClient | S_Nodes | S_Setenv string string | S_Remove string | S_Register grpc_service | S_Listen string string | S_Serve string string

datatype remove_error = NoSuchFile | RemoveFailed string

record StartWorld =
  sw_env :: "string \<Rightarrow> string"
  sw_BuildClient :: "start_call list \<Rightarrow> go_error option"
  sw_Nodes :: "start_call list \<Rightarrow> go_error + (string \<times> string) list"
  sw_Setenv :: "start_call list \<Rightarrow> string \<Rightarrow> go_error option"
  sw_Remove :: "start_call list \<Rightarrow> string \<Rightarrow> remove_error option"
  sw_Listen :: "start_call list \<Rightarrow> string \<Rightarrow> string \<Rightarrow> go_error option"
  sw_Serve :: "start_call list \<Rightarrow> go_error option"
  sw_Parse :: "string \<Rightarrow> (string \<times> string) option"

datatype outcome = Exited | Serving

type_synonym 'a start = "(start_call, 'a) prog"

definition start_ask :: "start_call \<Rightarrow> (start_call list \<Rightarrow> 'a) \<Rightarrow> 'a start" where
  "start_ask c f = (\<lambda>h. (Ok (f h), [c]))"

fun register_all :: "grpc_service list \<Rightarrow> unit start" where
  "register_all [] = return_go ()"
| "register_all (svc # rest) = then_go (start_ask (S_Register svc) (\<lambda>_. ())) (\<lambda>_. register_all rest)"

section \<open>The CSI server (server.go)\<close>

text \<open>\<open>strings.SplitN(s, sep, 2)\<close>: what stands before the first separator and what after it.\<close>

fun cut_at :: "string \<Rightarrow> string \<Rightarrow> (string \<times> string) option" where
  "cut_at sep s = (if HasPrefix s sep then Some ('''', drop (length sep) s)
     else case s of [] \<Rightarrow> None | c # rest \<Rightarrow> map_option (\<lambda>(a, b). (c # a, b)) (cut_at sep rest))"

declare cut_at.simps [simp del]

definition ParseEndpoint :: "string \<Rightarrow> go_error + (string \<times> string)" where
  "ParseEndpoint endpoint =
     (let bad = Inl (Errors_New (''invalid endpoint: '' @ endpoint)) in
      if HasPrefix (ToLower endpoint) ''unix://'' \<or> HasPrefix (ToLower endpoint) ''tcp://''
      then (case cut_at ''://'' endpoint of
          None \<Rightarrow> bad
        | Some (proto, addr) \<Rightarrow> if addr \<noteq> '''' then Inr (proto, addr) else bad)
      else bad)"

text \<open>A failure of \<open>net.Listen\<close> is written to the log, and the nil listener is used.\<close>

definition serve :: "StartWorld \<Rightarrow> string \<Rightarrow> outcome start" where
  "serve w endpoint = (case ParseEndpoint endpoint of
     Inl e \<Rightarrow> return_go Exited
   | Inr (proto, addr) \<Rightarrow>
      (let addr' = (if proto = ''unix'' then ''/'' @ addr else addr) in
       then_go (if proto = ''unix'' then start_ask (S_Remove addr') (\<lambda>h. sw_Remove w h addr') else return_go None) (\<lambda>removed.
       if removed \<noteq> None \<and> removed \<noteq> Some NoSuchFile then return_go Exited
       else then_go (start_ask (S_Listen proto addr') (\<lambda>h. sw_Listen w h proto addr')) (\<lambda>listened.
       then_go (register_all [CsiIdentity, CsiGroupController, CsiController, CsiNode]) (\<lambda>_.
       if listened \<noteq> None then panic_go ''nil pointer dereference: listener''
       else then_go (start_ask (S_Serve proto addr') (sw_Serve w)) (\<lambda>served.
       return_go (if served = None then Serving else Exited)))))))"

section \<open>The CSI-Addons server (csiaddons/server.go)\<close>

record AddonsServer =
  as_scheme :: string
  as_path :: string
  as_services :: "grpc_service list"

definition NewCSIAddonsServer :: "StartWorld \<Rightarrow> string \<Rightarrow> go_error + AddonsServer" where
  "NewCSIAddonsServer w endpoint = (case sw_Parse w endpoint of
     None \<Rightarrow> Inl (Errors_New ''parse error'')
   | Some (scheme, path) \<Rightarrow> if scheme \<noteq> ''unix'' then Inl (Errorf '''' (Errors_New ''no UNIX domain socket''))
       else Inr \<lparr>as_scheme = scheme, as_path = path, as_services = []\<rparr>)"

definition RegisterService :: "AddonsServer \<Rightarrow> grpc_service \<Rightarrow> AddonsServer" where
  "RegisterService cas svc = cas\<lparr>as_services := as_services cas @ [svc]\<rparr>"

definition Start_addons :: "StartWorld \<Rightarrow> AddonsServer \<Rightarrow> unit start" where
  "Start_addons w cas =
     then_go (register_all (as_services cas)) (\<lambda>_.
     then_go (start_ask (S_Remove (as_path cas)) (\<lambda>h. sw_Remove w h (as_path cas))) (\<lambda>removed.
     if removed \<noteq> None \<and> removed \<noteq> Some NoSuchFile then fail_go (Errors_New ''failed to remove'')
     else then_go (start_ask (S_Listen (as_scheme cas) (as_path cas)) (\<lambda>h. sw_Listen w h (as_scheme cas) (as_path cas))) (\<lambda>listened.
     case listened of
       Some e \<Rightarrow> fail_go (Errorf ''failed to listen on'' e)
     | None \<Rightarrow> then_go (start_ask (S_Serve (as_scheme cas) (as_path cas)) (\<lambda>_. ())) return_go)))"

section \<open>Starting (Run, main)\<close>

definition addons_config :: "DriverState \<Rightarrow> string \<Rightarrow> AddonsConfig" where
  "addons_config driver role = \<lparr>ac_DriverName = ds_name driver, ac_DriverVersion = ds_version driver,
     ac_IsControllerServer = (role = ''controller''), ac_IsNodeServer = (role \<noteq> ''controller'')\<rparr>"

definition addons_services :: "AddonsConfig \<Rightarrow> grpc_service list" where
  "addons_services conf = AddonsIdentity # (if ac_IsControllerServer conf then [AddonsReplication, AddonsVolumeGroup] else [])"

text \<open>An error of \<open>NewCSIAddonsServer\<close> is written to the log, and the nil server is used.\<close>

definition start_addons :: "StartWorld \<Rightarrow> DriverState \<Rightarrow> unit start" where
  "start_addons w driver =
     (if ds_addonsEndpoint driver = '''' then return_go ()
      else case NewCSIAddonsServer w (ds_addonsEndpoint driver) of
        Inl e \<Rightarrow> panic_go ''nil pointer dereference: addonsServer''
      | Inr cas \<Rightarrow>
          ignore_go (Start_addons w (fold (\<lambda>svc cas. RegisterService cas svc) (addons_services (addons_config driver (sw_env w ''CSI_DRIVER_ROLE''))) cas))
            (\<lambda>_. return_go ()))"

definition Run :: "StartWorld \<Rightarrow> DriverState \<Rightarrow> outcome start" where
  "Run w driver = then_go (start_addons w driver) (\<lambda>_. serve w (ds_endpoint driver))"

text \<open>Assumes that all nodes run the same version.\<close>

definition getKubeNode :: "StartWorld \<Rightarrow> ((string \<times> string) \<times> string) start" where
  "getKubeNode w =
     then_go (start_ask S_BuildClient (sw_BuildClient w)) (\<lambda>built. case built of
       Some e \<Rightarrow> fail_go e
     | None \<Rightarrow> then_go (start_ask S_Nodes (sw_Nodes w)) (\<lambda>answer. case answer of
       Inl e \<Rightarrow> fail_go (Errors_New ''zero nodes found, problem getting a node'')
     | Inr [] \<Rightarrow> fail_go (Errors_New ''zero nodes found, problem getting a node'')
     | Inr (node # rest) \<Rightarrow> return_go (node, Itoa (int (length (node # rest))))))"

fun set_all :: "StartWorld \<Rightarrow> (string \<times> string) list \<Rightarrow> bool start" where
  "set_all w [] = return_go True"
| "set_all w ((k, v) # rest) =
     then_go (start_ask (S_Setenv k v) (\<lambda>h. sw_Setenv w h k)) (\<lambda>e. if e \<noteq> None then return_go False else set_all w rest)"

definition main_driver :: "StartWorld \<Rightarrow> string \<Rightarrow> outcome start" where
  "main_driver w version =
     (let nodeIP = sw_env w ''NODE_IP''; driverName = sw_env w ''CSI_DRIVER_NAME''; csiEndpoint = sw_env w ''CSI_ENDPOINT'' in
      if nodeIP = '''' \<or> driverName = '''' \<or> csiEndpoint = '''' \<or> version = '''' then return_go Exited
      else try_go (getKubeNode w) (\<lambda>_. return_go Exited) (\<lambda>((osVersion, kubeVersion), nodeCount).
      then_go (set_all w [(''CSI_DRIVER_VERSION'', version), (''OS_VERSION'', osVersion), (''KUBE_VERSION'', kubeVersion), (''NODE_COUNT'', nodeCount)]) (\<lambda>all_set.
      if \<not> all_set then return_go Exited
      else Run w (NewDriver \<lparr>do_NodeID = nodeIP, do_DriverName = driverName, do_Endpoint = csiEndpoint,
             do_AddonsEndpoint = sw_env w ''CSI_ADDONS_ENDPOINT'', do_Version = version\<rparr>))))"

end
