(* ===== verification/Start_Props.thy ===== *)
theory Start_Props
  imports Driver_Start Event_Service
begin

text \<open>
  Starting the driver: which endpoints are accepted, what has to be set before a socket is opened, and that the services registered at the CSI-Addons
  socket are the ones the identity service announces.
\<close>

lemma run_start_ask [go_run]: "start_ask c f h = (Ok (f h), [c])"
  by (simp add: start_ask_def)

lemma wp_start_ask [wp_simps]: "wp (start_ask c f) h Q = Q (Ok (f h)) [c]"
  by (simp add: wp_def result_of_def calls_of_def start_ask_def)

lemma wp_register_all [wp_simps]: "wp (register_all svcs) h Q = Q (Ok ()) (map S_Register svcs)"
  by (induction svcs arbitrary: h Q) (simp_all add: wp_simps)

section \<open>Endpoints\<close>

lemma to_lower_id:
  assumes "of_char d < (65 :: nat)"
  shows "to_lower_char c = d \<longleftrightarrow> c = d"
proof (cases "65 \<le> (of_char c :: nat) \<and> (of_char c :: nat) \<le> 90")
  case True
  then have "(of_char (to_lower_char c) :: nat) = of_char c + 32"
    by (simp add: to_lower_char_def)
  then show ?thesis
    using True assms by auto
qed (auto simp: to_lower_char_def)

lemma scheme_without_colon: "ToLower p = ''unix'' \<or> ToLower p = ''tcp'' \<Longrightarrow> CHR '':'' \<notin> set p"
proof
  assume p: "ToLower p = ''unix'' \<or> ToLower p = ''tcp''" and "CHR '':'' \<in> set p"
  then have "to_lower_char (CHR '':'') \<in> set (ToLower p)"
    unfolding ToLower_def by simp
  then show False
    using p to_lower_id [of "CHR '':''" "CHR '':''"] by auto
qed

lemma cut_at_steps:
  "cut_at ''://'' (''://'' @ a) = Some ([], a)"
  "c \<noteq> CHR '':'' \<Longrightarrow> cut_at ''://'' (c # s) = map_option (\<lambda>(a, b). (c # a, b)) (cut_at ''://'' s)"
  by (simp_all add: cut_at.simps [of _ "_ # _"] HasPrefix_def)

lemma cut_at_scheme: "CHR '':'' \<notin> set p \<Longrightarrow> cut_at ''://'' (p @ ''://'' @ a) = Some (p, a)"
  by (induction p) (use cut_at_steps in auto)

lemma lower_prefix:
  assumes "HasPrefix (ToLower e) (s @ ''://'')"
  shows "\<exists>p a. e = p @ ''://'' @ a \<and> ToLower p = s"
proof -
  let ?n = "length (s @ ''://'')"
  have "map to_lower_char (take ?n e) = s @ ''://''"
    using assms unfolding HasPrefix_def ToLower_def take_map .
  then obtain p q where pq: "take ?n e = p @ q" "map to_lower_char p = s" "map to_lower_char q = ''://''"
    by (auto simp: map_eq_append_conv)
  then have "q = ''://''"
    by (auto simp: map_eq_Cons_conv to_lower_id)
  then have "e = p @ ''://'' @ drop ?n e"
    using append_take_drop_id [of ?n e] unfolding pq(1) by simp
  then show ?thesis
    using pq(2) by (auto simp: ToLower_def)
qed

lemma ToLower_endpoint: "ToLower (p @ ''://'' @ a) = ToLower p @ ''://'' @ ToLower a"
  by (simp add: ToLower_def to_lower_id)

text \<open>The endpoints that are accepted, and how they are read: exactly the texts made of a scheme \<open>unix\<close> or \<open>tcp\<close> in any case, the separator and an
  address that is not empty, and the answer is these two parts.\<close>

theorem parse_endpoint_iff:
  "ParseEndpoint e = Inr (proto, addr) \<longleftrightarrow>
   e = proto @ ''://'' @ addr \<and> addr \<noteq> '''' \<and> (ToLower proto = ''unix'' \<or> ToLower proto = ''tcp'')"
proof
  assume l: "ParseEndpoint e = Inr (proto, addr)"
  then have "HasPrefix (ToLower e) (''unix'' @ ''://'') \<or> HasPrefix (ToLower e) (''tcp'' @ ''://'')"
    by (auto simp: ParseEndpoint_def Let_def split: if_splits)
  then obtain p a where e: "e = p @ ''://'' @ a" and p: "ToLower p = ''unix'' \<or> ToLower p = ''tcp''"
    using lower_prefix by metis
  then have "cut_at ''://'' e = Some (p, a)"
    using cut_at_scheme [OF scheme_without_colon] by simp
  with l e p show "e = proto @ ''://'' @ addr \<and> addr \<noteq> '''' \<and> (ToLower proto = ''unix'' \<or> ToLower proto = ''tcp'')"
    by (auto simp: ParseEndpoint_def Let_def split: if_splits)
next
  assume r: "e = proto @ ''://'' @ addr \<and> addr \<noteq> '''' \<and> (ToLower proto = ''unix'' \<or> ToLower proto = ''tcp'')"
  then have "cut_at ''://'' e = Some (proto, addr)"
    using cut_at_scheme [OF scheme_without_colon] by simp
  with r show "ParseEndpoint e = Inr (proto, addr)"
    using ToLower_endpoint [of proto addr] by (auto simp: ParseEndpoint_def HasPrefix_def)
qed

text \<open>The scheme is not turned to lower case: with \<open>UNIX://\<close> the socket file is not removed and the scheme goes to \<open>net.Listen\<close> as it is, which knows
  no such network. An error of \<open>net.Listen\<close> ends in a panic, not in the exit that the code means.\<close>

lemma serve_listen_fails:
  assumes "ParseEndpoint endpoint = Inr (''tcp'', addr)" and "sw_Listen w h ''tcp'' addr \<noteq> None"
  shows "result_of (serve w endpoint h) = Crash (GoPanic ''nil pointer dereference: listener'')"
proof -
  have "wp (serve w endpoint) h (\<lambda>r t. r = Crash (GoPanic ''nil pointer dereference: listener''))"
    using assms by (auto simp: serve_def wp_simps)
  then show ?thesis
    by (simp add: wp_def)
qed

lemma addons_endpoint_panics:
  assumes "ds_addonsEndpoint driver \<noteq> ''''" and "sw_Parse w (ds_addonsEndpoint driver) = Some (scheme, path)" and "scheme \<noteq> ''unix''"
  shows "result_of (Run w driver h) = Crash (GoPanic ''nil pointer dereference: addonsServer'')"
  using assms by (simp add: Run_def start_addons_def NewCSIAddonsServer_def go_run result_of_def)

section \<open>Capabilities\<close>

text \<open>The operations of the controller that have no implementation are not announced, and a configured driver answers the identity request.\<close>

lemma announced_capabilities:
  "set (ControllerGetCapabilities (NewDriver options)) \<inter> {GET_CAPACITY, GET_SNAPSHOT, GET_VOLUME, MODIFY_VOLUME} = {}"
  "do_DriverName options \<noteq> '''' \<Longrightarrow> do_Version options \<noteq> '''' \<Longrightarrow> GetPluginInfo (NewDriver options) = Ok (do_DriverName options, do_Version options)"
  by (simp_all add: NewDriver_def Let_def ControllerGetCapabilities_def AddControllerServiceCapabilities_def AddGroupControllerServiceCapabilities_def
    AddNodeServiceCapabilities_def GetPluginInfo_def)

section \<open>Services\<close>

text \<open>The CSI-Addons socket offers what the identity service announces: when its set-up has ended, the replication and volume-group services are
  registered exactly when the capabilities name them, and nothing else is but the identity service.\<close>

theorem announced_services:
  "wp (start_addons w driver) h (\<lambda>r t. \<forall>svc. S_Register svc \<in> set t \<longleftrightarrow> r = Ok () \<and> ds_addonsEndpoint driver \<noteq> '''' \<and>
     (svc = AddonsIdentity \<or>
      svc = AddonsReplication \<and> VOLUME_REPLICATION \<in> set (GetCapabilities (addons_config driver (sw_env w ''CSI_DRIVER_ROLE''))) \<or>
      svc = AddonsVolumeGroup \<and> VOLUME_GROUP \<in> set (GetCapabilities (addons_config driver (sw_env w ''CSI_DRIVER_ROLE'')))))"
  by (auto simp: start_addons_def Start_addons_def NewCSIAddonsServer_def RegisterService_def addons_services_def GetCapabilities_def addons_config_def wp_simps
    split: sum.splits option.splits if_splits)

section \<open>What has to be set\<close>

text \<open>A socket is removed, opened or served, and a service registered, only in a process that is configured and has told the rest of the driver its versions.\<close>

definition configured :: "StartWorld \<Rightarrow> string \<Rightarrow> start_call list \<Rightarrow> bool" where
  "configured w version g \<longleftrightarrow> sw_env w ''NODE_IP'' \<noteq> '''' \<and> sw_env w ''CSI_DRIVER_NAME'' \<noteq> '''' \<and> sw_env w ''CSI_ENDPOINT'' \<noteq> '''' \<and> version \<noteq> '''' \<and>
     S_Setenv EnvVarCSIDriverVersion version \<in> set g \<and>
     (\<exists>os kube n. S_Setenv EnvVarOSVersion os \<in> set g \<and> S_Setenv EnvVarKubeVersion kube \<in> set g \<and> S_Setenv EnvVarNodeCount n \<in> set g)"

fun prepares :: "start_call \<Rightarrow> bool" where
  "prepares S_BuildClient = True"
| "prepares S_Nodes = True"
| "prepares (S_Setenv k v) = True"
| "prepares c = False"

definition start_rule :: "StartWorld \<Rightarrow> string \<Rightarrow> start_call list \<Rightarrow> start_call \<Rightarrow> bool" where
  "start_rule w version g c \<longleftrightarrow> prepares c \<or> configured w version g"

lemma configured_later: "configured w version g \<Longrightarrow> configured w version (g @ t)"
  unfolding configured_def by auto

lemma configured_run:
  assumes "configured w version h"
  shows "each_call (start_rule w version) h t"
  using assms
  by (induction t arbitrary: h) (auto simp: start_rule_def intro: configured_later)

lemma getKubeNode_wp: "wp (getKubeNode w) h (\<lambda>r t. \<forall>c \<in> set t. prepares c)"
  by (auto simp: getKubeNode_def wp_simps split: option.splits sum.splits list.splits)

lemma set_all_wp:
  "wp (set_all w kvs) h (\<lambda>r t. (\<forall>c \<in> set t. prepares c) \<and> (\<forall>x. r = Ok x \<and> x \<longrightarrow> t = map (\<lambda>(k, v). S_Setenv k v) kvs))"
proof (induction kvs arbitrary: h)
  case (Cons p kvs)
  then show ?case
    by (cases p) (auto simp: wp_simps intro!: wp_mono [OF Cons])
qed (simp add: wp_simps)

lemma prepares_rule: "\<forall>c \<in> set t. prepares c \<Longrightarrow> each_call (start_rule w version) h t"
  by (rule each_call_all) (simp add: start_rule_def)

lemma start_each:
  assumes "wp m h (\<lambda>r t. (\<forall>c \<in> set t. prepares c) \<and> (\<forall>x. r = Ok x \<longrightarrow> P x (h @ t)))"
    and "\<And>x t. P x (h @ t) \<Longrightarrow> wp (k x) (h @ t) (\<lambda>r t'. each_call (start_rule w version) (h @ t) t')"
    and "\<And>e g. wp (on_err e) g (\<lambda>r t'. each_call (start_rule w version) g t')"
  shows "wp (try_go m on_err k) h (\<lambda>r t. each_call (start_rule w version) h t)"
  by (rule wp_try_rule [OF assms(1)]) (auto intro: prepares_rule wp_mono [OF assms(2)] wp_mono [OF assms(3)])

lemma start_configured_wp: "wp (main_driver w version) h (\<lambda>r t. each_call (start_rule w version) h t)"
proof -
  have rest: "wp (then_go (set_all w [(''CSI_DRIVER_VERSION'', version), (''OS_VERSION'', os), (''KUBE_VERSION'', kube), (''NODE_COUNT'', n)]) (\<lambda>all_set.
       if \<not> all_set then return_go Exited else Run w driver)) g (\<lambda>r t. each_call (start_rule w version) g t)"
    if "sw_env w ''NODE_IP'' \<noteq> []" "sw_env w ''CSI_DRIVER_NAME'' \<noteq> []" "sw_env w ''CSI_ENDPOINT'' \<noteq> []" "version \<noteq> []" for os kube n driver g
    unfolding then_go_def
  proof (rule start_each)
    show "wp (set_all w [(''CSI_DRIVER_VERSION'', version), (''OS_VERSION'', os), (''KUBE_VERSION'', kube), (''NODE_COUNT'', n)]) g
       (\<lambda>r t. (\<forall>c \<in> set t. prepares c) \<and> (\<forall>x. r = Ok x \<longrightarrow> (x \<longrightarrow> configured w version (g @ t))))"
      by (rule wp_mono [OF set_all_wp])
        (use that in \<open>auto simp: configured_def EnvVarCSIDriverVersion_def EnvVarOSVersion_def EnvVarKubeVersion_def EnvVarNodeCount_def\<close>)
  next
    fix x t
    assume "x \<longrightarrow> configured w version (g @ t)"
    then show "wp (if \<not> x then return_go Exited else Run w driver) (g @ t) (\<lambda>r t'. each_call (start_rule w version) (g @ t) t')"
      by (auto simp: wp_def calls_of_def intro: configured_run)
  qed (simp add: wp_fail)
  show ?thesis
    unfolding main_driver_def Let_def case_prod_beta
    by (intro wp_each_if start_each [where P = "\<lambda>_ _. True"] rest) (auto simp: wp_return intro: wp_mono [OF getKubeNode_wp])
qed

text \<open>The driver opens no socket and registers no service before it is configured: node address, driver name, endpoint and version are set and the four
  variables that events are made of have been written.\<close>

theorem start_configured:
  "each_call (start_rule w version) h (calls_of (main_driver w version h))"
  using start_configured_wp by (simp add: wp_def)

end
