(* ===== verification/Spec2Isabelle.thy ===== *)
theory Spec2Isabelle
  imports Cg_Props Mount_Props Node_Mutex Cosi_Start Metrics_Props Kube_Props Start_Props
begin

text \<open>
  \<^bold>\<open>The Infinidat CSI driver\<close>

  The driver connects a Kubernetes cluster with InfiniBox storage. Its controller service
  (\<open>service/controller.go\<close>) receives the CSI requests to create, publish, snapshot, expand and delete
  volumes, checks them, chooses a storage protocol and hands the request to one of five protocol
  implementations under \<open>storage/\<close>; these call the REST interface of the InfiniBox through the Go
  interface \<open>iboxapi.Client\<close> and the Kubernetes API through \<open>api/clientgo\<close>. On every node the node
  service (\<open>service/node.go\<close>) stages, mounts, grows and unmounts the published volumes, by commands and
  files of the host. Three controllers (\<open>iboxreplica\<close>, \<open>iboxcg\<close>, \<open>iboxpromote\<close>) reconcile custom
  resources that ask for replication, consistency groups and promotion.

  \<^bold>\<open>How a program is modelled.\<close> A Go function that talks to the outside is a function from the
  history of remote calls to a result and the calls it made (\<open>Go_Base\<close>, type \<open>prog\<close>). A remote party
  is a record of answers that may depend on the whole history (\<open>Ibox_Client\<close>, records \<open>Client\<close> and
  \<open>KubeClient\<close>), so every theorem holds for every behaviour of the InfiniBox and of Kubernetes,
  failures and concurrent changes by others included, unless it names a hypothesis. Go's errors are
  values (\<open>go_error\<close>), a panic is the result \<open>Crash (GoPanic s)\<close>, and a recursion that uses up the
  stack is \<open>Crash OutOfFuel\<close>; the stack is the parameter \<open>stack_depth\<close> and the termination
  theorems say how much of it is enough. Four judgements carry the proofs: \<open>only\<close> (which calls a
  program can make), \<open>allows\<close> (which calls at which histories), \<open>wp\<close> (what holds of the result and the
  calls) and \<open>safe\<close> (no crash).

  \<^bold>\<open>The theories.\<close>
  \<^item> \<open>Go_Base\<close>, \<open>Go_Lib\<close>: the prelude: programs and their judgements, errors, the parts of \<open>strings\<close>,
    \<open>strconv\<close>, \<open>slices\<close>, \<open>path\<close> and \<open>regexp\<close> the driver calls, 64-bit arithmetic with wrap-around.
  \<^item> \<open>Driver_Types\<close>: constants and data (\<open>common/types.go\<close>, \<open>iboxapi/*.go\<close>, \<open>api/types.go\<close>, CSI messages).
  \<^item> \<open>Ibox_Client\<close>: the interface of the InfiniBox (\<open>iboxapi/iboxapi.go\<close>) and of Kubernetes.
    \<open>Sample_World\<close>: concrete instances of both, for the witnesses.
  \<^item> \<open>Helpers\<close>: \<open>helper/*.go\<close>: capacity rounding, YAML truth values, volume locks, access modes.
  \<^item> \<open>Storage_Params\<close>, \<open>Storage_Common\<close>, \<open>Storage_Common_Props\<close>: \<open>storage/common/*.go\<close>: volume and node ids,
    StorageClass parameters, hosts, mappings, clones, snapshots, deletion, unpublishing.
  \<^item> \<open>Block_Storage\<close>, \<open>Block_Storage_Props\<close>: Fibre Channel, iSCSI and NVMe
    (\<open>storage/fc/fccontroller.go\<close>, \<open>storage/iscsi/iscsicontroller.go\<close>, \<open>storage/nvme/nvmecontroller.go\<close>).
    The locales \<open>block_creator\<close> and \<open>block_publisher\<close> state what the three have in common and are
    interpreted on each.
  \<^item> \<open>Nfs_Api\<close>, \<open>Nfs_Storage\<close>, \<open>Nfs_Props\<close>: \<open>api/nfsapiclient.go\<close>, \<open>storage/nfs/nfscontroller.go\<close>,
    \<open>nfspermissions.go\<close>, \<open>nfsmount.go\<close>.
  \<^item> \<open>Treeq_Storage\<close>, \<open>Treeq_Props\<close>: \<open>storage/treeq/treeqservice.go\<close>, \<open>treeqcontroller.go\<close>.
  \<^item> \<open>Storage_Service\<close>: \<open>storage/storageservice.go\<close>: the choice of the implementation.
  \<^item> \<open>Replica_Service\<close>: \<open>service/screplica.go\<close>.
  \<^item> \<open>Controller_Service\<close>, \<open>Controller_Props\<close>: \<open>service/controller.go\<close>, \<open>protocolsecret.go\<close>,
    \<open>listvolumes.go\<close>, and the theorems on the whole controller.
  \<^item> \<open>Go_Loops\<close>: loops that collect results, and the embedding of a program that talks to one InfiniBox
    into one that talks to several parties.
  \<^item> \<open>Ibox_Http\<close>, \<open>Ibox_Methods\<close>, \<open>Ibox_Http_Props\<close>: \<open>iboxapi/*.go\<close>: the REST client as programs over an
    arbitrary HTTP server (requests with method, path, parameters and body; paging; error codes), and
    \<open>NewIboxClient\<close>, which makes of them an instance of the interface \<open>Client\<close>. \<open>Wire_Props\<close> carries
    theorems on the controller down to the requests on the wire.
  \<^item> \<open>Group_Service\<close>, \<open>Group_Props\<close>: \<open>service/listsnapshots.go\<close>, \<open>service/volumegroupcontroller.go\<close>.
  \<^item> \<open>Addons_Service\<close>, \<open>Addons_Props\<close>: \<open>service/csiaddons/*.go\<close>: volume groups, and replication between two
    InfiniBoxes.
  \<^item> \<open>Cr_World\<close>: the API servers that keep custom resources, as a record of answers, and the steps all three
    reconcilers share (finalizer, status, re-reading). \<open>Create_Pvc\<close>: \<open>createpvc/common.go\<close>.
    \<open>Replica_Controller\<close>, \<open>Cg_Controller\<close>, \<open>Promote_Controller\<close>: the three reconcilers. \<open>Cr_Props\<close>, \<open>Cg_Props\<close>: their theorems.
  \<^item> \<open>Go_Text\<close>: more of \<open>strings\<close>, \<open>bufio\<close> and \<open>filepath\<close>. \<open>Node_World\<close>: the host of a node (commands, files, mounts,
    connections) as a record of answers, and \<open>helper/exec.go\<close>. An event of a node operation is a call to the
    host, to Kubernetes or to the InfiniBox; controller programs are embedded with \<open>remote\<close>.
  \<^item> \<open>Node_Mount\<close>: \<open>storage/common/mount.go\<close>; \<open>Node_Multipath\<close>: \<open>multipath.go\<close>, \<open>nodeexpandvolume.go\<close>; \<open>Block_Node\<close>: \<open>fcnode.go\<close>,
    \<open>nvmenode.go\<close>, \<open>nvme.go\<close>; \<open>Iscsi_Node\<close>: \<open>iscsinode.go\<close>; \<open>Nfs_Node\<close>: \<open>nfsnode.go\<close>, \<open>cleanupnfsperm.go\<close>, \<open>treeqnode.go\<close>;
    \<open>Node_Service\<close>: \<open>service/node.go\<close>. Loops that wait for a device have the number of rounds the code gives
    them (5 for a device state, 40 for a map, 10 or a setting for a disk); time itself is left out.
  \<^item> \<open>Go_Rules\<close>: what a program may do once something has been seen (\<open>seen\<close>, \<open>under\<close>). \<open>Node_Sample\<close>: concrete hosts for
    the witnesses. \<open>Node_Props\<close>, \<open>Mount_Props\<close>: the theorems on the node; the locale \<open>unmounting\<close> states what unpublishing has in
    common and is interpreted on the five protocols.
  \<^item> \<open>Node_Mutex\<close>: the mutex of \<open>helper/oshelper.go\<close> and requests of a node that run side by side, as a step relation; the locale \<open>mutex\<close> states what a mutex
    has to do for them to be a sequence of whole requests.
  \<^item> \<open>Kube_Client\<close>, \<open>Kube_Props\<close>: \<open>api/clientgo\<close> over an arbitrary API server, and \<open>NewKubeClient\<close>, which makes of it an instance of
    \<open>KubeClient\<close>; the locale \<open>pod_lister\<close> states what the choice of a protocol needs of a client.
  \<^item> \<open>Driver_Start\<close>, \<open>Start_Props\<close>: \<open>main.go\<close>, \<open>service/driver.go\<close>, \<open>server.go\<close>, \<open>identityserver.go\<close>, \<open>service/csiaddons/server.go\<close>: the start of the process.
  \<^item> \<open>Event_Service\<close>, \<open>Event_Props\<close>: \<open>helper/customevent.go\<close>: counters and daily reports.
  \<^item> \<open>Metrics_Service\<close>, \<open>Metrics_Props\<close>: \<open>metrics/*.go\<close>: one round of each loop of the metrics process.
  \<^item> \<open>Cosi_Driver\<close>, \<open>Cosi_Props\<close>, \<open>Cosi_Start\<close>: \<open>cosi/pkg/driver\<close>, \<open>cosi/internal/s3\<close> and \<open>cosi/cmd/main.go\<close>: the driver for object storage.

  \<^bold>\<open>What is shown.\<close> Creation checks its request before it changes anything, is idempotent by name,
  creates one volume with the requested attributes, and hands out ids that parse back. Deletion removes
  only unlocked volumes without children, collects only marked ancestors, and always returns.
  Publishing respects the limit of volumes per host and the write protection, changes nothing but the
  mapping and a host it marks as its own; unpublishing removes only hosts so marked. Snapshots are
  idempotent and their locks lie in the future. NFS creation leaves no file system behind, export rules
  are never emptied, a treeq is deleted only when empty. The REST client never panics, only reads where
  its name says so, and a paged listing returns what the server holds. A volume group ends with exactly
  the volumes of the request; promotion deletes the old replica before it creates the new one. The replica controller
  creates a replica only for an unreplicated entity, and a new resource is served by one run; the group controller
  resumes what it suspended. On a node, unpublishing removes only an empty, unmounted mount point; unstaging
  deletes the paths of a disk only behind a flush and finds the device that publishing has written down; staging adds only missing
  ports; export rules of other clients are kept. The driver opens no socket before it is configured, accepts exactly the endpoints
  of two schemes, announces the services it registers, and probes for protocols only in pods that run. Counters count until
  their report, a round of the performance metrics deletes the collectors it created, and a bucket is created only where S3 has
  none. Some theorems record behaviour the code
  does not mean to have (rules kept after unpublishing, a treeq left behind, a missing deletion mark, counts lost, collectors left behind).

  \<^bold>\<open>What is not modelled.\<close> Log output; message texts are abbreviated. Goroutines: each
  operation is one sequence of calls, and other actors appear as changes in the answers; for the operations of a node that take the mutex this is
  proved (\<open>Node_Mutex\<close>). URL and IP
  parsing and JSON decoding are parameters (of the environment \<open>Env\<close>, of the HTTP server and of the host); so are the
  commands a node runs, of which only exit code and output appear, the sockets and the gRPC library, S3, Prometheus and the library
  below \<open>api/clientgo\<close>. Waiting, tickers and commands that only feed the log are left out, and so is the increment of the event counters in the
  handlers, which \<open>Event_Service\<close> has as functions of its own. Not modelled at all: the main functions of the other processes (the three
  controllers, \<open>cmd/infinidat-csi-metrics\<close>), the set-up of logging, the functions of \<open>api/clientgo\<close> that nothing calls, and end-to-end tests,
  mocks and generated code.
\<close>

end
